(* ===== verification/Prelude.thy ===== *)
theory Prelude
  imports Main "HOL-Library.Word" "HOL-Library.Char_ord" "HOL-Library.List_Lexorder"
begin

section \<open>Prelude: operations over a world, strings and machine integers\<close>

text \<open>
  What every component of the development shares.

  Rust's asynchronous functions returning a result are modelled as functions from a
  world to a result and the next world; the question-mark operator is \<open>io_bind\<close>, a
  match on the result is \<open>io_try\<close> and \<open>let _ = f().await;\<close> is \<open>io_ignore\<close>.
  Strings are UTF-8 byte strings (\<open>string\<close>, a list of 8-bit characters), so \<open>length\<close> is
  Rust's \<open>len()\<close>; the functions of Rust's standard library the sources call on them
  (\<open>trim\<close>, \<open>split\<close>, \<open>lines\<close>, \<open>parse\<close>, \<open>to_string\<close>, \<open>join\<close>) are defined here. The theory
  also collects the lemmas about preservation of an observation (\<open>keeps\<close>) that the
  services' frame properties rest on.
\<close>

type_synonym u8 = "8 word"
type_synonym u16 = "16 word"
type_synonym u32 = "32 word"
type_synonym u64 = "64 word"
type_synonym i64 = "64 word"

named_theorems io_defs \<open>the definitions of the world-passing combinators\<close>
named_theorems keeps_intros \<open>introduction rules: an operation keeps an observation of the world\<close>

subsection \<open>Fallible operations over a world\<close>

type_synonym ('w, 'e, 'a) io = "'w \<Rightarrow> ('e + 'a) \<times> 'w"

definition io_ret :: "'a \<Rightarrow> ('w, 'e, 'a) io" where
  [io_defs]: "io_ret x = (\<lambda>w. (Inr x, w))"

definition io_fail :: "'e \<Rightarrow> ('w, 'e, 'a) io" where
  [io_defs]: "io_fail e = (\<lambda>w. (Inl e, w))"

definition io_lift :: "'e + 'a \<Rightarrow> ('w, 'e, 'a) io" where
  [io_defs]: "io_lift r = (\<lambda>w. (r, w))"

definition io_bind :: "('w, 'e, 'a) io \<Rightarrow> ('a \<Rightarrow> ('w, 'e, 'b) io) \<Rightarrow> ('w, 'e, 'b) io" where
  [io_defs]: "io_bind m k = (\<lambda>w. case m w of (Inl e, w') \<Rightarrow> (Inl e, w') | (Inr x, w') \<Rightarrow> k x w')"

definition io_try :: "('w, 'e, 'a) io \<Rightarrow> ('e + 'a \<Rightarrow> ('w, 'f, 'b) io) \<Rightarrow> ('w, 'f, 'b) io" where
  [io_defs]: "io_try m k = (\<lambda>w. case m w of (r, w') \<Rightarrow> k r w')"

definition io_ignore :: "('w, 'e, 'a) io \<Rightarrow> ('w, 'f, 'b) io \<Rightarrow> ('w, 'f, 'b) io" where
  [io_defs]: "io_ignore m k = (\<lambda>w. k (snd (m w)))"

definition io_map_err :: "('e \<Rightarrow> 'f) \<Rightarrow> ('w, 'e, 'a) io \<Rightarrow> ('w, 'f, 'a) io" where
  [io_defs]: "io_map_err f m =
     (\<lambda>w. case m w of (Inl e, w') \<Rightarrow> (Inl (f e), w') | (Inr x, w') \<Rightarrow> (Inr x, w'))"

text \<open>\<open>ok_or(e)\<close> after the question mark of an operation that may find nothing.\<close>

definition io_some :: "'e \<Rightarrow> ('w, 'e, 'a option) io \<Rightarrow> ('w, 'e, 'a) io" where
  "io_some e m = io_bind m (\<lambda>r. case r of None \<Rightarrow> io_fail e | Some x \<Rightarrow> io_ret x)"

definition io_when :: "bool \<Rightarrow> ('w, 'e, unit) io \<Rightarrow> ('w, 'e, unit) io" where
  "io_when b m = (if b then m else io_ret ())"

text \<open>A \<open>for\<close> loop whose body may return early with an error.\<close>

fun io_for :: "'a list \<Rightarrow> ('a \<Rightarrow> ('w, 'e, unit) io) \<Rightarrow> ('w, 'e, unit) io" where
  "io_for [] body = io_ret ()"
| "io_for (x # xs) body = io_bind (body x) (\<lambda>_. io_for xs body)"

text \<open>\<open>into_iter().map(f).collect::<Result<Vec<_>, _>>()\<close>: the first error wins.\<close>

fun traverse :: "('a \<Rightarrow> 'e + 'b) \<Rightarrow> 'a list \<Rightarrow> 'e + 'b list" where
  "traverse f [] = Inr []"
| "traverse f (x # xs) =
     (case f x of
        Inl e \<Rightarrow> Inl e
      | Inr y \<Rightarrow> (case traverse f xs of Inl e \<Rightarrow> Inl e | Inr ys \<Rightarrow> Inr (y # ys)))"

fun map_error :: "('e \<Rightarrow> 'f) \<Rightarrow> 'e + 'a \<Rightarrow> 'f + 'a" where
  "map_error f (Inl e) = Inl (f e)"
| "map_error f (Inr x) = Inr x"

fun res_bind :: "'e + 'a \<Rightarrow> ('a \<Rightarrow> 'e + 'b) \<Rightarrow> 'e + 'b" where
  "res_bind (Inl e) k = Inl e"
| "res_bind (Inr x) k = k x"

text \<open>\<open>Option::map(f).transpose()\<close> for an \<open>f\<close> that may fail.\<close>

fun opt_traverse :: "('a \<Rightarrow> 'e + 'b) \<Rightarrow> 'a option \<Rightarrow> 'e + 'b option" where
  "opt_traverse f None = Inr None"
| "opt_traverse f (Some x) = (case f x of Inl e \<Rightarrow> Inl e | Inr y \<Rightarrow> Inr (Some y))"

text \<open>\<open>Result::ok()\<close>.\<close>

fun res_ok :: "'e + 'a \<Rightarrow> 'a option" where
  "res_ok (Inl e) = None"
| "res_ok (Inr x) = Some x"

fun unwrap_or :: "'a \<Rightarrow> 'a option \<Rightarrow> 'a" where
  "unwrap_or d None = d"
| "unwrap_or d (Some x) = x"

lemma io_apply [simp]:
  "io_ret x w = (Inr x, w)"
  "io_fail e w = (Inl e, w)"
  "io_lift r w = (r, w)"
  by (simp_all add: io_defs)

lemma io_bind_simps [simp]:
  "m w = (Inl e, w') \<Longrightarrow> io_bind m k w = (Inl e, w')"
  "m w = (Inr x, w') \<Longrightarrow> io_bind m k w = k x w'"
  by (simp_all add: io_defs)

lemma io_bind_ok_iff:
  "io_bind m k w = (Inr y, w'') \<longleftrightarrow> (\<exists>x w'. m w = (Inr x, w') \<and> k x w' = (Inr y, w''))"
  by (auto simp: io_bind_def split: prod.splits sum.splits)

lemma io_bind_err_iff:
  "io_bind m k w = (Inl e, w'') \<longleftrightarrow>
     m w = (Inl e, w'') \<or> (\<exists>x w'. m w = (Inr x, w') \<and> k x w' = (Inl e, w''))"
  by (auto simp: io_bind_def split: prod.splits sum.splits)

lemma io_bind_okE:
  assumes "io_bind m k w = (Inr y, w'')"
  obtains x w' where "m w = (Inr x, w')" and "k x w' = (Inr y, w'')"
  using assms by (auto simp: io_bind_ok_iff)

lemma io_some_ok_iff: "io_some e m w = (Inr x, w') \<longleftrightarrow> m w = (Inr (Some x), w')"
  by (auto simp: io_some_def io_bind_ok_iff split: option.splits)

lemma io_some_err_iff:
  "io_some e m w = (Inl e', w') \<longleftrightarrow> m w = (Inl e', w') \<or> (m w = (Inr None, w') \<and> e' = e)"
  by (auto simp: io_some_def io_bind_err_iff split: option.splits)

lemma io_try_apply: "io_try m k w = k (fst (m w)) (snd (m w))"
  by (simp add: io_defs split: prod.splits)

lemma io_ignore_apply [simp]: "io_ignore m k w = k (snd (m w))"
  by (simp add: io_defs)

lemma map_error_ok_iff [simp]: "map_error f r = Inr x \<longleftrightarrow> r = Inr x"
  by (cases r) auto

lemma io_map_err_ok_iff: "io_map_err f m w = (Inr x, w') \<longleftrightarrow> m w = (Inr x, w')"
  by (auto simp: io_map_err_def split: prod.splits sum.splits)

lemma res_bind_ok_iff: "res_bind r k = Inr y \<longleftrightarrow> (\<exists>x. r = Inr x \<and> k x = Inr y)"
  by (cases r) auto

lemma traverse_ok_iff: "traverse f xs = Inr ys \<longleftrightarrow> map f xs = map Inr ys"
proof (induction xs arbitrary: ys)
  case Nil
  then show ?case by auto
next
  case (Cons x xs)
  show ?case
  proof (cases "f x")
    case (Inl e)
    then show ?thesis by (cases ys) auto
  next
    case (Inr y)
    then show ?thesis
      using Cons.IH [of "tl ys"] by (cases ys; cases "traverse f xs") auto
  qed
qed

lemma traverse_all_ok: "(\<And>x. x \<in> set xs \<Longrightarrow> f x = Inr (g x)) \<Longrightarrow> traverse f xs = Inr (map g xs)"
  by (induction xs) auto

lemma traverse_map: "traverse f (map g xs) = traverse (f \<circ> g) xs"
  by (induction xs) (auto split: sum.splits)

subsection \<open>Operations that keep an observation of the world\<close>

definition keeps :: "('w \<Rightarrow> 'b) \<Rightarrow> ('w, 'e, 'a) io \<Rightarrow> bool" where
  "keeps f m \<longleftrightarrow> (\<forall>w. f (snd (m w)) = f w)"

lemma keepsD: "keeps f m \<Longrightarrow> f (snd (m w)) = f w"
  by (simp add: keeps_def)

lemma keepsD2: "keeps f m \<Longrightarrow> m w = (r, w') \<Longrightarrow> f w' = f w"
  by (auto simp: keeps_def dest: spec [where x = w])

lemma keeps_ret [keeps_intros]: "keeps f (io_ret x)"
  and keeps_fail [keeps_intros]: "keeps f (io_fail e)"
  and keeps_lift [keeps_intros]: "keeps f (io_lift r)"
  by (simp_all add: keeps_def)

lemma keeps_bind [keeps_intros]:
  "keeps f m \<Longrightarrow> (\<And>x. keeps f (k x)) \<Longrightarrow> keeps f (io_bind m k)"
  unfolding keeps_def io_bind_def by (auto split: prod.splits sum.splits) (metis snd_conv)+

lemma keeps_try [keeps_intros]:
  "keeps f m \<Longrightarrow> (\<And>r. keeps f (k r)) \<Longrightarrow> keeps f (io_try m k)"
  unfolding keeps_def io_try_apply by auto

lemma keeps_ignore [keeps_intros]: "keeps f m \<Longrightarrow> keeps f k \<Longrightarrow> keeps f (io_ignore m k)"
  unfolding keeps_def by auto

lemma keeps_map_err [keeps_intros]: "keeps f m \<Longrightarrow> keeps f (io_map_err g m)"
  unfolding keeps_def io_map_err_def by (auto split: prod.splits sum.splits) (metis snd_conv)+

lemma keeps_some [keeps_intros]: "keeps f m \<Longrightarrow> keeps f (io_some e m)"
  unfolding io_some_def by (intro keeps_bind) (auto simp: keeps_def split: option.splits)

lemma keeps_when [keeps_intros]: "keeps f m \<Longrightarrow> keeps f (io_when b m)"
  by (simp add: io_when_def keeps_def)

lemma keeps_if [keeps_intros]: "keeps f m \<Longrightarrow> keeps f k \<Longrightarrow> keeps f (if b then m else k)"
  by simp

lemma keeps_option [keeps_intros]:
  "keeps f m \<Longrightarrow> (\<And>x. keeps f (k x)) \<Longrightarrow> keeps f (case v of None \<Rightarrow> m | Some x \<Rightarrow> k x)"
  by (cases v) auto

lemma keeps_sum [keeps_intros]:
  "(\<And>e. keeps f (m e)) \<Longrightarrow> (\<And>x. keeps f (k x)) \<Longrightarrow> keeps f (case v of Inl e \<Rightarrow> m e | Inr x \<Rightarrow> k x)"
  by (cases v) auto

lemma keeps_prod [keeps_intros]:
  "(\<And>x y. keeps f (k x y)) \<Longrightarrow> keeps f (case p of (x, y) \<Rightarrow> k x y)"
  by (cases p) auto

lemma keeps_for [keeps_intros]: "(\<And>x. keeps f (body x)) \<Longrightarrow> keeps f (io_for xs body)"
  by (induction xs) (auto intro: keeps_intros)

end
