(* ===== verification/Rust_Strings.thy ===== *)
theory Rust_Strings
  imports Prelude
begin

section \<open>The string functions of the standard library that the sources call\<close>

text \<open>
  A Rust string is a sequence of bytes in UTF-8. White space in the sense of
  \<open>char::is_whitespace\<close> takes one, two or three bytes; since a lead byte never occurs
  inside another character, scanning for these byte sequences from either end agrees
  with scanning for characters on every valid string. \<open>strip_ws\<close> takes the two- and
  three-byte tests as arguments so that \<open>trim_end\<close> is the same scan on the reversed
  string.
\<close>

subsection \<open>Characters\<close>

definition code :: "char \<Rightarrow> nat" where
  "code c = of_char c"

definition is_digit :: "char \<Rightarrow> bool" where
  "is_digit c \<longleftrightarrow> 48 \<le> code c \<and> code c \<le> 57"

definition is_ascii_alphanumeric :: "char \<Rightarrow> bool" where
  "is_ascii_alphanumeric c \<longleftrightarrow>
     is_digit c \<or> (65 \<le> code c \<and> code c \<le> 90) \<or> (97 \<le> code c \<and> code c \<le> 122)"

definition ascii_lower :: "char \<Rightarrow> char" where
  "ascii_lower c = (if 65 \<le> code c \<and> code c \<le> 90 then char_of (code c + 32) else c)"

definition to_ascii_lowercase :: "string \<Rightarrow> string" where
  "to_ascii_lowercase s = map ascii_lower s"

abbreviation NL :: char where
  "NL \<equiv> CHR 0x0A"

abbreviation DQ :: char where
  "DQ \<equiv> CHR 0x22"

subsection \<open>White space and trimming\<close>

definition ws1 :: "char \<Rightarrow> bool" where
  "ws1 a \<longleftrightarrow> (9 \<le> code a \<and> code a \<le> 13) \<or> code a = 32"

definition ws2 :: "char \<Rightarrow> char \<Rightarrow> bool" where
  "ws2 a b \<longleftrightarrow> code a = 0xC2 \<and> (code b = 0x85 \<or> code b = 0xA0)"

definition ws3 :: "char \<Rightarrow> char \<Rightarrow> char \<Rightarrow> bool" where
  "ws3 a b c \<longleftrightarrow>
     (code a = 0xE1 \<and> code b = 0x9A \<and> code c = 0x80) \<or>
     (code a = 0xE2 \<and> code b = 0x80 \<and>
        ((0x80 \<le> code c \<and> code c \<le> 0x8A) \<or> code c = 0xA8 \<or> code c = 0xA9 \<or> code c = 0xAF)) \<or>
     (code a = 0xE2 \<and> code b = 0x81 \<and> code c = 0x9F) \<or>
     (code a = 0xE3 \<and> code b = 0x80 \<and> code c = 0x80)"

fun strip_ws :: "(char \<Rightarrow> char \<Rightarrow> bool) \<Rightarrow> (char \<Rightarrow> char \<Rightarrow> char \<Rightarrow> bool) \<Rightarrow> string \<Rightarrow> string" where
  "strip_ws p2 p3 [] = []"
| "strip_ws p2 p3 [a] = (if ws1 a then [] else [a])"
| "strip_ws p2 p3 [a, b] =
     (if ws1 a then strip_ws p2 p3 [b] else if p2 a b then [] else [a, b])"
| "strip_ws p2 p3 (a # b # c # s) =
     (if ws1 a then strip_ws p2 p3 (b # c # s)
      else if p2 a b then strip_ws p2 p3 (c # s)
      else if p3 a b c then strip_ws p2 p3 s
      else a # b # c # s)"

definition trim_start :: "string \<Rightarrow> string" where
  "trim_start s = strip_ws ws2 ws3 s"

definition trim_end :: "string \<Rightarrow> string" where
  "trim_end s = rev (strip_ws (\<lambda>a b. ws2 b a) (\<lambda>a b c. ws3 c b a) (rev s))"

definition trim :: "string \<Rightarrow> string" where
  "trim s = trim_end (trim_start s)"

text \<open>\<open>split_whitespace\<close>: the maximal pieces without white space; \<open>acc\<close> holds the
  current piece in reverse.\<close>

definition flush :: "string \<Rightarrow> string list \<Rightarrow> string list" where
  "flush acc ws = (if acc = [] then ws else rev acc # ws)"

fun words_from :: "string \<Rightarrow> string \<Rightarrow> string list" where
  "words_from acc [] = flush acc []"
| "words_from acc [a] = (if ws1 a then flush acc [] else flush (a # acc) [])"
| "words_from acc [a, b] =
     (if ws1 a then flush acc (words_from [] [b])
      else if ws2 a b then flush acc []
      else words_from (a # acc) [b])"
| "words_from acc (a # b # c # s) =
     (if ws1 a then flush acc (words_from [] (b # c # s))
      else if ws2 a b then flush acc (words_from [] (c # s))
      else if ws3 a b c then flush acc (words_from [] s)
      else words_from (a # acc) (b # c # s))"

definition split_whitespace :: "string \<Rightarrow> string list" where
  "split_whitespace s = words_from [] s"

subsection \<open>Splitting and joining\<close>

fun split_on :: "char \<Rightarrow> string \<Rightarrow> string list" where
  "split_on d [] = [[]]"
| "split_on d (x # xs) =
     (if x = d then [] # split_on d xs
      else (case split_on d xs of [] \<Rightarrow> [[x]] | y # ys \<Rightarrow> (x # y) # ys))"

fun join :: "string \<Rightarrow> string list \<Rightarrow> string" where
  "join sep [] = []"
| "join sep [x] = x"
| "join sep (x # y # zs) = x @ sep @ join sep (y # zs)"

definition strip_cr :: "string \<Rightarrow> string" where
  "strip_cr l = (if l \<noteq> [] \<and> last l = CHR 0x0D then butlast l else l)"

text \<open>\<open>lines\<close>: every piece ended by a line feed loses one carriage return before it; a last
  piece without a line feed is kept as it is, unless it is empty.\<close>

definition lines_of :: "string \<Rightarrow> string list" where
  "lines_of s = (let ps = split_on NL s
     in map strip_cr (butlast ps) @ (if last ps = [] then [] else [last ps]))"

fun starts_with :: "string \<Rightarrow> string \<Rightarrow> bool" where
  "starts_with [] s = True"
| "starts_with (p # ps) [] = False"
| "starts_with (p # ps) (x # xs) = (p = x \<and> starts_with ps xs)"

subsection \<open>Numbers\<close>

fun dec :: "nat \<Rightarrow> string" where
  "dec n = (if n < 10 then [char_of (48 + n)] else dec (n div 10) @ [char_of (48 + n mod 10)])"

declare dec.simps [simp del]

definition digits_val :: "string \<Rightarrow> nat" where
  "digits_val s = foldl (\<lambda>n c. 10 * n + (code c - 48)) 0 s"

text \<open>\<open>str::parse\<close> of an unsigned type with largest value \<open>mx\<close>: an optional plus sign,
  then at least one digit; a minus sign, any other character or a value above \<open>mx\<close> is an
  error.\<close>

definition parse_uint :: "nat \<Rightarrow> string \<Rightarrow> nat option" where
  "parse_uint mx s =
     (let t = (case s of [] \<Rightarrow> [] | c # r \<Rightarrow> if c = CHR ''+'' then r else s)
      in if t \<noteq> [] \<and> list_all is_digit t \<and> digits_val t \<le> mx then Some (digits_val t) else None)"

definition parse_bool :: "string \<Rightarrow> bool option" where
  "parse_bool s = (if s = ''true'' then Some True else if s = ''false'' then Some False else None)"

definition hex_digit :: "nat \<Rightarrow> char" where
  "hex_digit n = (if n < 10 then char_of (48 + n) else char_of (87 + n))"

text \<open>The format \<open>{b:02x}\<close> of a byte.\<close>

definition hex2 :: "u8 \<Rightarrow> string" where
  "hex2 b = [hex_digit (unat b div 16), hex_digit (unat b mod 16)]"

subsection \<open>Bytes\<close>

definition bytes_of :: "string \<Rightarrow> u8 list" where
  "bytes_of s = map (\<lambda>c. word_of_nat (code c)) s"

definition string_of :: "u8 list \<Rightarrow> string" where
  "string_of bs = map (\<lambda>b. char_of (unat b)) bs"

definition in_range :: "nat \<Rightarrow> nat \<Rightarrow> u8 \<Rightarrow> bool" where
  "in_range lo hi b \<longleftrightarrow> lo \<le> unat b \<and> unat b \<le> hi"

text \<open>The test of \<open>String::from_utf8\<close> (the well-formed byte sequences of Unicode).\<close>

fun utf8_ok :: "u8 list \<Rightarrow> bool" where
  "utf8_ok [] = True"
| "utf8_ok (a # s) =
     (if in_range 0 0x7F a then utf8_ok s
      else case s of
        [] \<Rightarrow> False
      | b # s1 \<Rightarrow>
          if in_range 0xC2 0xDF a then in_range 0x80 0xBF b \<and> utf8_ok s1
          else case s1 of
            [] \<Rightarrow> False
          | c # s2 \<Rightarrow>
              if in_range 0xE0 0xEF a
              then in_range (if unat a = 0xE0 then 0xA0 else 0x80)
                            (if unat a = 0xED then 0x9F else 0xBF) b
                   \<and> in_range 0x80 0xBF c \<and> utf8_ok s2
              else case s2 of
                [] \<Rightarrow> False
              | d # s3 \<Rightarrow>
                  in_range 0xF0 0xF4 a
                  \<and> in_range (if unat a = 0xF0 then 0x90 else 0x80)
                             (if unat a = 0xF4 then 0x8F else 0xBF) b
                  \<and> in_range 0x80 0xBF c \<and> in_range 0x80 0xBF d \<and> utf8_ok s3)"

definition from_utf8 :: "u8 list \<Rightarrow> string option" where
  "from_utf8 bs = (if utf8_ok bs then Some (string_of bs) else None)"

subsection \<open>Lemmas\<close>

lemma code_char_of [simp]: "code (char_of n) = n mod 256"
  by (simp add: code_def)

lemma char_of_code [simp]: "char_of (code c) = c"
  by (simp add: code_def)

lemma code_less_256: "code c < 256"
  by (metis code_char_of char_of_code mod_less_divisor zero_less_numeral)

lemma digits_val_snoc [simp]: "digits_val (s @ [c]) = 10 * digits_val s + (code c - 48)"
  by (simp add: digits_val_def)

lemma dec_not_Nil [simp]: "dec n \<noteq> []"
  by (subst dec.simps) simp

lemma is_digit_char_of [simp]: "(n::nat) < 10 \<Longrightarrow> is_digit (char_of (48 + n))"
  by (simp add: is_digit_def)

lemma dec_digits: "list_all is_digit (dec n)"
proof (induction n rule: dec.induct)
  case (1 n)
  then show ?case
    by (subst dec.simps) simp
qed

lemma digits_val_dec [simp]: "digits_val (dec n) = n"
proof (induction n rule: dec.induct)
  case (1 n)
  then show ?case
    by (subst dec.simps) (simp add: digits_val_def)
qed

lemma dec_head_not_plus: "dec n = c # r \<Longrightarrow> c \<noteq> CHR ''+''"
  using dec_digits [of n] by (auto simp: is_digit_def code_def)

lemma parse_uint_dec: "parse_uint mx (dec n) = (if n \<le> mx then Some n else None)"
proof -
  obtain c r where cr: "dec n = c # r"
    by (meson dec_not_Nil neq_Nil_conv)
  have "parse_uint mx (dec n) =
      (if dec n \<noteq> [] \<and> list_all is_digit (dec n) \<and> digits_val (dec n) \<le> mx
       then Some (digits_val (dec n)) else None)"
    using dec_head_not_plus [OF cr] by (simp only: parse_uint_def cr Let_def list.case if_False)
  then show ?thesis
    by (simp add: dec_digits)
qed

lemma parse_uint_bound: "parse_uint mx s = Some n \<Longrightarrow> n \<le> mx"
  by (auto simp: parse_uint_def Let_def split: if_splits)

lemma strip_ws_subset: "set (strip_ws p2 p3 s) \<subseteq> set s"
  by (induction p2 p3 s rule: strip_ws.induct) auto

lemma trim_subset: "set (trim s) \<subseteq> set s"
  unfolding trim_def trim_end_def trim_start_def
  using strip_ws_subset by (metis set_rev subset_trans)

lemma strip_ws_stop: "\<not> ws1 a \<Longrightarrow> (\<And>b. \<not> p2 a b) \<Longrightarrow> (\<And>b c. \<not> p3 a b c) \<Longrightarrow>
    strip_ws p2 p3 (a # s) = a # s"
  by (cases "(p2, p3, a # s)" rule: strip_ws.cases) auto

text \<open>A string whose first and last bytes are printable ASCII characters is not changed.\<close>

lemma trim_id:
  assumes "s \<noteq> []"
    and "32 < code (hd s)" "code (hd s) < 128" "32 < code (last s)" "code (last s) < 128"
  shows "trim s = s"
proof -
  obtain a t where s: "s = a # t"
    using assms(1) by (cases s) auto
  have "trim_start s = s"
    unfolding trim_start_def s using assms(2,3)
    by (intro strip_ws_stop) (auto simp: s ws1_def ws2_def ws3_def)
  moreover have "trim_end s = s"
  proof -
    obtain b u where r: "rev s = b # u"
      using assms(1) by (cases "rev s") auto
    have b: "b = last s"
      using r assms(1) by (metis hd_rev list.sel(1))
    have "strip_ws (\<lambda>a b. ws2 b a) (\<lambda>a b c. ws3 c b a) (rev s) = rev s"
      unfolding r using assms(4,5)
      by (intro strip_ws_stop) (auto simp: b ws1_def ws2_def ws3_def)
    then show ?thesis
      by (simp add: trim_end_def)
  qed
  ultimately show ?thesis
    by (simp add: trim_def)
qed

lemma trim_Nil [simp]: "trim [] = []"
  by (simp add: trim_def trim_start_def trim_end_def)

lemma split_on_not_Nil [simp]: "split_on d s \<noteq> []"
  by (cases s) (auto split: list.splits)

lemma split_on_pieces: "p \<in> set (split_on d s) \<Longrightarrow> d \<notin> set p"
  by (induction s arbitrary: p) (auto split: list.splits if_splits)

lemma split_on_chars: "p \<in> set (split_on d s) \<Longrightarrow> set p \<subseteq> set s"
proof (induction s arbitrary: p)
  case Nil
  then show ?case by simp
next
  case (Cons x xs)
  obtain y ys where yys: "split_on d xs = y # ys"
    by (meson split_on_not_Nil neq_Nil_conv)
  with Cons.IH have "set y \<subseteq> set xs" "\<And>q. q \<in> set ys \<Longrightarrow> set q \<subseteq> set xs"
    by auto
  with Cons.prems yys show ?case
    by (auto split: if_splits)
qed

lemma join_Cons: "ys \<noteq> [] \<Longrightarrow> join sep (x # ys) = x @ sep @ join sep ys"
  by (cases ys) auto

lemma join_split_on: "join [d] (split_on d s) = s"
proof (induction s)
  case Nil
  then show ?case by simp
next
  case (Cons x xs)
  obtain y ys where yys: "split_on d xs = y # ys"
    by (meson split_on_not_Nil neq_Nil_conv)
  show ?case
  proof (cases "x = d")
    case True
    then show ?thesis
      using Cons.IH by (simp add: join_Cons)
  next
    case False
    then show ?thesis
      using Cons.IH yys by (cases ys) auto
  qed
qed

lemma strip_cr_subset: "set (strip_cr p) \<subseteq> set p"
  by (auto simp: strip_cr_def dest: in_set_butlastD)

lemma lines_of_no_newline:
  assumes "l \<in> set (lines_of s)"
  shows "NL \<notin> set l"
proof -
  from assms obtain p where "p \<in> set (split_on NL s)" and "set l \<subseteq> set p"
    unfolding lines_of_def Let_def using strip_cr_subset
    by (auto split: if_splits dest!: in_set_butlastD)
      (metis last_in_set split_on_not_Nil subset_refl)+
  then show ?thesis
    using split_on_pieces by blast
qed

definition piece_ok :: "string \<Rightarrow> bool" where
  "piece_ok p \<longleftrightarrow> p \<noteq> [] \<and> (\<forall>c \<in> set p. \<not> ws1 c)"

lemma flush_ok:
  "\<forall>c \<in> set acc. \<not> ws1 c \<Longrightarrow> set ws \<subseteq> Collect piece_ok \<Longrightarrow> set (flush acc ws) \<subseteq> Collect piece_ok"
  by (auto simp: flush_def piece_ok_def)

lemma words_from_ok:
  "\<forall>c \<in> set acc. \<not> ws1 c \<Longrightarrow> set (words_from acc s) \<subseteq> Collect piece_ok"
  by (induction acc s rule: words_from.induct) (simp_all add: flush_ok)

lemma split_whitespace_ok: "p \<in> set (split_whitespace s) \<Longrightarrow> p \<noteq> [] \<and> (\<forall>c \<in> set p. \<not> ws1 c)"
  using words_from_ok [of "[]" s] by (auto simp: split_whitespace_def piece_ok_def)

lemma string_of_bytes_of [simp]: "string_of (bytes_of s) = s"
  by (induction s)
    (simp_all add: string_of_def bytes_of_def unat_of_nat mod_less [OF code_less_256])

definition ascii :: "string \<Rightarrow> bool" where
  "ascii s \<longleftrightarrow> list_all (\<lambda>c. code c < 128) s"

lemma utf8_ok_ascii: "ascii s \<Longrightarrow> utf8_ok (bytes_of s)"
  by (induction s) (auto simp: ascii_def bytes_of_def in_range_def unat_of_nat)

lemma from_utf8_ascii: "ascii s \<Longrightarrow> from_utf8 (bytes_of s) = Some s"
  by (simp add: from_utf8_def utf8_ok_ascii)

lemma starts_with_iff: "starts_with p s \<longleftrightarrow> (\<exists>r. s = p @ r)"
  by (induction p s rule: starts_with.induct) auto

end
