(* ===== verification/Domain.thy ===== *)
theory Domain
  imports Rust_Strings
begin

section \<open>The domain entities\<close>

text \<open>
  The value objects and entities of \<open>wireforge-core/src/domain\<close> and \<open>error.rs\<close>: errors,
  identifiers, roles, audit actions, keys, users, API tokens, bans, interfaces, peers,
  webhooks and host interfaces. A time stamp (\<open>DateTime<Utc>\<close>) is a number of nanoseconds;
  a UUID is its 128 bits; an address is a word of its family's width and a network is an
  address with a prefix length. The textual forms of UUIDs and networks belong to the crates
  \<open>uuid\<close> and \<open>ipnet\<close> and are fields of the record \<open>codec\<close> that the users of these forms take
  as a parameter.
\<close>

subsection \<open>Errors\<close>

datatype core_error =
    Not_Found string
  | Conflict string
  | Validation string
  | Forbidden string
  | Unauthorized
  | Invalid_Credentials
  | Two_Factor_Required
  | Two_Factor_Invalid
  | Crypto_Error string
  | Ip_Pool_Exhausted string
  | Wire_Guard string
  | Persistence string
  | Internal string

definition error_display :: "core_error \<Rightarrow> string" where
  "error_display e = (case e of
     Not_Found m \<Rightarrow> ''not found: '' @ m
   | Conflict m \<Rightarrow> ''already exists: '' @ m
   | Validation m \<Rightarrow> ''invalid input: '' @ m
   | Forbidden m \<Rightarrow> ''permission denied: '' @ m
   | Unauthorized \<Rightarrow> ''unauthorized''
   | Invalid_Credentials \<Rightarrow> ''invalid credentials''
   | Two_Factor_Required \<Rightarrow> ''two-factor required''
   | Two_Factor_Invalid \<Rightarrow> ''two-factor invalid''
   | Crypto_Error m \<Rightarrow> ''crypto error: '' @ m
   | Ip_Pool_Exhausted m \<Rightarrow> ''ip pool exhausted for '' @ m
   | Wire_Guard m \<Rightarrow> ''wireguard error: '' @ m
   | Persistence m \<Rightarrow> ''persistence error: '' @ m
   | Internal m \<Rightarrow> ''internal: '' @ m)"

subsection \<open>Identifiers, times, addresses\<close>

type_synonym uuid = "128 word"
type_synonym datetime = int

datatype 'k ident = Ident (id_uuid: uuid)

typedecl user_marker
typedecl interface_marker
typedecl peer_marker
typedecl token_marker
typedecl webhook_marker

type_synonym user_id = "user_marker ident"
type_synonym interface_id = "interface_marker ident"
type_synonym peer_id = "peer_marker ident"
type_synonym token_id = "token_marker ident"
type_synonym webhook_id = "webhook_marker ident"

datatype ip_addr = Ip_V4 "32 word" | Ip_V6 "128 word"

text \<open>\<open>IpNet\<close>: the address as it was written (host bits kept) and the prefix length.\<close>

datatype ip_net = Net_V4 "32 word" nat | Net_V6 "128 word" nat

subsection \<open>Roles\<close>

datatype role = Admin | Operator | Auditor | Viewer

definition role_as_str :: "role \<Rightarrow> string" where
  "role_as_str r = (case r of
     Admin \<Rightarrow> ''admin'' | Operator \<Rightarrow> ''operator'' | Auditor \<Rightarrow> ''auditor'' | Viewer \<Rightarrow> ''viewer'')"

definition can_mutate :: "role \<Rightarrow> bool" where
  "can_mutate r \<longleftrightarrow> r = Admin \<or> r = Operator"

definition can_manage_users :: "role \<Rightarrow> bool" where
  "can_manage_users r \<longleftrightarrow> r = Admin"

definition can_read_audit :: "role \<Rightarrow> bool" where
  "can_read_audit r \<longleftrightarrow> r = Admin \<or> r = Auditor"

definition can_manage_settings :: "role \<Rightarrow> bool" where
  "can_manage_settings r \<longleftrightarrow> r = Admin"

definition role_from_str :: "string \<Rightarrow> string + role" where
  "role_from_str s =
     (let l = to_ascii_lowercase s
      in if l = ''admin'' then Inr Admin
         else if l = ''operator'' then Inr Operator
         else if l = ''auditor'' then Inr Auditor
         else if l = ''viewer'' then Inr Viewer
         else Inl (''unknown role: '' @ l))"

lemma role_roundtrip: "role_from_str (role_as_str r) = Inr r"
  by (cases r; hypsubst; code_simp)

lemma role_as_str_inj: "role_as_str a = role_as_str b \<Longrightarrow> a = b"
  using role_roundtrip by (metis Inr_inject)

subsection \<open>Audit actions and events\<close>

datatype audit_action =
    User_Login | User_Logout | User_Login_Failed | User_Created | User_Deleted
  | User_Role_Changed | Totp_Enabled | Totp_Disabled
  | Interface_Created | Interface_Updated | Interface_Deleted
  | Interface_Started | Interface_Stopped
  | Peer_Created | Peer_Updated | Peer_Deleted | Peer_Enabled | Peer_Disabled
  | Backup_Created | Backup_Restored | Settings_Updated

definition action_as_str :: "audit_action \<Rightarrow> string" where
  "action_as_str a = (case a of
     User_Login \<Rightarrow> ''user.login''
   | User_Logout \<Rightarrow> ''user.logout''
   | User_Login_Failed \<Rightarrow> ''user.login_failed''
   | User_Created \<Rightarrow> ''user.created''
   | User_Deleted \<Rightarrow> ''user.deleted''
   | User_Role_Changed \<Rightarrow> ''user.role_changed''
   | Totp_Enabled \<Rightarrow> ''totp.enabled''
   | Totp_Disabled \<Rightarrow> ''totp.disabled''
   | Interface_Created \<Rightarrow> ''interface.created''
   | Interface_Updated \<Rightarrow> ''interface.updated''
   | Interface_Deleted \<Rightarrow> ''interface.deleted''
   | Interface_Started \<Rightarrow> ''interface.started''
   | Interface_Stopped \<Rightarrow> ''interface.stopped''
   | Peer_Created \<Rightarrow> ''peer.created''
   | Peer_Updated \<Rightarrow> ''peer.updated''
   | Peer_Deleted \<Rightarrow> ''peer.deleted''
   | Peer_Enabled \<Rightarrow> ''peer.enabled''
   | Peer_Disabled \<Rightarrow> ''peer.disabled''
   | Backup_Created \<Rightarrow> ''backup.created''
   | Backup_Restored \<Rightarrow> ''backup.restored''
   | Settings_Updated \<Rightarrow> ''settings.updated'')"

text \<open>The metadata of an event is a JSON value of the crate \<open>serde_json\<close>; \<open>'j\<close> stands for it.\<close>

record 'j audit_event =
  ae_id :: i64
  ae_actor_user_id :: "user_id option"
  ae_actor_ip :: "string option"
  ae_action :: audit_action
  ae_resource_type :: "string option"
  ae_resource_id :: "string option"
  ae_metadata :: "'j option"
  ae_created_at :: datetime

subsection \<open>Keys\<close>

datatype wg_private_key = Wg_Private_Key (private_str: string)
datatype wg_public_key = Wg_Public_Key (public_str: string)
datatype preshared_key = Preshared_Key (preshared_str: string)

definition KEY_LEN :: nat where
  "KEY_LEN = 32"

text \<open>The three key types are generated by one macro; \<open>K\<close> is the type's constructor and
  \<open>decode\<close> the decoder of the crate \<open>base64\<close>.\<close>

definition key_from_base64 ::
    "(string \<Rightarrow> string + u8 list) \<Rightarrow> (string \<Rightarrow> 'k) \<Rightarrow> string \<Rightarrow> core_error + 'k" where
  "key_from_base64 decode K s = (case decode s of
     Inl e \<Rightarrow> Inl (Validation (''invalid base64 key: '' @ e))
   | Inr raw \<Rightarrow>
       if length raw \<noteq> KEY_LEN
       then Inl (Validation (''invalid key length '' @ dec (length raw) @ '' (expected 32)''))
       else Inr (K s))"

lemma key_from_base64_ok_iff:
  "key_from_base64 decode K s = Inr k \<longleftrightarrow> (\<exists>raw. decode s = Inr raw \<and> length raw = 32) \<and> k = K s"
  by (auto simp: key_from_base64_def KEY_LEN_def split: sum.splits)

subsection \<open>Users, tokens, bans\<close>

record user =
  u_id :: user_id
  u_username :: string
  u_email :: "string option"
  u_password_hash :: string
  u_role :: role
  u_totp_enabled :: bool
  u_totp_secret :: "u8 list option"
  u_oidc_subject :: "string option"
  u_created_at :: datetime
  u_updated_at :: datetime
  u_last_login_at :: "datetime option"

definition requires_totp :: "user \<Rightarrow> bool" where
  "requires_totp u = u_totp_enabled u"

record new_user =
  nu_username :: string
  nu_email :: "string option"
  nu_password_hash :: string
  nu_role :: role

record api_token =
  t_id :: token_id
  t_user_id :: user_id
  t_name :: string
  t_token_hash :: string
  t_scopes :: "string list"
  t_created_at :: datetime
  t_expires_at :: "datetime option"
  t_revoked_at :: "datetime option"

definition token_is_active :: "api_token \<Rightarrow> datetime \<Rightarrow> bool" where
  "token_is_active t now \<longleftrightarrow>
     t_revoked_at t = None \<and> (case t_expires_at t of None \<Rightarrow> True | Some e \<Rightarrow> e > now)"

record new_api_token =
  nt_user_id :: user_id
  nt_name :: string
  nt_token_hash :: string
  nt_scopes :: "string list"
  nt_expires_at :: "datetime option"

record ip_ban =
  b_ip :: string
  b_banned_until :: datetime
  b_attempt_count :: i64
  b_updated_at :: datetime

definition ban_is_active :: "ip_ban \<Rightarrow> datetime \<Rightarrow> bool" where
  "ban_is_active b now \<longleftrightarrow> b_banned_until b > now"

subsection \<open>Interfaces and peers\<close>

datatype interface_status = Status_Down | Status_Up | Status_Error

definition status_as_str :: "interface_status \<Rightarrow> string" where
  "status_as_str s = (case s of
     Status_Down \<Rightarrow> ''down'' | Status_Up \<Rightarrow> ''up'' | Status_Error \<Rightarrow> ''error'')"

record iface =
  i_id :: interface_id
  i_name :: string
  i_public_key :: wg_public_key
  i_private_key_sealed :: "u8 list"
  i_listen_port :: u16
  i_endpoint :: "string option"
  i_gateway :: "string option"
  i_ipv4_cidr :: "ip_net option"
  i_ipv6_cidr :: "ip_net option"
  i_mtu :: "u16 option"
  i_dns :: "string list"
  i_on_up :: "string option"
  i_on_down :: "string option"
  i_status :: interface_status
  i_created_at :: datetime
  i_updated_at :: datetime

record new_iface =
  ni_name :: string
  ni_private_key :: wg_private_key
  ni_public_key :: wg_public_key
  ni_listen_port :: u16
  ni_endpoint :: "string option"
  ni_gateway :: "string option"
  ni_ipv4_cidr :: "ip_net option"
  ni_ipv6_cidr :: "ip_net option"
  ni_mtu :: "u16 option"
  ni_dns :: "string list"
  ni_on_up :: "string option"
  ni_on_down :: "string option"

record peer =
  p_id :: peer_id
  p_interface_id :: interface_id
  p_name :: string
  p_public_key :: wg_public_key
  p_private_key_sealed :: "u8 list option"
  p_preshared_key_sealed :: "u8 list option"
  p_allowed_ips :: "ip_net list"
  p_primary_dns :: "string option"
  p_secondary_dns :: "string option"
  p_nat :: bool
  p_endpoint :: "string option"
  p_keepalive :: "u16 option"
  p_quota :: "u64 option"
  p_used :: u64
  p_expires_at :: "datetime option"
  p_schedule :: "string option"
  p_enabled :: bool
  p_owner :: "user_id option"
  p_created_at :: datetime
  p_updated_at :: datetime

definition is_expired :: "peer \<Rightarrow> datetime \<Rightarrow> bool" where
  "is_expired p now \<longleftrightarrow> (case p_expires_at p of Some x \<Rightarrow> x < now | None \<Rightarrow> False)"

definition over_quota :: "peer \<Rightarrow> bool" where
  "over_quota p \<longleftrightarrow> (case p_quota p of Some q \<Rightarrow> p_used p \<ge> q | None \<Rightarrow> False)"

record new_peer =
  np_interface_id :: interface_id
  np_name :: string
  np_public_key :: wg_public_key
  np_allowed_ips :: "ip_net list"
  np_primary_dns :: "string option"
  np_secondary_dns :: "string option"
  np_nat :: bool
  np_endpoint :: "string option"
  np_keepalive :: "u16 option"
  np_quota :: "u64 option"
  np_expires_at :: "datetime option"
  np_owner :: "user_id option"
  np_private_key_sealed :: "u8 list option"

subsection \<open>Webhooks and host interfaces\<close>

record webhook =
  h_id :: webhook_id
  h_url :: string
  h_secret :: "string option"
  h_events :: "string list"
  h_enabled :: bool
  h_created_by :: "user_id option"
  h_created_at :: datetime

record new_webhook =
  nh_url :: string
  nh_secret :: "string option"
  nh_events :: "string list"
  nh_created_by :: "user_id option"

record sys_interface =
  s_name :: string
  s_up :: bool
  s_ipv4 :: "string list"
  s_ipv6 :: "string list"
  s_mac :: "string option"
  s_flags :: "string list"

end
