(* ===== verification/Ports.thy ===== *)
theory Ports
  imports Domain
begin

section \<open>The ports of the application layer\<close>

text \<open>
  The traits of \<open>wireforge-core/src/application/ports\<close>, as records of operations over a
  world \<open>'w\<close>. As in the sources, the services are written against these records only; the
  adapters of \<open>wireforge-infra\<close> fill them over a concrete world. The third-party functions
  that the core crate calls directly (\<open>uuid\<close>, \<open>ipnet\<close>) are the record \<open>net_lib\<close>.
\<close>

subsection \<open>Third-party value types\<close>

text \<open>\<open>Display\<close> and \<open>FromStr\<close> of \<open>Uuid\<close> and \<open>IpNet\<close>, and the functions of \<open>IpNet\<close>:
  \<open>network\<close>, \<open>hosts\<close>, \<open>trunc\<close> and \<open>new\<close>.\<close>

record net_lib =
  nl_show_uuid :: "uuid \<Rightarrow> string"
  nl_parse_uuid :: "string \<Rightarrow> string + uuid"
  nl_show_net :: "ip_net \<Rightarrow> string"
  nl_parse_net :: "string \<Rightarrow> string + ip_net"
  nl_network :: "ip_net \<Rightarrow> ip_addr"
  nl_hosts :: "ip_net \<Rightarrow> ip_addr list"
  nl_trunc :: "ip_net \<Rightarrow> ip_net"
  nl_new :: "ip_addr \<Rightarrow> nat \<Rightarrow> string + ip_net"

definition show_id :: "net_lib \<Rightarrow> 'k ident \<Rightarrow> string" where
  "show_id L i = nl_show_uuid L (id_uuid i)"

definition parse_id :: "net_lib \<Rightarrow> string \<Rightarrow> string + 'k ident" where
  "parse_id L s = (case nl_parse_uuid L s of Inl e \<Rightarrow> Inl e | Inr u \<Rightarrow> Inr (Ident u))"

text \<open>What the sources rely on: reading back what was written gives the value again.\<close>

definition uuid_text_law :: "net_lib \<Rightarrow> bool" where
  "uuid_text_law L \<longleftrightarrow> (\<forall>u. nl_parse_uuid L (nl_show_uuid L u) = Inr u)"

definition net_text_law :: "net_lib \<Rightarrow> bool" where
  "net_text_law L \<longleftrightarrow> (\<forall>n. nl_parse_net L (nl_show_net L n) = Inr n)"

text \<open>\<open>IpNet::new\<close> of an address with its family's full prefix is that single address, and
  the network address of a single address is the address.\<close>

definition host_net :: "ip_addr \<Rightarrow> ip_net" where
  "host_net a = (case a of Ip_V4 x \<Rightarrow> Net_V4 x 32 | Ip_V6 x \<Rightarrow> Net_V6 x 128)"

definition host_net_law :: "net_lib \<Rightarrow> bool" where
  "host_net_law L \<longleftrightarrow>
     (\<forall>x. nl_new L (Ip_V4 x) 32 = Inr (Net_V4 x 32)) \<and>
     (\<forall>x. nl_new L (Ip_V6 x) 128 = Inr (Net_V6 x 128)) \<and>
     (\<forall>a. nl_network L (host_net a) = a)"

text \<open>\<open>hosts\<close> of a network lists addresses of the network's own family.\<close>

fun same_family :: "ip_net \<Rightarrow> ip_addr \<Rightarrow> bool" where
  "same_family (Net_V4 _ _) (Ip_V4 _) = True"
| "same_family (Net_V6 _ _) (Ip_V6 _) = True"
| "same_family _ _ = False"

definition hosts_law :: "net_lib \<Rightarrow> bool" where
  "hosts_law L \<longleftrightarrow> (\<forall>n. \<forall>a \<in> set (nl_hosts L n). same_family n a)"

lemma parse_id_show [simp]: "uuid_text_law L \<Longrightarrow> parse_id L (show_id L i) = Inr i"
  by (cases i) (simp add: parse_id_def show_id_def uuid_text_law_def)

lemma show_id_inj: "uuid_text_law L \<Longrightarrow> show_id L i = show_id L j \<Longrightarrow> i = j"
  using parse_id_show by (metis Inr_inject)

subsection \<open>Repositories\<close>

record 'w user_repo =
  ur_count :: "('w, core_error, u64) io"
  ur_create :: "new_user \<Rightarrow> ('w, core_error, user) io"
  ur_find_by_id :: "user_id \<Rightarrow> ('w, core_error, user option) io"
  ur_find_by_username :: "string \<Rightarrow> ('w, core_error, user option) io"
  ur_list :: "('w, core_error, user list) io"
  ur_update_password :: "user_id \<Rightarrow> string \<Rightarrow> ('w, core_error, unit) io"
  ur_update_role :: "user_id \<Rightarrow> role \<Rightarrow> ('w, core_error, unit) io"
  ur_update_totp :: "user_id \<Rightarrow> bool \<Rightarrow> u8 list option \<Rightarrow> ('w, core_error, unit) io"
  ur_touch_last_login :: "user_id \<Rightarrow> ('w, core_error, unit) io"
  ur_delete :: "user_id \<Rightarrow> ('w, core_error, unit) io"

record 'w token_repo =
  tr_create :: "new_api_token \<Rightarrow> ('w, core_error, api_token) io"
  tr_find_active_by_hash :: "string \<Rightarrow> ('w, core_error, api_token option) io"
  tr_list_for_user :: "user_id \<Rightarrow> ('w, core_error, api_token list) io"
  tr_revoke :: "token_id \<Rightarrow> user_id \<Rightarrow> ('w, core_error, unit) io"

record 'w iface_repo =
  ir_create :: "new_iface \<Rightarrow> u8 list \<Rightarrow> ('w, core_error, iface) io"
  ir_find_by_id :: "interface_id \<Rightarrow> ('w, core_error, iface option) io"
  ir_find_by_name :: "string \<Rightarrow> ('w, core_error, iface option) io"
  ir_list :: "('w, core_error, iface list) io"
  ir_update :: "iface \<Rightarrow> ('w, core_error, unit) io"
  ir_delete :: "interface_id \<Rightarrow> ('w, core_error, unit) io"

record 'w peer_repo =
  pr_create :: "new_peer \<Rightarrow> u8 list option \<Rightarrow> ('w, core_error, peer) io"
  pr_find_by_id :: "peer_id \<Rightarrow> ('w, core_error, peer option) io"
  pr_list_for_interface :: "interface_id \<Rightarrow> ('w, core_error, peer list) io"
  pr_list_all :: "('w, core_error, peer list) io"
  pr_update :: "peer \<Rightarrow> ('w, core_error, unit) io"
  pr_delete :: "peer_id \<Rightarrow> ('w, core_error, unit) io"
  pr_record_bandwidth :: "peer_id \<Rightarrow> u64 \<Rightarrow> ('w, core_error, unit) io"

record ('w, 'j) audit_repo =
  ar_record :: "user_id option \<Rightarrow> string option \<Rightarrow> audit_action \<Rightarrow> string option \<Rightarrow>
     string option \<Rightarrow> 'j option \<Rightarrow> ('w, core_error, unit) io"
  ar_list :: "u32 \<Rightarrow> ('w, core_error, 'j audit_event list) io"

text \<open>A lockout (\<open>std::time::Duration\<close>) is a whole number of seconds in every caller.\<close>

record 'w ban_repo =
  br_find :: "string \<Rightarrow> ('w, core_error, ip_ban option) io"
  br_record_failure :: "string \<Rightarrow> u32 \<Rightarrow> u64 \<Rightarrow> ('w, core_error, ip_ban) io"
  br_clear :: "string \<Rightarrow> ('w, core_error, unit) io"

record 'w webhook_repo =
  wr_list_enabled :: "('w, core_error, webhook list) io"
  wr_list :: "('w, core_error, webhook list) io"
  wr_create :: "new_webhook \<Rightarrow> ('w, core_error, webhook) io"
  wr_delete :: "webhook_id \<Rightarrow> ('w, core_error, unit) io"

record peer_traffic_row =
  pt_peer_id :: peer_id
  pt_tx :: u64
  pt_rx :: u64
  pt_last_handshake :: "datetime option"

record 'w traffic_repo =
  tf_snapshot :: "peer_id \<Rightarrow> u64 \<Rightarrow> u64 \<Rightarrow> datetime option \<Rightarrow> ('w, core_error, unit) io"
  tf_series_for_peer :: "peer_id \<Rightarrow> datetime \<Rightarrow> ('w, core_error, (datetime \<times> u64 \<times> u64) list) io"
  tf_latest_per_peer :: "('w, core_error, peer_traffic_row list) io"
  tf_series_totals :: "datetime \<Rightarrow> ('w, core_error, (datetime \<times> u64 \<times> u64) list) io"

text \<open>A \<open>HashMap\<close> is an association list without repeated keys; its iteration order is
  unspecified, so what depends on it is stated for every order.\<close>

record 'w settings_repo =
  sr_all :: "('w, core_error, (string \<times> string) list) io"
  sr_upsert :: "string \<Rightarrow> string \<Rightarrow> user_id option \<Rightarrow> ('w, core_error, unit) io"

subsection \<open>WireGuard, NAT and the host's interfaces\<close>

record peer_stats =
  ps_public_key :: wg_public_key
  ps_last_handshake :: "datetime option"
  ps_rx_bytes :: u64
  ps_tx_bytes :: u64
  ps_endpoint :: "string option"

record 'w wg_port =
  wg_derive_public_key :: "wg_private_key \<Rightarrow> ('w, core_error, wg_public_key) io"
  wg_generate_keypair :: "('w, core_error, wg_private_key \<times> wg_public_key) io"
  wg_create_interface :: "iface \<Rightarrow> ('w, core_error, unit) io"
  wg_interface_up :: "iface \<Rightarrow> peer list \<Rightarrow> ('w, core_error, unit) io"
  wg_interface_down :: "iface \<Rightarrow> ('w, core_error, unit) io"
  wg_delete_interface :: "iface \<Rightarrow> ('w, core_error, unit) io"
  wg_apply_peer :: "iface \<Rightarrow> peer \<Rightarrow> ('w, core_error, unit) io"
  wg_remove_peer :: "iface \<Rightarrow> wg_public_key \<Rightarrow> ('w, core_error, unit) io"
  wg_peer_stats :: "iface \<Rightarrow> ('w, core_error, peer_stats list) io"

record 'w nat_port =
  nat_apply :: "iface \<Rightarrow> string \<Rightarrow> ('w, core_error, unit) io"
  nat_remove :: "iface \<Rightarrow> string \<Rightarrow> ('w, core_error, unit) io"
  nat_run_hook :: "string \<Rightarrow> ('w, core_error, unit) io"

record 'w sysnet_port =
  sn_list :: "('w, core_error, sys_interface list) io"

end
