(* ===== verification/Settings.thy ===== *)
theory Settings
  imports Ports
begin

section \<open>Runtime settings\<close>

text \<open>
  \<open>domain/settings.rs\<close> (the settings record and the overlay of persisted overrides) and
  \<open>application/services/settings.rs\<close> (the service that keeps the live copy and the table of
  overrides together). The live copy sits behind a lock in the world; \<open>rd\<close> and \<open>wr\<close> are the
  two accesses to it. A JSON value is anything with a textual form \<open>show_json\<close>.
\<close>

subsection \<open>The settings record\<close>

record runtime_settings =
  rs_locale_default :: string
  rs_totp_issuer :: string
  rs_login_max_attempts :: u32
  rs_login_lockout_secs :: u64
  rs_session_timeout_hours :: u32
  rs_endpoint :: "string option"
  rs_traffic_poller_interval_secs :: u64
  rs_traffic_enabled :: bool
  rs_backup_retention_days :: u32
  rs_log_level :: string

definition default_settings :: runtime_settings where
  "default_settings = \<lparr>
     rs_locale_default = ''en'',
     rs_totp_issuer = ''Wireforge'',
     rs_login_max_attempts = 5,
     rs_login_lockout_secs = 300,
     rs_session_timeout_hours = 12,
     rs_endpoint = None,
     rs_traffic_poller_interval_secs = 30,
     rs_traffic_enabled = True,
     rs_backup_retention_days = 30,
     rs_log_level = ''info''\<rparr>"

definition strip_quotes :: "string \<Rightarrow> string" where
  "strip_quotes raw =
     (let s = trim raw
      in if length s \<ge> 2 \<and> hd s = DQ \<and> last s = DQ then butlast (tl s) else s)"

definition parse_u32 :: "string \<Rightarrow> u32 option" where
  "parse_u32 s = map_option word_of_nat (parse_uint (2 ^ 32 - 1) s)"

definition parse_u64 :: "string \<Rightarrow> u64 option" where
  "parse_u64 s = map_option word_of_nat (parse_uint (2 ^ 64 - 1) s)"

definition apply_override :: "string \<times> string \<Rightarrow> runtime_settings \<Rightarrow> runtime_settings" where
  "apply_override kv s = (case kv of (k, raw) \<Rightarrow>
     if k = ''locale_default'' then s\<lparr>rs_locale_default := strip_quotes raw\<rparr>
     else if k = ''totp_issuer'' then s\<lparr>rs_totp_issuer := strip_quotes raw\<rparr>
     else if k = ''login_max_attempts'' then
       (case parse_u32 raw of Some v \<Rightarrow> s\<lparr>rs_login_max_attempts := v\<rparr> | None \<Rightarrow> s)
     else if k = ''login_lockout_secs'' then
       (case parse_u64 raw of Some v \<Rightarrow> s\<lparr>rs_login_lockout_secs := v\<rparr> | None \<Rightarrow> s)
     else if k = ''session_timeout_hours'' then
       (case parse_u32 raw of Some v \<Rightarrow> s\<lparr>rs_session_timeout_hours := v\<rparr> | None \<Rightarrow> s)
     else if k = ''endpoint'' then
       (let e = strip_quotes raw in s\<lparr>rs_endpoint := if e = [] then None else Some e\<rparr>)
     else if k = ''traffic_poller_interval_secs'' then
       (case parse_u64 raw of Some v \<Rightarrow> s\<lparr>rs_traffic_poller_interval_secs := v\<rparr> | None \<Rightarrow> s)
     else if k = ''traffic_enabled'' then
       (case parse_bool raw of Some v \<Rightarrow> s\<lparr>rs_traffic_enabled := v\<rparr> | None \<Rightarrow> s)
     else if k = ''backup_retention_days'' then
       (case parse_u32 raw of Some v \<Rightarrow> s\<lparr>rs_backup_retention_days := v\<rparr> | None \<Rightarrow> s)
     else if k = ''log_level'' then s\<lparr>rs_log_level := strip_quotes raw\<rparr>
     else s)"

definition apply_overrides ::
    "(string \<times> string) list \<Rightarrow> runtime_settings \<Rightarrow> runtime_settings" where
  "apply_overrides overrides s = fold apply_override overrides s"

subsection \<open>The settings service\<close>

text \<open>The live copy in the world.\<close>

record 'w settings_cell =
  cell_read :: "'w \<Rightarrow> runtime_settings"
  cell_write :: "runtime_settings \<Rightarrow> 'w \<Rightarrow> 'w"

text \<open>\<open>HashMap::insert\<close>: replaces the entry of the key, if any.\<close>

definition hm_insert :: "'a \<Rightarrow> 'b \<Rightarrow> ('a \<times> 'b) list \<Rightarrow> ('a \<times> 'b) list" where
  "hm_insert k v m = (k, v) # filter (\<lambda>kv. fst kv \<noteq> k) m"

definition settings_load ::
    "'w settings_repo \<Rightarrow> runtime_settings \<Rightarrow> ('w, core_error, runtime_settings) io" where
  "settings_load R baseline =
     io_bind (sr_all R) (\<lambda>overrides. io_ret (apply_overrides overrides baseline))"

definition settings_snapshot :: "'w settings_cell \<Rightarrow> ('w, 'e, runtime_settings) io" where
  "settings_snapshot C = (\<lambda>w. (Inr (cell_read C w), w))"

definition cell_apply ::
    "'w settings_cell \<Rightarrow> (string \<times> string) list \<Rightarrow> ('w, 'e, unit) io" where
  "cell_apply C overrides = (\<lambda>w. (Inr (), cell_write C (apply_overrides overrides (cell_read C w)) w))"

definition settings_set ::
    "'w settings_repo \<Rightarrow> 'w settings_cell \<Rightarrow> ('j \<Rightarrow> string) \<Rightarrow> string \<Rightarrow> 'j \<Rightarrow> user_id option \<Rightarrow>
     ('w, core_error, unit) io" where
  "settings_set R C show_json k v actor =
     (let raw = show_json v
      in io_bind (sr_upsert R k raw actor) (\<lambda>_. cell_apply C (hm_insert k raw [])))"

fun upsert_all ::
    "'w settings_repo \<Rightarrow> ('j \<Rightarrow> string) \<Rightarrow> user_id option \<Rightarrow> (string \<times> 'j) list \<Rightarrow>
     (string \<times> string) list \<Rightarrow> ('w, core_error, (string \<times> string) list) io" where
  "upsert_all R show_json actor [] overrides = io_ret overrides"
| "upsert_all R show_json actor ((k, v) # kvs) overrides =
     (let raw = show_json v
      in io_bind (sr_upsert R k raw actor)
           (\<lambda>_. upsert_all R show_json actor kvs (hm_insert k raw overrides)))"

definition settings_set_many ::
    "'w settings_repo \<Rightarrow> 'w settings_cell \<Rightarrow> ('j \<Rightarrow> string) \<Rightarrow> (string \<times> 'j) list \<Rightarrow>
     user_id option \<Rightarrow> ('w, core_error, unit) io" where
  "settings_set_many R C show_json entries actor =
     io_bind (upsert_all R show_json actor entries []) (cell_apply C)"

end
