(* ===== verification/Crypto.thy ===== *)
theory Crypto
  imports Ports
begin

section \<open>Cryptographic helpers\<close>

text \<open>
  The modules of \<open>wireforge-core/src/crypto\<close>: password hashing, sealing at rest, API tokens,
  time-based one-time codes and WireGuard keys. The crates they call (\<open>argon2\<close>, \<open>age\<close>,
  \<open>base64\<close>, \<open>sha2\<close>, \<open>hex\<close>, \<open>rand\<close>, \<open>totp-rs\<close>) are the records \<open>crypto_lib\<close> and \<open>totp_lib\<close>;
  functions that draw randomness or read the clock step the world. A parsed password hash,
  an \<open>age\<close> writer and an \<open>age\<close> stream are represented by their bytes.
\<close>

datatype age_decryptor = Dec_Passphrase "u8 list" | Dec_Recipients "u8 list"

record 'w crypto_lib =
  cl_b64_decode :: "string \<Rightarrow> string + u8 list"
  cl_b64_encode :: "u8 list \<Rightarrow> string"
  cl_b64url_encode :: "u8 list \<Rightarrow> string"
  cl_hex_encode :: "u8 list \<Rightarrow> string"
  cl_sha256 :: "u8 list \<Rightarrow> u8 list"
  cl_fill_bytes :: "nat \<Rightarrow> 'w \<Rightarrow> u8 list \<times> 'w"
  cl_salt :: "'w \<Rightarrow> string \<times> 'w"
  cl_argon2_hash :: "u8 list \<Rightarrow> string \<Rightarrow> string + string"
  cl_argon2_parse :: "string \<Rightarrow> string + string"
  cl_argon2_verify :: "u8 list \<Rightarrow> string \<Rightarrow> string + unit"
  cl_age_wrap :: "string \<Rightarrow> ('w, string, u8 list) io"
  cl_age_write :: "string \<Rightarrow> u8 list \<Rightarrow> u8 list \<Rightarrow> ('w, string, u8 list) io"
  cl_age_finish :: "string \<Rightarrow> u8 list \<Rightarrow> ('w, string, u8 list) io"
  cl_age_decryptor :: "u8 list \<Rightarrow> string + age_decryptor"
  cl_age_decrypt :: "string \<Rightarrow> u8 list \<Rightarrow> string + u8 list"
  cl_age_read :: "u8 list \<Rightarrow> string + u8 list"

definition io_rand :: "('w \<Rightarrow> 'a \<times> 'w) \<Rightarrow> ('w, 'e, 'a) io" where
  [io_defs]: "io_rand f = (\<lambda>w. case f w of (x, w') \<Rightarrow> (Inr x, w'))"

subsection \<open>Passwords\<close>

definition hash_password :: "'w crypto_lib \<Rightarrow> string \<Rightarrow> ('w, core_error, string) io" where
  "hash_password C password =
     io_bind (io_rand (cl_salt C)) (\<lambda>salt.
       io_lift (map_error (\<lambda>e. Crypto_Error (''argon2 hash: '' @ e))
         (cl_argon2_hash C (bytes_of password) salt)))"

definition verify_password :: "'w crypto_lib \<Rightarrow> string \<Rightarrow> string \<Rightarrow> core_error + bool" where
  "verify_password C password stored_hash =
     (case cl_argon2_parse C stored_hash of
        Inl e \<Rightarrow> Inl (Crypto_Error (''argon2 parse: '' @ e))
      | Inr parsed \<Rightarrow>
          Inr (case cl_argon2_verify C (bytes_of password) parsed of
                 Inl _ \<Rightarrow> False | Inr _ \<Rightarrow> True))"

subsection \<open>Sealing at rest\<close>

datatype seal_key = Seal_Key (passphrase: string)

definition seal_key_from_passphrase :: "string \<Rightarrow> seal_key" where
  "seal_key_from_passphrase s = Seal_Key s"

definition seal :: "'w crypto_lib \<Rightarrow> u8 list \<Rightarrow> seal_key \<Rightarrow> ('w, core_error, u8 list) io" where
  "seal C plaintext k =
     io_bind (io_map_err (\<lambda>e. Crypto_Error (''age wrap: '' @ e)) (cl_age_wrap C (passphrase k)))
      (\<lambda>writer.
     io_bind (io_map_err (\<lambda>e. Crypto_Error (''age write: '' @ e))
                (cl_age_write C (passphrase k) writer plaintext))
      (\<lambda>writer'.
     io_map_err (\<lambda>e. Crypto_Error (''age finish: '' @ e))
       (cl_age_finish C (passphrase k) writer')))"

definition unseal :: "'w crypto_lib \<Rightarrow> u8 list \<Rightarrow> seal_key \<Rightarrow> core_error + u8 list" where
  "unseal C ciphertext k =
     (case cl_age_decryptor C ciphertext of
        Inl e \<Rightarrow> Inl (Crypto_Error (''age decryptor: '' @ e))
      | Inr (Dec_Recipients _) \<Rightarrow> Inl (Crypto_Error ''recipient-encrypted blob unsupported'')
      | Inr (Dec_Passphrase d) \<Rightarrow>
          (case cl_age_decrypt C (passphrase k) d of
             Inl e \<Rightarrow> Inl (Crypto_Error (''age decrypt: '' @ e))
           | Inr reader \<Rightarrow> map_error (\<lambda>e. Crypto_Error (''age read: '' @ e)) (cl_age_read C reader)))"

subsection \<open>API tokens\<close>

definition API_TOKEN_PREFIX :: string where
  "API_TOKEN_PREFIX = ''wf_''"

definition hash_api_token :: "'w crypto_lib \<Rightarrow> string \<Rightarrow> string" where
  "hash_api_token C plaintext = cl_hex_encode C (cl_sha256 C (bytes_of plaintext))"

definition generate_api_token :: "'w crypto_lib \<Rightarrow> ('w, 'e, string \<times> string) io" where
  "generate_api_token C =
     io_bind (io_rand (cl_fill_bytes C 32)) (\<lambda>bytes.
       let plaintext = API_TOKEN_PREFIX @ cl_b64url_encode C bytes
       in io_ret (plaintext, hash_api_token C plaintext))"

subsection \<open>WireGuard keys\<close>

text \<open>The three assignments that clamp a private key; the array has 32 bytes.\<close>

unbundle bit_operations_syntax

definition clamp :: "u8 list \<Rightarrow> u8 list" where
  "clamp b0 =
     (let b1 = b0[0 := b0 ! 0 AND 248];
          b2 = b1[31 := b1 ! 31 AND 127]
      in b2[31 := b2 ! 31 OR 64])"

definition core_derive_public_key :: "wg_private_key \<Rightarrow> core_error + wg_public_key" where
  "core_derive_public_key private =
     Inl (Crypto_Error ''derive_public_key is provided by the WireGuard adapter'')"

definition core_generate_keypair ::
    "'w crypto_lib \<Rightarrow> ('w, core_error, wg_private_key \<times> wg_public_key) io" where
  "core_generate_keypair C =
     io_bind (io_rand (cl_fill_bytes C 32)) (\<lambda>priv_bytes.
     io_bind (io_lift (key_from_base64 (cl_b64_decode C) Wg_Private_Key
                (cl_b64_encode C (clamp priv_bytes)))) (\<lambda>private_key.
     io_bind (io_lift (core_derive_public_key private_key)) (\<lambda>public_key.
     io_ret (private_key, public_key))))"

definition generate_preshared_key :: "'w crypto_lib \<Rightarrow> ('w, core_error, preshared_key) io" where
  "generate_preshared_key C =
     io_bind (io_rand (cl_fill_bytes C 32)) (\<lambda>bytes.
       io_lift (key_from_base64 (cl_b64_decode C) Preshared_Key (cl_b64_encode C bytes)))"

subsection \<open>One-time codes\<close>

definition DIGITS :: nat where "DIGITS = 6"
definition SKEW :: nat where "SKEW = 1"
definition STEP :: nat where "STEP = 30"

datatype totp_algorithm = SHA1 | SHA256 | SHA512

record totp =
  to_algorithm :: totp_algorithm
  to_digits :: nat
  to_skew :: nat
  to_step :: nat
  to_secret :: "u8 list"
  to_issuer :: "string option"
  to_account :: string

datatype totp_key = Raw "u8 list" | Encoded string

record 'w totp_lib =
  tl_generate_secret :: "'w \<Rightarrow> totp_key \<times> 'w"
  tl_show_secret :: "totp_key \<Rightarrow> string"
  tl_to_bytes :: "totp_key \<Rightarrow> string + u8 list"
  tl_new_error :: "totp \<Rightarrow> string option"
  tl_get_url :: "totp \<Rightarrow> string"
  tl_get_qr_png :: "totp \<Rightarrow> string + u8 list"
  tl_check_current :: "totp \<Rightarrow> string \<Rightarrow> ('w, string, bool) io"

record totp_secret =
  ts_base32 :: string
  ts_uri :: string
  ts_qr_png :: "u8 list"

text \<open>\<open>TOTP::new\<close> checks its arguments; the value it builds holds them.\<close>

definition totp_new :: "'w totp_lib \<Rightarrow> u8 list \<Rightarrow> string \<Rightarrow> string \<Rightarrow> string + totp" where
  "totp_new T secret issuer account =
     (let t = \<lparr>to_algorithm = SHA1, to_digits = DIGITS, to_skew = SKEW, to_step = STEP,
               to_secret = secret, to_issuer = Some issuer, to_account = account\<rparr>
      in case tl_new_error T t of Some e \<Rightarrow> Inl e | None \<Rightarrow> Inr t)"

definition generate_totp_secret ::
    "'w totp_lib \<Rightarrow> string \<Rightarrow> string \<Rightarrow> ('w, core_error, totp_secret) io" where
  "generate_totp_secret T issuer account =
     io_bind (io_rand (tl_generate_secret T)) (\<lambda>secret.
     io_bind (io_lift (map_error (\<lambda>e. Crypto_Error (''totp secret: '' @ e)) (tl_to_bytes T secret)))
      (\<lambda>bytes.
     io_bind (io_lift (map_error (\<lambda>e. Crypto_Error (''totp init: '' @ e))
                (totp_new T bytes issuer account)))
      (\<lambda>totp.
     io_bind (io_lift (map_error (\<lambda>e. Crypto_Error (''totp qr: '' @ e)) (tl_get_qr_png T totp)))
      (\<lambda>qr_png.
     io_ret \<lparr>ts_base32 = tl_show_secret T secret, ts_uri = tl_get_url T totp, ts_qr_png = qr_png\<rparr>))))"

definition verify_totp ::
    "'w totp_lib \<Rightarrow> string \<Rightarrow> string \<Rightarrow> string \<Rightarrow> string \<Rightarrow> ('w, 'e, bool) io" where
  "verify_totp T base32_secret c issuer account =
     (case tl_to_bytes T (Encoded base32_secret) of
        Inl _ \<Rightarrow> io_ret False
      | Inr bytes \<Rightarrow>
          (case totp_new T bytes issuer account of
             Inl _ \<Rightarrow> io_ret False
           | Inr totp \<Rightarrow>
               io_try (tl_check_current T totp c) (\<lambda>r.
                 io_ret (case r of Inl _ \<Rightarrow> False | Inr b \<Rightarrow> b))))"

end
