(* ===== verification/World.thy ===== *)
theory World
  imports Settings Crypto
begin

section \<open>The world of the infrastructure crate\<close>

text \<open>
  The state the adapters of \<open>wireforge-infra\<close> act on: the SQLite database (one list of rows
  per table of \<open>migrations/\<close>, columns as the row structs of \<open>persistence/\<close> read them), the live
  settings, the forwarding snapshots of the NAT adapter and an opaque state \<open>'os\<close> of the
  host (clock, randomness, kernel, failures). A time column holds RFC 3339 text, whose order
  as text is the order of times, so the columns hold the times themselves.

  A statement first asks the host whether it fails (\<open>de_fault\<close>), and then checks the
  constraints the schema declares: primary keys, \<open>UNIQUE\<close> columns (where NULLs are distinct)
  and foreign keys, which \<open>open_pool\<close> switches on. \<open>fetch_optional\<close> is the first matching row;
  \<open>ORDER BY\<close> is a stable sort of the rows in insertion order.
\<close>

subsection \<open>Tables\<close>

record user_row =
  uc_id :: string
  uc_username :: string
  uc_email :: "string option"
  uc_password_hash :: string
  uc_role :: string
  uc_totp_enabled :: i64
  uc_totp_secret :: "u8 list option"
  uc_oidc_subject :: "string option"
  uc_created_at :: datetime
  uc_updated_at :: datetime
  uc_last_login_at :: "datetime option"

record token_row =
  tc_id :: string
  tc_user_id :: string
  tc_name :: string
  tc_token_hash :: string
  tc_scopes :: "string option"
  tc_created_at :: datetime
  tc_expires_at :: "datetime option"
  tc_revoked_at :: "datetime option"

record ban_row =
  bc_ip :: string
  bc_banned_until :: datetime
  bc_attempt_count :: i64
  bc_updated_at :: datetime

record iface_row =
  ic_id :: string
  ic_name :: string
  ic_public_key :: string
  ic_private_key_sealed :: "u8 list"
  ic_listen_port :: i64
  ic_endpoint :: "string option"
  ic_gateway :: "string option"
  ic_ipv4_cidr :: "string option"
  ic_ipv6_cidr :: "string option"
  ic_mtu :: "i64 option"
  ic_dns :: "string option"
  ic_on_up :: "string option"
  ic_on_down :: "string option"
  ic_status :: string
  ic_created_at :: datetime
  ic_updated_at :: datetime

record peer_row =
  pc_id :: string
  pc_interface_id :: string
  pc_name :: string
  pc_public_key :: string
  pc_private_key_sealed :: "u8 list option"
  pc_preshared_key_sealed :: "u8 list option"
  pc_allowed_ips :: "string option"
  pc_primary_dns :: "string option"
  pc_secondary_dns :: "string option"
  pc_nat :: i64
  pc_endpoint :: "string option"
  pc_keepalive :: "i64 option"
  pc_quota :: "i64 option"
  pc_used :: i64
  pc_expires_at :: "datetime option"
  pc_schedule :: "string option"
  pc_enabled :: i64
  pc_owner :: "string option"
  pc_created_at :: datetime
  pc_updated_at :: datetime

record audit_row =
  ac_id :: i64
  ac_actor_user_id :: "string option"
  ac_actor_ip :: "string option"
  ac_action :: string
  ac_resource_type :: "string option"
  ac_resource_id :: "string option"
  ac_metadata :: "string option"
  ac_created_at :: datetime

record traffic_row =
  fc_peer_id :: string
  fc_tx_bytes :: i64
  fc_rx_bytes :: i64
  fc_last_handshake_at :: "datetime option"
  fc_recorded_at :: datetime

record webhook_row =
  hc_id :: string
  hc_url :: string
  hc_secret :: "string option"
  hc_events :: string
  hc_enabled :: i64
  hc_created_by :: "string option"
  hc_created_at :: datetime

record setting_row =
  sc_key :: string
  sc_value :: string
  sc_updated_by :: "string option"
  sc_updated_at :: datetime
  sc_created_at :: datetime

record db =
  tb_users :: "user_row list"
  tb_tokens :: "token_row list"
  tb_bans :: "ban_row list"
  tb_ifaces :: "iface_row list"
  tb_peers :: "peer_row list"
  tb_audit :: "audit_row list"
  tb_audit_seq :: nat
  tb_traffic :: "traffic_row list"
  tb_webhooks :: "webhook_row list"
  tb_settings :: "setting_row list"

record fwd_snapshot =
  v4_was_on :: bool
  v6_was_on :: bool

record 'os world =
  w_db :: db
  w_settings :: runtime_settings
  w_fwd :: "(string \<times> fwd_snapshot) list"
  w_os :: 'os

subsection \<open>Statements\<close>

datatype sqlx_error = Row_Not_Found | Sqlx_Other string

definition map_err :: "sqlx_error \<Rightarrow> core_error" where
  "map_err e = (case e of
     Row_Not_Found \<Rightarrow> Not_Found ''row not found''
   | Sqlx_Other m \<Rightarrow> Persistence m)"

text \<open>What the adapters take from the host and from third-party crates: the clock, \<open>Uuid\<close>
  generation, failures of a statement, the text of a constraint error (by table and column),
  the text forms of \<open>net_lib\<close>, the base64 decoder and the JSON text of a list of strings.\<close>

record 'os db_env =
  de_now :: "'os \<Rightarrow> datetime \<times> 'os"
  de_uuid :: "'os \<Rightarrow> uuid \<times> 'os"
  de_fault :: "'os \<Rightarrow> sqlx_error option \<times> 'os"
  de_constraint :: "string \<Rightarrow> string"
  de_sum_overflow :: string
  de_net :: net_lib
  de_b64_decode :: "string \<Rightarrow> string + u8 list"
  de_json_of_strings :: "string list \<Rightarrow> string option"
  de_strings_of_json :: "string \<Rightarrow> string list option"

definition on_os :: "('os \<Rightarrow> 'a \<times> 'os) \<Rightarrow> ('os world, 'e, 'a) io" where
  [io_defs]: "on_os f = (\<lambda>w. case f (w_os w) of (x, s) \<Rightarrow> (Inr x, w\<lparr>w_os := s\<rparr>))"

text \<open>A step of the host that may fail.\<close>

definition on_os_res :: "('os \<Rightarrow> ('e + 'a) \<times> 'os) \<Rightarrow> ('os world, 'e, 'a) io" where
  [io_defs]: "on_os_res f = (\<lambda>w. case f (w_os w) of (r, s) \<Rightarrow> (r, w\<lparr>w_os := s\<rparr>))"

definition db_guard :: "'os db_env \<Rightarrow> ('os world, core_error, unit) io" where
  [io_defs]: "db_guard E = io_bind (on_os (de_fault E)) (\<lambda>f.
     case f of None \<Rightarrow> io_ret () | Some e \<Rightarrow> io_fail (map_err e))"

definition db_read :: "(db \<Rightarrow> 'a) \<Rightarrow> ('os world, 'e, 'a) io" where
  [io_defs]: "db_read g = (\<lambda>w. (Inr (g (w_db w)), w))"

definition db_write :: "(db \<Rightarrow> sqlx_error + 'a \<times> db) \<Rightarrow> ('os world, core_error, 'a) io" where
  [io_defs]: "db_write f = (\<lambda>w. case f (w_db w) of
     Inl e \<Rightarrow> (Inl (map_err e), w)
   | Inr (x, d) \<Rightarrow> (Inr x, w\<lparr>w_db := d\<rparr>))"

definition db_query :: "'os db_env \<Rightarrow> (db \<Rightarrow> 'a) \<Rightarrow> ('os world, core_error, 'a) io" where
  "db_query E g = io_bind (db_guard E) (\<lambda>_. db_read g)"

definition db_exec ::
    "'os db_env \<Rightarrow> (db \<Rightarrow> sqlx_error + 'a \<times> db) \<Rightarrow> ('os world, core_error, 'a) io" where
  "db_exec E f = io_bind (db_guard E) (\<lambda>_. db_write f)"

text \<open>An \<open>UPDATE\<close> of the rows that satisfy \<open>p\<close>.\<close>

definition update_rows :: "('r \<Rightarrow> bool) \<Rightarrow> ('r \<Rightarrow> 'r) \<Rightarrow> 'r list \<Rightarrow> 'r list" where
  "update_rows p f rows = map (\<lambda>r. if p r then f r else r) rows"

definition constraint_failed :: "'os db_env \<Rightarrow> string \<Rightarrow> sqlx_error + 'a" where
  "constraint_failed E col = Inl (Sqlx_Other (de_constraint E col))"

text \<open>\<open>serde_json::to_string(..).unwrap_or("[]")\<close> and \<open>from_str(..).unwrap_or_default()\<close>.\<close>

definition strings_to_json :: "'os db_env \<Rightarrow> string list \<Rightarrow> string" where
  "strings_to_json E xs = unwrap_or ''[]'' (de_json_of_strings E xs)"

definition strings_from_json :: "'os db_env \<Rightarrow> string option \<Rightarrow> string list" where
  "strings_from_json E s = unwrap_or [] (Option.bind s (de_strings_of_json E))"

definition json_strings_law :: "'os db_env \<Rightarrow> bool" where
  "json_strings_law E \<longleftrightarrow>
     (\<forall>xs. \<exists>s. de_json_of_strings E xs = Some s \<and> de_strings_of_json E s = Some xs)"

lemma strings_json_roundtrip [simp]:
  "json_strings_law E \<Longrightarrow> strings_from_json E (Some (strings_to_json E xs)) = xs"
  unfolding json_strings_law_def strings_from_json_def strings_to_json_def
  by (metis Option.bind.simps(2) unwrap_or.simps(2))

text \<open>The cryptographic crates step the host only.\<close>

definition os_step :: "('os \<Rightarrow> 'a \<times> 'os) \<Rightarrow> 'os world \<Rightarrow> 'a \<times> 'os world" where
  "os_step f w = (case f (w_os w) of (x, s) \<Rightarrow> (x, w\<lparr>w_os := s\<rparr>))"

definition os_crypto :: "'os crypto_lib \<Rightarrow> 'os world crypto_lib" where
  "os_crypto C = \<lparr>
     cl_b64_decode = cl_b64_decode C, cl_b64_encode = cl_b64_encode C,
     cl_b64url_encode = cl_b64url_encode C, cl_hex_encode = cl_hex_encode C,
     cl_sha256 = cl_sha256 C, cl_fill_bytes = (\<lambda>n. os_step (cl_fill_bytes C n)),
     cl_salt = os_step (cl_salt C), cl_argon2_hash = cl_argon2_hash C,
     cl_argon2_parse = cl_argon2_parse C, cl_argon2_verify = cl_argon2_verify C,
     cl_age_wrap = (\<lambda>p. os_step (cl_age_wrap C p)),
     cl_age_write = (\<lambda>p s bs. os_step (cl_age_write C p s bs)),
     cl_age_finish = (\<lambda>p s. os_step (cl_age_finish C p s)),
     cl_age_decryptor = cl_age_decryptor C, cl_age_decrypt = cl_age_decrypt C,
     cl_age_read = cl_age_read C\<rparr>"

subsection \<open>What statements keep\<close>

text \<open>An observation that does not look at the host.\<close>

definition os_blind :: "('os world \<Rightarrow> 'b) \<Rightarrow> bool" where
  "os_blind f \<longleftrightarrow> (\<forall>w s. f (w\<lparr>w_os := s\<rparr>) = f w)"

lemma os_blind_fields [keeps_intros]:
  "os_blind w_db" "os_blind w_settings" "os_blind w_fwd" "os_blind (\<lambda>w. f (w_db w))"
  by (simp_all add: os_blind_def)

lemma os_step_keeps [keeps_intros]: "os_blind f \<Longrightarrow> keeps f (os_step g)"
  by (simp add: keeps_def os_blind_def os_step_def split: prod.splits)

lemma on_os_keeps [keeps_intros]: "os_blind f \<Longrightarrow> keeps f (on_os g)"
  by (simp add: keeps_def os_blind_def on_os_def split: prod.splits)

lemma on_os_res_keeps [keeps_intros]: "os_blind f \<Longrightarrow> keeps f (on_os_res g)"
  by (simp add: keeps_def os_blind_def on_os_res_def split: prod.splits)

lemma io_rand_os_step [simp]: "io_rand (os_step f) = on_os f"
  by (rule ext) (simp add: io_rand_def os_step_def on_os_def split: prod.splits)

lemma seal_keeps [keeps_intros]: "os_blind f \<Longrightarrow> keeps f (seal (os_crypto C) bs k)"
  unfolding seal_def os_crypto_def crypto_lib.simps by (intro keeps_intros)

lemma db_guard_keeps [keeps_intros]: "os_blind f \<Longrightarrow> keeps f (db_guard E)"
  unfolding db_guard_def by (intro keeps_intros)

lemma db_read_keeps [keeps_intros]: "keeps f (db_read g)"
  by (simp add: keeps_def db_read_def)

lemma db_write_keeps [keeps_intros]:
  "keeps w_settings (db_write f)" "keeps w_fwd (db_write f)"
  by (simp_all add: keeps_def db_write_def split: sum.splits prod.splits)

lemma db_query_keeps [keeps_intros]: "os_blind f \<Longrightarrow> keeps f (db_query E g)"
  unfolding db_query_def by (intro keeps_intros)

lemma db_exec_keeps [keeps_intros]:
  "keeps w_settings (db_exec E f)" "keeps w_fwd (db_exec E f)"
  unfolding db_exec_def by (intro keeps_intros)+

lemma db_query_ok:
  "db_query E g w = (Inr x, w') \<Longrightarrow> x = g (w_db w) \<and> w_db w' = w_db w"
  unfolding db_query_def db_guard_def
  by (auto simp: io_bind_ok_iff on_os_def db_read_def split: prod.splits option.splits)

lemma db_exec_ok:
  "db_exec E f w = (Inr x, w') \<Longrightarrow> f (w_db w) = Inr (x, w_db w')"
  unfolding db_exec_def db_guard_def
  by (auto simp: io_bind_ok_iff on_os_def db_write_def
           split: prod.splits option.splits sum.splits)

lemma db_exec_err:
  "db_exec E f w = (Inl e, w') \<Longrightarrow> w_db w' = w_db w"
  unfolding db_exec_def db_guard_def
  by (auto simp: io_bind_err_iff on_os_def db_write_def
           split: prod.splits option.splits sum.splits)

end
