(* ===== verification/Sqlite_Users.thy ===== *)
theory Sqlite_Users
  imports World
begin

section \<open>The repositories of users, API tokens and bans\<close>

text \<open>
  \<open>persistence/users.rs\<close>, \<open>persistence/api_tokens.rs\<close> and \<open>persistence/bans.rs\<close> over the
  tables of the world. Deleting a user cascades to its tokens, clears it as owner of peers, as
  actor of audit events and as creator of webhooks, and fails while a setting names it in
  \<open>updated_by\<close>, as the schema's foreign keys say.
\<close>

subsection \<open>Users\<close>

definition user_into_domain :: "'os db_env \<Rightarrow> user_row \<Rightarrow> core_error + user" where
  "user_into_domain E r =
     res_bind (map_error (\<lambda>e. Persistence (''user uuid: '' @ e)) (parse_id (de_net E) (uc_id r))) (\<lambda>i.
     res_bind (map_error (\<lambda>e. Persistence (''role: '' @ e)) (role_from_str (uc_role r))) (\<lambda>ro.
     Inr \<lparr>u_id = i, u_username = uc_username r, u_email = uc_email r,
          u_password_hash = uc_password_hash r, u_role = ro,
          u_totp_enabled = (uc_totp_enabled r \<noteq> 0), u_totp_secret = uc_totp_secret r,
          u_oidc_subject = uc_oidc_subject r, u_created_at = uc_created_at r,
          u_updated_at = uc_updated_at r, u_last_login_at = uc_last_login_at r\<rparr>))"

definition insert_user :: "'os db_env \<Rightarrow> user_row \<Rightarrow> db \<Rightarrow> sqlx_error + unit \<times> db" where
  "insert_user E r d =
     (if uc_id r \<in> set (map uc_id (tb_users d)) then constraint_failed E ''users.id''
      else if uc_username r \<in> set (map uc_username (tb_users d))
        then constraint_failed E ''users.username''
      else if uc_email r \<noteq> None \<and> uc_email r \<in> set (map uc_email (tb_users d))
        then constraint_failed E ''users.email''
      else if uc_oidc_subject r \<noteq> None \<and> uc_oidc_subject r \<in> set (map uc_oidc_subject (tb_users d))
        then constraint_failed E ''users.oidc_subject''
      else Inr ((), d\<lparr>tb_users := tb_users d @ [r]\<rparr>))"

definition users_count :: "'os db_env \<Rightarrow> ('os world, core_error, u64) io" where
  "users_count E = db_query E (\<lambda>d. word_of_nat (length (tb_users d)))"

definition users_create :: "'os db_env \<Rightarrow> new_user \<Rightarrow> ('os world, core_error, user) io" where
  "users_create E new =
     io_bind (on_os (de_uuid E)) (\<lambda>u.
     io_bind (on_os (de_now E)) (\<lambda>now.
     io_bind (db_exec E (insert_user E
        \<lparr>uc_id = nl_show_uuid (de_net E) u, uc_username = nu_username new, uc_email = nu_email new,
         uc_password_hash = nu_password_hash new, uc_role = role_as_str (nu_role new),
         uc_totp_enabled = 0, uc_totp_secret = None, uc_oidc_subject = None,
         uc_created_at = now, uc_updated_at = now, uc_last_login_at = None\<rparr>)) (\<lambda>_.
     io_ret
        \<lparr>u_id = Ident u, u_username = nu_username new, u_email = nu_email new,
         u_password_hash = nu_password_hash new, u_role = nu_role new,
         u_totp_enabled = False, u_totp_secret = None, u_oidc_subject = None,
         u_created_at = now, u_updated_at = now, u_last_login_at = None\<rparr>)))"

text \<open>\<open>row.map(into_domain).transpose()\<close> after \<open>fetch_optional\<close>, and \<open>map(into_domain).collect()\<close>
  after \<open>fetch_all\<close>.\<close>

definition fetch_optional ::
    "'os db_env \<Rightarrow> (db \<Rightarrow> 'r list) \<Rightarrow> ('r \<Rightarrow> bool) \<Rightarrow> ('r \<Rightarrow> core_error + 'a) \<Rightarrow>
     ('os world, core_error, 'a option) io" where
  "fetch_optional E tb p into =
     io_bind (db_query E (\<lambda>d. find p (tb d))) (\<lambda>row. io_lift (opt_traverse into row))"

definition fetch_all ::
    "'os db_env \<Rightarrow> (db \<Rightarrow> 'r list) \<Rightarrow> ('r \<Rightarrow> core_error + 'a) \<Rightarrow>
     ('os world, core_error, 'a list) io" where
  "fetch_all E sel into = io_bind (db_query E sel) (\<lambda>rows. io_lift (traverse into rows))"

definition users_find_by_id :: "'os db_env \<Rightarrow> user_id \<Rightarrow> ('os world, core_error, user option) io" where
  "users_find_by_id E i =
     fetch_optional E tb_users (\<lambda>r. uc_id r = show_id (de_net E) i) (user_into_domain E)"

definition users_find_by_username ::
    "'os db_env \<Rightarrow> string \<Rightarrow> ('os world, core_error, user option) io" where
  "users_find_by_username E username =
     fetch_optional E tb_users (\<lambda>r. uc_username r = username) (user_into_domain E)"

definition users_list :: "'os db_env \<Rightarrow> ('os world, core_error, user list) io" where
  "users_list E = fetch_all E (\<lambda>d. sort_key uc_created_at (tb_users d)) (user_into_domain E)"

definition update_user ::
    "'os db_env \<Rightarrow> user_id \<Rightarrow> (user_row \<Rightarrow> user_row) \<Rightarrow> ('os world, core_error, unit) io" where
  "update_user E i f = db_exec E (\<lambda>d. Inr ((), d\<lparr>tb_users :=
     update_rows (\<lambda>r. uc_id r = show_id (de_net E) i) f (tb_users d)\<rparr>))"

definition users_update_password ::
    "'os db_env \<Rightarrow> user_id \<Rightarrow> string \<Rightarrow> ('os world, core_error, unit) io" where
  "users_update_password E i hash = io_bind (on_os (de_now E)) (\<lambda>now.
     update_user E i (\<lambda>r. r\<lparr>uc_password_hash := hash, uc_updated_at := now\<rparr>))"

definition users_update_role ::
    "'os db_env \<Rightarrow> user_id \<Rightarrow> role \<Rightarrow> ('os world, core_error, unit) io" where
  "users_update_role E i ro = io_bind (on_os (de_now E)) (\<lambda>now.
     update_user E i (\<lambda>r. r\<lparr>uc_role := role_as_str ro, uc_updated_at := now\<rparr>))"

definition users_update_totp ::
    "'os db_env \<Rightarrow> user_id \<Rightarrow> bool \<Rightarrow> u8 list option \<Rightarrow> ('os world, core_error, unit) io" where
  "users_update_totp E i on secret = io_bind (on_os (de_now E)) (\<lambda>now.
     update_user E i (\<lambda>r. r\<lparr>uc_totp_enabled := of_bool on, uc_totp_secret := secret,
                           uc_updated_at := now\<rparr>))"

definition users_touch_last_login ::
    "'os db_env \<Rightarrow> user_id \<Rightarrow> ('os world, core_error, unit) io" where
  "users_touch_last_login E i = io_bind (on_os (de_now E)) (\<lambda>now.
     update_user E i (\<lambda>r. r\<lparr>uc_last_login_at := Some now\<rparr>))"

definition delete_user_rows :: "'os db_env \<Rightarrow> string \<Rightarrow> db \<Rightarrow> sqlx_error + unit \<times> db" where
  "delete_user_rows E key d =
     (if key \<notin> set (map uc_id (tb_users d)) then Inr ((), d)
      else if Some key \<in> set (map sc_updated_by (tb_settings d))
        then constraint_failed E ''settings.updated_by''
      else Inr ((), d\<lparr>
        tb_users := filter (\<lambda>r. uc_id r \<noteq> key) (tb_users d),
        tb_tokens := filter (\<lambda>r. tc_user_id r \<noteq> key) (tb_tokens d),
        tb_peers := update_rows (\<lambda>r. pc_owner r = Some key) (\<lambda>r. r\<lparr>pc_owner := None\<rparr>) (tb_peers d),
        tb_audit := update_rows (\<lambda>r. ac_actor_user_id r = Some key)
                      (\<lambda>r. r\<lparr>ac_actor_user_id := None\<rparr>) (tb_audit d),
        tb_webhooks := update_rows (\<lambda>r. hc_created_by r = Some key)
                         (\<lambda>r. r\<lparr>hc_created_by := None\<rparr>) (tb_webhooks d)\<rparr>))"

definition users_delete :: "'os db_env \<Rightarrow> user_id \<Rightarrow> ('os world, core_error, unit) io" where
  "users_delete E i = db_exec E (delete_user_rows E (show_id (de_net E) i))"

definition sqlite_users :: "'os db_env \<Rightarrow> 'os world user_repo" where
  "sqlite_users E = \<lparr>
     ur_count = users_count E, ur_create = users_create E,
     ur_find_by_id = users_find_by_id E, ur_find_by_username = users_find_by_username E,
     ur_list = users_list E, ur_update_password = users_update_password E,
     ur_update_role = users_update_role E, ur_update_totp = users_update_totp E,
     ur_touch_last_login = users_touch_last_login E, ur_delete = users_delete E\<rparr>"

subsection \<open>API tokens\<close>

definition token_into_domain :: "'os db_env \<Rightarrow> token_row \<Rightarrow> core_error + api_token" where
  "token_into_domain E r =
     (let scopes = strings_from_json E (tc_scopes r) in
     res_bind (map_error (\<lambda>e. Persistence (''api token uuid: '' @ e)) (parse_id (de_net E) (tc_id r))) (\<lambda>i.
     res_bind (map_error (\<lambda>e. Persistence (''api token user uuid: '' @ e))
                 (parse_id (de_net E) (tc_user_id r))) (\<lambda>u.
     Inr \<lparr>t_id = i, t_user_id = u, t_name = tc_name r, t_token_hash = tc_token_hash r,
          t_scopes = scopes, t_created_at = tc_created_at r, t_expires_at = tc_expires_at r,
          t_revoked_at = tc_revoked_at r\<rparr>)))"

definition insert_token :: "'os db_env \<Rightarrow> token_row \<Rightarrow> db \<Rightarrow> sqlx_error + unit \<times> db" where
  "insert_token E r d =
     (if tc_id r \<in> set (map tc_id (tb_tokens d)) then constraint_failed E ''api_tokens.id''
      else if tc_token_hash r \<in> set (map tc_token_hash (tb_tokens d))
        then constraint_failed E ''api_tokens.token_hash''
      else if tc_user_id r \<notin> set (map uc_id (tb_users d))
        then constraint_failed E ''api_tokens.user_id''
      else Inr ((), d\<lparr>tb_tokens := tb_tokens d @ [r]\<rparr>))"

definition tokens_create ::
    "'os db_env \<Rightarrow> new_api_token \<Rightarrow> ('os world, core_error, api_token) io" where
  "tokens_create E new =
     io_bind (on_os (de_uuid E)) (\<lambda>u.
     io_bind (on_os (de_now E)) (\<lambda>now.
     io_bind (db_exec E (insert_token E
        \<lparr>tc_id = nl_show_uuid (de_net E) u, tc_user_id = show_id (de_net E) (nt_user_id new),
         tc_name = nt_name new, tc_token_hash = nt_token_hash new,
         tc_scopes = Some (strings_to_json E (nt_scopes new)), tc_created_at = now,
         tc_expires_at = nt_expires_at new, tc_revoked_at = None\<rparr>)) (\<lambda>_.
     io_ret
        \<lparr>t_id = Ident u, t_user_id = nt_user_id new, t_name = nt_name new,
         t_token_hash = nt_token_hash new, t_scopes = nt_scopes new, t_created_at = now,
         t_expires_at = nt_expires_at new, t_revoked_at = None\<rparr>)))"

definition tokens_find_active_by_hash ::
    "'os db_env \<Rightarrow> string \<Rightarrow> ('os world, core_error, api_token option) io" where
  "tokens_find_active_by_hash E h =
     fetch_optional E tb_tokens (\<lambda>r. tc_token_hash r = h \<and> tc_revoked_at r = None) (token_into_domain E)"

definition tokens_list_for_user ::
    "'os db_env \<Rightarrow> user_id \<Rightarrow> ('os world, core_error, api_token list) io" where
  "tokens_list_for_user E i =
     fetch_all E (\<lambda>d. sort_key (\<lambda>r. - tc_created_at r)
       (filter (\<lambda>r. tc_user_id r = show_id (de_net E) i) (tb_tokens d))) (token_into_domain E)"

definition revoke_matches :: "'os db_env \<Rightarrow> token_id \<Rightarrow> user_id \<Rightarrow> token_row \<Rightarrow> bool" where
  "revoke_matches E i owner r \<longleftrightarrow>
     tc_id r = show_id (de_net E) i \<and> tc_user_id r = show_id (de_net E) owner \<and> tc_revoked_at r = None"

definition tokens_revoke ::
    "'os db_env \<Rightarrow> token_id \<Rightarrow> user_id \<Rightarrow> ('os world, core_error, unit) io" where
  "tokens_revoke E i owner =
     io_bind (on_os (de_now E)) (\<lambda>now.
     io_bind (db_exec E (\<lambda>d. Inr (length (filter (revoke_matches E i owner) (tb_tokens d)),
        d\<lparr>tb_tokens := update_rows (revoke_matches E i owner) (\<lambda>r. r\<lparr>tc_revoked_at := Some now\<rparr>)
            (tb_tokens d)\<rparr>))) (\<lambda>affected.
     if affected = 0 then io_fail (Not_Found (''api token '' @ show_id (de_net E) i)) else io_ret ()))"

definition sqlite_tokens :: "'os db_env \<Rightarrow> 'os world token_repo" where
  "sqlite_tokens E = \<lparr>
     tr_create = tokens_create E, tr_find_active_by_hash = tokens_find_active_by_hash E,
     tr_list_for_user = tokens_list_for_user E, tr_revoke = tokens_revoke E\<rparr>"

subsection \<open>Bans\<close>

definition ban_into_domain :: "ban_row \<Rightarrow> ip_ban" where
  "ban_into_domain r = \<lparr>b_ip = bc_ip r, b_banned_until = bc_banned_until r,
     b_attempt_count = bc_attempt_count r, b_updated_at = bc_updated_at r\<rparr>"

definition bans_find :: "'os db_env \<Rightarrow> string \<Rightarrow> ('os world, core_error, ip_ban option) io" where
  "bans_find E ip =
     io_bind (db_query E (\<lambda>d. find (\<lambda>r. bc_ip r = ip) (tb_bans d))) (\<lambda>row.
       io_ret (map_option ban_into_domain row))"

text \<open>\<open>chrono::Duration::from_std(lockout).unwrap_or(seconds(60))\<close> in nanoseconds; chrono's
  durations have at most \<open>2 ^ 63 - 1\<close> milliseconds.\<close>

definition lockout_ns :: "u64 \<Rightarrow> int" where
  "lockout_ns secs =
     (if uint secs * 1000 \<le> 2 ^ 63 - 1 then uint secs * 1000000000 else 60 * 1000000000)"

definition ban_next :: "ban_row option \<Rightarrow> datetime \<Rightarrow> u32 \<Rightarrow> u64 \<Rightarrow> i64 \<times> datetime" where
  "ban_next existing now max_attempts lockout = (case existing of
     Some b \<Rightarrow>
       if bc_banned_until b > now then (bc_attempt_count b + 1, bc_banned_until b)
       else
         let new_count = bc_attempt_count b + 1
         in if (ucast new_count :: u32) \<ge> max_attempts then (0, now + lockout_ns lockout)
            else (new_count, bc_banned_until b)
   | None \<Rightarrow> (1, now))"

definition upsert_ban :: "ban_row \<Rightarrow> ban_row list \<Rightarrow> ban_row list" where
  "upsert_ban r rows =
     (if bc_ip r \<in> set (map bc_ip rows)
      then update_rows (\<lambda>q. bc_ip q = bc_ip r)
             (\<lambda>q. q\<lparr>bc_banned_until := bc_banned_until r,
                    bc_attempt_count := bc_attempt_count r, bc_updated_at := bc_updated_at r\<rparr>) rows
      else rows @ [r])"

text \<open>A transaction: begin, select, upsert and commit may each fail, and then the table is as
  before. SQLite refuses the write of a transaction whose snapshot another writer has
  overtaken (one more failure of the statement), so the write is onto the table that was read.\<close>

definition bans_record_failure ::
    "'os db_env \<Rightarrow> string \<Rightarrow> u32 \<Rightarrow> u64 \<Rightarrow> ('os world, core_error, ip_ban) io" where
  "bans_record_failure E ip max_attempts lockout =
     io_bind (on_os (de_now E)) (\<lambda>now.
     io_bind (db_guard E) (\<lambda>_.
     io_bind (db_query E (\<lambda>d. find (\<lambda>r. bc_ip r = ip) (tb_bans d))) (\<lambda>existing.
     case ban_next existing now max_attempts lockout of (attempt_count, banned_until) \<Rightarrow>
     io_bind (db_guard E) (\<lambda>_.
     io_bind (db_exec E (\<lambda>d. Inr ((), d\<lparr>tb_bans :=
        upsert_ban \<lparr>bc_ip = ip, bc_banned_until = banned_until, bc_attempt_count = attempt_count,
                    bc_updated_at = now\<rparr> (tb_bans d)\<rparr>))) (\<lambda>_.
     io_ret \<lparr>b_ip = ip, b_banned_until = banned_until, b_attempt_count = attempt_count,
             b_updated_at = now\<rparr>)))))"

definition bans_clear :: "'os db_env \<Rightarrow> string \<Rightarrow> ('os world, core_error, unit) io" where
  "bans_clear E ip =
     db_exec E (\<lambda>d. Inr ((), d\<lparr>tb_bans := filter (\<lambda>r. bc_ip r \<noteq> ip) (tb_bans d)\<rparr>))"

definition sqlite_bans :: "'os db_env \<Rightarrow> 'os world ban_repo" where
  "sqlite_bans E = \<lparr>br_find = bans_find E, br_record_failure = bans_record_failure E,
     br_clear = bans_clear E\<rparr>"

end
