(* ===== verification/Sqlite_Network.thy ===== *)
theory Sqlite_Network
  imports Sqlite_Users
begin

section \<open>The repositories of interfaces and peers\<close>

text \<open>
  \<open>persistence/interfaces.rs\<close> and \<open>persistence/peers.rs\<close> over the tables of the world.
  Deleting an interface cascades to its peers, deleting a peer to its traffic snapshots.
  Integer columns are signed 64-bit: the casts are the ones of the sources.
\<close>

subsection \<open>Interfaces\<close>

definition status_from_column :: "string \<Rightarrow> interface_status" where
  "status_from_column s =
     (if s = ''up'' then Status_Up else if s = ''error'' then Status_Error else Status_Down)"

definition parse_cidr :: "'os db_env \<Rightarrow> string option \<Rightarrow> core_error + ip_net option" where
  "parse_cidr E s = (case s of
     None \<Rightarrow> Inr None
   | Some t \<Rightarrow> (case nl_parse_net (de_net E) t of
       Inl e \<Rightarrow> Inl (Persistence (''cidr: '' @ e))
     | Inr n \<Rightarrow> Inr (Some n)))"

definition iface_into_domain :: "'os db_env \<Rightarrow> iface_row \<Rightarrow> core_error + iface" where
  "iface_into_domain E r =
     (let dns = strings_from_json E (ic_dns r) in
     res_bind (map_error (\<lambda>e. Persistence (''iface uuid: '' @ e)) (parse_id (de_net E) (ic_id r))) (\<lambda>i.
     res_bind (key_from_base64 (de_b64_decode E) Wg_Public_Key (ic_public_key r)) (\<lambda>pub.
     res_bind (parse_cidr E (ic_ipv4_cidr r)) (\<lambda>v4.
     res_bind (parse_cidr E (ic_ipv6_cidr r)) (\<lambda>v6.
     Inr \<lparr>i_id = i, i_name = ic_name r, i_public_key = pub,
          i_private_key_sealed = ic_private_key_sealed r,
          i_listen_port = ucast (ic_listen_port r), i_endpoint = ic_endpoint r,
          i_gateway = ic_gateway r, i_ipv4_cidr = v4, i_ipv6_cidr = v6,
          i_mtu = map_option ucast (ic_mtu r), i_dns = dns, i_on_up = ic_on_up r,
          i_on_down = ic_on_down r, i_status = status_from_column (ic_status r),
          i_created_at = ic_created_at r, i_updated_at = ic_updated_at r\<rparr>)))))"

definition insert_iface :: "'os db_env \<Rightarrow> iface_row \<Rightarrow> db \<Rightarrow> sqlx_error + unit \<times> db" where
  "insert_iface E r d =
     (if ic_id r \<in> set (map ic_id (tb_ifaces d)) then constraint_failed E ''interfaces.id''
      else if ic_name r \<in> set (map ic_name (tb_ifaces d)) then constraint_failed E ''interfaces.name''
      else Inr ((), d\<lparr>tb_ifaces := tb_ifaces d @ [r]\<rparr>))"

text \<open>The row that is inserted and the entity that is returned for it.\<close>

definition new_iface_row ::
    "'os db_env \<Rightarrow> uuid \<Rightarrow> datetime \<Rightarrow> new_iface \<Rightarrow> u8 list \<Rightarrow> iface_row" where
  "new_iface_row E u now new private_key_sealed =
     (let show_net = nl_show_net (de_net E) in
      \<lparr>ic_id = nl_show_uuid (de_net E) u, ic_name = ni_name new,
       ic_public_key = public_str (ni_public_key new),
       ic_private_key_sealed = private_key_sealed, ic_listen_port = ucast (ni_listen_port new),
       ic_endpoint = ni_endpoint new, ic_gateway = ni_gateway new,
       ic_ipv4_cidr = map_option show_net (ni_ipv4_cidr new),
       ic_ipv6_cidr = map_option show_net (ni_ipv6_cidr new),
       ic_mtu = map_option ucast (ni_mtu new), ic_dns = Some (strings_to_json E (ni_dns new)),
       ic_on_up = ni_on_up new, ic_on_down = ni_on_down new, ic_status = ''down'',
       ic_created_at = now, ic_updated_at = now\<rparr>)"

definition new_iface_entity :: "uuid \<Rightarrow> datetime \<Rightarrow> new_iface \<Rightarrow> u8 list \<Rightarrow> iface" where
  "new_iface_entity u now new private_key_sealed =
     \<lparr>i_id = Ident u, i_name = ni_name new, i_public_key = ni_public_key new,
      i_private_key_sealed = private_key_sealed, i_listen_port = ni_listen_port new,
      i_endpoint = ni_endpoint new, i_gateway = ni_gateway new,
      i_ipv4_cidr = ni_ipv4_cidr new, i_ipv6_cidr = ni_ipv6_cidr new, i_mtu = ni_mtu new,
      i_dns = ni_dns new, i_on_up = ni_on_up new, i_on_down = ni_on_down new,
      i_status = Status_Down, i_created_at = now, i_updated_at = now\<rparr>"

definition ifaces_create ::
    "'os db_env \<Rightarrow> new_iface \<Rightarrow> u8 list \<Rightarrow> ('os world, core_error, iface) io" where
  "ifaces_create E new private_key_sealed =
     io_bind (on_os (de_uuid E)) (\<lambda>u.
     io_bind (on_os (de_now E)) (\<lambda>now.
     io_bind (db_exec E (insert_iface E (new_iface_row E u now new private_key_sealed))) (\<lambda>_.
     io_ret (new_iface_entity u now new private_key_sealed))))"

definition ifaces_find_by_id ::
    "'os db_env \<Rightarrow> interface_id \<Rightarrow> ('os world, core_error, iface option) io" where
  "ifaces_find_by_id E i =
     fetch_optional E tb_ifaces (\<lambda>r. ic_id r = show_id (de_net E) i) (iface_into_domain E)"

definition ifaces_find_by_name ::
    "'os db_env \<Rightarrow> string \<Rightarrow> ('os world, core_error, iface option) io" where
  "ifaces_find_by_name E name =
     fetch_optional E tb_ifaces (\<lambda>r. ic_name r = name) (iface_into_domain E)"

definition ifaces_list :: "'os db_env \<Rightarrow> ('os world, core_error, iface list) io" where
  "ifaces_list E = fetch_all E (\<lambda>d. sort_key ic_name (tb_ifaces d)) (iface_into_domain E)"

definition iface_set_columns :: "'os db_env \<Rightarrow> datetime \<Rightarrow> iface \<Rightarrow> iface_row \<Rightarrow> iface_row" where
  "iface_set_columns E now i r =
     (let show_net = nl_show_net (de_net E) in
      r\<lparr>ic_listen_port := ucast (i_listen_port i), ic_endpoint := i_endpoint i,
        ic_gateway := i_gateway i, ic_ipv4_cidr := map_option show_net (i_ipv4_cidr i),
        ic_ipv6_cidr := map_option show_net (i_ipv6_cidr i),
        ic_mtu := map_option ucast (i_mtu i), ic_dns := Some (strings_to_json E (i_dns i)),
        ic_on_up := i_on_up i, ic_on_down := i_on_down i,
        ic_public_key := public_str (i_public_key i),
        ic_private_key_sealed := i_private_key_sealed i,
        ic_status := status_as_str (i_status i), ic_updated_at := now\<rparr>)"

definition ifaces_update :: "'os db_env \<Rightarrow> iface \<Rightarrow> ('os world, core_error, unit) io" where
  "ifaces_update E i =
     io_bind (on_os (de_now E)) (\<lambda>now.
     db_exec E (\<lambda>d. Inr ((), d\<lparr>tb_ifaces :=
       update_rows (\<lambda>r. ic_id r = show_id (de_net E) (i_id i)) (iface_set_columns E now i)
         (tb_ifaces d)\<rparr>)))"

definition drop_peers :: "(peer_row \<Rightarrow> bool) \<Rightarrow> db \<Rightarrow> db" where
  "drop_peers p d = d\<lparr>
     tb_peers := filter (\<lambda>r. \<not> p r) (tb_peers d),
     tb_traffic := filter (\<lambda>t. fc_peer_id t \<notin> set (map pc_id (filter p (tb_peers d)))) (tb_traffic d)\<rparr>"

definition ifaces_delete :: "'os db_env \<Rightarrow> interface_id \<Rightarrow> ('os world, core_error, unit) io" where
  "ifaces_delete E i =
     (let key = show_id (de_net E) i in
      db_exec E (\<lambda>d.
        if key \<notin> set (map ic_id (tb_ifaces d)) then Inr ((), d)
        else Inr ((), (drop_peers (\<lambda>r. pc_interface_id r = key) d)
               \<lparr>tb_ifaces := filter (\<lambda>r. ic_id r \<noteq> key) (tb_ifaces d)\<rparr>)))"

definition sqlite_ifaces :: "'os db_env \<Rightarrow> 'os world iface_repo" where
  "sqlite_ifaces E = \<lparr>
     ir_create = ifaces_create E, ir_find_by_id = ifaces_find_by_id E,
     ir_find_by_name = ifaces_find_by_name E, ir_list = ifaces_list E,
     ir_update = ifaces_update E, ir_delete = ifaces_delete E\<rparr>"

subsection \<open>Peers\<close>

definition peer_into_domain :: "'os db_env \<Rightarrow> peer_row \<Rightarrow> core_error + peer" where
  "peer_into_domain E r =
     (let allowed = strings_from_json E (pc_allowed_ips r) in
     res_bind (map_error (\<lambda>e. Persistence (''allowed_ip: '' @ e))
                 (traverse (nl_parse_net (de_net E)) allowed)) (\<lambda>allowed_ips.
     res_bind (map_error (\<lambda>e. Persistence (''owner uuid: '' @ e))
                 (opt_traverse (parse_id (de_net E)) (pc_owner r))) (\<lambda>owner.
     res_bind (map_error (\<lambda>e. Persistence (''peer uuid: '' @ e)) (parse_id (de_net E) (pc_id r))) (\<lambda>i.
     res_bind (map_error (\<lambda>e. Persistence (''iface uuid: '' @ e))
                 (parse_id (de_net E) (pc_interface_id r))) (\<lambda>iface_id.
     res_bind (key_from_base64 (de_b64_decode E) Wg_Public_Key (pc_public_key r)) (\<lambda>pub.
     Inr \<lparr>p_id = i, p_interface_id = iface_id, p_name = pc_name r, p_public_key = pub,
          p_private_key_sealed = pc_private_key_sealed r,
          p_preshared_key_sealed = pc_preshared_key_sealed r, p_allowed_ips = allowed_ips,
          p_primary_dns = pc_primary_dns r, p_secondary_dns = pc_secondary_dns r,
          p_nat = (pc_nat r \<noteq> 0), p_endpoint = pc_endpoint r,
          p_keepalive = map_option ucast (pc_keepalive r), p_quota = pc_quota r,
          p_used = pc_used r, p_expires_at = pc_expires_at r, p_schedule = pc_schedule r,
          p_enabled = (pc_enabled r \<noteq> 0), p_owner = owner, p_created_at = pc_created_at r,
          p_updated_at = pc_updated_at r\<rparr>))))))"

definition nets_to_json :: "'os db_env \<Rightarrow> ip_net list \<Rightarrow> string" where
  "nets_to_json E ns = strings_to_json E (map (nl_show_net (de_net E)) ns)"

definition insert_peer :: "'os db_env \<Rightarrow> peer_row \<Rightarrow> db \<Rightarrow> sqlx_error + unit \<times> db" where
  "insert_peer E r d =
     (if pc_id r \<in> set (map pc_id (tb_peers d)) then constraint_failed E ''peers.id''
      else if pc_interface_id r \<notin> set (map ic_id (tb_ifaces d))
        then constraint_failed E ''peers.interface_id''
      else if pc_owner r \<noteq> None \<and> pc_owner r \<notin> set (map (Some \<circ> uc_id) (tb_users d))
        then constraint_failed E ''peers.owner_user_id''
      else Inr ((), d\<lparr>tb_peers := tb_peers d @ [r]\<rparr>))"

definition new_peer_row ::
    "'os db_env \<Rightarrow> uuid \<Rightarrow> datetime \<Rightarrow> new_peer \<Rightarrow> u8 list option \<Rightarrow> peer_row" where
  "new_peer_row E u now new preshared_sealed =
     \<lparr>pc_id = nl_show_uuid (de_net E) u,
      pc_interface_id = show_id (de_net E) (np_interface_id new), pc_name = np_name new,
      pc_public_key = public_str (np_public_key new),
      pc_private_key_sealed = np_private_key_sealed new,
      pc_preshared_key_sealed = preshared_sealed,
      pc_allowed_ips = Some (nets_to_json E (np_allowed_ips new)),
      pc_primary_dns = np_primary_dns new, pc_secondary_dns = np_secondary_dns new,
      pc_nat = of_bool (np_nat new), pc_endpoint = np_endpoint new,
      pc_keepalive = map_option ucast (np_keepalive new), pc_quota = np_quota new,
      pc_used = 0, pc_expires_at = np_expires_at new, pc_schedule = None, pc_enabled = 1,
      pc_owner = map_option (show_id (de_net E)) (np_owner new),
      pc_created_at = now, pc_updated_at = now\<rparr>"

definition new_peer_entity :: "uuid \<Rightarrow> datetime \<Rightarrow> new_peer \<Rightarrow> u8 list option \<Rightarrow> peer" where
  "new_peer_entity u now new preshared_sealed =
     \<lparr>p_id = Ident u, p_interface_id = np_interface_id new, p_name = np_name new,
      p_public_key = np_public_key new, p_private_key_sealed = np_private_key_sealed new,
      p_preshared_key_sealed = preshared_sealed, p_allowed_ips = np_allowed_ips new,
      p_primary_dns = np_primary_dns new, p_secondary_dns = np_secondary_dns new,
      p_nat = np_nat new, p_endpoint = np_endpoint new, p_keepalive = np_keepalive new,
      p_quota = np_quota new, p_used = 0, p_expires_at = np_expires_at new,
      p_schedule = None, p_enabled = True, p_owner = np_owner new, p_created_at = now,
      p_updated_at = now\<rparr>"

definition peers_create ::
    "'os db_env \<Rightarrow> new_peer \<Rightarrow> u8 list option \<Rightarrow> ('os world, core_error, peer) io" where
  "peers_create E new preshared_sealed =
     io_bind (on_os (de_uuid E)) (\<lambda>u.
     io_bind (on_os (de_now E)) (\<lambda>now.
     io_bind (db_exec E (insert_peer E (new_peer_row E u now new preshared_sealed))) (\<lambda>_.
     io_ret (new_peer_entity u now new preshared_sealed))))"

definition peers_find_by_id :: "'os db_env \<Rightarrow> peer_id \<Rightarrow> ('os world, core_error, peer option) io" where
  "peers_find_by_id E i =
     fetch_optional E tb_peers (\<lambda>r. pc_id r = show_id (de_net E) i) (peer_into_domain E)"

definition peers_list_for_interface ::
    "'os db_env \<Rightarrow> interface_id \<Rightarrow> ('os world, core_error, peer list) io" where
  "peers_list_for_interface E i =
     fetch_all E (\<lambda>d. sort_key pc_created_at
       (filter (\<lambda>r. pc_interface_id r = show_id (de_net E) i) (tb_peers d))) (peer_into_domain E)"

definition peers_list_all :: "'os db_env \<Rightarrow> ('os world, core_error, peer list) io" where
  "peers_list_all E = fetch_all E (\<lambda>d. sort_key pc_created_at (tb_peers d)) (peer_into_domain E)"

definition peer_set_columns :: "'os db_env \<Rightarrow> datetime \<Rightarrow> peer \<Rightarrow> peer_row \<Rightarrow> peer_row" where
  "peer_set_columns E now p r = r\<lparr>
     pc_name := p_name p, pc_interface_id := show_id (de_net E) (p_interface_id p),
     pc_public_key := public_str (p_public_key p),
     pc_private_key_sealed := p_private_key_sealed p,
     pc_allowed_ips := Some (nets_to_json E (p_allowed_ips p)),
     pc_primary_dns := p_primary_dns p, pc_secondary_dns := p_secondary_dns p,
     pc_nat := of_bool (p_nat p), pc_endpoint := p_endpoint p,
     pc_keepalive := map_option ucast (p_keepalive p), pc_quota := p_quota p,
     pc_expires_at := p_expires_at p, pc_schedule := p_schedule p,
     pc_enabled := of_bool (p_enabled p), pc_updated_at := now\<rparr>"

definition update_peer_rows ::
    "'os db_env \<Rightarrow> datetime \<Rightarrow> peer \<Rightarrow> db \<Rightarrow> sqlx_error + unit \<times> db" where
  "update_peer_rows E now p d =
     (let key = show_id (de_net E) (p_id p) in
      if key \<in> set (map pc_id (tb_peers d)) \<and>
         show_id (de_net E) (p_interface_id p) \<notin> set (map ic_id (tb_ifaces d))
      then constraint_failed E ''peers.interface_id''
      else Inr ((), d\<lparr>tb_peers :=
             update_rows (\<lambda>r. pc_id r = key) (peer_set_columns E now p) (tb_peers d)\<rparr>))"

definition peers_update :: "'os db_env \<Rightarrow> peer \<Rightarrow> ('os world, core_error, unit) io" where
  "peers_update E p =
     io_bind (on_os (de_now E)) (\<lambda>now. db_exec E (update_peer_rows E now p))"

definition peers_delete :: "'os db_env \<Rightarrow> peer_id \<Rightarrow> ('os world, core_error, unit) io" where
  "peers_delete E i =
     db_exec E (\<lambda>d. Inr ((), drop_peers (\<lambda>r. pc_id r = show_id (de_net E) i) d))"

definition peers_record_bandwidth ::
    "'os db_env \<Rightarrow> peer_id \<Rightarrow> u64 \<Rightarrow> ('os world, core_error, unit) io" where
  "peers_record_bandwidth E i bytes =
     db_exec E (\<lambda>d. Inr ((), d\<lparr>tb_peers :=
       update_rows (\<lambda>r. pc_id r = show_id (de_net E) i) (\<lambda>r. r\<lparr>pc_used := bytes\<rparr>) (tb_peers d)\<rparr>))"

definition sqlite_peers :: "'os db_env \<Rightarrow> 'os world peer_repo" where
  "sqlite_peers E = \<lparr>
     pr_create = peers_create E, pr_find_by_id = peers_find_by_id E,
     pr_list_for_interface = peers_list_for_interface E, pr_list_all = peers_list_all E,
     pr_update = peers_update E, pr_delete = peers_delete E,
     pr_record_bandwidth = peers_record_bandwidth E\<rparr>"

end
