(* ===== verification/Triples.thy ===== *)
theory Triples
  imports Prelude
begin

section \<open>Triples over fallible operations\<close>

text \<open>
  \<open>triple P m Q X\<close>: from a world that satisfies \<open>P\<close>, the operation \<open>m\<close> either returns a value
  \<open>x\<close> in a world that satisfies \<open>Q x\<close>, or fails with an error \<open>e\<close> in a world that satisfies
  \<open>X e\<close>. The rules follow the combinators of the prelude, so that a property of a service is
  proved from the triples of the operations it calls.
\<close>

named_theorems triple_rules \<open>triples of the combinators\<close>

definition triple ::
    "('w \<Rightarrow> bool) \<Rightarrow> ('w, 'e, 'a) io \<Rightarrow> ('a \<Rightarrow> 'w \<Rightarrow> bool) \<Rightarrow> ('e \<Rightarrow> 'w \<Rightarrow> bool) \<Rightarrow> bool" where
  "triple P m Q X \<longleftrightarrow>
     (\<forall>w. P w \<longrightarrow> (case m w of (Inl e, w') \<Rightarrow> X e w' | (Inr x, w') \<Rightarrow> Q x w'))"

lemma tripleI:
  "(\<And>w x w'. P w \<Longrightarrow> m w = (Inr x, w') \<Longrightarrow> Q x w') \<Longrightarrow>
   (\<And>w e w'. P w \<Longrightarrow> m w = (Inl e, w') \<Longrightarrow> X e w') \<Longrightarrow> triple P m Q X"
  by (auto simp: triple_def split: prod.splits sum.splits)

lemma triple_ok: "triple P m Q X \<Longrightarrow> P w \<Longrightarrow> m w = (Inr x, w') \<Longrightarrow> Q x w'"
  by (auto simp: triple_def split: prod.splits sum.splits)

lemma triple_err: "triple P m Q X \<Longrightarrow> P w \<Longrightarrow> m w = (Inl e, w') \<Longrightarrow> X e w'"
  by (auto simp: triple_def split: prod.splits sum.splits)

lemma triple_conseq:
  "triple P' m Q' X' \<Longrightarrow> (\<And>w. P w \<Longrightarrow> P' w) \<Longrightarrow> (\<And>x w. Q' x w \<Longrightarrow> Q x w) \<Longrightarrow>
   (\<And>e w. X' e w \<Longrightarrow> X e w) \<Longrightarrow> triple P m Q X"
  by (fastforce simp: triple_def split: prod.splits sum.splits)

lemma triple_pre: "triple P' m Q X \<Longrightarrow> (\<And>w. P w \<Longrightarrow> P' w) \<Longrightarrow> triple P m Q X"
  by (erule triple_conseq)

lemma triple_pure: "(b \<Longrightarrow> triple P m Q X) \<Longrightarrow> triple (\<lambda>w. P w \<and> b) m Q X"
  by (auto simp: triple_def)

lemma triple_ex: "(\<And>v. triple (P v) m Q X) \<Longrightarrow> triple (\<lambda>w. \<exists>v. P v w) m Q X"
  by (rule tripleI) (auto dest: triple_ok triple_err)

lemma triple_ret: "(\<And>w. P w \<Longrightarrow> Q x w) \<Longrightarrow> triple P (io_ret x) Q X"
  by (simp add: triple_def)

lemma triple_fail: "(\<And>w. P w \<Longrightarrow> X e w) \<Longrightarrow> triple P (io_fail e) Q X"
  by (simp add: triple_def)

lemma triple_lift:
  "(\<And>x w. r = Inr x \<Longrightarrow> P w \<Longrightarrow> Q x w) \<Longrightarrow> (\<And>e w. r = Inl e \<Longrightarrow> P w \<Longrightarrow> X e w) \<Longrightarrow>
   triple P (io_lift r) Q X"
  by (auto simp: triple_def split: sum.splits)

lemma triple_bind:
  "triple P m Q X \<Longrightarrow> (\<And>x. triple (Q x) (k x) R X) \<Longrightarrow> triple P (io_bind m k) R X"
  unfolding triple_def io_bind_def by (fastforce split: prod.splits sum.splits)

lemma triple_bind_pure:
  "triple P m (\<lambda>x w. Q w \<and> b x) X \<Longrightarrow> (\<And>x. b x \<Longrightarrow> triple Q (k x) R X) \<Longrightarrow>
   triple P (io_bind m k) R X"
  by (rule triple_bind) (auto intro: triple_pure)

lemma triple_bind_weak:
  "triple P m (\<lambda>x w. Q w \<and> b x) X' \<Longrightarrow> (\<And>e w. X' e w \<Longrightarrow> X e w) \<Longrightarrow>
   (\<And>x. b x \<Longrightarrow> triple Q (k x) R X) \<Longrightarrow> triple P (io_bind m k) R X"
  by (rule triple_bind_pure, erule triple_conseq, assumption, assumption, blast, blast)

lemma triple_bind_step:
  "triple P m Q X' \<Longrightarrow> (\<And>e w. X' e w \<Longrightarrow> X e w) \<Longrightarrow>
   (\<And>x. triple (Q x) (k x) R X) \<Longrightarrow> triple P (io_bind m k) R X"
  by (rule triple_bind, erule triple_conseq, assumption, assumption, blast, blast)

lemma triple_try:
  "triple P m (\<lambda>x. Q (Inr x)) (\<lambda>e. Q (Inl e)) \<Longrightarrow> (\<And>r. triple (Q r) (k r) R X) \<Longrightarrow>
   triple P (io_try m k) R X"
  unfolding triple_def io_try_def by (fastforce split: prod.splits sum.splits)

lemma triple_ignore:
  "triple P m (\<lambda>_. Q) (\<lambda>_. Q) \<Longrightarrow> triple Q k R X \<Longrightarrow> triple P (io_ignore m k) R X"
  unfolding triple_def io_ignore_def by (fastforce split: prod.splits sum.splits)

lemma triple_map_err:
  "triple P m Q (\<lambda>e. X (f e)) \<Longrightarrow> triple P (io_map_err f m) Q X"
  unfolding triple_def io_map_err_def by (fastforce split: prod.splits sum.splits)

lemma triple_some:
  "triple P m (\<lambda>r w. case r of None \<Rightarrow> X e w | Some x \<Rightarrow> Q x w) X \<Longrightarrow> triple P (io_some e m) Q X"
  unfolding triple_def io_some_def io_bind_def by (fastforce split: prod.splits sum.splits option.splits)

lemma triple_if:
  "(b \<Longrightarrow> triple P m Q X) \<Longrightarrow> (\<not> b \<Longrightarrow> triple P k Q X) \<Longrightarrow> triple P (if b then m else k) Q X"
  by simp

lemma triple_when:
  "(b \<Longrightarrow> triple P m (\<lambda>_. Q) X) \<Longrightarrow> (\<And>w. \<not> b \<Longrightarrow> P w \<Longrightarrow> Q w) \<Longrightarrow> triple P (io_when b m) (\<lambda>_. Q) X"
  by (simp add: io_when_def triple_def)

lemma triple_for:
  "(\<And>x. x \<in> set xs \<Longrightarrow> triple P (body x) (\<lambda>_. P) X) \<Longrightarrow> triple P (io_for xs body) (\<lambda>_. P) X"
  by (induction xs) (auto intro!: triple_ret triple_bind)

lemma triple_sum:
  "(\<And>e. triple P (m e) Q X) \<Longrightarrow> (\<And>x. triple P (k x) Q X) \<Longrightarrow>
   triple P (case r of Inl e \<Rightarrow> m e | Inr x \<Rightarrow> k x) Q X"
  by (cases r) simp_all

text \<open>Two triples at once, and a triple with an observation that is kept.\<close>

lemma triple_conj:
  "triple P m Q X \<Longrightarrow> triple P' m Q' X' \<Longrightarrow>
   triple (\<lambda>w. P w \<and> P' w) m (\<lambda>x w. Q x w \<and> Q' x w) (\<lambda>e w. X e w \<and> X' e w)"
  unfolding triple_def by (fastforce split: prod.splits sum.splits)

lemma triple_also:
  "triple P m Q X \<Longrightarrow> keeps f m \<Longrightarrow>
   triple (\<lambda>w. P w \<and> f w = v) m (\<lambda>x w. Q x w \<and> f w = v) (\<lambda>e w. X e w \<and> f w = v)"
  by (rule tripleI) (auto dest: triple_ok triple_err keepsD2)

text \<open>A loop whose invariant depends on the elements still to come.\<close>

lemma triple_for_inv:
  "(\<And>x ys. triple (I (x # ys)) (body x) (\<lambda>_. I ys) X) \<Longrightarrow>
   triple (I xs) (io_for xs body) (\<lambda>_. I []) X"
  by (induction xs) (auto intro!: triple_ret triple_bind)

lemma triple_keeps:
  "keeps f m \<Longrightarrow> triple (\<lambda>w. P (f w)) m (\<lambda>_ w. P (f w)) (\<lambda>_ w. P (f w))"
  by (rule tripleI) (auto dest: keepsD2)

subsection \<open>Operations that cannot fail\<close>

abbreviation surely :: "('w \<Rightarrow> bool) \<Rightarrow> ('w, 'e, 'a) io \<Rightarrow> ('a \<Rightarrow> 'w \<Rightarrow> bool) \<Rightarrow> bool" where
  "surely P m Q \<equiv> triple P m Q (\<lambda>_ _. False)"

lemma surelyI:
  assumes "triple P m Q X" and "\<And>w. P w \<Longrightarrow> \<exists>x. fst (m w) = Inr x"
  shows "surely P m Q"
proof (rule tripleI)
  fix w x w' assume "P w" "m w = (Inr x, w')"
  then show "Q x w'" by (rule triple_ok [OF assms(1)])
next
  fix w e w' assume "P w" "m w = (Inl e, w')"
  then show False using assms(2) [of w] by simp
qed

lemma triple_returns: "surely P m Q \<Longrightarrow> P w \<Longrightarrow> \<exists>x w'. m w = (Inr x, w') \<and> Q x w'"
  by (cases "m w"; cases "fst (m w)") (auto dest: triple_ok triple_err)

lemma triple_known: "(\<And>w. P w \<Longrightarrow> b) \<Longrightarrow> (b \<Longrightarrow> triple P m Q X) \<Longrightarrow> triple P m Q X"
  by (auto simp: triple_def)

end
