(* ===== verification/Contracts.thy ===== *)
theory Contracts
  imports Triples Ports "HOL-Library.Multiset"
begin

section \<open>The contracts of the ports\<close>

text \<open>
  What the services rely on. The contract of the repositories of interfaces and peers is stated
  over the abstract network configuration \<open>net w\<close>: the lists of interfaces and peers that the
  world \<open>w\<close> stores; \<open>J\<close> is the repository's own invariant. A read returns what the
  configuration holds and does not change it; a failed write does not change it either; a
  successful write changes it as said. The contract of the WireGuard and NAT adapters is that
  they do not change it at all.
\<close>

type_synonym net = "iface list \<times> peer list"

definition holds :: "('w \<Rightarrow> bool) \<Rightarrow> ('w \<Rightarrow> 'v) \<Rightarrow> 'v \<Rightarrow> 'w \<Rightarrow> bool" where
  "holds J view v w \<longleftrightarrow> J w \<and> view w = v"

subsection \<open>Well-formed configurations\<close>

definition net_wf :: "net \<Rightarrow> bool" where
  "net_wf n \<longleftrightarrow>
     distinct (map i_id (fst n)) \<and> distinct (map i_name (fst n)) \<and> distinct (map p_id (snd n)) \<and>
     (\<forall>p \<in> set (snd n). p_interface_id p \<in> i_id ` set (fst n))"

text \<open>What a row keeps when an entity is written over it.\<close>

definition iface_over :: "iface \<Rightarrow> datetime \<Rightarrow> iface \<Rightarrow> iface" where
  "iface_over x now old = x\<lparr>i_id := i_id old, i_name := i_name old,
     i_created_at := i_created_at old, i_updated_at := now\<rparr>"

definition peer_over :: "peer \<Rightarrow> datetime \<Rightarrow> peer \<Rightarrow> peer" where
  "peer_over x now old = x\<lparr>p_id := p_id old, p_preshared_key_sealed := p_preshared_key_sealed old,
     p_used := p_used old, p_owner := p_owner old, p_created_at := p_created_at old,
     p_updated_at := now\<rparr>"

definition put_iface :: "iface \<Rightarrow> datetime \<Rightarrow> iface list \<Rightarrow> iface list" where
  "put_iface x now is = map (\<lambda>y. if i_id y = i_id x then iface_over x now y else y) is"

definition put_peer :: "peer \<Rightarrow> datetime \<Rightarrow> peer list \<Rightarrow> peer list" where
  "put_peer x now ps = map (\<lambda>y. if p_id y = p_id x then peer_over x now y else y) ps"

definition put_used :: "peer_id \<Rightarrow> u64 \<Rightarrow> peer list \<Rightarrow> peer list" where
  "put_used i bytes ps = map (\<lambda>y. if p_id y = i then y\<lparr>p_used := bytes\<rparr> else y) ps"

text \<open>A stored entity is the one that was asked for.\<close>

definition iface_made :: "new_iface \<Rightarrow> u8 list \<Rightarrow> iface \<Rightarrow> bool" where
  "iface_made new sealed x \<longleftrightarrow>
     i_name x = ni_name new \<and> i_public_key x = ni_public_key new \<and>
     i_private_key_sealed x = sealed \<and> i_listen_port x = ni_listen_port new \<and>
     i_endpoint x = ni_endpoint new \<and> i_gateway x = ni_gateway new \<and>
     i_ipv4_cidr x = ni_ipv4_cidr new \<and> i_ipv6_cidr x = ni_ipv6_cidr new \<and>
     i_mtu x = ni_mtu new \<and> i_dns x = ni_dns new \<and> i_on_up x = ni_on_up new \<and>
     i_on_down x = ni_on_down new \<and> i_status x = Status_Down"

definition peer_made :: "new_peer \<Rightarrow> u8 list option \<Rightarrow> peer \<Rightarrow> bool" where
  "peer_made new preshared x \<longleftrightarrow>
     p_interface_id x = np_interface_id new \<and> p_name x = np_name new \<and>
     p_public_key x = np_public_key new \<and> p_private_key_sealed x = np_private_key_sealed new \<and>
     p_preshared_key_sealed x = preshared \<and> p_allowed_ips x = np_allowed_ips new \<and>
     p_primary_dns x = np_primary_dns new \<and> p_secondary_dns x = np_secondary_dns new \<and>
     p_nat x = np_nat new \<and> p_endpoint x = np_endpoint new \<and> p_keepalive x = np_keepalive new \<and>
     p_quota x = np_quota new \<and> p_used x = 0 \<and> p_expires_at x = np_expires_at new \<and>
     p_schedule x = None \<and> p_enabled x \<and> p_owner x = np_owner new"

subsection \<open>The repositories\<close>

locale net_store =
  fixes I :: "'w iface_repo" and P :: "'w peer_repo"
    and J :: "'w \<Rightarrow> bool" and net :: "'w \<Rightarrow> net"
    and key_ok :: "wg_public_key \<Rightarrow> bool"
  assumes wf: "J w \<Longrightarrow> net_wf (net w)"
    and iface_find: "triple (holds J net (is, ps)) (ir_find_by_id I i)
      (\<lambda>x w. holds J net (is, ps) w \<and> x = find (\<lambda>y. i_id y = i) is) (\<lambda>_. holds J net (is, ps))"
    and iface_find_name: "triple (holds J net (is, ps)) (ir_find_by_name I nm)
      (\<lambda>x w. holds J net (is, ps) w \<and> x = find (\<lambda>y. i_name y = nm) is) (\<lambda>_. holds J net (is, ps))"
    and iface_list: "triple (holds J net (is, ps)) (ir_list I)
      (\<lambda>x w. holds J net (is, ps) w \<and> mset x = mset is) (\<lambda>_. holds J net (is, ps))"
    and iface_create: "key_ok (ni_public_key new) \<Longrightarrow>
      triple (holds J net (is, ps)) (ir_create I new sealed)
      (\<lambda>x w. holds J net (is @ [x], ps) w \<and> iface_made new sealed x) (\<lambda>_. holds J net (is, ps))"
    and iface_update: "key_ok (i_public_key x) \<Longrightarrow>
      triple (holds J net (is, ps)) (ir_update I x)
      (\<lambda>_ w. \<exists>now. holds J net (put_iface x now is, ps) w) (\<lambda>_. holds J net (is, ps))"
    and iface_delete: "triple (holds J net (is, ps)) (ir_delete I i)
      (\<lambda>_. holds J net (filter (\<lambda>y. i_id y \<noteq> i) is, filter (\<lambda>p. p_interface_id p \<noteq> i) ps))
      (\<lambda>_. holds J net (is, ps))"
    and peer_find: "triple (holds J net (is, ps)) (pr_find_by_id P i')
      (\<lambda>x w. holds J net (is, ps) w \<and> x = find (\<lambda>y. p_id y = i') ps) (\<lambda>_. holds J net (is, ps))"
    and peer_list_for: "triple (holds J net (is, ps)) (pr_list_for_interface P i)
      (\<lambda>x w. holds J net (is, ps) w \<and> mset x = mset (filter (\<lambda>y. p_interface_id y = i) ps))
      (\<lambda>_. holds J net (is, ps))"
    and peer_list_all: "triple (holds J net (is, ps)) (pr_list_all P)
      (\<lambda>x w. holds J net (is, ps) w \<and> mset x = mset ps) (\<lambda>_. holds J net (is, ps))"
    and peer_create: "key_ok (np_public_key new') \<Longrightarrow>
      triple (holds J net (is, ps)) (pr_create P new' preshared)
      (\<lambda>x w. holds J net (is, ps @ [x]) w \<and> peer_made new' preshared x) (\<lambda>_. holds J net (is, ps))"
    and peer_update: "key_ok (p_public_key q) \<Longrightarrow>
      triple (holds J net (is, ps)) (pr_update P q)
      (\<lambda>_ w. \<exists>now. holds J net (is, put_peer q now ps) w) (\<lambda>_. holds J net (is, ps))"
    and peer_delete: "triple (holds J net (is, ps)) (pr_delete P i')
      (\<lambda>_. holds J net (is, filter (\<lambda>p. p_id p \<noteq> i') ps)) (\<lambda>_. holds J net (is, ps))"
    and peer_bandwidth: "triple (holds J net (is, ps)) (pr_record_bandwidth P i' bytes)
      (\<lambda>_. holds J net (is, put_used i' bytes ps)) (\<lambda>_. holds J net (is, ps))"
    and stored_keys: "J w \<Longrightarrow> (\<forall>x \<in> set (fst (net w)). key_ok (i_public_key x)) \<and>
      (\<forall>p \<in> set (snd (net w)). key_ok (p_public_key p))"

subsection \<open>The WireGuard adapter\<close>

text \<open>\<open>F\<close> is any observation the adapter must leave alone.\<close>

locale wg_frame =
  fixes W :: "'w wg_port" and J :: "'w \<Rightarrow> bool" and net :: "'w \<Rightarrow> 'v"
    and key_ok :: "wg_public_key \<Rightarrow> bool"
  assumes derive: "triple (holds J net v) (wg_derive_public_key W k)
      (\<lambda>x w. holds J net v w \<and> key_ok x) (\<lambda>_. holds J net v)"
    and generate: "triple (holds J net v) (wg_generate_keypair W)
      (\<lambda>x w. holds J net v w \<and> key_ok (snd x)) (\<lambda>_. holds J net v)"
    and create_iface: "triple (holds J net v) (wg_create_interface W i)
      (\<lambda>_. holds J net v) (\<lambda>_. holds J net v)"
    and up: "triple (holds J net v) (wg_interface_up W i ps) (\<lambda>_. holds J net v) (\<lambda>_. holds J net v)"
    and down: "triple (holds J net v) (wg_interface_down W i) (\<lambda>_. holds J net v) (\<lambda>_. holds J net v)"
    and delete: "triple (holds J net v) (wg_delete_interface W i) (\<lambda>_. holds J net v) (\<lambda>_. holds J net v)"
    and apply_peer: "triple (holds J net v) (wg_apply_peer W i p) (\<lambda>_. holds J net v) (\<lambda>_. holds J net v)"
    and remove_peer: "triple (holds J net v) (wg_remove_peer W i key) (\<lambda>_. holds J net v) (\<lambda>_. holds J net v)"
    and stats: "triple (holds J net v) (wg_peer_stats W i) (\<lambda>_. holds J net v) (\<lambda>_. holds J net v)"

subsection \<open>NAT and the host's interfaces\<close>

locale nat_frame =
  fixes N :: "'w nat_port" and S :: "'w sysnet_port" and J :: "'w \<Rightarrow> bool" and net :: "'w \<Rightarrow> 'v"
  assumes nat_apply: "triple (holds J net v) (nat_apply N i gw) (\<lambda>_. holds J net v) (\<lambda>_. holds J net v)"
    and nat_remove: "triple (holds J net v) (nat_remove N i gw) (\<lambda>_. holds J net v) (\<lambda>_. holds J net v)"
    and nat_hook: "triple (holds J net v) (nat_run_hook N s) (\<lambda>_. holds J net v) (\<lambda>_. holds J net v)"
    and nics: "triple (holds J net v) (sn_list S) (\<lambda>_. holds J net v) (\<lambda>_. holds J net v)"

subsection \<open>Lemmas on configurations\<close>

lemma put_iface_ids [simp]:
  "map i_id (put_iface x now is) = map i_id is" "map i_name (put_iface x now is) = map i_name is"
  by (simp_all add: put_iface_def iface_over_def)

lemma put_iface_id_set [simp]: "i_id ` set (put_iface x now is) = i_id ` set is"
  by (metis put_iface_ids(1) set_map)

lemma put_peer_ids [simp]: "map p_id (put_peer x now ps) = map p_id ps"
  by (simp add: put_peer_def peer_over_def)

lemma put_used_ids [simp]: "map p_id (put_used i b ps) = map p_id ps"
  by (simp add: put_used_def)

lemma in_put_peer:
  "q \<in> set (put_peer x now ps) \<longleftrightarrow>
     (q \<in> set ps \<and> p_id q \<noteq> p_id x) \<or> (\<exists>old \<in> set ps. p_id old = p_id x \<and> q = peer_over x now old)"
  unfolding put_peer_def by auto

lemma in_put_iface:
  "q \<in> set (put_iface x now is) \<longleftrightarrow>
     (q \<in> set is \<and> i_id q \<noteq> i_id x) \<or> (\<exists>old \<in> set is. i_id old = i_id x \<and> q = iface_over x now old)"
  unfolding put_iface_def by auto

lemma in_put_used:
  "q \<in> set (put_used i b ps) \<longleftrightarrow>
     (q \<in> set ps \<and> p_id q \<noteq> i) \<or> (\<exists>old \<in> set ps. p_id old = i \<and> q = old\<lparr>p_used := b\<rparr>)"
  unfolding put_used_def by auto

lemma find_by_key:
  "distinct (map f xs) \<Longrightarrow> x \<in> set xs \<Longrightarrow> find (\<lambda>y. f y = f x) xs = Some x"
  by (induction xs) auto

lemma find_SomeD: "find P xs = Some x \<Longrightarrow> x \<in> set xs \<and> P x"
  by (induction xs) (auto split: if_splits)

lemma find_NoneD: "find P xs = None \<Longrightarrow> x \<in> set xs \<Longrightarrow> \<not> P x"
  by (induction xs) (auto split: if_splits)

end
