(* ===== verification/Sqlite_Contract.thy ===== *)
theory Sqlite_Contract
  imports Sqlite_Network Contracts
begin

section \<open>The repositories of interfaces and peers fulfil their contract\<close>

text \<open>
  The abstraction from tables to the network configuration: \<open>net_of\<close> decodes every row, and
  \<open>net_rows_ok\<close> says that every row decodes, that its key columns are in the canonical text
  form and that the configuration is well-formed. The interpretation at the end discharges the
  contract \<open>net_store\<close> for the SQLite repositories.
\<close>

definition text_laws :: "'os db_env \<Rightarrow> bool" where
  "text_laws E \<longleftrightarrow>
     uuid_text_law (de_net E) \<and> net_text_law (de_net E) \<and> json_strings_law E"

definition key_valid :: "'os db_env \<Rightarrow> wg_public_key \<Rightarrow> bool" where
  "key_valid E k \<longleftrightarrow> (\<exists>raw. de_b64_decode E (public_str k) = Inr raw \<and> length raw = 32)"

definition iface_row_ok :: "'os db_env \<Rightarrow> iface_row \<Rightarrow> bool" where
  "iface_row_ok E r \<longleftrightarrow>
     (\<exists>x. iface_into_domain E r = Inr x \<and> ic_id r = show_id (de_net E) (i_id x))"

definition peer_row_ok :: "'os db_env \<Rightarrow> peer_row \<Rightarrow> bool" where
  "peer_row_ok E r \<longleftrightarrow>
     (\<exists>x. peer_into_domain E r = Inr x \<and> pc_id r = show_id (de_net E) (p_id x) \<and>
          pc_interface_id r = show_id (de_net E) (p_interface_id x))"

definition iface_of :: "'os db_env \<Rightarrow> iface_row \<Rightarrow> iface" where
  "iface_of E r = projr (iface_into_domain E r)"

definition peer_of :: "'os db_env \<Rightarrow> peer_row \<Rightarrow> peer" where
  "peer_of E r = projr (peer_into_domain E r)"

definition net_of :: "'os db_env \<Rightarrow> db \<Rightarrow> net" where
  "net_of E d = (map (iface_of E) (tb_ifaces d), map (peer_of E) (tb_peers d))"

definition net_rows_ok :: "'os db_env \<Rightarrow> db \<Rightarrow> bool" where
  "net_rows_ok E d \<longleftrightarrow>
     (\<forall>r \<in> set (tb_ifaces d). iface_row_ok E r) \<and> (\<forall>r \<in> set (tb_peers d). peer_row_ok E r) \<and>
     net_wf (net_of E d)"

definition net_inv :: "'os db_env \<Rightarrow> 'os world \<Rightarrow> bool" where
  "net_inv E w \<longleftrightarrow> text_laws E \<and> net_rows_ok E (w_db w)"

definition net_view :: "'os db_env \<Rightarrow> 'os world \<Rightarrow> net" where
  "net_view E w = net_of E (w_db w)"

subsection \<open>Decoding what was encoded\<close>

lemma ucast_u16_i64 [simp]: "ucast (ucast (x :: u16) :: i64) = x"
  by (rule bit_word_eqI) (simp add: bit_simps)

lemma option_ucast [simp]:
  "map_option ucast (map_option (ucast :: u16 \<Rightarrow> i64) v) = (v :: u16 option)"
  by (cases v) simp_all

lemma status_roundtrip [simp]: "status_from_column (status_as_str s) = s"
  by (cases s) (simp_all add: status_from_column_def status_as_str_def)

lemma parse_cidr_show [simp]:
  "net_text_law (de_net E) \<Longrightarrow> parse_cidr E (map_option (nl_show_net (de_net E)) v) = Inr v"
  by (cases v) (simp_all add: parse_cidr_def net_text_law_def)

lemma key_from_base64_valid:
  "key_valid E k \<Longrightarrow> key_from_base64 (de_b64_decode E) Wg_Public_Key (public_str k) = Inr k"
  by (cases k) (auto simp: key_valid_def key_from_base64_def KEY_LEN_def)

lemma parse_nets_json [simp]:
  "net_text_law L \<Longrightarrow> traverse (nl_parse_net L) (map (nl_show_net L) ns) = Inr ns"
  by (induction ns) (simp_all add: net_text_law_def)

lemma opt_parse_show [simp]:
  "uuid_text_law L \<Longrightarrow> opt_traverse (parse_id L) (map_option (show_id L) v) = Inr v"
  by (cases v) simp_all

lemma text_lawsD [simp]:
  assumes "text_laws E"
  shows "uuid_text_law (de_net E)" "net_text_law (de_net E)" "json_strings_law E"
  using assms by (simp_all add: text_laws_def)

lemma iface_of_ok: "iface_into_domain E r = Inr x \<Longrightarrow> iface_of E r = x"
  by (simp add: iface_of_def)

lemma peer_of_ok: "peer_into_domain E r = Inr x \<Longrightarrow> peer_of E r = x"
  by (simp add: peer_of_def)

lemma iface_row_okD:
  assumes "iface_row_ok E r"
  shows "iface_into_domain E r = Inr (iface_of E r)" "ic_id r = show_id (de_net E) (i_id (iface_of E r))"
    "i_name (iface_of E r) = ic_name r"
  using assms by (auto simp: iface_row_ok_def iface_of_def iface_into_domain_def res_bind_ok_iff Let_def)

lemma peer_row_okD:
  assumes "peer_row_ok E r"
  shows "peer_into_domain E r = Inr (peer_of E r)" "pc_id r = show_id (de_net E) (p_id (peer_of E r))"
    "pc_interface_id r = show_id (de_net E) (p_interface_id (peer_of E r))"
  using assms by (auto simp: peer_row_ok_def peer_of_def)

lemma show_id_eq_iff: "text_laws E \<Longrightarrow> show_id (de_net E) i = show_id (de_net E) j \<longleftrightarrow> i = j"
  using show_id_inj text_lawsD(1) by blast

subsection \<open>Reading\<close>

lemma find_decoded:
  assumes "\<And>r. r \<in> set rows \<Longrightarrow> into r = Inr (g r) \<and> (p r \<longleftrightarrow> q (g r))"
  shows "opt_traverse into (find p rows) = Inr (find q (map g rows))"
  using assms by (induction rows) (auto split: option.splits)

lemma traverse_decoded:
  "(\<And>r. r \<in> set rows \<Longrightarrow> into r = Inr (g r)) \<Longrightarrow> traverse into rows = Inr (map g rows)"
  by (rule traverse_all_ok)

lemma net_query:
  "triple (holds (net_inv E) (net_view E) v) (db_query E g)
     (\<lambda>x w. holds (net_inv E) (net_view E) v w \<and>
        (text_laws E \<and> (\<exists>d. net_rows_ok E d \<and> net_of E d = v \<and> x = g d)))
     (\<lambda>_. holds (net_inv E) (net_view E) v)"
proof (rule tripleI)
  fix w x w'
  assume at: "holds (net_inv E) (net_view E) v w" and ok: "db_query E g w = (Inr x, w')"
  then show "holds (net_inv E) (net_view E) v w' \<and>
      (text_laws E \<and> (\<exists>d. net_rows_ok E d \<and> net_of E d = v \<and> x = g d))"
    using db_query_ok [OF ok] by (auto simp: holds_def net_inv_def net_view_def)
next
  fix w e w'
  assume at: "holds (net_inv E) (net_view E) v w" and err: "db_query E g w = (Inl e, w')"
  then have "w_db w' = w_db w"
    using keepsD2 [OF db_query_keeps [OF os_blind_fields(1)] err] by simp
  with at show "holds (net_inv E) (net_view E) v w'"
    by (simp add: holds_def net_inv_def net_view_def)
qed

lemma net_fetch_optional:
  assumes "\<And>d. text_laws E \<Longrightarrow> net_rows_ok E d \<Longrightarrow> net_of E d = v \<Longrightarrow>
      opt_traverse into (find p (tb d)) = Inr y"
  shows "triple (holds (net_inv E) (net_view E) v) (fetch_optional E tb p into)
     (\<lambda>x w. holds (net_inv E) (net_view E) v w \<and> x = y) (\<lambda>_. holds (net_inv E) (net_view E) v)"
  unfolding fetch_optional_def
  by (rule triple_bind_pure [OF net_query], rule triple_lift) (use assms in auto)

lemma net_fetch_all:
  assumes "\<And>d. text_laws E \<Longrightarrow> net_rows_ok E d \<Longrightarrow> net_of E d = v \<Longrightarrow>
      \<exists>ys. traverse into (sel d) = Inr ys \<and> mset ys = m"
  shows "triple (holds (net_inv E) (net_view E) v) (fetch_all E sel into)
     (\<lambda>x w. holds (net_inv E) (net_view E) v w \<and> mset x = m) (\<lambda>_. holds (net_inv E) (net_view E) v)"
  unfolding fetch_all_def
  by (rule triple_bind_pure [OF net_query], rule triple_lift) (use assms in fastforce)+

lemma net_exec:
  assumes "\<And>d x d'. text_laws E \<Longrightarrow> net_rows_ok E d \<Longrightarrow> net_of E d = v \<Longrightarrow> f d = Inr (x, d') \<Longrightarrow>
      net_rows_ok E d' \<and> Q x (net_of E d')"
  shows "triple (holds (net_inv E) (net_view E) v) (db_exec E f)
     (\<lambda>x w. net_inv E w \<and> Q x (net_view E w)) (\<lambda>_. holds (net_inv E) (net_view E) v)"
proof (rule tripleI)
  fix w x w'
  assume at: "holds (net_inv E) (net_view E) v w" and ok: "db_exec E f w = (Inr x, w')"
  then show "net_inv E w' \<and> Q x (net_view E w')"
    using db_exec_ok [OF ok] assms by (auto simp: holds_def net_inv_def net_view_def)
next
  fix w e w'
  assume at: "holds (net_inv E) (net_view E) v w" and err: "db_exec E f w = (Inl e, w')"
  then show "holds (net_inv E) (net_view E) v w'"
    using db_exec_err [OF err] by (auto simp: holds_def net_inv_def net_view_def)
qed

lemma net_on_os:
  "triple (holds (net_inv E) (net_view E) v) (on_os f)
     (\<lambda>_. holds (net_inv E) (net_view E) v) (\<lambda>_. holds (net_inv E) (net_view E) v)"
  by (rule tripleI) (auto simp: on_os_def holds_def net_inv_def net_view_def split: prod.splits)

lemma net_of_parts:
  "net_of E d = (is, ps) \<Longrightarrow> is = map (iface_of E) (tb_ifaces d) \<and> ps = map (peer_of E) (tb_peers d)"
  by (simp add: net_of_def)

lemma rows_okD:
  assumes "net_rows_ok E d"
  shows "r \<in> set (tb_ifaces d) \<Longrightarrow> iface_row_ok E r" "q \<in> set (tb_peers d) \<Longrightarrow> peer_row_ok E q"
    "net_wf (net_of E d)"
  using assms by (auto simp: net_rows_ok_def)

lemma ifaces_find_by_id_contract:
  "triple (holds (net_inv E) (net_view E) (is, ps)) (ifaces_find_by_id E i)
     (\<lambda>x w. holds (net_inv E) (net_view E) (is, ps) w \<and> x = find (\<lambda>y. i_id y = i) is)
     (\<lambda>_. holds (net_inv E) (net_view E) (is, ps))"
  unfolding ifaces_find_by_id_def
proof (rule net_fetch_optional)
  fix d assume laws: "text_laws E" and rows: "net_rows_ok E d" and n: "net_of E d = (is, ps)"
  show "opt_traverse (iface_into_domain E) (find (\<lambda>r. ic_id r = show_id (de_net E) i) (tb_ifaces d)) =
      Inr (find (\<lambda>y. i_id y = i) is)"
    unfolding conjunct1 [OF net_of_parts [OF n]]
    by (rule find_decoded) (simp add: iface_row_okD [OF rows_okD(1) [OF rows]] show_id_eq_iff [OF laws])
qed

lemma ifaces_find_by_name_contract:
  "triple (holds (net_inv E) (net_view E) (is, ps)) (ifaces_find_by_name E nm)
     (\<lambda>x w. holds (net_inv E) (net_view E) (is, ps) w \<and> x = find (\<lambda>y. i_name y = nm) is)
     (\<lambda>_. holds (net_inv E) (net_view E) (is, ps))"
  unfolding ifaces_find_by_name_def
proof (rule net_fetch_optional)
  fix d assume laws: "text_laws E" and rows: "net_rows_ok E d" and n: "net_of E d = (is, ps)"
  show "opt_traverse (iface_into_domain E) (find (\<lambda>r. ic_name r = nm) (tb_ifaces d)) =
      Inr (find (\<lambda>y. i_name y = nm) is)"
    unfolding conjunct1 [OF net_of_parts [OF n]]
    by (rule find_decoded) (simp add: iface_row_okD [OF rows_okD(1) [OF rows]])
qed

lemma peers_find_by_id_contract:
  "triple (holds (net_inv E) (net_view E) (is, ps)) (peers_find_by_id E i)
     (\<lambda>x w. holds (net_inv E) (net_view E) (is, ps) w \<and> x = find (\<lambda>y. p_id y = i) ps)
     (\<lambda>_. holds (net_inv E) (net_view E) (is, ps))"
  unfolding peers_find_by_id_def
proof (rule net_fetch_optional)
  fix d assume laws: "text_laws E" and rows: "net_rows_ok E d" and n: "net_of E d = (is, ps)"
  show "opt_traverse (peer_into_domain E) (find (\<lambda>r. pc_id r = show_id (de_net E) i) (tb_peers d)) =
      Inr (find (\<lambda>y. p_id y = i) ps)"
    unfolding conjunct2 [OF net_of_parts [OF n]]
    by (rule find_decoded) (simp add: peer_row_okD [OF rows_okD(2) [OF rows]] show_id_eq_iff [OF laws])
qed

lemma decode_ifaces:
  "net_rows_ok E d \<Longrightarrow> set rows \<subseteq> set (tb_ifaces d) \<Longrightarrow>
     traverse (iface_into_domain E) rows = Inr (map (iface_of E) rows)"
  by (rule traverse_decoded) (use iface_row_okD(1) rows_okD(1) in blast)

lemma decode_peers:
  "net_rows_ok E d \<Longrightarrow> set rows \<subseteq> set (tb_peers d) \<Longrightarrow>
     traverse (peer_into_domain E) rows = Inr (map (peer_of E) rows)"
  by (rule traverse_decoded) (use peer_row_okD(1) rows_okD(2) in blast)

lemma ifaces_list_contract:
  "triple (holds (net_inv E) (net_view E) (is, ps)) (ifaces_list E)
     (\<lambda>x w. holds (net_inv E) (net_view E) (is, ps) w \<and> mset x = mset is)
     (\<lambda>_. holds (net_inv E) (net_view E) (is, ps))"
  unfolding ifaces_list_def
  by (rule net_fetch_all) (auto simp: decode_ifaces dest!: net_of_parts)

lemma peers_list_all_contract:
  "triple (holds (net_inv E) (net_view E) (is, ps)) (peers_list_all E)
     (\<lambda>x w. holds (net_inv E) (net_view E) (is, ps) w \<and> mset x = mset ps)
     (\<lambda>_. holds (net_inv E) (net_view E) (is, ps))"
  unfolding peers_list_all_def
  by (rule net_fetch_all) (auto simp: decode_peers dest!: net_of_parts)

lemma peers_list_for_interface_contract:
  "triple (holds (net_inv E) (net_view E) (is, ps)) (peers_list_for_interface E i)
     (\<lambda>x w. holds (net_inv E) (net_view E) (is, ps) w \<and>
        mset x = mset (filter (\<lambda>y. p_interface_id y = i) ps))
     (\<lambda>_. holds (net_inv E) (net_view E) (is, ps))"
  unfolding peers_list_for_interface_def
proof (rule net_fetch_all)
  fix d assume laws: "text_laws E" and rows: "net_rows_ok E d" and n: "net_of E d = (is, ps)"
  let ?here = "filter (\<lambda>r. pc_interface_id r = show_id (de_net E) i) (tb_peers d)"
  have "filter (\<lambda>y. p_interface_id y = i) ps = map (peer_of E) ?here"
    unfolding conjunct2 [OF net_of_parts [OF n]] filter_map o_def
    by (rule arg_cong [where f = "map _"], rule filter_cong)
      (simp_all add: peer_row_okD(3) [OF rows_okD(2) [OF rows]] show_id_eq_iff [OF laws])
  moreover have "traverse (peer_into_domain E) (sort_key pc_created_at ?here) =
      Inr (map (peer_of E) (sort_key pc_created_at ?here))"
    by (rule decode_peers [OF rows]) auto
  ultimately show "\<exists>ys. traverse (peer_into_domain E) (sort_key pc_created_at ?here) = Inr ys \<and>
      mset ys = mset (filter (\<lambda>y. p_interface_id y = i) ps)"
    by (auto simp del: mset_map simp: mset_map [symmetric]) (simp add: mset_map)
qed

subsection \<open>Writing\<close>

lemma parse_show_uuid [simp]:
  "uuid_text_law L \<Longrightarrow> parse_id L (nl_show_uuid L u) = Inr (Ident u)"
  by (simp add: parse_id_def uuid_text_law_def)

lemma show_Ident [simp]: "show_id L (Ident u) = nl_show_uuid L u"
  by (simp add: show_id_def)

lemma iface_inserted:
  assumes laws: "text_laws E" and rows: "net_rows_ok E d" and n: "net_of E d = (is, ps)"
    and ins: "insert_iface E r d = Inr (u, d')"
    and dec: "iface_into_domain E r = Inr x" and key: "ic_id r = show_id (de_net E) (i_id x)"
  shows "net_rows_ok E d' \<and> net_of E d' = (is @ [x], ps)"
proof -
  note isps = net_of_parts [OF n]
  have d': "d' = d\<lparr>tb_ifaces := tb_ifaces d @ [r]\<rparr>"
    and fresh: "ic_id r \<notin> ic_id ` set (tb_ifaces d)" "ic_name r \<notin> ic_name ` set (tb_ifaces d)"
    using ins by (auto simp: insert_iface_def constraint_failed_def split: if_splits)
  have ok: "iface_row_ok E r" and name: "ic_name r = i_name x"
    using dec key iface_row_okD(3) [of E r] by (auto simp: iface_row_ok_def iface_of_def)
  have new: "i_id x \<notin> i_id ` set is" "i_name x \<notin> i_name ` set is"
    using fresh key name isps iface_row_okD(2,3) [OF rows_okD(1) [OF rows]] by force+
  have net': "net_of E d' = (is @ [x], ps)"
    using isps dec by (simp add: d' net_of_def iface_of_def)
  moreover have "net_wf (is @ [x], ps)"
    using rows_okD(3) [OF rows] new by (auto simp: n net_wf_def)
  ultimately show ?thesis
    using rows ok by (auto simp: d' net_rows_ok_def)
qed

lemma new_iface_decodes:
  "text_laws E \<Longrightarrow> key_valid E (ni_public_key new) \<Longrightarrow>
     iface_into_domain E (new_iface_row E u now new sealed) = Inr (new_iface_entity u now new sealed)"
  by (simp add: iface_into_domain_def new_iface_row_def new_iface_entity_def Let_def
      key_from_base64_valid status_from_column_def)

lemma ifaces_create_contract:
  assumes key: "key_valid E (ni_public_key new)"
  shows "triple (holds (net_inv E) (net_view E) (is, ps)) (ifaces_create E new sealed)
     (\<lambda>x w. holds (net_inv E) (net_view E) (is @ [x], ps) w \<and> iface_made new sealed x)
     (\<lambda>_. holds (net_inv E) (net_view E) (is, ps))"
  unfolding ifaces_create_def
proof (intro triple_bind [OF net_on_os] triple_bind [OF net_exec] triple_ret)
  fix u now d d' and y :: unit
  assume laws: "text_laws E" and "net_rows_ok E d" "net_of E d = (is, ps)"
    "insert_iface E (new_iface_row E u now new sealed) d = Inr (y, d')"
  then show "net_rows_ok E d' \<and> net_of E d' = (is @ [new_iface_entity u now new sealed], ps)"
    by (rule iface_inserted)
      (simp_all add: new_iface_decodes [OF laws key], simp add: new_iface_row_def new_iface_entity_def Let_def)
qed (simp add: holds_def iface_made_def new_iface_entity_def)

lemma iface_updated:
  assumes laws: "text_laws E" and rows: "net_rows_ok E d" and n: "net_of E d = (is, ps)"
    and step: "\<And>r. iface_row_ok E r \<Longrightarrow> i_id (iface_of E r) = i_id x \<Longrightarrow>
      iface_into_domain E (f r) = Inr (iface_over x now (iface_of E r)) \<and> ic_id (f r) = ic_id r"
  shows "net_rows_ok E (d\<lparr>tb_ifaces := update_rows (\<lambda>r. ic_id r = show_id (de_net E) (i_id x)) f (tb_ifaces d)\<rparr>) \<and>
    net_of E (d\<lparr>tb_ifaces := update_rows (\<lambda>r. ic_id r = show_id (de_net E) (i_id x)) f (tb_ifaces d)\<rparr>) =
      (put_iface x now is, ps)"
proof -
  note isps = net_of_parts [OF n]
  let ?rows = "update_rows (\<lambda>r. ic_id r = show_id (de_net E) (i_id x)) f (tb_ifaces d)"
  have match: "ic_id r = show_id (de_net E) (i_id x) \<longleftrightarrow> i_id (iface_of E r) = i_id x"
    if "r \<in> set (tb_ifaces d)" for r
    using iface_row_okD(2) [OF rows_okD(1) [OF rows that]] show_id_eq_iff [OF laws] by metis
  have upd: "iface_of E (f r) = iface_over x now (iface_of E r)" "iface_row_ok E (f r)"
    if "r \<in> set (tb_ifaces d)" "i_id (iface_of E r) = i_id x" for r
    using step [OF rows_okD(1) [OF rows that(1)] that(2)]
      iface_row_okD(2) [OF rows_okD(1) [OF rows that(1)]]
    by (auto simp: iface_of_def iface_row_ok_def iface_over_def)
  have is': "map (iface_of E) ?rows = put_iface x now is"
    unfolding conjunct1 [OF isps] put_iface_def update_rows_def using match upd by simp
  have "iface_row_ok E r" if "r \<in> set ?rows" for r
    using that match upd rows_okD(1) [OF rows] by (auto simp: update_rows_def split: if_splits)
  moreover have "net_wf (put_iface x now is, ps)"
    using rows_okD(3) [OF rows] by (simp add: n net_wf_def)
  ultimately show ?thesis
    using rows is' isps by (auto simp: net_rows_ok_def net_of_def)
qed

lemma iface_set_columns_decodes:
  assumes "text_laws E" "key_valid E (i_public_key x)" "iface_row_ok E r"
  shows "iface_into_domain E (iface_set_columns E now x r) = Inr (iface_over x now (iface_of E r)) \<and>
    ic_id (iface_set_columns E now x r) = ic_id r"
proof -
  obtain y where y: "iface_into_domain E r = Inr y" "ic_id r = show_id (de_net E) (i_id y)"
    using assms(3) by (auto simp: iface_row_ok_def)
  then have "i_name y = ic_name r" "i_created_at y = ic_created_at r"
    by (auto simp: iface_into_domain_def res_bind_ok_iff Let_def)
  moreover have "ic_id (iface_set_columns E now x r) = ic_id r"
    by (simp add: iface_set_columns_def Let_def)
  ultimately show ?thesis
    unfolding iface_of_ok [OF y(1)] iface_into_domain_def [of E "iface_set_columns E now x r"]
    using y(2) assms(1,2)
    by (simp add: iface_set_columns_def iface_over_def Let_def key_from_base64_valid)
qed

lemma ifaces_update_contract:
  assumes key: "key_valid E (i_public_key x)"
  shows "triple (holds (net_inv E) (net_view E) (is, ps)) (ifaces_update E x)
     (\<lambda>_ w. \<exists>now. holds (net_inv E) (net_view E) (put_iface x now is, ps) w)
     (\<lambda>_. holds (net_inv E) (net_view E) (is, ps))"
  unfolding ifaces_update_def
proof (rule triple_bind [OF net_on_os], rule triple_conseq [OF net_exec])
  fix now d d' and y :: unit
  assume laws: "text_laws E" and rows: "net_rows_ok E d" and n: "net_of E d = (is, ps)"
    and upd: "Inr ((), d\<lparr>tb_ifaces := update_rows (\<lambda>r. ic_id r = show_id (de_net E) (i_id x))
        (iface_set_columns E now x) (tb_ifaces d)\<rparr>) = (Inr (y, d') :: sqlx_error + _)"
  show "net_rows_ok E d' \<and> net_of E d' = (put_iface x now is, ps)"
    using iface_updated [OF laws rows n iface_set_columns_decodes [OF laws key, of _ now]] upd
    by (metis Inr_inject prod.inject)
qed (auto simp: holds_def)

text \<open>The deletion of an interface takes its peers along.\<close>

lemma ifaces_delete_contract:
  "triple (holds (net_inv E) (net_view E) (is, ps)) (ifaces_delete E i)
     (\<lambda>_. holds (net_inv E) (net_view E)
        (filter (\<lambda>y. i_id y \<noteq> i) is, filter (\<lambda>p. p_interface_id p \<noteq> i) ps))
     (\<lambda>_. holds (net_inv E) (net_view E) (is, ps))"
  unfolding ifaces_delete_def Let_def
proof (rule triple_conseq [OF net_exec])
  fix d d' and y :: unit
  let ?key = "show_id (de_net E) i"
  assume laws: "text_laws E" and rows: "net_rows_ok E d" and n: "net_of E d = (is, ps)"
    and del: "(if ?key \<notin> set (map ic_id (tb_ifaces d)) then Inr ((), d)
        else Inr ((), (drop_peers (\<lambda>r. pc_interface_id r = ?key) d)
               \<lparr>tb_ifaces := filter (\<lambda>r. ic_id r \<noteq> ?key) (tb_ifaces d)\<rparr>)) =
        (Inr (y, d') :: sqlx_error + _)"
  note isps = net_of_parts [OF n]
  have key: "ic_id r = ?key \<longleftrightarrow> i_id (iface_of E r) = i" if "r \<in> set (tb_ifaces d)" for r
    using iface_row_okD(2) [OF rows_okD(1) [OF rows that]] show_id_eq_iff [OF laws] by metis
  have pkey: "pc_interface_id r = ?key \<longleftrightarrow> p_interface_id (peer_of E r) = i"
    if "r \<in> set (tb_peers d)" for r
    using peer_row_okD(3) [OF rows_okD(2) [OF rows that]] show_id_eq_iff [OF laws] by metis
  have is': "map (iface_of E) (filter (\<lambda>r. ic_id r \<noteq> ?key) (tb_ifaces d)) = filter (\<lambda>y. i_id y \<noteq> i) is"
    unfolding conjunct1 [OF isps] filter_map o_def
    by (rule arg_cong [where f = "map _"], rule filter_cong) (simp_all add: key)
  have ps': "map (peer_of E) (filter (\<lambda>r. pc_interface_id r \<noteq> ?key) (tb_peers d)) =
      filter (\<lambda>p. p_interface_id p \<noteq> i) ps"
    unfolding conjunct2 [OF isps] filter_map o_def
    by (rule arg_cong [where f = "map _"], rule filter_cong) (simp_all add: pkey)
  have wf: "net_wf (filter (\<lambda>y. i_id y \<noteq> i) is, filter (\<lambda>p. p_interface_id p \<noteq> i) ps)"
    using rows_okD(3) [OF rows] by (auto simp: n net_wf_def distinct_map_filter)
  show "net_rows_ok E d' \<and>
      net_of E d' = (filter (\<lambda>y. i_id y \<noteq> i) is, filter (\<lambda>p. p_interface_id p \<noteq> i) ps)"
  proof (cases "?key \<in> set (map ic_id (tb_ifaces d))")
    case True
    then have "d' = (drop_peers (\<lambda>r. pc_interface_id r = ?key) d)
               \<lparr>tb_ifaces := filter (\<lambda>r. ic_id r \<noteq> ?key) (tb_ifaces d)\<rparr>"
      using del by simp
    moreover from this have "net_of E d' = (filter (\<lambda>y. i_id y \<noteq> i) is, filter (\<lambda>p. p_interface_id p \<noteq> i) ps)"
      using is' ps' by (simp add: net_of_def drop_peers_def)
    ultimately show ?thesis
      using wf rows by (auto simp: net_rows_ok_def drop_peers_def)
  next
    case False
    have absent: "i \<notin> i_id ` set is"
    proof
      assume "i \<in> i_id ` set is"
      then obtain r where r: "r \<in> set (tb_ifaces d)" "i_id (iface_of E r) = i"
        unfolding conjunct1 [OF isps] by auto
      then have "ic_id r = ?key"
        using key by blast
      with r(1) False show False
        by (metis imageI list.set_map)
    qed
    then have "filter (\<lambda>y. i_id y \<noteq> i) is = is"
      by (auto simp: filter_id_conv)
    moreover have "\<forall>p \<in> set ps. p_interface_id p \<noteq> i"
      using rows_okD(3) [OF rows] absent by (auto simp: n net_wf_def)
    then have "filter (\<lambda>p. p_interface_id p \<noteq> i) ps = ps"
      by (auto simp: filter_id_conv)
    ultimately have "(filter (\<lambda>y. i_id y \<noteq> i) is, filter (\<lambda>p. p_interface_id p \<noteq> i) ps) = (is, ps)"
      by simp
    moreover have "d' = d"
      using False del by simp
    ultimately show ?thesis
      using n rows by (simp only:)
  qed
qed (auto simp: holds_def)

lemma of_bool_i64 [simp]: "(of_bool b :: i64) \<noteq> 0 \<longleftrightarrow> b" "(of_bool b :: i64) = 0 \<longleftrightarrow> \<not> b"
  by (cases b; simp)+

lemma nets_json_roundtrip [simp]:
  "text_laws E \<Longrightarrow>
     traverse (nl_parse_net (de_net E)) (strings_from_json E (Some (nets_to_json E ns))) = Inr ns"
  by (simp add: nets_to_json_def)

lemma new_peer_decodes:
  "text_laws E \<Longrightarrow> key_valid E (np_public_key new) \<Longrightarrow>
     peer_into_domain E (new_peer_row E u now new pre) = Inr (new_peer_entity u now new pre)"
  by (simp add: peer_into_domain_def new_peer_row_def new_peer_entity_def key_from_base64_valid)

lemma peer_inserted:
  assumes laws: "text_laws E" and rows: "net_rows_ok E d" and n: "net_of E d = (is, ps)"
    and ins: "insert_peer E r d = Inr (u, d')"
    and dec: "peer_into_domain E r = Inr x" and key: "pc_id r = show_id (de_net E) (p_id x)"
    and ikey: "pc_interface_id r = show_id (de_net E) (p_interface_id x)"
  shows "net_rows_ok E d' \<and> net_of E d' = (is, ps @ [x])"
proof -
  note isps = net_of_parts [OF n]
  have d': "d' = d\<lparr>tb_peers := tb_peers d @ [r]\<rparr>"
    and fresh: "pc_id r \<notin> pc_id ` set (tb_peers d)"
    and fk: "pc_interface_id r \<in> ic_id ` set (tb_ifaces d)"
    using ins by (auto simp: insert_peer_def constraint_failed_def split: if_splits)
  have ok: "peer_row_ok E r"
    using dec key ikey by (auto simp: peer_row_ok_def)
  have new: "p_id x \<notin> p_id ` set ps"
    using fresh key peer_row_okD(2) [OF rows_okD(2) [OF rows]]
    unfolding conjunct2 [OF isps] by force
  obtain ir where ir: "ir \<in> set (tb_ifaces d)" "ic_id ir = pc_interface_id r"
    using fk by auto
  then have "i_id (iface_of E ir) = p_interface_id x"
    using ikey iface_row_okD(2) [OF rows_okD(1) [OF rows ir(1)]] show_id_eq_iff [OF laws] by metis
  with ir(1) have ifk: "p_interface_id x \<in> i_id ` set is"
    unfolding conjunct1 [OF isps] by force
  have "net_of E d' = (is, ps @ [x])"
    using isps dec by (simp add: d' net_of_def peer_of_def)
  moreover have "net_wf (is, ps @ [x])"
    using rows_okD(3) [OF rows] new ifk by (auto simp: n net_wf_def)
  ultimately show ?thesis
    using rows ok by (auto simp: d' net_rows_ok_def)
qed

lemma peers_create_contract:
  assumes key: "key_valid E (np_public_key new)"
  shows "triple (holds (net_inv E) (net_view E) (is, ps)) (peers_create E new pre)
     (\<lambda>x w. holds (net_inv E) (net_view E) (is, ps @ [x]) w \<and> peer_made new pre x)
     (\<lambda>_. holds (net_inv E) (net_view E) (is, ps))"
  unfolding peers_create_def
proof (intro triple_bind [OF net_on_os] triple_bind [OF net_exec] triple_ret)
  fix u now d d' and y :: unit
  assume laws: "text_laws E" and "net_rows_ok E d" "net_of E d = (is, ps)"
    "insert_peer E (new_peer_row E u now new pre) d = Inr (y, d')"
  then show "net_rows_ok E d' \<and> net_of E d' = (is, ps @ [new_peer_entity u now new pre])"
    by (rule peer_inserted)
      (simp_all add: new_peer_decodes [OF laws key], simp_all add: new_peer_row_def new_peer_entity_def)
qed (simp add: holds_def peer_made_def new_peer_entity_def)

text \<open>A statement that rewrites the rows of one peer.\<close>

lemma peer_rewritten:
  assumes laws: "text_laws E" and rows: "net_rows_ok E d" and n: "net_of E d = (is, ps)"
    and step: "\<And>r. r \<in> set (tb_peers d) \<Longrightarrow> p_id (peer_of E r) = i \<Longrightarrow>
      peer_into_domain E (f r) = Inr (g (peer_of E r)) \<and> pc_id (f r) = pc_id r \<and>
      pc_interface_id (f r) = show_id (de_net E) (p_interface_id (g (peer_of E r))) \<and>
      p_id (g (peer_of E r)) = i \<and> p_interface_id (g (peer_of E r)) \<in> i_id ` set is"
  defines "d' \<equiv> d\<lparr>tb_peers := update_rows (\<lambda>r. pc_id r = show_id (de_net E) i) f (tb_peers d)\<rparr>"
  shows "net_rows_ok E d' \<and> net_of E d' = (is, map (\<lambda>y. if p_id y = i then g y else y) ps)"
proof -
  note isps = net_of_parts [OF n]
  have match: "pc_id r = show_id (de_net E) i \<longleftrightarrow> p_id (peer_of E r) = i"
    if "r \<in> set (tb_peers d)" for r
    using peer_row_okD(2) [OF rows_okD(2) [OF rows that]] show_id_eq_iff [OF laws] by metis
  have upd: "peer_of E (f r) = g (peer_of E r)" "peer_row_ok E (f r)"
    if "r \<in> set (tb_peers d)" "p_id (peer_of E r) = i" for r
    using step [OF that] peer_row_okD(2) [OF rows_okD(2) [OF rows that(1)]] that(2)
    by (auto simp: peer_of_def peer_row_ok_def)
  have ps': "map (peer_of E) (tb_peers d') = map (\<lambda>y. if p_id y = i then g y else y) ps"
    unfolding conjunct2 [OF isps] d'_def update_rows_def using match upd by simp
  have "peer_row_ok E r" if "r \<in> set (tb_peers d')" for r
    using that match upd rows_okD(2) [OF rows] by (auto simp: d'_def update_rows_def split: if_splits)
  moreover have "p_id (g y) = i" "p_interface_id (g y) \<in> i_id ` set is" if "y \<in> set ps" "p_id y = i" for y
    using that step unfolding conjunct2 [OF isps] by auto
  then have "map p_id (map (\<lambda>y. if p_id y = i then g y else y) ps) = map p_id ps"
    and "\<forall>y \<in> set (map (\<lambda>y. if p_id y = i then g y else y) ps). p_interface_id y \<in> i_id ` set is"
    using rows_okD(3) [OF rows] by (auto simp: n net_wf_def)
  then have "net_wf (is, map (\<lambda>y. if p_id y = i then g y else y) ps)"
    using rows_okD(3) [OF rows] unfolding n net_wf_def fst_conv snd_conv by presburger
  ultimately show ?thesis
    using rows ps' isps by (auto simp: net_rows_ok_def net_of_def d'_def)
qed

lemma peer_set_columns_decodes:
  assumes laws: "text_laws E" and key: "key_valid E (p_public_key x)" and ok: "peer_row_ok E r"
  shows "peer_into_domain E (peer_set_columns E now x r) = Inr (peer_over x now (peer_of E r))"
    and "pc_id (peer_set_columns E now x r) = pc_id r"
    and "pc_interface_id (peer_set_columns E now x r) = show_id (de_net E) (p_interface_id x)"
proof -
  obtain y where y: "peer_into_domain E r = Inr y" "pc_id r = show_id (de_net E) (p_id y)"
    using ok by (auto simp: peer_row_ok_def)
  then have "opt_traverse (parse_id (de_net E)) (pc_owner r) = Inr (p_owner y)"
    "p_preshared_key_sealed y = pc_preshared_key_sealed r" "p_used y = pc_used r"
    "p_created_at y = pc_created_at r"
    by (auto simp: peer_into_domain_def res_bind_ok_iff Let_def)
  then show "peer_into_domain E (peer_set_columns E now x r) = Inr (peer_over x now (peer_of E r))"
    unfolding peer_of_ok [OF y(1)] peer_into_domain_def [of E "peer_set_columns E now x r"]
    using y(2) laws key
    by (simp add: peer_set_columns_def peer_over_def Let_def key_from_base64_valid)
qed (simp_all add: peer_set_columns_def)

lemma peers_update_contract:
  assumes key: "key_valid E (p_public_key x)"
  shows "triple (holds (net_inv E) (net_view E) (is, ps)) (peers_update E x)
     (\<lambda>_ w. \<exists>now. holds (net_inv E) (net_view E) (is, put_peer x now ps) w)
     (\<lambda>_. holds (net_inv E) (net_view E) (is, ps))"
  unfolding peers_update_def
proof (rule triple_bind [OF net_on_os], rule triple_conseq [OF net_exec])
  fix now d d' and y :: unit
  let ?key = "show_id (de_net E) (p_id x)"
  assume laws: "text_laws E" and rows: "net_rows_ok E d" and n: "net_of E d = (is, ps)"
    and upd: "update_peer_rows E now x d = Inr (y, d')"
  have d': "d' = d\<lparr>tb_peers := update_rows (\<lambda>r. pc_id r = ?key) (peer_set_columns E now x) (tb_peers d)\<rparr>"
    and fk: "?key \<in> pc_id ` set (tb_peers d) \<Longrightarrow>
      show_id (de_net E) (p_interface_id x) \<in> ic_id ` set (tb_ifaces d)"
    using upd by (auto simp: update_peer_rows_def Let_def constraint_failed_def split: if_splits)
  have ifk: "p_interface_id x \<in> i_id ` set is" if "r \<in> set (tb_peers d)" "p_id (peer_of E r) = p_id x" for r
  proof -
    have "?key \<in> pc_id ` set (tb_peers d)"
      using that peer_row_okD(2) [OF rows_okD(2) [OF rows that(1)]] by force
    then obtain ir where ir: "ir \<in> set (tb_ifaces d)" "ic_id ir = show_id (de_net E) (p_interface_id x)"
      using fk by force
    then have "i_id (iface_of E ir) = p_interface_id x"
      using iface_row_okD(2) [OF rows_okD(1) [OF rows ir(1)]] show_id_eq_iff [OF laws] by metis
    with ir(1) show ?thesis
      unfolding conjunct1 [OF net_of_parts [OF n]] by force
  qed
  show "net_rows_ok E d' \<and> net_of E d' = (is, put_peer x now ps)"
    unfolding d' put_peer_def
    by (rule peer_rewritten [OF laws rows n])
      (simp add: peer_set_columns_decodes [OF laws key rows_okD(2) [OF rows]] peer_over_def ifk)
qed (auto simp: holds_def)

lemma peers_record_bandwidth_contract:
  "triple (holds (net_inv E) (net_view E) (is, ps)) (peers_record_bandwidth E i bytes)
     (\<lambda>_. holds (net_inv E) (net_view E) (is, put_used i bytes ps))
     (\<lambda>_. holds (net_inv E) (net_view E) (is, ps))"
  unfolding peers_record_bandwidth_def
proof (rule triple_conseq [OF net_exec])
  fix d d' and y :: unit
  assume laws: "text_laws E" and rows: "net_rows_ok E d" and n: "net_of E d = (is, ps)"
    and upd: "Inr ((), d\<lparr>tb_peers := update_rows (\<lambda>r. pc_id r = show_id (de_net E) i)
      (\<lambda>r. r\<lparr>pc_used := bytes\<rparr>) (tb_peers d)\<rparr>) = (Inr (y, d') :: sqlx_error + _)"
  have step: "peer_into_domain E (r\<lparr>pc_used := bytes\<rparr>) = Inr (peer_of E r\<lparr>p_used := bytes\<rparr>)"
    if r: "r \<in> set (tb_peers d)" for r
  proof -
    obtain y where y: "peer_into_domain E r = Inr y"
      using peer_row_okD(1) [OF rows_okD(2) [OF rows r]] by blast
    then have "peer_into_domain E (r\<lparr>pc_used := bytes\<rparr>) = Inr (y\<lparr>p_used := bytes\<rparr>)"
      by (auto simp: peer_into_domain_def res_bind_ok_iff Let_def)
    then show ?thesis
      by (simp add: peer_of_ok [OF y])
  qed
  have fk: "p_interface_id (peer_of E r) \<in> i_id ` set is" if "r \<in> set (tb_peers d)" for r
    using rows_okD(3) [OF rows] that unfolding n net_wf_def conjunct2 [OF net_of_parts [OF n]] by auto
  have d': "d' = d\<lparr>tb_peers := update_rows (\<lambda>r. pc_id r = show_id (de_net E) i)
      (\<lambda>r. r\<lparr>pc_used := bytes\<rparr>) (tb_peers d)\<rparr>"
    using upd by simp
  show "net_rows_ok E d' \<and> net_of E d' = (is, put_used i bytes ps)"
    unfolding d' put_used_def
    by (rule peer_rewritten [OF laws rows n])
      (simp add: step fk peer_row_okD(3) [OF rows_okD(2) [OF rows]])
qed (auto simp: holds_def)

lemma peers_delete_contract:
  "triple (holds (net_inv E) (net_view E) (is, ps)) (peers_delete E i)
     (\<lambda>_. holds (net_inv E) (net_view E) (is, filter (\<lambda>p. p_id p \<noteq> i) ps))
     (\<lambda>_. holds (net_inv E) (net_view E) (is, ps))"
  unfolding peers_delete_def
proof (rule triple_conseq [OF net_exec])
  fix d d' and y :: unit
  let ?key = "show_id (de_net E) i"
  assume laws: "text_laws E" and rows: "net_rows_ok E d" and n: "net_of E d = (is, ps)"
    and del: "Inr ((), drop_peers (\<lambda>r. pc_id r = ?key) d) = (Inr (y, d') :: sqlx_error + _)"
  have d': "d' = drop_peers (\<lambda>r. pc_id r = ?key) d"
    using del by simp
  have key: "pc_id r = ?key \<longleftrightarrow> p_id (peer_of E r) = i" if "r \<in> set (tb_peers d)" for r
    using peer_row_okD(2) [OF rows_okD(2) [OF rows that]] show_id_eq_iff [OF laws] by metis
  have tb: "tb_peers d' = filter (\<lambda>r. pc_id r \<noteq> ?key) (tb_peers d)"
    by (simp add: d' drop_peers_def)
  have "map (peer_of E) (tb_peers d') = filter (\<lambda>p. p_id p \<noteq> i) ps"
    unfolding conjunct2 [OF net_of_parts [OF n]] filter_map o_def tb
    by (rule arg_cong [where f = "map _"], rule filter_cong) (simp_all add: key)
  moreover have "net_wf (is, filter (\<lambda>p. p_id p \<noteq> i) ps)"
    using rows_okD(3) [OF rows] by (auto simp: n net_wf_def distinct_map_filter)
  ultimately show "net_rows_ok E d' \<and> net_of E d' = (is, filter (\<lambda>p. p_id p \<noteq> i) ps)"
    using rows n by (auto simp: net_rows_ok_def net_of_def d' drop_peers_def)
qed (auto simp: holds_def)

lemma decoded_keys_valid:
  "iface_into_domain E r = Inr x \<Longrightarrow> key_valid E (i_public_key x)"
  "peer_into_domain E q = Inr y \<Longrightarrow> key_valid E (p_public_key y)"
  by (auto simp: iface_into_domain_def peer_into_domain_def res_bind_ok_iff Let_def
      key_from_base64_ok_iff key_valid_def)

lemma stored_keys_valid:
  assumes "net_inv E w"
  shows "(\<forall>x \<in> set (fst (net_view E w)). key_valid E (i_public_key x)) \<and>
    (\<forall>p \<in> set (snd (net_view E w)). key_valid E (p_public_key p))"
proof -
  have rows: "net_rows_ok E (w_db w)"
    using assms by (simp add: net_inv_def)
  show ?thesis
    using decoded_keys_valid(1) [OF iface_row_okD(1) [OF rows_okD(1) [OF rows]]]
      decoded_keys_valid(2) [OF peer_row_okD(1) [OF rows_okD(2) [OF rows]]]
    by (auto simp: net_view_def net_of_def)
qed

lemma net_inv_wf: "net_inv E w \<Longrightarrow> net_wf (net_view E w)"
  by (simp add: net_inv_def net_view_def rows_okD(3))

lemmas sqlite_contracts =
  net_inv_wf ifaces_find_by_id_contract ifaces_find_by_name_contract ifaces_list_contract
  ifaces_create_contract ifaces_update_contract ifaces_delete_contract
  peers_find_by_id_contract peers_list_for_interface_contract peers_list_all_contract
  peers_create_contract peers_update_contract peers_delete_contract
  peers_record_bandwidth_contract stored_keys_valid

subsection \<open>The contract holds\<close>

interpretation sqlite_net: net_store "sqlite_ifaces E" "sqlite_peers E" "net_inv E" "net_view E" "key_valid E"
  for E
  by unfold_locales
    (unfold sqlite_ifaces_def sqlite_peers_def iface_repo.simps peer_repo.simps,
      (erule sqlite_contracts | rule sqlite_contracts)+)

end
