(* ===== verification/Sqlite_Records.thy ===== *)
theory Sqlite_Records
  imports Sqlite_Network
begin

section \<open>The repositories of audit events, traffic, webhooks and settings\<close>

text \<open>
  \<open>persistence/audit.rs\<close>, \<open>traffic.rs\<close>, \<open>webhooks.rs\<close> and \<open>settings.rs\<close> over the tables of
  the world. The JSON values of audit metadata are a type \<open>'j\<close> with the printer and the
  parser of \<open>serde_json\<close> (\<open>json_lib\<close>).
\<close>

record 'j json_lib =
  js_show :: "'j \<Rightarrow> string"
  js_parse :: "string \<Rightarrow> string + 'j"

subsection \<open>Audit\<close>

definition parse_action :: "string \<Rightarrow> core_error + audit_action" where
  "parse_action s =
     (if s = ''user.login'' then Inr User_Login
      else if s = ''user.logout'' then Inr User_Logout
      else if s = ''user.login_failed'' then Inr User_Login_Failed
      else if s = ''user.created'' then Inr User_Created
      else if s = ''user.deleted'' then Inr User_Deleted
      else if s = ''user.role_changed'' then Inr User_Role_Changed
      else if s = ''totp.enabled'' then Inr Totp_Enabled
      else if s = ''totp.disabled'' then Inr Totp_Disabled
      else if s = ''interface.created'' then Inr Interface_Created
      else if s = ''interface.updated'' then Inr Interface_Updated
      else if s = ''interface.deleted'' then Inr Interface_Deleted
      else if s = ''interface.started'' then Inr Interface_Started
      else if s = ''interface.stopped'' then Inr Interface_Stopped
      else if s = ''peer.created'' then Inr Peer_Created
      else if s = ''peer.updated'' then Inr Peer_Updated
      else if s = ''peer.deleted'' then Inr Peer_Deleted
      else if s = ''peer.enabled'' then Inr Peer_Enabled
      else if s = ''peer.disabled'' then Inr Peer_Disabled
      else if s = ''backup.created'' then Inr Backup_Created
      else if s = ''backup.restored'' then Inr Backup_Restored
      else if s = ''settings.updated'' then Inr Settings_Updated
      else Inl (Persistence (''unknown action: '' @ s)))"

definition audit_into_domain ::
    "'os db_env \<Rightarrow> 'j json_lib \<Rightarrow> audit_row \<Rightarrow> core_error + 'j audit_event" where
  "audit_into_domain E J r =
     res_bind (map_error (\<lambda>e. Persistence (''audit uuid: '' @ e))
                 (opt_traverse (parse_id (de_net E)) (ac_actor_user_id r))) (\<lambda>actor.
     res_bind (parse_action (ac_action r)) (\<lambda>action.
     res_bind (map_error (\<lambda>e. Persistence (''audit metadata: '' @ e))
                 (opt_traverse (js_parse J) (ac_metadata r))) (\<lambda>metadata.
     Inr \<lparr>ae_id = ac_id r, ae_actor_user_id = actor, ae_actor_ip = ac_actor_ip r,
          ae_action = action, ae_resource_type = ac_resource_type r,
          ae_resource_id = ac_resource_id r, ae_metadata = metadata,
          ae_created_at = ac_created_at r\<rparr>)))"

definition insert_audit :: "'os db_env \<Rightarrow> audit_row \<Rightarrow> db \<Rightarrow> sqlx_error + unit \<times> db" where
  "insert_audit E r d =
     (if ac_actor_user_id r \<noteq> None \<and> ac_actor_user_id r \<notin> set (map (Some \<circ> uc_id) (tb_users d))
      then constraint_failed E ''audit_events.actor_user_id''
      else Inr ((), d\<lparr>tb_audit := tb_audit d @ [r\<lparr>ac_id := word_of_nat (Suc (tb_audit_seq d))\<rparr>],
                      tb_audit_seq := Suc (tb_audit_seq d)\<rparr>))"

definition audit_record ::
    "'os db_env \<Rightarrow> 'j json_lib \<Rightarrow> user_id option \<Rightarrow> string option \<Rightarrow> audit_action \<Rightarrow>
     string option \<Rightarrow> string option \<Rightarrow> 'j option \<Rightarrow> ('os world, core_error, unit) io" where
  "audit_record E J actor_user_id actor_ip action resource_type resource_id metadata =
     io_bind (on_os (de_now E)) (\<lambda>now.
     db_exec E (insert_audit E
       \<lparr>ac_id = 0, ac_actor_user_id = map_option (show_id (de_net E)) actor_user_id,
        ac_actor_ip = actor_ip, ac_action = action_as_str action,
        ac_resource_type = resource_type, ac_resource_id = resource_id,
        ac_metadata = map_option (js_show J) metadata, ac_created_at = now\<rparr>))"

definition audit_list ::
    "'os db_env \<Rightarrow> 'j json_lib \<Rightarrow> u32 \<Rightarrow> ('os world, core_error, 'j audit_event list) io" where
  "audit_list E J limit =
     fetch_all E (\<lambda>d. take (unat limit) (sort_key (\<lambda>r. - ac_created_at r) (tb_audit d)))
       (audit_into_domain E J)"

definition sqlite_audit :: "'os db_env \<Rightarrow> 'j json_lib \<Rightarrow> ('os world, 'j) audit_repo" where
  "sqlite_audit E J = \<lparr>ar_record = audit_record E J, ar_list = audit_list E J\<rparr>"

subsection \<open>Traffic\<close>

definition insert_traffic :: "'os db_env \<Rightarrow> traffic_row \<Rightarrow> db \<Rightarrow> sqlx_error + unit \<times> db" where
  "insert_traffic E r d =
     (if fc_peer_id r \<notin> set (map pc_id (tb_peers d))
      then constraint_failed E ''traffic_snapshots.peer_id''
      else Inr ((), d\<lparr>tb_traffic := tb_traffic d @ [r]\<rparr>))"

definition traffic_snapshot ::
    "'os db_env \<Rightarrow> peer_id \<Rightarrow> u64 \<Rightarrow> u64 \<Rightarrow> datetime option \<Rightarrow> ('os world, core_error, unit) io" where
  "traffic_snapshot E pid tx rx last_handshake =
     io_bind (on_os (de_now E)) (\<lambda>now.
     db_exec E (insert_traffic E
       \<lparr>fc_peer_id = show_id (de_net E) pid, fc_tx_bytes = tx, fc_rx_bytes = rx,
        fc_last_handshake_at = last_handshake, fc_recorded_at = now\<rparr>))"

definition traffic_series_for_peer ::
    "'os db_env \<Rightarrow> peer_id \<Rightarrow> datetime \<Rightarrow>
     ('os world, core_error, (datetime \<times> u64 \<times> u64) list) io" where
  "traffic_series_for_peer E pid since =
     io_bind (db_query E (\<lambda>d. sort_key fc_recorded_at
       (filter (\<lambda>r. fc_peer_id r = show_id (de_net E) pid \<and> fc_recorded_at r \<ge> since) (tb_traffic d))))
      (\<lambda>rows. io_ret (map (\<lambda>r. (fc_recorded_at r, fc_tx_bytes r, fc_rx_bytes r)) rows))"

text \<open>\<open>tx.max(0) as u64\<close>\<close>

definition non_negative :: "i64 \<Rightarrow> u64" where
  "non_negative n = (if sint n < 0 then 0 else n)"

text \<open>The latest row of each peer: the first of the peer's rows in descending order of
  \<open>recorded_at\<close>. An unreadable peer id is replaced by a fresh one
  (\<open>unwrap_or_default\<close>), which reads the host's generator.\<close>

fun latest_rows :: "traffic_row list \<Rightarrow> string list \<Rightarrow> traffic_row list" where
  "latest_rows [] seen = []"
| "latest_rows (r # rs) seen =
     (if fc_peer_id r \<in> set seen then latest_rows rs seen
      else r # latest_rows rs (fc_peer_id r # seen))"

fun traffic_rows_out ::
    "'os db_env \<Rightarrow> traffic_row list \<Rightarrow> ('os world, core_error, peer_traffic_row list) io" where
  "traffic_rows_out E [] = io_ret []"
| "traffic_rows_out E (r # rs) =
     io_bind (case parse_id (de_net E) (fc_peer_id r) of
                Inr i \<Rightarrow> io_ret i
              | Inl _ \<Rightarrow> io_bind (on_os (de_uuid E)) (\<lambda>u. io_ret (Ident u))) (\<lambda>i.
     io_bind (traffic_rows_out E rs) (\<lambda>out.
     io_ret (\<lparr>pt_peer_id = i, pt_tx = non_negative (fc_tx_bytes r),
              pt_rx = non_negative (fc_rx_bytes r),
              pt_last_handshake = fc_last_handshake_at r\<rparr> # out)))"

definition traffic_latest_per_peer ::
    "'os db_env \<Rightarrow> ('os world, core_error, peer_traffic_row list) io" where
  "traffic_latest_per_peer E =
     io_bind (db_query E (\<lambda>d. latest_rows (sort_key (\<lambda>r. - fc_recorded_at r) (tb_traffic d)) []))
       (traffic_rows_out E)"

definition MINUTE :: int where
  "MINUTE = 60 * 1000000000"

definition minute_bucket :: "datetime \<Rightarrow> datetime" where
  "minute_bucket t = t - t mod MINUTE"

text \<open>\<open>SUM\<close> of a column of integers is an error when it leaves the signed 64-bit range.\<close>

definition sum_column :: "(traffic_row \<Rightarrow> i64) \<Rightarrow> traffic_row list \<Rightarrow> i64 option" where
  "sum_column f rows =
     (let s = (\<Sum>r\<leftarrow>rows. sint (f r))
      in if - (2 ^ 63) \<le> s \<and> s < 2 ^ 63 then Some (word_of_int s) else None)"

definition bucket_totals ::
    "traffic_row list \<Rightarrow> datetime \<Rightarrow> (datetime \<times> u64 \<times> u64) option" where
  "bucket_totals rows b =
     (let here = filter (\<lambda>r. minute_bucket (fc_recorded_at r) = b) rows
      in case (sum_column fc_tx_bytes here, sum_column fc_rx_bytes here) of
           (Some tx, Some rx) \<Rightarrow> Some (b, non_negative tx, non_negative rx)
         | _ \<Rightarrow> None)"

definition traffic_series_totals ::
    "'os db_env \<Rightarrow> datetime \<Rightarrow> ('os world, core_error, (datetime \<times> u64 \<times> u64) list) io" where
  "traffic_series_totals E since =
     io_bind (db_query E (\<lambda>d. filter (\<lambda>r. fc_recorded_at r \<ge> since) (tb_traffic d))) (\<lambda>rows.
     io_lift (traverse
       (\<lambda>b. case bucket_totals rows b of
              None \<Rightarrow> Inl (map_err (Sqlx_Other (de_sum_overflow E)))
            | Some t \<Rightarrow> Inr t)
       (sort (remdups (map (minute_bucket \<circ> fc_recorded_at) rows)))))"

definition sqlite_traffic :: "'os db_env \<Rightarrow> 'os world traffic_repo" where
  "sqlite_traffic E = \<lparr>
     tf_snapshot = traffic_snapshot E, tf_series_for_peer = traffic_series_for_peer E,
     tf_latest_per_peer = traffic_latest_per_peer E, tf_series_totals = traffic_series_totals E\<rparr>"

subsection \<open>Webhooks\<close>

definition webhook_into_domain :: "'os db_env \<Rightarrow> webhook_row \<Rightarrow> core_error + webhook" where
  "webhook_into_domain E r =
     (let events = strings_from_json E (Some (hc_events r)) in
     res_bind (map_error (\<lambda>e. Persistence (''wh user: '' @ e))
                 (opt_traverse (parse_id (de_net E)) (hc_created_by r))) (\<lambda>created_by.
     res_bind (map_error (\<lambda>e. Persistence (''wh id: '' @ e)) (parse_id (de_net E) (hc_id r))) (\<lambda>i.
     Inr \<lparr>h_id = i, h_url = hc_url r, h_secret = hc_secret r, h_events = events,
          h_enabled = (hc_enabled r \<noteq> 0), h_created_by = created_by,
          h_created_at = hc_created_at r\<rparr>)))"

definition insert_webhook :: "'os db_env \<Rightarrow> webhook_row \<Rightarrow> db \<Rightarrow> sqlx_error + unit \<times> db" where
  "insert_webhook E r d =
     (if hc_id r \<in> set (map hc_id (tb_webhooks d)) then constraint_failed E ''webhooks.id''
      else if hc_created_by r \<noteq> None \<and> hc_created_by r \<notin> set (map (Some \<circ> uc_id) (tb_users d))
        then constraint_failed E ''webhooks.created_by''
      else Inr ((), d\<lparr>tb_webhooks := tb_webhooks d @ [r]\<rparr>))"

definition webhooks_list_enabled :: "'os db_env \<Rightarrow> ('os world, core_error, webhook list) io" where
  "webhooks_list_enabled E =
     fetch_all E (\<lambda>d. filter (\<lambda>r. hc_enabled r = 1) (tb_webhooks d)) (webhook_into_domain E)"

definition webhooks_list :: "'os db_env \<Rightarrow> ('os world, core_error, webhook list) io" where
  "webhooks_list E =
     fetch_all E (\<lambda>d. sort_key hc_created_at (tb_webhooks d)) (webhook_into_domain E)"

definition webhooks_create ::
    "'os db_env \<Rightarrow> new_webhook \<Rightarrow> ('os world, core_error, webhook) io" where
  "webhooks_create E new =
     io_bind (on_os (de_uuid E)) (\<lambda>u.
     io_bind (on_os (de_now E)) (\<lambda>now.
     io_bind (db_exec E (insert_webhook E
        \<lparr>hc_id = nl_show_uuid (de_net E) u, hc_url = nh_url new, hc_secret = nh_secret new,
         hc_events = strings_to_json E (nh_events new), hc_enabled = 1,
         hc_created_by = map_option (show_id (de_net E)) (nh_created_by new),
         hc_created_at = now\<rparr>)) (\<lambda>_.
     io_ret \<lparr>h_id = Ident u, h_url = nh_url new, h_secret = nh_secret new,
             h_events = nh_events new, h_enabled = True, h_created_by = nh_created_by new,
             h_created_at = now\<rparr>)))"

definition webhooks_delete :: "'os db_env \<Rightarrow> webhook_id \<Rightarrow> ('os world, core_error, unit) io" where
  "webhooks_delete E i = db_exec E (\<lambda>d. Inr ((), d\<lparr>tb_webhooks :=
     filter (\<lambda>r. hc_id r \<noteq> show_id (de_net E) i) (tb_webhooks d)\<rparr>))"

definition sqlite_webhooks :: "'os db_env \<Rightarrow> 'os world webhook_repo" where
  "sqlite_webhooks E = \<lparr>
     wr_list_enabled = webhooks_list_enabled E, wr_list = webhooks_list E,
     wr_create = webhooks_create E, wr_delete = webhooks_delete E\<rparr>"

subsection \<open>Settings\<close>

definition settings_all :: "'os db_env \<Rightarrow> ('os world, core_error, (string \<times> string) list) io" where
  "settings_all E = db_query E (\<lambda>d. map (\<lambda>r. (sc_key r, sc_value r)) (tb_settings d))"

definition upsert_setting :: "'os db_env \<Rightarrow> setting_row \<Rightarrow> db \<Rightarrow> sqlx_error + unit \<times> db" where
  "upsert_setting E r d =
     (if sc_updated_by r \<noteq> None \<and> sc_updated_by r \<notin> set (map (Some \<circ> uc_id) (tb_users d))
      then constraint_failed E ''settings.updated_by''
      else Inr ((), d\<lparr>tb_settings :=
        if sc_key r \<in> set (map sc_key (tb_settings d))
        then update_rows (\<lambda>q. sc_key q = sc_key r)
               (\<lambda>q. q\<lparr>sc_value := sc_value r, sc_updated_by := sc_updated_by r,
                      sc_updated_at := sc_updated_at r\<rparr>) (tb_settings d)
        else tb_settings d @ [r]\<rparr>))"

definition settings_upsert ::
    "'os db_env \<Rightarrow> string \<Rightarrow> string \<Rightarrow> user_id option \<Rightarrow> ('os world, core_error, unit) io" where
  "settings_upsert E k v actor =
     io_bind (on_os (de_now E)) (\<lambda>now.
     db_exec E (upsert_setting E
       \<lparr>sc_key = k, sc_value = v, sc_updated_by = map_option (show_id (de_net E)) actor,
        sc_updated_at = now, sc_created_at = now\<rparr>))"

definition sqlite_settings :: "'os db_env \<Rightarrow> 'os world settings_repo" where
  "sqlite_settings E = \<lparr>sr_all = settings_all E, sr_upsert = settings_upsert E\<rparr>"

definition world_settings_cell :: "'os world settings_cell" where
  "world_settings_cell = \<lparr>cell_read = w_settings, cell_write = (\<lambda>s w. w\<lparr>w_settings := s\<rparr>)\<rparr>"

end
