(* ===== verification/Wireguard_Adapter.thy ===== *)
theory Wireguard_Adapter
  imports World
begin

section \<open>The WireGuard adapter\<close>

text \<open>
  \<open>wireforge-infra/src/wireguard/mod.rs\<close>: the adapter over the crate
  \<open>defguard_wireguard_rs\<close>, whose calls are the record \<open>wg_lib\<close>: each acts on the kernel's
  interface of the given name in the host's state and may fail with a text. A key of that
  crate is its bytes; \<open>wl_parse_socket\<close> is the text form of a socket address. The join error
  of a blocking task (a panic inside it) is not modelled: the closures do not panic.
\<close>

record wg_peer =
  wp_public_key :: "u8 list"
  wp_allowed_ips :: "(ip_addr \<times> nat) list"
  wp_endpoint :: "string option"
  wp_keepalive :: "u16 option"

record wg_config =
  wc_name :: string
  wc_prvkey :: string
  wc_addresses :: "(ip_addr \<times> nat) list"
  wc_port :: u16
  wc_peers :: "wg_peer list"
  wc_mtu :: "u32 option"

text \<open>A peer as the kernel reports it; the time of the last handshake is in nanoseconds
  relative to the Unix epoch.\<close>

record wg_host_peer =
  wh_public_key :: "u8 list"
  wh_last_handshake :: "int option"
  wh_rx_bytes :: u64
  wh_tx_bytes :: u64
  wh_endpoint :: "string option"

record 'os wg_lib =
  wl_key_try_from :: "u8 list \<Rightarrow> string + u8 list"
  wl_public_key :: "u8 list \<Rightarrow> u8 list"
  wl_key_generate :: "'os \<Rightarrow> u8 list \<times> 'os"
  wl_parse_socket :: "string \<Rightarrow> string option"
  wl_from_timestamp :: "i64 \<Rightarrow> datetime option"
  wl_open :: "string \<Rightarrow> 'os \<Rightarrow> (string + unit) \<times> 'os"
  wl_create_interface :: "string \<Rightarrow> 'os \<Rightarrow> (string + unit) \<times> 'os"
  wl_configure_interface :: "string \<Rightarrow> wg_config \<Rightarrow> 'os \<Rightarrow> (string + unit) \<times> 'os"
  wl_configure_peer_routing :: "string \<Rightarrow> wg_peer list \<Rightarrow> 'os \<Rightarrow> (string + unit) \<times> 'os"
  wl_remove_interface :: "string \<Rightarrow> 'os \<Rightarrow> (string + unit) \<times> 'os"
  wl_configure_peer :: "string \<Rightarrow> wg_peer \<Rightarrow> 'os \<Rightarrow> (string + unit) \<times> 'os"
  wl_remove_peer :: "string \<Rightarrow> u8 list \<Rightarrow> 'os \<Rightarrow> (string + unit) \<times> 'os"
  wl_read_interface_data :: "string \<Rightarrow> 'os \<Rightarrow> (string + wg_host_peer list) \<times> 'os"

record 'os defguard =
  da_seal_key :: seal_key
  da_dry_run :: bool
  da_crypto :: "'os crypto_lib"
  da_lib :: "'os wg_lib"
  da_net :: net_lib
  da_utf8_error :: "u8 list \<Rightarrow> string"

text \<open>The value of \<open>WIREFORGE_WG_DRY_RUN\<close> (\<open>None\<close> when it is not set).\<close>

definition dry_run_from_env :: "string option \<Rightarrow> bool" where
  "dry_run_from_env v =
     (case v of None \<Rightarrow> False | Some s \<Rightarrow> s = ''1'' \<or> to_ascii_lowercase s = ''true'')"

text \<open>A call of the library with its error text behind \<open>prefix\<close>.\<close>

definition wg_call ::
    "string \<Rightarrow> ('os \<Rightarrow> (string + 'a) \<times> 'os) \<Rightarrow> ('os world, core_error, 'a) io" where
  "wg_call prefix f = io_map_err (\<lambda>e. Wire_Guard (prefix @ '': '' @ e)) (on_os_res f)"

definition wgapi_open :: "'os defguard \<Rightarrow> string \<Rightarrow> ('os world, core_error, unit) io" where
  "wgapi_open A name = wg_call (''wgapi open '' @ [CHR 0x27] @ name @ [CHR 0x27]) (wl_open (da_lib A) name)"

definition unseal_private :: "'os defguard \<Rightarrow> iface \<Rightarrow> core_error + wg_private_key" where
  "unseal_private A i =
     res_bind (unseal (da_crypto A) (i_private_key_sealed i) (da_seal_key A)) (\<lambda>bytes.
     case from_utf8 bytes of
       None \<Rightarrow> Inl (Crypto_Error (''private key utf8: '' @ da_utf8_error A bytes))
     | Some s \<Rightarrow> key_from_base64 (cl_b64_decode (da_crypto A)) Wg_Private_Key s)"

definition decode_b64_key :: "'os defguard \<Rightarrow> string \<Rightarrow> core_error + u8 list" where
  "decode_b64_key A s =
     res_bind (map_error (\<lambda>e. Crypto_Error (''key b64: '' @ e)) (cl_b64_decode (da_crypto A) s)) (\<lambda>bytes.
     map_error (\<lambda>e. Crypto_Error (''key bytes: '' @ e)) (wl_key_try_from (da_lib A) bytes))"

definition prefix_of :: "ip_net \<Rightarrow> nat" where
  "prefix_of n = (case n of Net_V4 _ p \<Rightarrow> p | Net_V6 _ p \<Rightarrow> p)"

definition addr_mask :: "'os defguard \<Rightarrow> ip_net \<Rightarrow> ip_addr \<times> nat" where
  "addr_mask A c = (nl_network (da_net A) c, prefix_of c)"

definition to_wg_peer :: "'os defguard \<Rightarrow> peer \<Rightarrow> core_error + wg_peer" where
  "to_wg_peer A p =
     res_bind (decode_b64_key A (public_str (p_public_key p))) (\<lambda>key.
     Inr \<lparr>wp_public_key = key, wp_allowed_ips = map (addr_mask A) (p_allowed_ips p),
          wp_endpoint = Option.bind (p_endpoint p) (wl_parse_socket (da_lib A)),
          wp_keepalive = p_keepalive p\<rparr>)"

definition adapter_derive_public_key ::
    "'os defguard \<Rightarrow> wg_private_key \<Rightarrow> ('os world, core_error, wg_public_key) io" where
  "adapter_derive_public_key A private =
     io_lift (
       res_bind (map_error (\<lambda>e. Crypto_Error (''priv b64: '' @ e))
                   (cl_b64_decode (da_crypto A) (private_str private))) (\<lambda>priv_bytes.
       res_bind (map_error (\<lambda>e. Crypto_Error (''priv key: '' @ e))
                   (wl_key_try_from (da_lib A) priv_bytes)) (\<lambda>priv_key.
       key_from_base64 (cl_b64_decode (da_crypto A)) Wg_Public_Key
         (cl_b64_encode (da_crypto A) (wl_public_key (da_lib A) priv_key)))))"

definition adapter_generate_keypair ::
    "'os defguard \<Rightarrow> ('os world, core_error, wg_private_key \<times> wg_public_key) io" where
  "adapter_generate_keypair A =
     io_bind (on_os (wl_key_generate (da_lib A))) (\<lambda>private.
     let public = wl_public_key (da_lib A) private;
         decode = cl_b64_decode (da_crypto A); encode = cl_b64_encode (da_crypto A) in
     io_bind (io_lift (key_from_base64 decode Wg_Private_Key (encode private))) (\<lambda>priv.
     io_bind (io_lift (key_from_base64 decode Wg_Public_Key (encode public))) (\<lambda>pub.
     io_ret (priv, pub))))"

definition adapter_create_interface ::
    "'os defguard \<Rightarrow> iface \<Rightarrow> ('os world, core_error, unit) io" where
  "adapter_create_interface A i =
     (if da_dry_run A then io_ret ()
      else io_bind (wgapi_open A (i_name i)) (\<lambda>_.
        wg_call (''create '' @ i_name i) (wl_create_interface (da_lib A) (i_name i))))"

definition interface_addresses :: "'os defguard \<Rightarrow> iface \<Rightarrow> (ip_addr \<times> nat) list" where
  "interface_addresses A i =
     map (addr_mask A) (List.map_filter id [i_ipv4_cidr i, i_ipv6_cidr i])"

definition adapter_interface_up ::
    "'os defguard \<Rightarrow> iface \<Rightarrow> peer list \<Rightarrow> ('os world, core_error, unit) io" where
  "adapter_interface_up A i peers =
     (if da_dry_run A then io_ret ()
      else
     io_bind (io_lift (unseal_private A i)) (\<lambda>private.
     io_bind (io_lift (traverse (to_wg_peer A) (filter p_enabled peers))) (\<lambda>wg_peers.
     let cfg = \<lparr>wc_name = i_name i, wc_prvkey = private_str private,
                wc_addresses = interface_addresses A i, wc_port = i_listen_port i,
                wc_peers = wg_peers, wc_mtu = map_option ucast (i_mtu i)\<rparr> in
     io_bind (wgapi_open A (i_name i)) (\<lambda>_.
     io_bind (wg_call (''configure '' @ i_name i)
                (wl_configure_interface (da_lib A) (i_name i) cfg)) (\<lambda>_.
     wg_call (''routing '' @ i_name i)
       (wl_configure_peer_routing (da_lib A) (i_name i) (wc_peers cfg)))))))"

definition adapter_interface_down ::
    "'os defguard \<Rightarrow> iface \<Rightarrow> ('os world, core_error, unit) io" where
  "adapter_interface_down A i =
     (if da_dry_run A then io_ret ()
      else io_bind (wgapi_open A (i_name i)) (\<lambda>_.
        wg_call (''down '' @ i_name i) (wl_remove_interface (da_lib A) (i_name i))))"

definition adapter_delete_interface ::
    "'os defguard \<Rightarrow> iface \<Rightarrow> ('os world, core_error, unit) io" where
  "adapter_delete_interface A i = io_ignore (adapter_interface_down A i) (io_ret ())"

definition adapter_apply_peer ::
    "'os defguard \<Rightarrow> iface \<Rightarrow> peer \<Rightarrow> ('os world, core_error, unit) io" where
  "adapter_apply_peer A i p =
     (if da_dry_run A then io_ret ()
      else io_bind (io_lift (to_wg_peer A p)) (\<lambda>wg_peer.
        io_bind (wgapi_open A (i_name i)) (\<lambda>_.
        wg_call (''apply peer '' @ i_name i) (wl_configure_peer (da_lib A) (i_name i) wg_peer))))"

definition adapter_remove_peer ::
    "'os defguard \<Rightarrow> iface \<Rightarrow> wg_public_key \<Rightarrow> ('os world, core_error, unit) io" where
  "adapter_remove_peer A i peer_pubkey =
     (if da_dry_run A then io_ret ()
      else io_bind (io_lift (decode_b64_key A (public_str peer_pubkey))) (\<lambda>key.
        io_bind (wgapi_open A (i_name i)) (\<lambda>_.
        wg_call (''remove peer '' @ i_name i) (wl_remove_peer (da_lib A) (i_name i) key))))"

definition handshake_time :: "'os defguard \<Rightarrow> int option \<Rightarrow> datetime option" where
  "handshake_time A t = (case t of
     None \<Rightarrow> None
   | Some ns \<Rightarrow> if ns < 0 then None
                else wl_from_timestamp (da_lib A) (word_of_int (ns div 1000000000)))"

definition host_peer_stats :: "'os defguard \<Rightarrow> wg_host_peer \<Rightarrow> core_error + peer_stats" where
  "host_peer_stats A p =
     res_bind (key_from_base64 (cl_b64_decode (da_crypto A)) Wg_Public_Key
                 (cl_b64_encode (da_crypto A) (wh_public_key p))) (\<lambda>pubkey.
     Inr \<lparr>ps_public_key = pubkey, ps_last_handshake = handshake_time A (wh_last_handshake p),
          ps_rx_bytes = wh_rx_bytes p, ps_tx_bytes = wh_tx_bytes p,
          ps_endpoint = wh_endpoint p\<rparr>)"

definition adapter_peer_stats ::
    "'os defguard \<Rightarrow> iface \<Rightarrow> ('os world, core_error, peer_stats list) io" where
  "adapter_peer_stats A i =
     (if da_dry_run A then io_ret []
      else io_bind (wgapi_open A (i_name i)) (\<lambda>_.
        io_bind (wg_call (''read '' @ i_name i) (wl_read_interface_data (da_lib A) (i_name i)))
          (\<lambda>host_peers. io_lift (traverse (host_peer_stats A) host_peers))))"

definition generate_keypair_local ::
    "'os defguard \<Rightarrow> ('os world, core_error, wg_private_key \<times> wg_public_key) io" where
  "generate_keypair_local A =
     io_bind (on_os (cl_fill_bytes (da_crypto A) 32)) (\<lambda>bytes.
     let priv_key = clamp bytes; pub_key = wl_public_key (da_lib A) priv_key;
         decode = cl_b64_decode (da_crypto A); encode = cl_b64_encode (da_crypto A) in
     io_bind (io_lift (key_from_base64 decode Wg_Private_Key (encode priv_key))) (\<lambda>priv.
     io_bind (io_lift (key_from_base64 decode Wg_Public_Key (encode pub_key))) (\<lambda>pub.
     io_ret (priv, pub))))"

definition defguard_port :: "'os defguard \<Rightarrow> 'os world wg_port" where
  "defguard_port A = \<lparr>
     wg_derive_public_key = adapter_derive_public_key A,
     wg_generate_keypair = adapter_generate_keypair A,
     wg_create_interface = adapter_create_interface A,
     wg_interface_up = adapter_interface_up A,
     wg_interface_down = adapter_interface_down A,
     wg_delete_interface = adapter_delete_interface A,
     wg_apply_peer = adapter_apply_peer A,
     wg_remove_peer = adapter_remove_peer A,
     wg_peer_stats = adapter_peer_stats A\<rparr>"

subsection \<open>The adapter leaves the database alone\<close>

lemma wg_call_keeps [keeps_intros]: "os_blind f \<Longrightarrow> keeps f (wg_call p g)"
  unfolding wg_call_def by (intro keeps_intros)

lemma wgapi_open_keeps [keeps_intros]: "os_blind f \<Longrightarrow> keeps f (wgapi_open A n)"
  unfolding wgapi_open_def by (intro keeps_intros)

lemma adapter_keeps [keeps_intros]:
  assumes "os_blind f"
  shows "keeps f (adapter_derive_public_key A k)"
    and "keeps f (adapter_generate_keypair A)"
    and "keeps f (adapter_create_interface A i)"
    and "keeps f (adapter_interface_up A i ps)"
    and "keeps f (adapter_interface_down A i)"
    and "keeps f (adapter_delete_interface A i)"
    and "keeps f (adapter_apply_peer A i p)"
    and "keeps f (adapter_remove_peer A i key)"
    and "keeps f (adapter_peer_stats A i)"
  unfolding adapter_derive_public_key_def adapter_generate_keypair_def
    adapter_create_interface_def adapter_interface_up_def adapter_delete_interface_def
    adapter_interface_down_def adapter_apply_peer_def adapter_remove_peer_def
    adapter_peer_stats_def Let_def
  by (intro keeps_intros assms)+

end
