(* ===== verification/Nat_Adapter.thy ===== *)
theory Nat_Adapter
  imports World
begin

section \<open>The NAT adapter\<close>

text \<open>
  \<open>wireforge-infra/src/nat/mod.rs\<close>: forwarding switches, firewall rules and hook commands.
  Processes and files of the host are the record \<open>host_lib\<close>: \<open>hl_run\<close> starts a program with an
  argument vector and returns whether it exited with 0 (or the text of the spawn error). The
  map of forwarding snapshots is the field \<open>w_fwd\<close> of the world; its lock cannot be poisoned,
  because no code that holds it panics.
\<close>

record 'os host_lib =
  hl_run :: "string \<Rightarrow> string list \<Rightarrow> 'os \<Rightarrow> (string + bool) \<times> 'os"
  hl_read_file :: "string \<Rightarrow> 'os \<Rightarrow> (string + string) \<times> 'os"
  hl_write_file :: "string \<Rightarrow> string \<Rightarrow> 'os \<Rightarrow> (string + unit) \<times> 'os"

record 'os nat_adapter =
  na_dry_run :: bool
  na_linux :: bool
  na_host :: "'os host_lib"

definition V4_FORWARD :: string where
  "V4_FORWARD = ''/proc/sys/net/ipv4/ip_forward''"

definition V6_FORWARD :: string where
  "V6_FORWARD = ''/proc/sys/net/ipv6/conf/all/forwarding''"

definition nat_skip :: "'os nat_adapter \<Rightarrow> bool" where
  "nat_skip A \<longleftrightarrow> na_dry_run A \<or> \<not> na_linux A"

subsection \<open>Rules\<close>

record rule =
  r_table :: "string option"
  r_body :: "string list"

definition argv :: "rule \<Rightarrow> string \<Rightarrow> string list" where
  "argv r action = (case r_table r of None \<Rightarrow> [] | Some t \<Rightarrow> [''-t'', t]) @ [action] @ r_body r"

definition nat_rules :: "string \<Rightarrow> string \<Rightarrow> rule list" where
  "nat_rules wg gateway =
     [\<lparr>r_table = None, r_body = [''FORWARD'', ''-i'', wg, ''-j'', ''ACCEPT'']\<rparr>,
      \<lparr>r_table = None, r_body = [''FORWARD'', ''-o'', wg, ''-j'', ''ACCEPT'']\<rparr>,
      \<lparr>r_table = Some ''nat'', r_body = [''POSTROUTING'', ''-o'', gateway, ''-j'', ''MASQUERADE'']\<rparr>]"

definition render_rules :: "string \<Rightarrow> rule list \<Rightarrow> string" where
  "render_rules bin rules = concat (map (\<lambda>r. bin @ '' '' @ join '' '' (argv r ''-I'') @ [NL]) rules)"

definition render_nat_rules :: "string \<Rightarrow> string \<Rightarrow> bool \<Rightarrow> string" where
  "render_nat_rules wg gateway has_v6 =
     render_rules ''iptables'' (nat_rules wg gateway) @
     (if has_v6 then render_rules ''ip6tables'' (nat_rules wg gateway) else [])"

text \<open>The format \<open>{:?}\<close> of a vector of strings; of the escapes of \<open>str\<close>'s \<open>Debug\<close> only those of
  printable ASCII text and of the usual control characters are written out.\<close>

definition debug_char :: "char \<Rightarrow> string" where
  "debug_char c =
     (if c = DQ then [CHR 0x5C, DQ] else if c = CHR 0x5C then [CHR 0x5C, CHR 0x5C]
      else if c = NL then [CHR 0x5C, CHR ''n''] else if c = CHR 0x0D then [CHR 0x5C, CHR ''r'']
      else if c = CHR 0x09 then [CHR 0x5C, CHR ''t''] else [c])"

definition debug_strings :: "string list \<Rightarrow> string" where
  "debug_strings xs =
     ''['' @ join '', '' (map (\<lambda>s. [DQ] @ concat (map debug_char s) @ [DQ]) xs) @ '']''"

subsection \<open>Processes and switches\<close>

definition run_ipt ::
    "'os nat_adapter \<Rightarrow> string \<Rightarrow> string list \<Rightarrow> ('os world, core_error, bool) io" where
  "run_ipt A bin args =
     io_map_err (\<lambda>e. Wire_Guard (bin @ '': '' @ e @ '' (is iptables installed?)''))
       (on_os_res (hl_run (na_host A) bin args))"

definition apply_rule ::
    "'os nat_adapter \<Rightarrow> string \<Rightarrow> rule \<Rightarrow> ('os world, core_error, unit) io" where
  "apply_rule A bin r =
     io_bind (run_ipt A bin (argv r ''-C'')) (\<lambda>exists.
       if exists then io_ret ()
       else io_bind (run_ipt A bin (argv r ''-I'')) (\<lambda>inserted.
         if inserted then io_ret ()
         else io_fail (Wire_Guard (bin @ '' failed to insert rule: '' @ debug_strings (argv r ''-I'')))))"

definition apply_rules ::
    "'os nat_adapter \<Rightarrow> string \<Rightarrow> rule list \<Rightarrow> ('os world, core_error, unit) io" where
  "apply_rules A bin rules = io_for rules (apply_rule A bin)"

definition remove_rules ::
    "'os nat_adapter \<Rightarrow> string \<Rightarrow> rule list \<Rightarrow> ('os world, core_error, unit) io" where
  "remove_rules A bin rules =
     io_for rules (\<lambda>r. io_ignore (run_ipt A bin (argv r ''-D'')) (io_ret ()))"

definition read_forward :: "'os nat_adapter \<Rightarrow> string \<Rightarrow> ('os world, core_error, bool) io" where
  "read_forward A path =
     io_try (on_os_res (hl_read_file (na_host A) path)) (\<lambda>r.
       io_ret (case r of Inl _ \<Rightarrow> False | Inr s \<Rightarrow> trim s = ''1''))"

definition write_forward ::
    "'os nat_adapter \<Rightarrow> string \<Rightarrow> bool \<Rightarrow> ('os world, core_error, unit) io" where
  "write_forward A path on =
     io_map_err (\<lambda>e. Wire_Guard (''write '' @ path @ '': '' @ e))
       (on_os_res (hl_write_file (na_host A) path ((if on then ''1'' else ''0'') @ [NL])))"

text \<open>Reads a switch and turns it on if it is off; returns whether it was on.\<close>

definition enable_forward ::
    "'os nat_adapter \<Rightarrow> string \<Rightarrow> ('os world, core_error, bool) io" where
  "enable_forward A path =
     io_bind (read_forward A path) (\<lambda>was.
     io_bind (io_when (\<not> was) (write_forward A path True)) (\<lambda>_. io_ret was))"

definition fwd_insert :: "string \<Rightarrow> fwd_snapshot \<Rightarrow> ('os world, 'e, unit) io" where
  "fwd_insert k s = (\<lambda>w. (Inr (), w\<lparr>w_fwd := hm_insert k s (w_fwd w)\<rparr>))"

definition fwd_remove :: "string \<Rightarrow> ('os world, 'e, fwd_snapshot option) io" where
  "fwd_remove k = (\<lambda>w. (Inr (map_of (w_fwd w) k),
     w\<lparr>w_fwd := filter (\<lambda>kv. fst kv \<noteq> k) (w_fwd w)\<rparr>))"

subsection \<open>The port\<close>

definition adapter_nat_apply ::
    "'os nat_adapter \<Rightarrow> iface \<Rightarrow> string \<Rightarrow> ('os world, core_error, unit) io" where
  "adapter_nat_apply A i gateway =
     (if nat_skip A then io_ret ()
      else
        let has_v6 = (i_ipv6_cidr i \<noteq> None); rules = nat_rules (i_name i) gateway in
        io_bind (enable_forward A V4_FORWARD) (\<lambda>v4.
        io_bind (if has_v6 then enable_forward A V6_FORWARD else io_ret True) (\<lambda>v6.
        io_bind (fwd_insert (i_name i) \<lparr>v4_was_on = v4, v6_was_on = v6\<rparr>) (\<lambda>_.
        io_bind (apply_rules A ''iptables'' rules) (\<lambda>_.
        io_when has_v6 (apply_rules A ''ip6tables'' rules))))))"

definition adapter_nat_remove ::
    "'os nat_adapter \<Rightarrow> iface \<Rightarrow> string \<Rightarrow> ('os world, core_error, unit) io" where
  "adapter_nat_remove A i gateway =
     (if nat_skip A then io_ret ()
      else
        let has_v6 = (i_ipv6_cidr i \<noteq> None); rules = nat_rules (i_name i) gateway in
        io_bind (remove_rules A ''iptables'' rules) (\<lambda>_.
        io_bind (io_when has_v6 (remove_rules A ''ip6tables'' rules)) (\<lambda>_.
        io_bind (fwd_remove (i_name i)) (\<lambda>found.
        case found of
          None \<Rightarrow> io_ret ()
        | Some snap \<Rightarrow>
            io_bind (io_when (\<not> v4_was_on snap)
                       (io_ignore (write_forward A V4_FORWARD False) (io_ret ()))) (\<lambda>_.
            io_when (has_v6 \<and> \<not> v6_was_on snap)
              (io_ignore (write_forward A V6_FORWARD False) (io_ret ())))))))"

text \<open>The command lines of a hook script: program and arguments of every line that is neither
  blank nor a comment.\<close>

definition hook_command :: "string \<Rightarrow> (string \<times> string list) option" where
  "hook_command raw =
     (let line = trim raw
      in if line = [] \<or> starts_with ''#'' line then None
         else (case split_whitespace line of [] \<Rightarrow> None | cmd # args \<Rightarrow> Some (cmd, args)))"

definition hook_commands :: "string \<Rightarrow> (string \<times> string list) list" where
  "hook_commands script = List.map_filter hook_command (lines_of script)"

definition adapter_run_hook ::
    "'os nat_adapter \<Rightarrow> string \<Rightarrow> ('os world, core_error, unit) io" where
  "adapter_run_hook A script =
     (if trim script = [] then io_ret ()
      else if nat_skip A then io_ret ()
      else io_for (hook_commands script) (\<lambda>(cmd, args).
        io_ignore (on_os_res (hl_run (na_host A) cmd args)) (io_ret ())))"

definition iptables_port :: "'os nat_adapter \<Rightarrow> 'os world nat_port" where
  "iptables_port A = \<lparr>nat_apply = adapter_nat_apply A, nat_remove = adapter_nat_remove A,
     nat_run_hook = adapter_run_hook A\<rparr>"

subsection \<open>The adapter leaves the database and the settings alone\<close>

text \<open>An observation that looks neither at the host nor at the forwarding snapshots.\<close>

definition nat_blind :: "('os world \<Rightarrow> 'b) \<Rightarrow> bool" where
  "nat_blind f \<longleftrightarrow> os_blind f \<and> (\<forall>w x. f (w\<lparr>w_fwd := x\<rparr>) = f w)"

lemma nat_blind_fields [keeps_intros]:
  "nat_blind w_db" "nat_blind w_settings" "nat_blind (\<lambda>w. f (w_db w))"
  by (simp_all add: nat_blind_def os_blind_def)

lemma fwd_keeps [keeps_intros]:
  "nat_blind f \<Longrightarrow> keeps f (fwd_insert k s)" "nat_blind f \<Longrightarrow> keeps f (fwd_remove k)"
  by (simp_all add: nat_blind_def keeps_def fwd_insert_def fwd_remove_def)

lemma ipt_keeps [keeps_intros]:
  assumes "os_blind f"
  shows "keeps f (run_ipt A bin args)" and "keeps f (apply_rules A bin rules)"
    and "keeps f (remove_rules A bin rules)" and "keeps f (read_forward A path)"
    and "keeps f (write_forward A path on)" and "keeps f (enable_forward A path)"
  unfolding apply_rules_def apply_rule_def remove_rules_def enable_forward_def
    read_forward_def write_forward_def run_ipt_def
  by (intro keeps_intros assms)+

lemma nat_adapter_keeps [keeps_intros]:
  assumes "nat_blind f"
  shows "keeps f (adapter_nat_apply A i gw)" and "keeps f (adapter_nat_remove A i gw)"
    and "keeps f (adapter_run_hook A script)"
proof -
  have os: "os_blind f"
    using assms by (simp add: nat_blind_def)
  show "keeps f (adapter_nat_apply A i gw)" "keeps f (adapter_nat_remove A i gw)"
    "keeps f (adapter_run_hook A script)"
    unfolding adapter_nat_apply_def adapter_nat_remove_def adapter_run_hook_def Let_def
    by (intro keeps_intros assms os)+
qed

end
