(* ===== verification/Sysnet_Adapter.thy ===== *)
theory Sysnet_Adapter
  imports World
begin

section \<open>The host's network interfaces\<close>

text \<open>
  \<open>wireforge-infra/src/sysnet/mod.rs\<close>: the walk over the list of \<open>getifaddrs(3)\<close>, the
  refinement from \<open>/sys/class/net\<close> and the pure helpers. A node of the C list is a record
  \<open>ifa_node\<close>; null pointers are \<open>None\<close>. The flag values are those of Linux. The textual form
  of addresses is the one of the standard library.
\<close>

subsection \<open>Text of addresses\<close>

definition show_ipv4 :: "u8 list \<Rightarrow> string" where
  "show_ipv4 octets = join ''.'' (map (\<lambda>b. dec (unat b)) octets)"

fun hex_from :: "nat \<Rightarrow> string" where
  "hex_from n = (if n < 16 then [hex_digit n] else hex_from (n div 16) @ [hex_digit (n mod 16)])"

declare hex_from.simps [simp del]

fun segments :: "u8 list \<Rightarrow> nat list" where
  "segments (a # b # bs) = (unat a * 256 + unat b) # segments bs"
| "segments _ = []"

text \<open>The longest run of zero segments as start and length (the first one of the longest).\<close>

fun zero_run :: "nat list \<Rightarrow> nat \<Rightarrow> nat \<times> nat \<Rightarrow> nat \<times> nat \<Rightarrow> nat \<times> nat" where
  "zero_run [] i current longest = longest"
| "zero_run (s # ss) i (start, len) longest =
     (if s = 0 then
        let current = (if len = 0 then i else start, len + 1)
        in zero_run ss (i + 1) current (if snd current > snd longest then current else longest)
      else zero_run ss (i + 1) (0, 0) longest)"

definition show_segments :: "nat list \<Rightarrow> string" where
  "show_segments ss = join '':'' (map hex_from ss)"

definition show_ipv6 :: "u8 list \<Rightarrow> string" where
  "show_ipv6 octets =
     (let ss = segments octets in
      if take 10 octets = replicate 10 0 \<and> take 2 (drop 10 octets) = [0xFF, 0xFF]
      then ''::ffff:'' @ show_ipv4 (drop 12 octets)
      else case zero_run ss 0 (0, 0) (0, 0) of (start, len) \<Rightarrow>
        if len > 1 then show_segments (take start ss) @ ''::'' @ show_segments (drop (start + len) ss)
        else show_segments ss)"

subsection \<open>Pure helpers\<close>

definition count_ones :: "u8 \<Rightarrow> nat" where
  "count_ones b = length (filter (bit b) [0..<8])"

definition prefix_len :: "u8 list \<Rightarrow> u8" where
  "prefix_len bytes = (\<Sum>b\<leftarrow>bytes. word_of_nat (count_ones b))"

definition format_mac :: "u8 list \<Rightarrow> string" where
  "format_mac bytes = join '':'' (map hex2 bytes)"

definition IFF_UP :: u32 where "IFF_UP = 0x1"
definition IFF_BROADCAST :: u32 where "IFF_BROADCAST = 0x2"
definition IFF_LOOPBACK :: u32 where "IFF_LOOPBACK = 0x8"
definition IFF_POINTOPOINT :: u32 where "IFF_POINTOPOINT = 0x10"
definition IFF_RUNNING :: u32 where "IFF_RUNNING = 0x40"
definition IFF_MULTICAST :: u32 where "IFF_MULTICAST = 0x1000"

unbundle bit_operations_syntax

definition is_up :: "string option \<Rightarrow> u32 \<Rightarrow> bool" where
  "is_up operstate flags =
     (let iff_up = (flags AND IFF_UP \<noteq> 0) in
      case operstate of
        Some s \<Rightarrow> if s = ''up'' then True else if s = ''unknown'' then iff_up else False
      | None \<Rightarrow> iff_up \<and> flags AND IFF_RUNNING \<noteq> 0)"

definition flag_labels :: "u32 \<Rightarrow> bool option \<Rightarrow> string option \<Rightarrow> string list" where
  "flag_labels flags carrier operstate =
     (let is_loopback = (flags AND IFF_LOOPBACK \<noteq> 0);
          no_carrier = (\<not> is_loopback \<and>
            (case (carrier, operstate) of
               (Some False, _) \<Rightarrow> True
             | (None, Some s) \<Rightarrow> s \<noteq> ''up'' \<and> s \<noteq> ''unknown''
             | _ \<Rightarrow> False))
      in (if no_carrier then [''NO-CARRIER''] else []) @
         (if flags AND IFF_BROADCAST \<noteq> 0 then [''BROADCAST''] else []) @
         (if flags AND IFF_MULTICAST \<noteq> 0 then [''MULTICAST''] else []) @
         (if is_loopback then [''LOOPBACK''] else []) @
         (if flags AND IFF_POINTOPOINT \<noteq> 0 then [''POINTOPOINT''] else []))"

subsection \<open>The walk\<close>

text \<open>\<open>Sa_Packet halen addr\<close> is a \<open>sockaddr_ll\<close>, whose address field has 8 bytes.\<close>

datatype sock_addr = Sa_Inet "u8 list" | Sa_Inet6 "u8 list" | Sa_Packet u8 "u8 list" | Sa_Other

record ifa_node =
  ifa_name :: "u8 list option"
  ifa_flags :: u32
  ifa_addr :: "sock_addr option"
  ifa_netmask :: "u8 list option"

record acc =
  acc_flags :: u32
  acc_ipv4 :: "string list"
  acc_ipv6 :: "string list"
  acc_mac :: "string option"

definition acc_default :: acc where
  "acc_default = \<lparr>acc_flags = 0, acc_ipv4 = [], acc_ipv6 = [], acc_mac = None\<rparr>"

text \<open>A \<open>BTreeMap\<close> by name is its list of entries in increasing order of the names; \<open>upd_entry\<close>
  is \<open>entry(name).or_default()\<close> followed by an update of the value.\<close>

fun upd_entry :: "string \<Rightarrow> (acc \<Rightarrow> acc) \<Rightarrow> (string \<times> acc) list \<Rightarrow> (string \<times> acc) list" where
  "upd_entry k f [] = [(k, f acc_default)]"
| "upd_entry k f ((k', a) # m) =
     (if k = k' then (k', f a) # m
      else if k < k' then (k, f acc_default) # (k', a) # m
      else (k', a) # upd_entry k f m)"

definition ip_prefix :: "nat \<Rightarrow> u8 list option \<Rightarrow> string" where
  "ip_prefix full nm = (case nm of None \<Rightarrow> dec full | Some bytes \<Rightarrow> dec (unat (prefix_len bytes)))"

definition mac_addr :: "bool \<Rightarrow> sock_addr \<Rightarrow> string option" where
  "mac_addr linux sa = (case sa of
     Sa_Packet halen addr \<Rightarrow>
       if \<not> linux \<or> unat halen = 0 \<or> unat halen > length addr then None
       else Some (format_mac (take (unat halen) addr))
   | _ \<Rightarrow> None)"

definition acc_node :: "bool \<Rightarrow> ifa_node \<Rightarrow> acc \<Rightarrow> acc" where
  "acc_node linux n a0 =
     (let a = a0\<lparr>acc_flags := ifa_flags n\<rparr> in
      case ifa_addr n of
        None \<Rightarrow> a
      | Some (Sa_Inet ip) \<Rightarrow>
          a\<lparr>acc_ipv4 := acc_ipv4 a @ [show_ipv4 ip @ ''/'' @ ip_prefix 32 (ifa_netmask n)]\<rparr>
      | Some (Sa_Inet6 ip) \<Rightarrow>
          a\<lparr>acc_ipv6 := acc_ipv6 a @ [show_ipv6 ip @ ''/'' @ ip_prefix 128 (ifa_netmask n)]\<rparr>
      | Some sa \<Rightarrow> (case mac_addr linux sa of None \<Rightarrow> a | Some m \<Rightarrow> a\<lparr>acc_mac := Some m\<rparr>))"

fun collect_nodes :: "bool \<Rightarrow> ifa_node list \<Rightarrow> (string \<times> acc) list \<Rightarrow> (string \<times> acc) list" where
  "collect_nodes linux [] m = m"
| "collect_nodes linux (n # ns) m =
     (case Option.bind (ifa_name n) from_utf8 of
        None \<Rightarrow> collect_nodes linux ns m
      | Some name \<Rightarrow> collect_nodes linux ns (upd_entry name (acc_node linux n) m))"

record 'os sysnet_adapter =
  sa_linux :: bool
  sa_getifaddrs :: "'os \<Rightarrow> (string + ifa_node list) \<times> 'os"
  sa_read_file :: "string \<Rightarrow> 'os \<Rightarrow> (string + string) \<times> 'os"

definition collect_raw :: "'os sysnet_adapter \<Rightarrow> ('os world, core_error, (string \<times> acc) list) io" where
  "collect_raw A =
     io_bind (io_map_err (\<lambda>e. Internal (''getifaddrs: '' @ e)) (on_os_res (sa_getifaddrs A)))
       (\<lambda>nodes. io_ret (collect_nodes (sa_linux A) nodes []))"

definition read_sys ::
    "'os sysnet_adapter \<Rightarrow> string \<Rightarrow> string \<Rightarrow> ('os world, 'e, string option) io" where
  "read_sys A name file =
     (if sa_linux A
      then io_try (on_os_res (sa_read_file A (''/sys/class/net/'' @ name @ ''/'' @ file)))
             (\<lambda>r. io_ret (res_ok r))
      else io_ret None)"

definition read_operstate :: "'os sysnet_adapter \<Rightarrow> string \<Rightarrow> ('os world, 'e, string option) io" where
  "read_operstate A name =
     io_bind (read_sys A name ''operstate'') (\<lambda>r. io_ret (map_option trim r))"

definition carrier_value :: "string \<Rightarrow> bool option" where
  "carrier_value s =
     (if trim s = ''1'' then Some True else if trim s = ''0'' then Some False else None)"

definition read_carrier :: "'os sysnet_adapter \<Rightarrow> string \<Rightarrow> ('os world, 'e, bool option) io" where
  "read_carrier A name =
     io_bind (read_sys A name ''carrier'') (\<lambda>r. io_ret (Option.bind r carrier_value))"

fun assemble ::
    "'os sysnet_adapter \<Rightarrow> (string \<times> acc) list \<Rightarrow> ('os world, 'e, sys_interface list) io" where
  "assemble A [] = io_ret []"
| "assemble A ((name, a) # m) =
     io_bind (read_operstate A name) (\<lambda>operstate.
     io_bind (read_carrier A name) (\<lambda>carrier.
     io_bind (assemble A m) (\<lambda>out.
     io_ret (\<lparr>s_name = name, s_up = is_up operstate (acc_flags a), s_ipv4 = acc_ipv4 a,
              s_ipv6 = acc_ipv6 a, s_mac = acc_mac a,
              s_flags = flag_labels (acc_flags a) carrier operstate\<rparr> # out))))"

definition sysnet_list :: "'os sysnet_adapter \<Rightarrow> ('os world, core_error, sys_interface list) io" where
  "sysnet_list A = io_bind (collect_raw A) (assemble A)"

definition getifaddrs_port :: "'os sysnet_adapter \<Rightarrow> 'os world sysnet_port" where
  "getifaddrs_port A = \<lparr>sn_list = sysnet_list A\<rparr>"

lemma read_sys_keeps [keeps_intros]: "os_blind f \<Longrightarrow> keeps f (read_sys A n file)"
  unfolding read_sys_def by (intro keeps_intros)

lemma assemble_keeps [keeps_intros]:
  assumes "os_blind f"
  shows "keeps f (assemble A m)"
proof (induction m)
  case Nil
  show ?case unfolding assemble.simps by (intro keeps_intros)
next
  case (Cons entry m)
  show ?case
    by (cases entry) (simp only: assemble.simps read_operstate_def read_carrier_def;
      intro keeps_intros assms Cons.IH)
qed

lemma sysnet_list_keeps [keeps_intros]: "os_blind f \<Longrightarrow> keeps f (sysnet_list A)"
  unfolding sysnet_list_def collect_raw_def by (intro keeps_intros)

end
