(* ===== verification/Auth_Service.thy ===== *)
theory Auth_Service
  imports Crypto
begin

section \<open>The authentication service\<close>

text \<open>
  \<open>application/services/auth.rs\<close>: registration of the first administrator, creation of users
  and the check of a password.
\<close>

record 'w auth_svc =
  as_users :: "'w user_repo"
  as_crypto :: "'w crypto_lib"

definition register_initial_admin ::
    "'w auth_svc \<Rightarrow> string \<Rightarrow> string \<Rightarrow> string option \<Rightarrow> ('w, core_error, user) io" where
  "register_initial_admin S username password email =
     io_bind (ur_count (as_users S)) (\<lambda>n.
       if n > 0 then io_fail (Conflict ''initial admin already exists'')
       else io_bind (hash_password (as_crypto S) password) (\<lambda>hash.
         ur_create (as_users S)
           \<lparr>nu_username = username, nu_email = email, nu_password_hash = hash, nu_role = Admin\<rparr>))"

definition create_user ::
    "'w auth_svc \<Rightarrow> string \<Rightarrow> string \<Rightarrow> string option \<Rightarrow> role \<Rightarrow> ('w, core_error, user) io" where
  "create_user S username password email r =
     io_bind (ur_find_by_username (as_users S) username) (\<lambda>found.
       if found \<noteq> None then io_fail (Conflict (''user '' @ [CHR 0x27] @ username @ [CHR 0x27] @ '' exists''))
       else io_bind (hash_password (as_crypto S) password) (\<lambda>hash.
         ur_create (as_users S)
           \<lparr>nu_username = username, nu_email = email, nu_password_hash = hash, nu_role = r\<rparr>))"

definition authenticate_password ::
    "'w auth_svc \<Rightarrow> string \<Rightarrow> string \<Rightarrow> ('w, core_error, user) io" where
  "authenticate_password S username password =
     io_bind (io_some Invalid_Credentials (ur_find_by_username (as_users S) username)) (\<lambda>u.
     io_bind (io_lift (verify_password (as_crypto S) password (u_password_hash u))) (\<lambda>valid.
       if \<not> valid then io_fail Invalid_Credentials else io_ret u))"

definition has_any_user :: "'w auth_svc \<Rightarrow> ('w, core_error, bool) io" where
  "has_any_user S = io_bind (ur_count (as_users S)) (\<lambda>n. io_ret (n > 0))"

end
