(* ===== verification/Interface_Service.thy ===== *)
theory Interface_Service
  imports Crypto
begin

section \<open>The interface service\<close>

text \<open>
  \<open>application/services/interface.rs\<close>: creation, start, stop, update and deletion of
  WireGuard interfaces over the repositories, the WireGuard adapter, the NAT adapter and the
  list of host interfaces. A value of type \<open>iface_svc\<close> is the struct's fields together
  with the crates its methods call.
\<close>

record 'w iface_svc =
  is_ifaces :: "'w iface_repo"
  is_peers :: "'w peer_repo"
  is_wg :: "'w wg_port"
  is_nat :: "'w nat_port"
  is_sysnet :: "'w sysnet_port"
  is_seal_key :: seal_key
  is_crypto :: "'w crypto_lib"
  is_net :: net_lib

record create_iface_input =
  ci_name :: string
  ci_listen_port :: u16
  ci_endpoint :: "string option"
  ci_gateway :: "string option"
  ci_ipv4_cidr :: "ip_net option"
  ci_ipv6_cidr :: "ip_net option"
  ci_mtu :: "u16 option"
  ci_dns :: "string list"
  ci_on_up :: "string option"
  ci_on_down :: "string option"
  ci_private_key :: string

record update_iface_input =
  ui_listen_port :: u16
  ui_endpoint :: "string option"
  ui_gateway :: "string option"
  ui_ipv4_cidr :: "ip_net option"
  ui_ipv6_cidr :: "ip_net option"
  ui_mtu :: "u16 option"
  ui_dns :: "string list"
  ui_on_up :: "string option"
  ui_on_down :: "string option"
  ui_private_key :: string

subsection \<open>Names\<close>

abbreviation SQ :: char where
  "SQ \<equiv> CHR 0x27"

definition iface_char :: "char \<Rightarrow> bool" where
  "iface_char c \<longleftrightarrow> is_ascii_alphanumeric c \<or> c = CHR ''-'' \<or> c = CHR ''_''"

definition validate_iface_name :: "string \<Rightarrow> core_error + unit" where
  "validate_iface_name name =
     (if name = [] \<or> length name > 15
      then Inl (Validation ''interface name must be 1-15 characters'')
      else if \<not> list_all iface_char name
      then Inl (Validation (''interface name may only contain a-z, 0-9, '' @
             [SQ] @ ''-'' @ [SQ] @ '', '' @ [SQ] @ ''_'' @ [SQ]))
      else Inr ())"

definition gateway_char :: "char \<Rightarrow> bool" where
  "gateway_char c \<longleftrightarrow> is_ascii_alphanumeric c \<or>
     c = CHR ''-'' \<or> c = CHR ''_'' \<or> c = CHR ''.'' \<or> c = CHR '':''"

definition gateway_charset_ok :: "string \<Rightarrow> bool" where
  "gateway_charset_ok gw \<longleftrightarrow>
     gw \<noteq> [] \<and> length gw \<le> 15 \<and> gw \<noteq> ''lo'' \<and> list_all gateway_char gw"

definition validate_gateway :: "'w iface_svc \<Rightarrow> string \<Rightarrow> ('w, core_error, unit) io" where
  "validate_gateway S gw =
     (if \<not> gateway_charset_ok gw then io_fail (Validation ''invalid gateway interface name'')
      else io_bind (sn_list (is_sysnet S)) (\<lambda>nics.
        if \<not> list_ex (\<lambda>i. s_name i = gw) nics
        then io_fail (Validation (''gateway '' @ [SQ] @ gw @ [SQ] @ '' is not a host interface''))
        else io_ret ()))"

text \<open>\<open>if let Some(gw) = ... { self.validate_gateway(gw)?; }\<close>\<close>

definition validate_gateway_opt ::
    "'w iface_svc \<Rightarrow> string option \<Rightarrow> ('w, core_error, unit) io" where
  "validate_gateway_opt S gw = (case gw of None \<Rightarrow> io_ret () | Some g \<Rightarrow> validate_gateway S g)"

subsection \<open>Operations\<close>

definition iface_fresh_keypair :: "'w iface_svc \<Rightarrow> ('w, core_error, string \<times> string) io" where
  "iface_fresh_keypair S =
     io_bind (wg_generate_keypair (is_wg S)) (\<lambda>(priv, pub).
       io_ret (private_str priv, public_str pub))"

text \<open>The key pair of a new interface: the supplied private key and its public key, or a
  fresh pair when none is supplied.\<close>

definition iface_keypair ::
    "'w iface_svc \<Rightarrow> string \<Rightarrow> ('w, core_error, wg_private_key \<times> wg_public_key) io" where
  "iface_keypair S private_key =
     (let supplied = trim private_key
      in if supplied = [] then wg_generate_keypair (is_wg S)
         else io_bind (io_lift (key_from_base64 (cl_b64_decode (is_crypto S)) Wg_Private_Key supplied))
                (\<lambda>pk. io_bind (wg_derive_public_key (is_wg S) pk) (\<lambda>pubk. io_ret (pk, pubk))))"

definition iface_create ::
    "'w iface_svc \<Rightarrow> create_iface_input \<Rightarrow> ('w, core_error, iface) io" where
  "iface_create S inp =
     io_bind (io_lift (validate_iface_name (ci_name inp))) (\<lambda>_.
     io_bind (validate_gateway_opt S (ci_gateway inp)) (\<lambda>_.
     io_bind (ir_find_by_name (is_ifaces S) (ci_name inp)) (\<lambda>found.
       if found \<noteq> None
       then io_fail (Conflict (''interface '' @ [SQ] @ ci_name inp @ [SQ] @ '' already exists''))
       else
     io_bind (iface_keypair S (ci_private_key inp)) (\<lambda>(private_key, public_key).
     io_bind (seal (is_crypto S) (bytes_of (private_str private_key)) (is_seal_key S)) (\<lambda>sealed.
     io_bind (ir_create (is_ifaces S)
        \<lparr>ni_name = ci_name inp, ni_private_key = private_key, ni_public_key = public_key,
         ni_listen_port = ci_listen_port inp, ni_endpoint = ci_endpoint inp,
         ni_gateway = ci_gateway inp, ni_ipv4_cidr = ci_ipv4_cidr inp,
         ni_ipv6_cidr = ci_ipv6_cidr inp, ni_mtu = ci_mtu inp, ni_dns = ci_dns inp,
         ni_on_up = ci_on_up inp, ni_on_down = ci_on_down inp\<rparr> sealed) (\<lambda>i.
     io_ignore (wg_create_interface (is_wg S) i) (io_ret i)))))))"

definition iface_list :: "'w iface_svc \<Rightarrow> ('w, core_error, iface list) io" where
  "iface_list S = ir_list (is_ifaces S)"

definition iface_get :: "'w iface_svc \<Rightarrow> interface_id \<Rightarrow> ('w, core_error, iface) io" where
  "iface_get S i =
     io_some (Not_Found (''interface '' @ show_id (is_net S) i)) (ir_find_by_id (is_ifaces S) i)"

text \<open>\<open>if let Some(script) = ... { let _ = self.nat.run_hook(script).await; }\<close> and the like.\<close>

definition opt_ignore ::
    "'a option \<Rightarrow> ('a \<Rightarrow> ('w, 'e, unit) io) \<Rightarrow> ('w, 'f, 'b) io \<Rightarrow> ('w, 'f, 'b) io" where
  "opt_ignore v f k = (case v of None \<Rightarrow> k | Some x \<Rightarrow> io_ignore (f x) k)"

definition iface_start :: "'w iface_svc \<Rightarrow> interface_id \<Rightarrow> ('w, core_error, iface) io" where
  "iface_start S iid =
     io_bind (iface_get S iid) (\<lambda>i.
     io_bind (pr_list_for_interface (is_peers S) (i_id i)) (\<lambda>peers.
     io_bind (wg_interface_up (is_wg S) i peers) (\<lambda>_.
     opt_ignore (i_on_up i) (nat_run_hook (is_nat S)) (
     io_bind (case i_gateway i of
                None \<Rightarrow> io_ret ()
              | Some gw \<Rightarrow>
                  io_try (io_bind (validate_gateway S gw) (\<lambda>_. nat_apply (is_nat S) i gw)) (\<lambda>result.
                    case result of
                      Inl e \<Rightarrow> io_ignore (wg_interface_down (is_wg S) i) (io_fail e)
                    | Inr _ \<Rightarrow> io_ret ()))
      (\<lambda>_.
     let i' = i\<lparr>i_status := Status_Up\<rparr>
     in io_bind (ir_update (is_ifaces S) i') (\<lambda>_. io_ret i'))))))"

definition iface_stop :: "'w iface_svc \<Rightarrow> interface_id \<Rightarrow> ('w, core_error, iface) io" where
  "iface_stop S iid =
     io_bind (iface_get S iid) (\<lambda>i.
     opt_ignore (i_gateway i) (nat_remove (is_nat S) i) (
     opt_ignore (i_on_down i) (nat_run_hook (is_nat S)) (
     io_bind (wg_interface_down (is_wg S) i) (\<lambda>_.
     let i' = i\<lparr>i_status := Status_Down\<rparr>
     in io_bind (ir_update (is_ifaces S) i') (\<lambda>_. io_ret i')))))"

text \<open>The text of the stored private key; empty when it cannot be read.\<close>

definition current_private :: "'w crypto_lib \<Rightarrow> seal_key \<Rightarrow> u8 list \<Rightarrow> string" where
  "current_private C k blob =
     unwrap_or [] (Option.bind (res_ok (unseal C blob k)) from_utf8)"

definition iface_with_input :: "iface \<Rightarrow> update_iface_input \<Rightarrow> iface" where
  "iface_with_input i inp = i\<lparr>
     i_listen_port := ui_listen_port inp, i_endpoint := ui_endpoint inp,
     i_gateway := ui_gateway inp, i_ipv4_cidr := ui_ipv4_cidr inp,
     i_ipv6_cidr := ui_ipv6_cidr inp, i_mtu := ui_mtu inp, i_dns := ui_dns inp,
     i_on_up := ui_on_up inp, i_on_down := ui_on_down inp\<rparr>"

definition iface_rekey ::
    "'w iface_svc \<Rightarrow> iface \<Rightarrow> string \<Rightarrow> ('w, core_error, iface) io" where
  "iface_rekey S i private_key =
     (let current = current_private (is_crypto S) (is_seal_key S) (i_private_key_sealed i);
          new_private = trim private_key
      in if new_private \<noteq> [] \<and> new_private \<noteq> current
         then io_bind (io_lift (key_from_base64 (cl_b64_decode (is_crypto S)) Wg_Private_Key new_private))
           (\<lambda>priv_key.
           io_bind (wg_derive_public_key (is_wg S) priv_key) (\<lambda>derived.
           io_bind (seal (is_crypto S) (bytes_of (private_str priv_key)) (is_seal_key S)) (\<lambda>sealed.
           io_ret (i\<lparr>i_private_key_sealed := sealed, i_public_key := derived\<rparr>))))
         else io_ret i)"

definition iface_update ::
    "'w iface_svc \<Rightarrow> interface_id \<Rightarrow> update_iface_input \<Rightarrow> ('w, core_error, iface) io" where
  "iface_update S iid inp =
     io_bind (iface_get S iid) (\<lambda>i.
     io_bind (validate_gateway_opt S (ui_gateway inp)) (\<lambda>_.
     let old_gateway = i_gateway i
     in io_bind (iface_rekey S (iface_with_input i inp) (ui_private_key inp)) (\<lambda>i'.
     io_bind (ir_update (is_ifaces S) i') (\<lambda>_.
       if i_status i' = Status_Up
       then io_bind (pr_list_for_interface (is_peers S) (i_id i')) (\<lambda>peers.
              io_ignore (wg_interface_up (is_wg S) i' peers) (
              opt_ignore old_gateway (nat_remove (is_nat S) i') (
              opt_ignore (i_gateway i') (nat_apply (is_nat S) i') (
              io_ret i'))))
       else io_ret i'))))"

definition iface_delete :: "'w iface_svc \<Rightarrow> interface_id \<Rightarrow> ('w, core_error, unit) io" where
  "iface_delete S iid =
     io_bind (iface_get S iid) (\<lambda>i.
     opt_ignore (i_gateway i) (nat_remove (is_nat S) i) (
     io_ignore (wg_interface_down (is_wg S) i) (
     io_ignore (wg_delete_interface (is_wg S) i) (
     ir_delete (is_ifaces S) iid))))"

lemma keeps_opt_ignore [keeps_intros]:
  "(\<And>x. keeps f (m x)) \<Longrightarrow> keeps f k \<Longrightarrow> keeps f (opt_ignore v m k)"
  unfolding opt_ignore_def by (cases v) (auto intro: keeps_intros)

end
