(* ===== verification/Peer_Service.thy ===== *)
theory Peer_Service
  imports Interface_Service
begin

section \<open>The peer service\<close>

text \<open>
  \<open>application/services/peer.rs\<close>: creation of peers with address allocation and key
  resolution, update (including the move to another interface), the \<open>enabled\<close> toggle and
  deletion. A \<open>HashSet\<close> that is only asked for membership is the list it was collected from.
\<close>

record 'w peer_svc =
  pe_peers :: "'w peer_repo"
  pe_ifaces :: "'w iface_repo"
  pe_wg :: "'w wg_port"
  pe_seal_key :: seal_key
  pe_crypto :: "'w crypto_lib"
  pe_net :: net_lib

record create_peer_input =
  cp_interface_id :: interface_id
  cp_name :: string
  cp_allowed_ips :: "ip_net list option"
  cp_primary_dns :: "string option"
  cp_secondary_dns :: "string option"
  cp_nat :: bool
  cp_keepalive :: "u16 option"
  cp_owner :: "user_id option"
  cp_public_key :: string
  cp_private_key :: string

record update_peer_input =
  up_name :: string
  up_interface_id :: interface_id
  up_allowed_ips :: "ip_net list"
  up_primary_dns :: "string option"
  up_secondary_dns :: "string option"
  up_nat :: bool
  up_keepalive :: "u16 option"
  up_enabled :: bool
  up_public_key :: string
  up_private_key :: string

subsection \<open>Addresses\<close>

definition used_nets :: "peer list \<Rightarrow> ip_net list" where
  "used_nets existing = concat (map p_allowed_ips existing)"

fun first_conflict :: "ip_net list \<Rightarrow> ip_net list \<Rightarrow> ip_net option" where
  "first_conflict used [] = None"
| "first_conflict used (ip # want) = (if ip \<in> set used then Some ip else first_conflict used want)"

definition ensure_no_conflict :: "net_lib \<Rightarrow> ip_net list \<Rightarrow> peer list \<Rightarrow> core_error + unit" where
  "ensure_no_conflict L want existing =
     (case first_conflict (used_nets existing) want of
        Some ip \<Rightarrow> Inl (Conflict (''ip '' @ nl_show_net L ip @ '' already assigned''))
      | None \<Rightarrow> Inr ())"

definition max_prefix :: "ip_net \<Rightarrow> nat" where
  "max_prefix cidr = (case cidr of Net_V4 _ _ \<Rightarrow> 32 | Net_V6 _ _ \<Rightarrow> 128)"

definition next_free_ipv4 :: "net_lib \<Rightarrow> ip_net \<Rightarrow> peer list \<Rightarrow> ip_addr option" where
  "next_free_ipv4 L cidr existing =
     (let used = concat (map (\<lambda>p. map (nl_network L) (p_allowed_ips p)) existing)
      in find (\<lambda>host. host \<notin> set used) (drop 1 (nl_hosts L cidr)))"

text \<open>The addresses of a new peer: the requested ones, or one free host of the interface's
  IPv4 network.\<close>

definition choose_allowed_ips ::
    "net_lib \<Rightarrow> iface \<Rightarrow> ip_net list option \<Rightarrow> peer list \<Rightarrow> core_error + ip_net list" where
  "choose_allowed_ips L i requested existing =
     (case requested of
        Some (v # vs) \<Rightarrow> res_bind (ensure_no_conflict L (v # vs) existing) (\<lambda>_. Inr (v # vs))
      | _ \<Rightarrow>
          (case i_ipv4_cidr i of
             None \<Rightarrow> Inl (Validation ''interface has no IPv4 CIDR'')
           | Some cidr \<Rightarrow>
               (case next_free_ipv4 L cidr existing of
                  None \<Rightarrow> Inl (Ip_Pool_Exhausted (nl_show_net L cidr))
                | Some ip \<Rightarrow>
                    (case nl_new L ip (max_prefix cidr) of
                       Inl e \<Rightarrow> Inl (Validation (''host net: '' @ e))
                     | Inr host_cidr \<Rightarrow> Inr [host_cidr]))))"

subsection \<open>Keys\<close>

text \<open>The public key and the sealed private key of a new peer.\<close>

definition peer_keypair ::
    "'w peer_svc \<Rightarrow> string \<Rightarrow> string \<Rightarrow>
     ('w, core_error, wg_public_key \<times> u8 list option) io" where
  "peer_keypair S private_key public_key =
     (let new_private = trim private_key; new_public = trim public_key;
          decode = cl_b64_decode (pe_crypto S)
      in if new_private \<noteq> [] then
           io_bind (io_lift (key_from_base64 decode Wg_Private_Key new_private)) (\<lambda>pk.
           io_bind (wg_derive_public_key (pe_wg S) pk) (\<lambda>derived.
           io_bind (seal (pe_crypto S) (bytes_of (private_str pk)) (pe_seal_key S)) (\<lambda>sealed.
           io_ret (derived, Some sealed))))
         else if new_public \<noteq> [] then
           io_bind (io_lift (key_from_base64 decode Wg_Public_Key new_public)) (\<lambda>pub.
           io_ret (pub, None))
         else
           io_bind (wg_generate_keypair (pe_wg S)) (\<lambda>(priv, pub).
           io_bind (seal (pe_crypto S) (bytes_of (private_str priv)) (pe_seal_key S)) (\<lambda>sealed.
           io_ret (pub, Some sealed))))"

text \<open>The keys of an updated peer.\<close>

definition peer_current_private :: "'w peer_svc \<Rightarrow> peer \<Rightarrow> string" where
  "peer_current_private S p =
     (case p_private_key_sealed p of
        None \<Rightarrow> []
      | Some blob \<Rightarrow> current_private (pe_crypto S) (pe_seal_key S) blob)"

definition peer_rekey ::
    "'w peer_svc \<Rightarrow> peer \<Rightarrow> string \<Rightarrow> string \<Rightarrow> ('w, core_error, peer) io" where
  "peer_rekey S p private_key public_key =
     (let new_private = trim private_key; new_public = trim public_key;
          decode = cl_b64_decode (pe_crypto S)
      in if new_private \<noteq> [] \<and> new_private \<noteq> peer_current_private S p then
           io_bind (io_lift (key_from_base64 decode Wg_Private_Key new_private)) (\<lambda>priv_key.
           io_bind (wg_derive_public_key (pe_wg S) priv_key) (\<lambda>derived.
           io_bind (seal (pe_crypto S) (bytes_of (private_str priv_key)) (pe_seal_key S)) (\<lambda>sealed.
           io_ret (p\<lparr>p_private_key_sealed := Some sealed, p_public_key := derived\<rparr>))))
         else if new_private = [] \<and> new_public \<noteq> [] \<and> new_public \<noteq> public_str (p_public_key p) then
           io_bind (io_lift (key_from_base64 decode Wg_Public_Key new_public)) (\<lambda>pub.
           io_ret (p\<lparr>p_public_key := pub, p_private_key_sealed := None\<rparr>))
         else io_ret p)"

subsection \<open>Operations\<close>

definition iface_not_found :: "net_lib \<Rightarrow> interface_id \<Rightarrow> core_error" where
  "iface_not_found L i = Not_Found (''interface '' @ show_id L i)"

definition create_with_server_keypair ::
    "'w peer_svc \<Rightarrow> create_peer_input \<Rightarrow> ('w, core_error, peer) io" where
  "create_with_server_keypair S inp =
     (if trim (cp_name inp) = [] then io_fail (Validation ''peer name is required'')
      else
     io_bind (io_some (iface_not_found (pe_net S) (cp_interface_id inp))
                (ir_find_by_id (pe_ifaces S) (cp_interface_id inp))) (\<lambda>i.
     io_bind (pr_list_for_interface (pe_peers S) (i_id i)) (\<lambda>existing.
     io_bind (io_lift (choose_allowed_ips (pe_net S) i (cp_allowed_ips inp) existing)) (\<lambda>allowed.
     io_bind (peer_keypair S (cp_private_key inp) (cp_public_key inp)) (\<lambda>(public_key, private_sealed).
     io_bind (pr_create (pe_peers S)
        \<lparr>np_interface_id = i_id i, np_name = cp_name inp, np_public_key = public_key,
         np_allowed_ips = allowed, np_primary_dns = cp_primary_dns inp,
         np_secondary_dns = cp_secondary_dns inp, np_nat = cp_nat inp, np_endpoint = None,
         np_keepalive = cp_keepalive inp, np_quota = None, np_expires_at = None,
         np_owner = cp_owner inp, np_private_key_sealed = private_sealed\<rparr> None) (\<lambda>p.
     io_ignore (wg_apply_peer (pe_wg S) i p) (io_ret p)))))))"

definition peer_list :: "'w peer_svc \<Rightarrow> interface_id \<Rightarrow> ('w, core_error, peer list) io" where
  "peer_list S i = pr_list_for_interface (pe_peers S) i"

definition peer_list_all :: "'w peer_svc \<Rightarrow> ('w, core_error, peer list) io" where
  "peer_list_all S = pr_list_all (pe_peers S)"

definition peer_get :: "'w peer_svc \<Rightarrow> peer_id \<Rightarrow> ('w, core_error, peer) io" where
  "peer_get S pid =
     io_some (Not_Found (''peer '' @ show_id (pe_net S) pid)) (pr_find_by_id (pe_peers S) pid)"

definition peer_with_input :: "peer \<Rightarrow> update_peer_input \<Rightarrow> peer" where
  "peer_with_input p inp = p\<lparr>
     p_interface_id := up_interface_id inp, p_name := up_name inp,
     p_allowed_ips := up_allowed_ips inp, p_primary_dns := up_primary_dns inp,
     p_secondary_dns := up_secondary_dns inp, p_nat := up_nat inp,
     p_keepalive := up_keepalive inp, p_enabled := up_enabled inp\<rparr>"

text \<open>The calls to the kernel after the row of a peer has been updated.\<close>

definition drop_stale_entry ::
    "'w peer_svc \<Rightarrow> bool \<Rightarrow> bool \<Rightarrow> interface_id \<Rightarrow> iface \<Rightarrow> wg_public_key \<Rightarrow>
     ('w, core_error, 'a) io \<Rightarrow> ('w, core_error, 'a) io" where
  "drop_stale_entry S moving key_changed old_interface_id target old_public k =
     (if moving then
        io_try (ir_find_by_id (pe_ifaces S) old_interface_id) (\<lambda>r.
          case r of
            Inr (Some old) \<Rightarrow> io_ignore (wg_remove_peer (pe_wg S) old old_public) k
          | _ \<Rightarrow> k)
      else if key_changed then io_ignore (wg_remove_peer (pe_wg S) target old_public) k
      else k)"

definition push_peer ::
    "'w peer_svc \<Rightarrow> bool \<Rightarrow> iface \<Rightarrow> peer \<Rightarrow> ('w, core_error, peer) io" where
  "push_peer S on i p =
     (if on then io_ignore (wg_apply_peer (pe_wg S) i p) (io_ret p)
      else io_ignore (wg_remove_peer (pe_wg S) i (p_public_key p)) (io_ret p))"

definition peer_update ::
    "'w peer_svc \<Rightarrow> peer_id \<Rightarrow> update_peer_input \<Rightarrow> ('w, core_error, peer) io" where
  "peer_update S pid inp =
     (if trim (up_name inp) = [] then io_fail (Validation ''peer name is required'')
      else
     io_bind (peer_get S pid) (\<lambda>p.
     let old_interface_id = p_interface_id p;
         moving = (up_interface_id inp \<noteq> old_interface_id);
         old_public = p_public_key p
     in
     io_bind (io_some (iface_not_found (pe_net S) (up_interface_id inp))
                (ir_find_by_id (pe_ifaces S) (up_interface_id inp))) (\<lambda>target.
     io_bind (pr_list_for_interface (pe_peers S) (up_interface_id inp)) (\<lambda>on_target.
     let others = filter (\<lambda>q. p_id q \<noteq> p_id p) on_target
     in
     io_bind (io_lift (ensure_no_conflict (pe_net S) (up_allowed_ips inp) others)) (\<lambda>_.
     io_bind (peer_rekey S (peer_with_input p inp) (up_private_key inp) (up_public_key inp)) (\<lambda>p'.
     let key_changed = (public_str (p_public_key p') \<noteq> public_str old_public)
     in
     io_bind (pr_update (pe_peers S) p') (\<lambda>_.
     drop_stale_entry S moving key_changed old_interface_id target old_public
       (push_peer S (p_enabled p') target p'))))))))"

definition peer_set_enabled ::
    "'w peer_svc \<Rightarrow> peer_id \<Rightarrow> bool \<Rightarrow> ('w, core_error, peer) io" where
  "peer_set_enabled S pid on =
     io_bind (peer_get S pid) (\<lambda>p0.
     let p = p0\<lparr>p_enabled := on\<rparr>
     in
     io_bind (pr_update (pe_peers S) p) (\<lambda>_.
     io_bind (io_some (iface_not_found (pe_net S) (p_interface_id p))
                (ir_find_by_id (pe_ifaces S) (p_interface_id p))) (\<lambda>i.
     push_peer S on i p)))"

definition peer_delete :: "'w peer_svc \<Rightarrow> peer_id \<Rightarrow> ('w, core_error, unit) io" where
  "peer_delete S pid =
     io_bind (peer_get S pid) (\<lambda>p.
     io_bind (io_some (iface_not_found (pe_net S) (p_interface_id p))
                (ir_find_by_id (pe_ifaces S) (p_interface_id p))) (\<lambda>i.
     io_ignore (wg_remove_peer (pe_wg S) i (p_public_key p)) (
     pr_delete (pe_peers S) pid)))"

end
