(* ===== verification/Peer_Conf.thy ===== *)
theory Peer_Conf
  imports Crypto
begin

section \<open>The client configuration of a peer\<close>

text \<open>
  \<open>peer_conf.rs\<close>: the text of a \<open>wg-quick\<close> configuration file. The rendered text is the
  concatenation of its lines, in the order of the format string.
\<close>

definition FULL_TUNNEL :: string where
  "FULL_TUNNEL = ''0.0.0.0/0, ::/0''"

definition conf_endpoint :: "string \<Rightarrow> iface \<Rightarrow> string" where
  "conf_endpoint server_endpoint i =
     (if CHR '':'' \<in> set server_endpoint then server_endpoint
      else server_endpoint @ '':'' @ dec (unat (i_listen_port i)))"

definition non_empty :: "string option \<Rightarrow> string list" where
  "non_empty v = (case v of None \<Rightarrow> [] | Some s \<Rightarrow> if s = [] then [] else [s])"

definition conf_dns :: "iface \<Rightarrow> peer \<Rightarrow> string list" where
  "conf_dns i p =
     (let dns = non_empty (p_primary_dns p) @ non_empty (p_secondary_dns p)
      in if dns = [] then i_dns i else dns)"

definition client_allowed_ips :: "net_lib \<Rightarrow> iface \<Rightarrow> peer \<Rightarrow> string" where
  "client_allowed_ips L i p =
     (if p_nat p then FULL_TUNNEL
      else
        let show_cidr = (\<lambda>c. case c of None \<Rightarrow> [] | Some n \<Rightarrow> [nl_show_net L (nl_trunc L n)]);
            nets = show_cidr (i_ipv4_cidr i) @ show_cidr (i_ipv6_cidr i)
        in if nets = [] then FULL_TUNNEL else join '', '' nets)"

definition conf_private_key :: "'w crypto_lib \<Rightarrow> seal_key \<Rightarrow> (u8 list \<Rightarrow> string) \<Rightarrow> peer \<Rightarrow>
    core_error + string" where
  "conf_private_key C k utf8_error p =
     (case p_private_key_sealed p of
        None \<Rightarrow> Inl (Validation
          ''peer has no server-side private key; provide one or regenerate'')
      | Some blob \<Rightarrow>
          res_bind (unseal C blob k) (\<lambda>bytes.
            case from_utf8 bytes of
              None \<Rightarrow> Inl (Crypto_Error (''peer privkey utf8: '' @ utf8_error bytes))
            | Some s \<Rightarrow> Inr s))"

definition opt_line :: "('a \<Rightarrow> string) \<Rightarrow> 'a option \<Rightarrow> string list" where
  "opt_line f v = (case v of None \<Rightarrow> [] | Some x \<Rightarrow> [f x])"

text \<open>The lines of the file; \<open>utf8_error\<close> is the text of the standard library's decoding error.\<close>

definition conf_lines :: "net_lib \<Rightarrow> iface \<Rightarrow> peer \<Rightarrow> string \<Rightarrow> string \<Rightarrow> string list" where
  "conf_lines L i p server_endpoint private_key =
     [''[Interface]'',
      ''# '' @ p_name p @ '' ('' @ i_name i @ '')'',
      ''PrivateKey = '' @ private_key,
      ''Address = '' @ join '', '' (map (nl_show_net L) (p_allowed_ips p))] @
     (if conf_dns i p = [] then [] else [''DNS = '' @ join '', '' (conf_dns i p)]) @
     opt_line (\<lambda>m. ''MTU = '' @ dec (unat m)) (i_mtu i) @
     [[],
      ''[Peer]'',
      ''PublicKey = '' @ public_str (i_public_key i),
      ''AllowedIPs = '' @ client_allowed_ips L i p,
      ''Endpoint = '' @ conf_endpoint server_endpoint i] @
     opt_line (\<lambda>k. ''PersistentKeepalive = '' @ dec (unat k)) (p_keepalive p)"

definition unlines :: "string list \<Rightarrow> string" where
  "unlines ls = concat (map (\<lambda>l. l @ [NL]) ls)"

definition render_peer_conf ::
    "'w crypto_lib \<Rightarrow> net_lib \<Rightarrow> (u8 list \<Rightarrow> string) \<Rightarrow> iface \<Rightarrow> peer \<Rightarrow> string \<Rightarrow> seal_key \<Rightarrow>
     core_error + string" where
  "render_peer_conf C L utf8_error i p server_endpoint k =
     res_bind (conf_private_key C k utf8_error p) (\<lambda>private_key.
       Inr (unlines (conf_lines L i p server_endpoint private_key)))"

end
