(* ===== verification/App.thy ===== *)
theory App
  imports Sqlite_Records Wireguard_Adapter Nat_Adapter Sysnet_Adapter
    Auth_Service Peer_Service Peer_Conf
begin

section \<open>The application state\<close>

text \<open>
  \<open>wireforge-web/src/app_state.rs\<close> and the part of \<open>wireforge-bin/src/main.rs\<close> that builds it:
  the adapters put together and the services over them. The repositories are determined by the
  database environment, so the state holds that.
\<close>

record ('os, 'j) app_state =
  app_env :: "'os db_env"
  app_json :: "'j json_lib"
  app_crypto :: "'os crypto_lib"
  app_seal_key :: seal_key
  app_utf8_error :: "u8 list \<Rightarrow> string"
  app_wg_lib :: "'os wg_lib"
  app_dry_run :: bool
  app_nat :: "'os nat_adapter"
  app_sysnet :: "'os sysnet_adapter"

text \<open>One crate \<open>base64\<close> and one crate \<open>ipnet\<close> serve the repositories, the core and the WireGuard
  adapter, and all share the seal key derived from the master key.\<close>

definition app_repos :: "('os, 'j) app_state \<Rightarrow> 'os db_env" where
  "app_repos A = (app_env A)\<lparr>de_b64_decode := cl_b64_decode (app_crypto A)\<rparr>"

definition app_wg :: "('os, 'j) app_state \<Rightarrow> 'os defguard" where
  "app_wg A = \<lparr>
     da_seal_key = app_seal_key A, da_dry_run = app_dry_run A, da_crypto = app_crypto A,
     da_lib = app_wg_lib A, da_net = de_net (app_env A), da_utf8_error = app_utf8_error A\<rparr>"

definition interface_service :: "('os, 'j) app_state \<Rightarrow> 'os world iface_svc" where
  "interface_service A = \<lparr>
     is_ifaces = sqlite_ifaces (app_repos A), is_peers = sqlite_peers (app_repos A),
     is_wg = defguard_port (app_wg A), is_nat = iptables_port (app_nat A),
     is_sysnet = getifaddrs_port (app_sysnet A), is_seal_key = app_seal_key A,
     is_crypto = os_crypto (app_crypto A), is_net = de_net (app_env A)\<rparr>"

definition peer_service :: "('os, 'j) app_state \<Rightarrow> 'os world peer_svc" where
  "peer_service A = \<lparr>
     pe_peers = sqlite_peers (app_repos A), pe_ifaces = sqlite_ifaces (app_repos A),
     pe_wg = defguard_port (app_wg A), pe_seal_key = app_seal_key A,
     pe_crypto = os_crypto (app_crypto A), pe_net = de_net (app_env A)\<rparr>"

definition auth_service :: "('os, 'j) app_state \<Rightarrow> 'os world auth_svc" where
  "auth_service A = \<lparr>as_users = sqlite_users (app_repos A), as_crypto = os_crypto (app_crypto A)\<rparr>"

definition settings_snapshot_now :: "('os world, 'e, runtime_settings) io" where
  "settings_snapshot_now = settings_snapshot world_settings_cell"

text \<open>The settings the server boots with: the values of the configuration file over the
  defaults, then the persisted overrides.\<close>

record boot_config =
  bo_locale_default :: string
  bo_totp_issuer :: string
  bo_login_max_attempts :: u32
  bo_login_lockout_secs :: u64
  bo_endpoint :: "string option"
  bo_log_level :: string

definition boot_baseline :: "boot_config \<Rightarrow> runtime_settings" where
  "boot_baseline cfg = default_settings\<lparr>
     rs_locale_default := bo_locale_default cfg, rs_totp_issuer := bo_totp_issuer cfg,
     rs_login_max_attempts := bo_login_max_attempts cfg,
     rs_login_lockout_secs := bo_login_lockout_secs cfg, rs_endpoint := bo_endpoint cfg,
     rs_log_level := bo_log_level cfg\<rparr>"

text \<open>\<open>log_reload\<close> is the closure that re-installs the log filter; its result is dropped.\<close>

definition boot_settings ::
    "('os, 'j) app_state \<Rightarrow> (string \<Rightarrow> 'os \<Rightarrow> (string + unit) \<times> 'os) \<Rightarrow> boot_config \<Rightarrow>
     ('os world, core_error, unit) io" where
  "boot_settings A log_reload cfg =
     io_bind (settings_load (sqlite_settings (app_repos A)) (boot_baseline cfg)) (\<lambda>merged.
     io_ignore (on_os_res (log_reload (rs_log_level merged)))
       (\<lambda>w. (Inr (), cell_write world_settings_cell merged w)))"

end
