(* ===== verification/Net_Spec.thy ===== *)
theory Net_Spec
  imports Contracts Peer_Service
begin

section \<open>What may happen to a network configuration\<close>

text \<open>
  The abstract specification of the interface and peer services, the traffic poller and the
  scheduler: \<open>net_step\<close> lists the lawful changes of a configuration. Whatever a request or a
  background pass does is a sequence of such steps; the properties of stored configurations
  (\<open>net_good\<close>) are proved by induction over them.
\<close>

subsection \<open>Good configurations\<close>

definition opt_gateway_ok :: "string option \<Rightarrow> bool" where
  "opt_gateway_ok gw \<longleftrightarrow> (case gw of None \<Rightarrow> True | Some g \<Rightarrow> gateway_charset_ok g)"

definition iface_safe :: "iface \<Rightarrow> bool" where
  "iface_safe i \<longleftrightarrow> validate_iface_name (i_name i) = Inr () \<and> opt_gateway_ok (i_gateway i)"

text \<open>No address is given to two peers of one interface.\<close>

definition addrs_apart :: "peer \<Rightarrow> peer \<Rightarrow> bool" where
  "addrs_apart p q \<longleftrightarrow> set (p_allowed_ips p) \<inter> set (p_allowed_ips q) = {}"

definition addr_unique :: "peer list \<Rightarrow> bool" where
  "addr_unique ps \<longleftrightarrow> (\<forall>p \<in> set ps. \<forall>q \<in> set ps.
     p_id p \<noteq> p_id q \<and> p_interface_id p = p_interface_id q \<longrightarrow> addrs_apart p q)"

definition net_good :: "net \<Rightarrow> bool" where
  "net_good n \<longleftrightarrow> net_wf n \<and> (\<forall>i \<in> set (fst n). iface_safe i) \<and> addr_unique (snd n)"

subsection \<open>Steps\<close>

inductive net_step :: "net \<Rightarrow> net \<Rightarrow> bool" where
  Iface_Made: "iface_safe x \<Longrightarrow> i_status x = Status_Down \<Longrightarrow>
    i_id x \<notin> i_id ` set is \<Longrightarrow> i_name x \<notin> i_name ` set is \<Longrightarrow>
    net_step (is, ps) (is @ [x], ps)"
| Iface_Wrote: "old \<in> set is \<Longrightarrow> i_id old = i_id x \<Longrightarrow>
    i_gateway x = i_gateway old \<or> opt_gateway_ok (i_gateway x) \<Longrightarrow>
    net_step (is, ps) (put_iface x now is, ps)"
| Iface_Dropped: "net_step (is, ps)
    (filter (\<lambda>y. i_id y \<noteq> k) is, filter (\<lambda>p. p_interface_id p \<noteq> k) ps)"
| Peer_Made: "p_interface_id x \<in> i_id ` set is \<Longrightarrow> p_id x \<notin> p_id ` set ps \<Longrightarrow>
    (\<forall>q \<in> set ps. p_interface_id q = p_interface_id x \<longrightarrow> addrs_apart x q) \<Longrightarrow>
    net_step (is, ps) (is, ps @ [x])"
| Peer_Wrote: "old \<in> set ps \<Longrightarrow> p_id old = p_id x \<Longrightarrow> p_interface_id x \<in> i_id ` set is \<Longrightarrow>
    (\<forall>q \<in> set ps. p_id q \<noteq> p_id x \<and> p_interface_id q = p_interface_id x \<longrightarrow> addrs_apart x q) \<Longrightarrow>
    net_step (is, ps) (is, put_peer x now ps)"
| Peer_Dropped: "net_step (is, ps) (is, filter (\<lambda>p. p_id p \<noteq> k') ps)"
| Peer_Used: "net_step (is, ps) (is, put_used k' bytes ps)"

inductive_simps net_step_from: "net_step (is, ps) n"
inductive_cases net_stepE: "net_step n n'"

abbreviation net_steps :: "net \<Rightarrow> net \<Rightarrow> bool" where
  "net_steps \<equiv> net_step\<^sup>*\<^sup>*"

subsection \<open>Steps keep configurations good\<close>

lemma addrs_apart_sym: "addrs_apart p q = addrs_apart q p"
  by (auto simp: addrs_apart_def)

lemma addr_uniqueD:
  "addr_unique ps \<Longrightarrow> p \<in> set ps \<Longrightarrow> q \<in> set ps \<Longrightarrow> p_id p \<noteq> p_id q \<Longrightarrow>
   p_interface_id p = p_interface_id q \<Longrightarrow> addrs_apart p q"
  by (simp add: addr_unique_def)

lemma addr_unique_subset: "addr_unique ps \<Longrightarrow> set qs \<subseteq> set ps \<Longrightarrow> addr_unique qs"
  unfolding addr_unique_def by blast

lemma addr_unique_add:
  "addr_unique ps \<Longrightarrow>
   \<forall>q \<in> set ps. p_interface_id q = p_interface_id x \<longrightarrow> addrs_apart x q \<Longrightarrow> addr_unique (ps @ [x])"
  unfolding addr_unique_def by (auto simp: addrs_apart_sym)

lemma peer_over_fields [simp]:
  "p_id (peer_over x now old) = p_id old"
  "p_interface_id (peer_over x now old) = p_interface_id x"
  "p_allowed_ips (peer_over x now old) = p_allowed_ips x"
  "p_enabled (peer_over x now old) = p_enabled x"
  by (simp_all add: peer_over_def)

lemma iface_over_fields [simp]:
  "i_id (iface_over x now old) = i_id old"
  "i_name (iface_over x now old) = i_name old"
  "i_gateway (iface_over x now old) = i_gateway x"
  "i_status (iface_over x now old) = i_status x"
  by (simp_all add: iface_over_def)

lemma addr_unique_put:
  assumes unique: "addr_unique ps"
    and apart: "\<forall>q \<in> set ps. p_id q \<noteq> p_id x \<and> p_interface_id q = p_interface_id x \<longrightarrow> addrs_apart x q"
  shows "addr_unique (put_peer x now ps)"
proof -
  have main: "addrs_apart p q"
    if "p \<in> set (put_peer x now ps)" and q: "q \<in> set ps" "p_id q \<noteq> p_id x"
      and "p_id p \<noteq> p_id q" "p_interface_id p = p_interface_id q" for p q
    using that(1) unfolding in_put_peer
  proof
    assume "p \<in> set ps \<and> p_id p \<noteq> p_id x"
    then show ?thesis using addr_uniqueD [OF unique] that by blast
  next
    assume "\<exists>old \<in> set ps. p_id old = p_id x \<and> p = peer_over x now old"
    then have "set (p_allowed_ips p) = set (p_allowed_ips x)" "p_interface_id p = p_interface_id x"
      by auto
    then show ?thesis using apart that by (simp add: addrs_apart_def)
  qed
  show ?thesis
    unfolding addr_unique_def
  proof (intro ballI impI)
    fix p q
    assume p: "p \<in> set (put_peer x now ps)" and q: "q \<in> set (put_peer x now ps)"
      and ne: "p_id p \<noteq> p_id q \<and> p_interface_id p = p_interface_id q"
    show "addrs_apart p q"
    proof (cases "p_id q = p_id x")
      case False
      then have "q \<in> set ps" using q by (auto simp: in_put_peer)
      then show ?thesis using main p ne False by blast
    next
      case True
      then have px: "p_id p \<noteq> p_id x" using ne by simp
      then have "p \<in> set ps" using p by (auto simp: in_put_peer)
      then have "addrs_apart q p" using main [OF q] px ne by metis
      then show ?thesis by (simp add: addrs_apart_sym)
    qed
  qed
qed

lemma addr_unique_used: "addr_unique ps \<Longrightarrow> addr_unique (put_used k bytes ps)"
proof -
  have "\<exists>p'\<in>set ps. p_id p' = p_id p \<and> p_interface_id p' = p_interface_id p \<and>
      p_allowed_ips p' = p_allowed_ips p" if "p \<in> set (put_used k bytes ps)" for p
    using that by (auto simp: in_put_used)
  then show "addr_unique ps \<Longrightarrow> addr_unique (put_used k bytes ps)"
    unfolding addr_unique_def addrs_apart_def by metis
qed

lemma net_step_wf: "net_step n n' \<Longrightarrow> net_wf n \<Longrightarrow> net_wf n'"
proof (induction rule: net_step.induct)
  case (Iface_Made x "is" ps)
  then show ?case by (auto simp: net_wf_def)
next
  case (Iface_Wrote old "is" x ps now)
  then show ?case by (simp add: net_wf_def)
next
  case (Iface_Dropped "is" ps k)
  then show ?case by (auto simp: net_wf_def distinct_map_filter)
next
  case (Peer_Made x "is" ps)
  then show ?case by (auto simp: net_wf_def)
next
  case (Peer_Wrote old ps x "is" now)
  then show ?case by (auto simp: net_wf_def in_put_peer)
next
  case (Peer_Dropped "is" ps k)
  then show ?case by (auto simp: net_wf_def distinct_map_filter)
next
  case (Peer_Used "is" ps k bytes)
  then show ?case by (auto simp: net_wf_def in_put_used)
qed

lemma net_step_safe:
  "net_step n n' \<Longrightarrow> \<forall>i \<in> set (fst n). iface_safe i \<Longrightarrow> \<forall>i \<in> set (fst n'). iface_safe i"
  by (induction rule: net_step.induct) (auto simp: in_put_iface iface_safe_def)

lemma net_step_unique: "net_step n n' \<Longrightarrow> addr_unique (snd n) \<Longrightarrow> addr_unique (snd n')"
proof (induction rule: net_step.induct)
  case (Peer_Made x "is" ps)
  then show ?case by (simp add: addr_unique_add)
next
  case (Peer_Wrote old ps x "is" now)
  then show ?case by (simp add: addr_unique_put)
qed (auto intro: addr_unique_used elim: addr_unique_subset)

lemma net_step_good: "net_step n n' \<Longrightarrow> net_good n \<Longrightarrow> net_good n'"
  using net_step_wf net_step_safe net_step_unique unfolding net_good_def by blast

lemma net_steps_good: "net_steps n n' \<Longrightarrow> net_good n \<Longrightarrow> net_good n'"
  by (induction rule: rtranclp_induct) (auto intro: net_step_good)

subsection \<open>Operations that take steps\<close>

text \<open>\<open>stepping J net n w\<close>: the configuration of \<open>w\<close> was reached from \<open>n\<close> by lawful steps.\<close>

definition stepping :: "('w \<Rightarrow> bool) \<Rightarrow> ('w \<Rightarrow> net) \<Rightarrow> net \<Rightarrow> 'w \<Rightarrow> bool" where
  "stepping J net n w \<longleftrightarrow> J w \<and> net_steps n (net w)"

lemma stepping_start: "J w \<Longrightarrow> stepping J net (net w) w"
  by (simp add: stepping_def)

lemma stepping_holds: "stepping J net n w \<Longrightarrow> \<exists>v. net_steps n v \<and> holds J net v w"
  by (cases "net w") (auto simp: stepping_def holds_def)

lemma holds_stepping: "holds J net v w \<Longrightarrow> net_steps n v \<Longrightarrow> stepping J net n w"
  by (auto simp: stepping_def holds_def)

lemma stepping_next: "net_steps n v \<Longrightarrow> net_step v v' \<Longrightarrow> holds J net v' w \<Longrightarrow> stepping J net n w"
  by (rule holds_stepping, assumption, erule rtranclp.rtrancl_into_rtrancl)

text \<open>An operation proved for a fixed configuration takes steps from wherever it starts.\<close>

lemma triple_stepping:
  assumes "\<And>v. net_steps n v \<Longrightarrow> triple (holds J net v) m (\<lambda>_. stepping J net n) (\<lambda>_. stepping J net n)"
  shows "triple (stepping J net n) m (\<lambda>_. stepping J net n) (\<lambda>_. stepping J net n)"
proof (rule tripleI)
  fix w x w'
  assume w: "stepping J net n w" and m: "m w = (Inr x, w')"
  obtain v where v: "net_steps n v" "holds J net v w"
    using stepping_holds [OF w] by blast
  show "stepping J net n w'"
    by (rule triple_ok [OF assms [OF v(1)] v(2) m])
next
  fix w e w'
  assume w: "stepping J net n w" and m: "m w = (Inl e, w')"
  obtain v where v: "net_steps n v" "holds J net v w"
    using stepping_holds [OF w] by blast
  show "stepping J net n w'"
    by (rule triple_err [OF assms [OF v(1)] v(2) m])
qed

text \<open>The same for the world of a given repository.\<close>

context net_store begin

lemma step_to: "net_steps n v \<Longrightarrow> net_step v v' \<Longrightarrow> holds J net v' w \<Longrightarrow> stepping J net n w"
  by (rule stepping_next)

lemma step_none: "net_steps n v \<Longrightarrow> holds J net v w \<Longrightarrow> stepping J net n w"
  by (rule holds_stepping)

lemma start_of: "stepping J net n w \<Longrightarrow> \<exists>is ps. net_steps n (is, ps) \<and> holds J net (is, ps) w"
  by (cases "net w") (auto simp: stepping_def holds_def)

end

end
