(* ===== verification/Iface_Ops.thy ===== *)
theory Iface_Ops
  imports Net_Spec
begin

section \<open>The interface service over the contracts\<close>

text \<open>
  What the operations of the interface service do to the network configuration, proved once
  from the contracts: creation checks the name and the gateway and appends one stopped
  interface, start and stop write the new status, an update writes over one interface after
  checking its gateway, deletion removes the interface and its peers. Whatever the WireGuard
  and NAT adapters do or fail to do, the configuration is either changed that way or not at
  all; an update may still report an error after it has been stored.
\<close>

subsection \<open>What the operations promise\<close>

definition iface_created :: "create_iface_input \<Rightarrow> iface list \<Rightarrow> iface \<Rightarrow> bool" where
  "iface_created inp is x \<longleftrightarrow>
     validate_iface_name (ci_name inp) = Inr () \<and> opt_gateway_ok (ci_gateway inp) \<and>
     ci_name inp \<notin> i_name ` set is \<and>
     i_name x = ci_name inp \<and> i_listen_port x = ci_listen_port inp \<and>
     i_endpoint x = ci_endpoint inp \<and> i_gateway x = ci_gateway inp \<and>
     i_ipv4_cidr x = ci_ipv4_cidr inp \<and> i_ipv6_cidr x = ci_ipv6_cidr inp \<and>
     i_mtu x = ci_mtu inp \<and> i_dns x = ci_dns inp \<and> i_on_up x = ci_on_up inp \<and>
     i_on_down x = ci_on_down inp \<and> i_status x = Status_Down"

text \<open>The interface \<open>k\<close> was stored as \<open>x\<close>, which the operation made of the stored \<open>old\<close>.\<close>

definition iface_wrote ::
    "('w \<Rightarrow> bool) \<Rightarrow> ('w \<Rightarrow> net) \<Rightarrow> interface_id \<Rightarrow> (iface \<Rightarrow> iface \<Rightarrow> bool) \<Rightarrow> net \<Rightarrow>
     iface \<Rightarrow> 'w \<Rightarrow> bool" where
  "iface_wrote J net k made n x w \<longleftrightarrow>
     (\<exists>now old. find (\<lambda>y. i_id y = k) (fst n) = Some old \<and> made old x \<and>
        holds J net (put_iface x now (fst n), snd n) w)"

definition with_status :: "interface_status \<Rightarrow> iface \<Rightarrow> iface \<Rightarrow> bool" where
  "with_status s old x \<longleftrightarrow> x = old\<lparr>i_status := s\<rparr>"

definition iface_updated :: "update_iface_input \<Rightarrow> iface \<Rightarrow> iface \<Rightarrow> bool" where
  "iface_updated inp old x \<longleftrightarrow> opt_gateway_ok (ui_gateway inp) \<and>
     x = (iface_with_input old inp)\<lparr>i_public_key := i_public_key x,
            i_private_key_sealed := i_private_key_sealed x\<rparr>"

lemma triple_opt_ignore:
  "(\<And>x. triple P (f x) (\<lambda>_. P) (\<lambda>_. P)) \<Longrightarrow> triple P k Q X \<Longrightarrow> triple P (opt_ignore v f k) Q X"
  unfolding opt_ignore_def by (cases v) (auto intro: triple_ignore)

lemma iface_created_step:
  assumes "iface_created inp is x" and "net_wf (is @ [x], ps)"
  shows "net_step (is, ps) (is @ [x], ps)"
proof (rule Iface_Made)
  show "iface_safe x" and "i_status x = Status_Down"
    using assms(1) by (simp_all add: iface_created_def iface_safe_def)
  show "i_id x \<notin> i_id ` set is" and "i_name x \<notin> i_name ` set is"
    using assms(2) by (auto simp: net_wf_def)
qed

locale iface_ops = net_store "is_ifaces S" "is_peers S" J net key_ok +
    wg_frame "is_wg S" J net key_ok + nat_frame "is_nat S" "is_sysnet S" J net
  for S :: "'w iface_svc" and J :: "'w \<Rightarrow> bool" and net :: "'w \<Rightarrow> net"
    and key_ok :: "wg_public_key \<Rightarrow> bool" +
  assumes seal_frame: "triple (holds J net v) (seal (is_crypto S) bs (is_seal_key S))
      (\<lambda>_. holds J net v) (\<lambda>_. holds J net v)"
begin

lemma gateway_ok:
  "triple (holds J net v) (validate_gateway S g)
     (\<lambda>_ w. holds J net v w \<and> gateway_charset_ok g) (\<lambda>_. holds J net v)"
  unfolding validate_gateway_def
proof (intro triple_if, goal_cases)
  case 1
  show ?case by (rule triple_fail)
next
  case 2
  then show ?case
    by (intro triple_bind [OF nics] triple_if) (auto intro: triple_fail triple_ret)
qed

lemma gateway_opt_ok:
  "triple (holds J net v) (validate_gateway_opt S g)
     (\<lambda>_ w. holds J net v w \<and> opt_gateway_ok g) (\<lambda>_. holds J net v)"
  unfolding validate_gateway_opt_def opt_gateway_ok_def
  by (cases g) (auto intro: triple_ret gateway_ok)

lemma get_ok:
  "triple (holds J net (is, ps)) (iface_get S k)
     (\<lambda>x w. holds J net (is, ps) w \<and> find (\<lambda>y. i_id y = k) is = Some x \<and> key_ok (i_public_key x))
     (\<lambda>_. holds J net (is, ps))"
  unfolding iface_get_def
proof (rule triple_some, rule triple_conseq [OF iface_find])
  fix x w
  assume "holds J net (is, ps) w \<and> x = find (\<lambda>y. i_id y = k) is"
  then show "case x of None \<Rightarrow> holds J net (is, ps) w
     | Some x \<Rightarrow> holds J net (is, ps) w \<and> find (\<lambda>y. i_id y = k) is = Some x \<and> key_ok (i_public_key x)"
    using stored_keys [of w] by (auto simp: holds_def split: option.splits dest!: find_SomeD)
qed

lemma keypair_ok:
  "triple (holds J net v) (iface_keypair S priv)
     (\<lambda>r w. holds J net v w \<and> key_ok (snd r)) (\<lambda>_. holds J net v)"
  unfolding iface_keypair_def Let_def
proof (intro triple_if generate, goal_cases)
  case 1
  show ?case
    by (rule triple_bind [OF triple_lift [where Q = "\<lambda>_. holds J net v"]], assumption, assumption,
        rule triple_bind_pure [OF derive], rule triple_ret, simp)
qed

lemma rekey_ok:
  assumes "key_ok (i_public_key i)"
  shows "triple (holds J net v) (iface_rekey S i priv)
     (\<lambda>x w. holds J net v w \<and> key_ok (i_public_key x) \<and>
        x = i\<lparr>i_public_key := i_public_key x, i_private_key_sealed := i_private_key_sealed x\<rparr>)
     (\<lambda>_. holds J net v)"
  unfolding iface_rekey_def Let_def
proof (intro triple_if, goal_cases)
  case 1
  show ?case
    by (rule triple_bind [OF triple_lift [where Q = "\<lambda>_. holds J net v"]], assumption, assumption,
        rule triple_bind_pure [OF derive], rule triple_bind [OF seal_frame], rule triple_ret, simp)
next
  case 2
  show ?case by (rule triple_ret) (simp add: assms)
qed

subsection \<open>Creation, start and stop\<close>

lemma create_ok:
  "triple (holds J net (is, ps)) (iface_create S inp)
     (\<lambda>x w. holds J net (is @ [x], ps) w \<and> iface_created inp is x) (\<lambda>_. holds J net (is, ps))"
  unfolding iface_create_def
proof (rule triple_bind_pure [where Q = "holds J net (is, ps)" and
      b = "\<lambda>_. validate_iface_name (ci_name inp) = Inr ()", OF triple_lift], simp, assumption,
    rule triple_bind_pure [OF gateway_opt_ok], rule triple_bind_pure [OF iface_find_name],
    intro triple_if, goal_cases)
  case 1
  show ?case by (rule triple_fail)
next
  case checked: (2 u u' found)
  then have fresh: "ci_name inp \<notin> i_name ` set is"
    using find_NoneD [of "\<lambda>y. i_name y = ci_name inp" "is"] by (metis imageE)
  show ?case
  proof (rule triple_bind_pure [OF keypair_ok], clarsimp, rule triple_bind [OF seal_frame],
      rule triple_bind [OF iface_create], goal_cases)
    case 1
    then show ?case by simp
  next
    case (2 priv pub sealed x)
    show ?case
      by (rule triple_pure, rule triple_ignore [OF create_iface], rule triple_ret)
        (simp add: checked fresh iface_created_def iface_made_def)
  qed
qed

lemma write_status_ok:
  assumes "find (\<lambda>y. i_id y = k) is = Some old" and "key_ok (i_public_key old)"
  shows "triple (holds J net (is, ps)) (io_bind (ir_update (is_ifaces S) (old\<lparr>i_status := s\<rparr>))
       (\<lambda>_. io_ret (old\<lparr>i_status := s\<rparr>)))
     (iface_wrote J net k (with_status s) (is, ps)) (\<lambda>_. holds J net (is, ps))"
proof -
  have key: "key_ok (i_public_key (old\<lparr>i_status := s\<rparr>))" using assms(2) by simp
  show ?thesis
    by (rule triple_bind [OF iface_update [OF key]], rule triple_ret)
      (use assms(1) in \<open>auto simp: iface_wrote_def with_status_def\<close>)
qed

lemma start_ok:
  "triple (holds J net (is, ps)) (iface_start S k)
     (iface_wrote J net k (with_status Status_Up) (is, ps)) (\<lambda>_. holds J net (is, ps))"
  unfolding iface_start_def Let_def
proof (rule triple_bind_pure [OF get_ok], elim conjE,
    rule triple_bind_pure [OF peer_list_for], rule triple_bind [OF up],
    rule triple_opt_ignore [OF nat_hook], rule triple_bind [where Q = "\<lambda>_. holds J net (is, ps)"],
    goal_cases)
  case (1 i peers u)
  have nat: "triple (holds J net (is, ps)) (io_bind (validate_gateway S gw) (\<lambda>_. nat_apply (is_nat S) i gw))
      (\<lambda>_. holds J net (is, ps)) (\<lambda>_. holds J net (is, ps))" for gw
    by (rule triple_bind_pure [OF gateway_ok], rule nat_apply)
  show ?case
    by (cases "i_gateway i"; simp)
      (auto intro!: triple_ret triple_try [OF nat] triple_ignore [OF down] triple_fail split: sum.split)
next
  case (2 i peers u u')
  then show ?case by (intro write_status_ok)
qed

lemma stop_ok:
  "triple (holds J net (is, ps)) (iface_stop S k)
     (iface_wrote J net k (with_status Status_Down) (is, ps)) (\<lambda>_. holds J net (is, ps))"
  unfolding iface_stop_def Let_def
  by (rule triple_bind_pure [OF get_ok], elim conjE, rule triple_opt_ignore [OF nat_remove],
      rule triple_opt_ignore [OF nat_hook], rule triple_bind [OF down], rule write_status_ok)

subsection \<open>Update and deletion\<close>

lemma update_ok:
  "triple (holds J net (is, ps)) (iface_update S k inp)
     (iface_wrote J net k (iface_updated inp) (is, ps))
     (\<lambda>_ w. holds J net (is, ps) w \<or> (\<exists>x. iface_wrote J net k (iface_updated inp) (is, ps) x w))"
  unfolding iface_update_def Let_def
proof (rule triple_bind_weak [OF get_ok], erule disjI1, elim conjE,
    rule triple_bind_weak [OF gateway_opt_ok], erule disjI1, goal_cases)
  case old: (1 i u)
  have key: "key_ok (i_public_key (iface_with_input i inp))"
    using old(2) by (simp add: iface_with_input_def)
  show ?case
  proof (rule triple_bind_weak [OF rekey_ok [OF key]], erule disjI1, elim conjE,
      rule triple_bind_step [OF iface_update], assumption, erule disjI1, rule triple_ex, goal_cases)
    case (1 x u now)
    have wrote: "holds J net (put_iface x now is, ps) w \<Longrightarrow>
        iface_wrote J net k (iface_updated inp) (is, ps) x w" for w
      using old 1(2) by (auto simp: iface_wrote_def iface_updated_def)
    show ?case
    proof (intro triple_if, goal_cases)
      case 1
      show ?case
        by (rule triple_bind_weak [OF peer_list_for], use wrote in blast, rule triple_ignore [OF up],
            rule triple_opt_ignore [OF nat_remove], rule triple_opt_ignore [OF nat_apply],
            rule triple_ret, rule wrote)
    next
      case 2
      show ?case by (rule triple_ret, rule wrote)
    qed
  qed
qed

lemma delete_ok:
  "triple (holds J net (is, ps)) (iface_delete S k)
     (\<lambda>_ w. holds J net (filter (\<lambda>y. i_id y \<noteq> k) is, filter (\<lambda>p. p_interface_id p \<noteq> k) ps) w \<and>
        find (\<lambda>y. i_id y = k) is \<noteq> None)
     (\<lambda>_. holds J net (is, ps))"
  unfolding iface_delete_def
  by (rule triple_bind_pure [OF get_ok], elim conjE, rule triple_opt_ignore [OF nat_remove],
      rule triple_ignore [OF down], rule triple_ignore [OF delete],
      rule triple_conseq [OF iface_delete]) auto

subsection \<open>The operations refine the specification\<close>

lemma create_steps:
  "triple (stepping J net n) (iface_create S inp) (\<lambda>_. stepping J net n) (\<lambda>_. stepping J net n)"
proof (rule triple_stepping)
  fix v
  assume n: "net_steps n v"
  show "triple (holds J net v) (iface_create S inp) (\<lambda>_. stepping J net n) (\<lambda>_. stepping J net n)"
  proof (cases v, hypsubst, rule triple_conseq [OF create_ok], assumption)
    fix "is" ps x w
    assume v: "v = (is, ps)" and made: "holds J net (is @ [x], ps) w \<and> iface_created inp is x"
    have "net_step (is, ps) (is @ [x], ps)"
      using iface_created_step [of inp "is" x ps] made wf [of w] by (simp add: holds_def)
    then show "stepping J net n w"
      using step_to n made unfolding v by blast
  qed (rule step_none [OF n], simp)
qed

lemma wrote_stepping:
  assumes "net_steps n (is, ps)" and "iface_wrote J net k made (is, ps) x w"
    and made: "\<And>old. made old x \<Longrightarrow> i_id x = i_id old \<and>
      (i_gateway x = i_gateway old \<or> opt_gateway_ok (i_gateway x))"
  shows "stepping J net n w"
proof -
  obtain now old where old: "find (\<lambda>y. i_id y = k) is = Some old" "made old x"
    and w: "holds J net (put_iface x now is, ps) w"
    using assms(2) by (auto simp: iface_wrote_def)
  have "net_step (is, ps) (put_iface x now is, ps)"
    by (rule Iface_Wrote) (use find_SomeD [OF old(1)] made [OF old(2)] in auto)
  then show ?thesis
    using step_to [OF assms(1)] w by blast
qed

lemma start_steps:
  "triple (stepping J net n) (iface_start S k) (\<lambda>_. stepping J net n) (\<lambda>_. stepping J net n)"
proof (rule triple_stepping)
  fix v
  assume n: "net_steps n v"
  show "triple (holds J net v) (iface_start S k) (\<lambda>_. stepping J net n) (\<lambda>_. stepping J net n)"
  proof (cases v, hypsubst, rule triple_conseq [OF start_ok], assumption)
    fix "is" ps x w
    assume v: "v = (is, ps)" and wrote: "iface_wrote J net k (with_status Status_Up) (is, ps) x w"
    show "stepping J net n w"
      by (rule wrote_stepping [OF n [unfolded v] wrote]) (simp add: with_status_def)
  qed (rule step_none [OF n], simp)
qed

lemma stop_steps:
  "triple (stepping J net n) (iface_stop S k) (\<lambda>_. stepping J net n) (\<lambda>_. stepping J net n)"
proof (rule triple_stepping)
  fix v
  assume n: "net_steps n v"
  show "triple (holds J net v) (iface_stop S k) (\<lambda>_. stepping J net n) (\<lambda>_. stepping J net n)"
  proof (cases v, hypsubst, rule triple_conseq [OF stop_ok], assumption)
    fix "is" ps x w
    assume v: "v = (is, ps)" and wrote: "iface_wrote J net k (with_status Status_Down) (is, ps) x w"
    show "stepping J net n w"
      by (rule wrote_stepping [OF n [unfolded v] wrote]) (simp add: with_status_def)
  qed (rule step_none [OF n], simp)
qed

lemma updated_stepping:
  assumes "net_steps n (is, ps)" and "iface_wrote J net k (iface_updated inp) (is, ps) x w"
  shows "stepping J net n w"
proof (rule wrote_stepping [OF assms])
  fix old
  assume "iface_updated inp old x"
  then have ok: "opt_gateway_ok (ui_gateway inp)" and x: "x = (iface_with_input old inp)
      \<lparr>i_public_key := i_public_key x, i_private_key_sealed := i_private_key_sealed x\<rparr>"
    by (simp_all add: iface_updated_def)
  have "i_id x = i_id old" "i_gateway x = ui_gateway inp"
    by (subst x, simp add: iface_with_input_def)+
  then show "i_id x = i_id old \<and> (i_gateway x = i_gateway old \<or> opt_gateway_ok (i_gateway x))"
    using ok by simp
qed

lemma update_steps:
  "triple (stepping J net n) (iface_update S k inp) (\<lambda>_. stepping J net n) (\<lambda>_. stepping J net n)"
proof (rule triple_stepping)
  fix v
  assume n: "net_steps n v"
  show "triple (holds J net v) (iface_update S k inp) (\<lambda>_. stepping J net n) (\<lambda>_. stepping J net n)"
  proof (cases v, hypsubst, rule triple_conseq [OF update_ok], assumption)
    fix "is" ps x w
    assume v: "v = (is, ps)" and "iface_wrote J net k (iface_updated inp) (is, ps) x w"
    then show "stepping J net n w"
      using updated_stepping n by blast
  next
    fix "is" ps w
    assume v: "v = (is, ps)" and
      "holds J net (is, ps) w \<or> (\<exists>x. iface_wrote J net k (iface_updated inp) (is, ps) x w)"
    then show "stepping J net n w"
      using updated_stepping [OF n [unfolded v]] step_none [OF n [unfolded v]] by blast
  qed
qed

lemma delete_steps:
  "triple (stepping J net n) (iface_delete S k) (\<lambda>_. stepping J net n) (\<lambda>_. stepping J net n)"
proof (rule triple_stepping)
  fix v
  assume n: "net_steps n v"
  show "triple (holds J net v) (iface_delete S k) (\<lambda>_. stepping J net n) (\<lambda>_. stepping J net n)"
  proof (cases v, hypsubst, rule triple_conseq [OF delete_ok], assumption)
    fix "is" ps w
    assume v: "v = (is, ps)" and "holds J net (filter (\<lambda>y. i_id y \<noteq> k) is,
        filter (\<lambda>p. p_interface_id p \<noteq> k) ps) w \<and> find (\<lambda>y. i_id y = k) is \<noteq> None"
    then show "stepping J net n w"
      using step_to [OF n [unfolded v] Iface_Dropped] by blast
  qed (rule step_none [OF n], simp)
qed

end

end
