(* ===== verification/Peer_Ops.thy ===== *)
theory Peer_Ops
  imports Net_Spec
begin

section \<open>The peer service over the contracts\<close>

text \<open>
  What the operations of the peer service do to the network configuration, proved once from
  the contracts of the repositories and of the WireGuard adapter: creation appends one peer
  with checked or allocated addresses, an update writes over one peer after the conflict
  check, the toggle changes one flag, deletion removes one peer. A failed operation leaves the
  configuration as it was, with one exception: the toggle persists the flag before it looks up
  the interface.
\<close>

subsection \<open>Address selection\<close>

lemma first_conflict_None: "first_conflict used want = None \<longleftrightarrow> set want \<inter> set used = {}"
  by (induction want) auto

lemma first_conflict_cong: "set a = set b \<Longrightarrow> first_conflict a want = first_conflict b want"
  by (induction want) auto

lemma ensure_no_conflict_ok:
  "ensure_no_conflict L want existing = Inr u \<longleftrightarrow>
     (\<forall>p \<in> set existing. set want \<inter> set (p_allowed_ips p) = {})"
proof -
  have "ensure_no_conflict L want existing = Inr u \<longleftrightarrow>
      first_conflict (used_nets existing) want = None"
    by (simp add: ensure_no_conflict_def split: option.splits)
  also have "\<dots> \<longleftrightarrow> set want \<inter> set (used_nets existing) = {}"
    by (rule first_conflict_None)
  finally show ?thesis
    by (auto simp: used_nets_def)
qed

lemma ensure_no_conflict_cong:
  "set a = set b \<Longrightarrow> ensure_no_conflict L want a = ensure_no_conflict L want b"
  unfolding ensure_no_conflict_def used_nets_def
  by (subst first_conflict_cong [where b = "concat (map p_allowed_ips b)"]) auto

lemma next_free_cong: "set a = set b \<Longrightarrow> next_free_ipv4 L c a = next_free_ipv4 L c b"
  by (simp add: next_free_ipv4_def)

lemma choose_allowed_ips_cong:
  assumes "set a = set b"
  shows "choose_allowed_ips L i req a = choose_allowed_ips L i req b"
  unfolding choose_allowed_ips_def
  by (simp only: next_free_cong [OF assms] ensure_no_conflict_cong [OF assms])

lemma next_free_fresh:
  assumes "next_free_ipv4 L c existing = Some a"
  shows "a \<in> set (drop 1 (nl_hosts L c))"
    and "p \<in> set existing \<Longrightarrow> n \<in> set (p_allowed_ips p) \<Longrightarrow> nl_network L n \<noteq> a"
  using assms unfolding next_free_ipv4_def Let_def by (auto dest!: find_SomeD)

text \<open>What \<open>IpNet\<close> promises, as far as allocation relies on it.\<close>

definition alloc_laws :: "net_lib \<Rightarrow> bool" where
  "alloc_laws L \<longleftrightarrow> host_net_law L \<and> hosts_law L"

lemma nl_new_host:
  assumes "alloc_laws L" and "a \<in> set (drop 1 (nl_hosts L c))"
  shows "nl_new L a (max_prefix c) = Inr (host_net a)" and "nl_network L (host_net a) = a"
proof -
  have "same_family c a"
    using assms in_set_dropD unfolding alloc_laws_def hosts_law_def by metis
  then show "nl_new L a (max_prefix c) = Inr (host_net a)"
    using assms(1) unfolding alloc_laws_def host_net_law_def max_prefix_def host_net_def
    by (cases c; cases a) simp_all
  show "nl_network L (host_net a) = a"
    using assms(1) by (simp add: alloc_laws_def host_net_law_def)
qed

text \<open>Chosen addresses are apart from every peer they were chosen against.\<close>

lemma choose_allowed_ips_apart:
  assumes laws: "alloc_laws L" and chosen: "choose_allowed_ips L i req existing = Inr ips"
    and p: "p \<in> set existing"
  shows "set ips \<inter> set (p_allowed_ips p) = {}"
proof (cases "\<exists>v vs. req = Some (v # vs)")
  case True
  then obtain v vs where "req = Some (v # vs)" by blast
  then have ok: "ensure_no_conflict L (v # vs) existing = Inr ()" and "ips = v # vs"
    using chosen by (auto simp: choose_allowed_ips_def res_bind_ok_iff)
  then show ?thesis
    using p iffD1 [OF ensure_no_conflict_ok ok] by blast
next
  case False
  then have "choose_allowed_ips L i None existing = Inr ips"
    using chosen by (auto simp: choose_allowed_ips_def split: option.splits list.splits)
  then obtain c a where c: "i_ipv4_cidr i = Some c" and a: "next_free_ipv4 L c existing = Some a"
    and ips: "ips = [host_net a]"
    using nl_new_host(1) [OF laws] next_free_fresh(1)
    by (fastforce simp: choose_allowed_ips_def split: option.splits sum.splits)
  have "host_net a \<notin> set (p_allowed_ips p)"
    using next_free_fresh(2) [OF a p] nl_new_host(2) [OF laws next_free_fresh(1) [OF a]] by blast
  then show ?thesis by (simp add: ips)
qed

subsection \<open>What the operations promise\<close>

text \<open>The peer \<open>x\<close> that a creation request stores in the configuration \<open>(is, ps)\<close>.\<close>

definition peer_created :: "net_lib \<Rightarrow> create_peer_input \<Rightarrow> net \<Rightarrow> peer \<Rightarrow> bool" where
  "peer_created L inp n x \<longleftrightarrow>
     trim (cp_name inp) \<noteq> [] \<and>
     (\<exists>i. find (\<lambda>y. i_id y = cp_interface_id inp) (fst n) = Some i \<and>
        choose_allowed_ips L i (cp_allowed_ips inp)
          (filter (\<lambda>y. p_interface_id y = cp_interface_id inp) (snd n)) = Inr (p_allowed_ips x)) \<and>
     p_interface_id x = cp_interface_id inp \<and> p_name x = cp_name inp \<and>
     p_primary_dns x = cp_primary_dns inp \<and> p_secondary_dns x = cp_secondary_dns inp \<and>
     p_nat x = cp_nat inp \<and> p_keepalive x = cp_keepalive inp \<and> p_owner x = cp_owner inp \<and>
     p_enabled x \<and> p_used x = 0 \<and> p_quota x = None \<and> p_schedule x = None \<and>
     p_preshared_key_sealed x = None"

text \<open>The peer \<open>x\<close> that an update of the peer \<open>old\<close> writes.\<close>

definition peer_updated :: "net_lib \<Rightarrow> update_peer_input \<Rightarrow> net \<Rightarrow> peer \<Rightarrow> peer \<Rightarrow> bool" where
  "peer_updated L inp n old x \<longleftrightarrow>
     trim (up_name inp) \<noteq> [] \<and>
     find (\<lambda>y. i_id y = up_interface_id inp) (fst n) \<noteq> None \<and>
     ensure_no_conflict L (up_allowed_ips inp)
       (filter (\<lambda>q. p_id q \<noteq> p_id old \<and> p_interface_id q = up_interface_id inp) (snd n)) = Inr () \<and>
     x = (peer_with_input old inp)\<lparr>p_public_key := p_public_key x,
            p_private_key_sealed := p_private_key_sealed x\<rparr>"

text \<open>What a toggle of the peer \<open>k\<close> leaves behind; an error may come before or after the write.\<close>

definition peer_flagged ::
    "('w \<Rightarrow> bool) \<Rightarrow> ('w \<Rightarrow> net) \<Rightarrow> bool \<Rightarrow> peer_id \<Rightarrow> iface list \<Rightarrow> peer list \<Rightarrow>
     peer \<Rightarrow> 'w \<Rightarrow> bool" where
  "peer_flagged J net on k is ps x w \<longleftrightarrow> (\<exists>now old. find (\<lambda>y. p_id y = k) ps = Some old \<and>
     x = old\<lparr>p_enabled := on\<rparr> \<and> holds J net (is, put_peer x now ps) w)"

text \<open>Each of these is a lawful step.\<close>

lemma peer_created_step:
  assumes laws: "alloc_laws L" and created: "peer_created L inp (is, ps) x"
    and wf': "net_wf (is, ps @ [x])"
  shows "net_step (is, ps) (is, ps @ [x])"
proof (rule Peer_Made)
  show "p_interface_id x \<in> i_id ` set is" and "p_id x \<notin> p_id ` set ps"
    using wf' by (auto simp: net_wf_def)
  show "\<forall>q \<in> set ps. p_interface_id q = p_interface_id x \<longrightarrow> addrs_apart x q"
    using created choose_allowed_ips_apart [OF laws]
    by (fastforce simp: peer_created_def addrs_apart_def)
qed

lemma peer_updated_step:
  assumes old: "find (\<lambda>y. p_id y = k) ps = Some old" and updated: "peer_updated L inp (is, ps) old x"
  shows "net_step (is, ps) (is, put_peer x now ps)"
proof (rule Peer_Wrote)
  have x: "x = (peer_with_input old inp)\<lparr>p_public_key := p_public_key x,
      p_private_key_sealed := p_private_key_sealed x\<rparr>"
    using updated by (simp add: peer_updated_def)
  have fields: "p_id x = p_id old" "p_interface_id x = up_interface_id inp"
    "p_allowed_ips x = up_allowed_ips inp"
    by (subst x, simp add: peer_with_input_def)+
  show "old \<in> set ps" using find_SomeD [OF old] by simp
  show "p_id old = p_id x" by (simp add: fields)
  obtain i where "find (\<lambda>y. i_id y = up_interface_id inp) is = Some i"
    using updated by (auto simp: peer_updated_def)
  then show "p_interface_id x \<in> i_id ` set is"
    using find_SomeD [of "\<lambda>y. i_id y = up_interface_id inp" "is" i] by (metis fields(2) image_eqI)
  show "\<forall>q \<in> set ps. p_id q \<noteq> p_id x \<and> p_interface_id q = p_interface_id x \<longrightarrow> addrs_apart x q"
    using updated by (auto simp: peer_updated_def ensure_no_conflict_ok addrs_apart_def fields)
qed

lemma peer_same_addrs_step:
  assumes good: "net_good (is, ps)" and old: "old \<in> set ps"
    and same: "p_id x = p_id old" "p_interface_id x = p_interface_id old"
      "p_allowed_ips x = p_allowed_ips old"
  shows "net_step (is, ps) (is, put_peer x now ps)"
proof (rule Peer_Wrote)
  show "old \<in> set ps" "p_id old = p_id x" using old same by simp_all
  show "p_interface_id x \<in> i_id ` set is"
    using good old same by (auto simp: net_good_def net_wf_def)
  have "addr_unique ps" using good by (simp add: net_good_def)
  then show "\<forall>q \<in> set ps. p_id q \<noteq> p_id x \<and> p_interface_id q = p_interface_id x \<longrightarrow> addrs_apart x q"
    using addr_uniqueD [of ps old] old same by (metis addrs_apart_def)
qed

lemma peer_flagged_step:
  assumes "net_good (is, ps)" and "find (\<lambda>y. p_id y = k) ps = Some old"
  shows "net_step (is, ps) (is, put_peer (old\<lparr>p_enabled := on\<rparr>) now ps)"
  by (rule peer_same_addrs_step [OF assms(1)]) (use find_SomeD [OF assms(2)] in auto)

locale peer_ops = net_store "pe_ifaces S" "pe_peers S" J net key_ok +
    wg_frame "pe_wg S" J net key_ok
  for S :: "'w peer_svc" and J :: "'w \<Rightarrow> bool" and net :: "'w \<Rightarrow> net"
    and key_ok :: "wg_public_key \<Rightarrow> bool" +
  assumes seal_frame: "triple (holds J net v) (seal (pe_crypto S) bs (pe_seal_key S))
      (\<lambda>_. holds J net v) (\<lambda>_. holds J net v)"
    and parsed_key: "key_from_base64 (cl_b64_decode (pe_crypto S)) Wg_Public_Key s = Inr k \<Longrightarrow> key_ok k"
begin

lemma keypair_ok:
  "triple (holds J net v) (peer_keypair S priv pub)
     (\<lambda>r w. holds J net v w \<and> key_ok (fst r)) (\<lambda>_. holds J net v)"
proof -
  have parse: "triple (holds J net v)
      (io_lift (key_from_base64 (cl_b64_decode (pe_crypto S)) K s) :: ('w, core_error, 'k) io)
      (\<lambda>k w. holds J net v w \<and> key_from_base64 (cl_b64_decode (pe_crypto S)) K s = Inr k)
      (\<lambda>_. holds J net v)" for K :: "string \<Rightarrow> 'k" and s
    by (rule triple_lift) auto
  show ?thesis
    unfolding peer_keypair_def Let_def
  proof (intro triple_if, goal_cases)
    case 1
    show ?case
      by (rule triple_bind [OF triple_conseq [OF parse]], assumption, erule conjunct1, assumption,
          rule triple_bind_pure [OF derive], rule triple_bind [OF seal_frame], rule triple_ret, simp)
  next
    case 2
    show ?case
      by (rule triple_bind_pure [OF parse], rule triple_ret) (simp add: parsed_key)
  next
    case 3
    show ?case
      by (rule triple_bind_pure [OF generate], clarsimp, rule triple_bind [OF seal_frame],
          rule triple_ret, simp)
  qed
qed

lemma create_ok:
  "triple (holds J net (is, ps)) (create_with_server_keypair S inp)
     (\<lambda>x w. holds J net (is, ps @ [x]) w \<and> peer_created (pe_net S) inp (is, ps) x)
     (\<lambda>_. holds J net (is, ps))"
  unfolding create_with_server_keypair_def
proof (intro triple_if, goal_cases)
  case 1
  show ?case by (rule triple_fail)
next
  case named: 2
  show ?case
  proof (rule triple_bind_pure [where Q = "holds J net (is, ps)"
        and b = "\<lambda>i. find (\<lambda>y. i_id y = cp_interface_id inp) is = Some i"], goal_cases)
    case 1
    show ?case
      by (rule triple_some, rule triple_conseq [OF iface_find]) (auto split: option.splits)
  next
    case found: (2 i)
    have iid: "i_id i = cp_interface_id inp"
      using find_SomeD [OF found] by simp
    show ?case
    proof (rule triple_bind_pure [OF peer_list_for], goal_cases)
      case listed: (1 existing)
      have same: "set existing = set (filter (\<lambda>y. p_interface_id y = cp_interface_id inp) ps)"
        using mset_eq_setD [OF listed] by (simp add: iid)
      show ?case
      proof (rule triple_bind_pure [where Q = "holds J net (is, ps)" and
            b = "\<lambda>a. choose_allowed_ips (pe_net S) i (cp_allowed_ips inp) existing = Inr a"], goal_cases)
        case 1
        show ?case by (rule triple_lift) auto
      next
        case chosen: (2 allowed)
        show ?case
        proof (rule triple_bind_pure [OF keypair_ok], clarsimp, rule triple_bind [OF peer_create],
              goal_cases)
          case 1
          then show ?case by simp
        next
          case (2 pub sealed x)
          show ?case
          proof (rule triple_pure, rule triple_ignore [OF apply_peer], rule triple_ret, intro conjI)
            assume made: "peer_made \<lparr>np_interface_id = i_id i, np_name = cp_name inp,
                np_public_key = pub, np_allowed_ips = allowed, np_primary_dns = cp_primary_dns inp,
                np_secondary_dns = cp_secondary_dns inp, np_nat = cp_nat inp, np_endpoint = None,
                np_keepalive = cp_keepalive inp, np_quota = None, np_expires_at = None,
                np_owner = cp_owner inp, np_private_key_sealed = sealed\<rparr> None x"
            show "peer_created (pe_net S) inp (is, ps) x"
              using named found chosen made choose_allowed_ips_cong [OF same]
              by (simp add: peer_created_def peer_made_def iid)
          qed
        qed
      qed
    qed
  qed
qed

lemma rekey_ok:
  assumes "key_ok (p_public_key p)"
  shows "triple (holds J net v) (peer_rekey S p priv pub)
     (\<lambda>x w. holds J net v w \<and> key_ok (p_public_key x) \<and>
        x = p\<lparr>p_public_key := p_public_key x, p_private_key_sealed := p_private_key_sealed x\<rparr>)
     (\<lambda>_. holds J net v)"
  unfolding peer_rekey_def Let_def
proof (intro triple_if, goal_cases)
  case 1
  show ?case
    by (rule triple_bind [OF triple_lift [where Q = "\<lambda>_. holds J net v"]], assumption, assumption,
        rule triple_bind_pure [OF derive], rule triple_bind [OF seal_frame], rule triple_ret, simp)
next
  case 2
  show ?case
    by (rule triple_bind_pure [where Q = "holds J net v" and b = key_ok, OF triple_lift], simp add: parsed_key,
        assumption, rule triple_ret, simp)
next
  case 3
  show ?case by (rule triple_ret) (simp add: assms)
qed

lemma get_ok:
  "triple (holds J net (is, ps)) (peer_get S k)
     (\<lambda>x w. holds J net (is, ps) w \<and> find (\<lambda>y. p_id y = k) ps = Some x \<and> key_ok (p_public_key x))
     (\<lambda>_. holds J net (is, ps))"
  unfolding peer_get_def
proof (rule triple_some, rule triple_conseq [OF peer_find])
  fix x w
  assume "holds J net (is, ps) w \<and> x = find (\<lambda>y. p_id y = k) ps"
  then show "case x of None \<Rightarrow> holds J net (is, ps) w
     | Some x \<Rightarrow> holds J net (is, ps) w \<and> find (\<lambda>y. p_id y = k) ps = Some x \<and> key_ok (p_public_key x)"
    using stored_keys [of w] by (auto simp: holds_def split: option.splits dest!: find_SomeD)
qed

lemma iface_ok:
  "triple (holds J net (is, ps)) (io_some e (ir_find_by_id (pe_ifaces S) k))
     (\<lambda>x w. holds J net (is, ps) w \<and> find (\<lambda>y. i_id y = k) is = Some x)
     (\<lambda>_. holds J net (is, ps))"
  by (rule triple_some, rule triple_conseq [OF iface_find]) (auto split: option.splits)

lemma push_ok:
  "triple (holds J net v) (push_peer S on i p) (\<lambda>x w. holds J net v w \<and> x = p) (\<lambda>_. F)"
  unfolding push_peer_def
  by (intro triple_if; rule triple_ignore, rule apply_peer remove_peer, rule triple_ret, simp)

lemma drop_stale_ok:
  assumes "triple (holds J net (is, ps)) k Q X"
  shows "triple (holds J net (is, ps)) (drop_stale_entry S moving changed old target key k) Q X"
  unfolding drop_stale_entry_def
proof (intro triple_if, goal_cases)
  case 1
  show ?case
  proof (rule triple_try [where Q = "\<lambda>_. holds J net (is, ps)"], goal_cases)
    case 1
    show ?case by (rule triple_conseq [OF iface_find]) auto
  next
    case (2 r)
    show ?case
      by (cases r; (rename_tac x)?; simp split: option.split)
        (auto intro: assms triple_ignore [OF remove_peer assms] split: option.split)
  qed
qed (auto intro: assms triple_ignore [OF remove_peer assms])

lemma update_ok:
  "triple (holds J net (is, ps)) (peer_update S k inp)
     (\<lambda>x w. \<exists>now old. holds J net (is, put_peer x now ps) w \<and>
        find (\<lambda>y. p_id y = k) ps = Some old \<and> peer_updated (pe_net S) inp (is, ps) old x)
     (\<lambda>_. holds J net (is, ps))"
  unfolding peer_update_def Let_def
proof (intro triple_if, goal_cases)
  case 1
  show ?case by (rule triple_fail)
next
  case named: 2
  show ?case
  proof (rule triple_bind_pure [OF get_ok], rule triple_bind_pure [OF iface_ok],
        rule triple_bind_pure [OF peer_list_for], goal_cases)
    case listed: (1 old target on_target)
    have same: "set (filter (\<lambda>q. p_id q \<noteq> p_id old) on_target) =
        set (filter (\<lambda>q. p_id q \<noteq> p_id old \<and> p_interface_id q = up_interface_id inp) ps)"
      using mset_eq_setD [OF listed(3)] by auto
    have key: "key_ok (p_public_key (peer_with_input old inp))"
      using listed(1) by (simp add: peer_with_input_def)
    show ?case
    proof (rule triple_bind_pure [where Q = "holds J net (is, ps)" and
          b = "\<lambda>_. ensure_no_conflict (pe_net S) (up_allowed_ips inp)
            (filter (\<lambda>q. p_id q \<noteq> p_id old) on_target) = Inr ()", OF triple_lift],
          simp, assumption, rule triple_bind_pure [OF rekey_ok [OF key]], goal_cases)
      case (1 u x)
      have updated: "peer_updated (pe_net S) inp (is, ps) old x"
        using named listed(2) 1(1) 1(2) ensure_no_conflict_cong [OF same]
        by (simp add: peer_updated_def)
      have good_key: "key_ok (p_public_key x)"
        using 1(2) by blast
      show ?case
        by (rule triple_bind [OF peer_update [OF good_key]], rule triple_ex, rule drop_stale_ok,
            rule triple_conseq [OF push_ok], assumption) (use listed(1) updated in auto)
    qed
  qed
qed

lemma set_enabled_ok:
  "triple (holds J net (is, ps)) (peer_set_enabled S k on) (peer_flagged J net on k is ps)
     (\<lambda>_ w. holds J net (is, ps) w \<or> (\<exists>x. peer_flagged J net on k is ps x w))"
  unfolding peer_set_enabled_def Let_def
proof (rule triple_bind_weak [OF get_ok], erule disjI1, elim conjE)
  fix old
  assume old: "find (\<lambda>y. p_id y = k) ps = Some old" and key: "key_ok (p_public_key old)"
  let ?x = "old\<lparr>p_enabled := on\<rparr>"
  have good_key: "key_ok (p_public_key ?x)" using key by simp
  have flagged: "holds J net (is, put_peer ?x now ps) w \<Longrightarrow> peer_flagged J net on k is ps ?x w" for now w
    using old by (auto simp: peer_flagged_def)
  show "triple (holds J net (is, ps))
     (io_bind (pr_update (pe_peers S) ?x) (\<lambda>_.
        io_bind (io_some (iface_not_found (pe_net S) (p_interface_id ?x))
                   (ir_find_by_id (pe_ifaces S) (p_interface_id ?x))) (\<lambda>i. push_peer S on i ?x)))
     (peer_flagged J net on k is ps)
     (\<lambda>_ w. holds J net (is, ps) w \<or> (\<exists>x. peer_flagged J net on k is ps x w))"
  proof (rule triple_bind_step [OF peer_update [OF good_key]], erule disjI1, rule triple_ex)
    fix now
    show "triple (holds J net (is, put_peer ?x now ps))
       (io_bind (io_some (iface_not_found (pe_net S) (p_interface_id ?x))
                  (ir_find_by_id (pe_ifaces S) (p_interface_id ?x))) (\<lambda>i. push_peer S on i ?x))
       (peer_flagged J net on k is ps)
       (\<lambda>_ w. holds J net (is, ps) w \<or> (\<exists>x. peer_flagged J net on k is ps x w))"
      by (rule triple_bind_weak [OF iface_ok], use flagged in blast)
        (rule triple_conseq [OF push_ok], assumption, use flagged in auto)
  qed
qed

lemma delete_ok:
  "triple (holds J net (is, ps)) (peer_delete S k)
     (\<lambda>_ w. holds J net (is, filter (\<lambda>p. p_id p \<noteq> k) ps) w \<and> find (\<lambda>y. p_id y = k) ps \<noteq> None)
     (\<lambda>_. holds J net (is, ps))"
  unfolding peer_delete_def
proof (rule triple_bind_pure [OF get_ok], rule triple_bind [OF triple_conseq [OF iface_ok]],
      assumption, erule conjunct1, assumption, rule triple_ignore [OF remove_peer], goal_cases)
  case (1 p i)
  then show ?case
    by (intro triple_conseq [OF peer_delete]) auto
qed

subsection \<open>The operations refine the specification\<close>

lemma create_steps:
  assumes laws: "alloc_laws (pe_net S)"
  shows "triple (stepping J net n) (create_with_server_keypair S inp)
     (\<lambda>_. stepping J net n) (\<lambda>_. stepping J net n)"
proof (rule triple_stepping)
  fix v
  assume n: "net_steps n v"
  show "triple (holds J net v) (create_with_server_keypair S inp)
     (\<lambda>_. stepping J net n) (\<lambda>_. stepping J net n)"
  proof (cases v, hypsubst, rule triple_conseq [OF create_ok], assumption)
    fix "is" ps x w
    assume v: "v = (is, ps)"
      and made: "holds J net (is, ps @ [x]) w \<and> peer_created (pe_net S) inp (is, ps) x"
    have "net_step (is, ps) (is, ps @ [x])"
      using peer_created_step [OF laws, of inp "is" ps x] made wf [of w] by (simp add: holds_def)
    then show "stepping J net n w"
      using step_to n made unfolding v by blast
  qed (rule step_none [OF n], simp)
qed

lemma update_steps:
  "triple (stepping J net n) (peer_update S k inp) (\<lambda>_. stepping J net n) (\<lambda>_. stepping J net n)"
proof (rule triple_stepping)
  fix v
  assume n: "net_steps n v"
  show "triple (holds J net v) (peer_update S k inp) (\<lambda>_. stepping J net n) (\<lambda>_. stepping J net n)"
  proof (cases v, hypsubst, rule triple_conseq [OF update_ok], assumption)
    fix "is" ps x w
    assume v: "v = (is, ps)" and "\<exists>now old. holds J net (is, put_peer x now ps) w \<and>
        find (\<lambda>y. p_id y = k) ps = Some old \<and> peer_updated (pe_net S) inp (is, ps) old x"
    then show "stepping J net n w"
      using step_to n [unfolded v] peer_updated_step by blast
  qed (rule step_none [OF n], simp)
qed

lemma flagged_stepping:
  assumes "net_good n" and "net_steps n (is, ps)" and "peer_flagged J net on k is ps x w"
  shows "stepping J net n w"
proof -
  obtain now old where old: "find (\<lambda>y. p_id y = k) ps = Some old" "x = old\<lparr>p_enabled := on\<rparr>"
    and "holds J net (is, put_peer x now ps) w"
    using assms(3) by (auto simp: peer_flagged_def)
  moreover have "net_step (is, ps) (is, put_peer x now ps)"
    unfolding old(2) by (rule peer_flagged_step [OF net_steps_good [OF assms(2,1)] old(1)])
  ultimately show ?thesis
    using step_to assms(2) by blast
qed

lemma set_enabled_steps:
  assumes good: "net_good n"
  shows "triple (stepping J net n) (peer_set_enabled S k on)
     (\<lambda>_. stepping J net n) (\<lambda>_. stepping J net n)"
proof (rule triple_stepping)
  fix v
  assume n: "net_steps n v"
  show "triple (holds J net v) (peer_set_enabled S k on) (\<lambda>_. stepping J net n) (\<lambda>_. stepping J net n)"
  proof (cases v, hypsubst, rule triple_conseq [OF set_enabled_ok], assumption)
    fix "is" ps x w
    assume v: "v = (is, ps)" and "peer_flagged J net on k is ps x w"
    then show "stepping J net n w"
      using flagged_stepping [OF good n [unfolded v]] by blast
  next
    fix "is" ps w
    assume v: "v = (is, ps)"
      and "holds J net (is, ps) w \<or> (\<exists>x. peer_flagged J net on k is ps x w)"
    then show "stepping J net n w"
      using flagged_stepping [OF good n [unfolded v]] step_none [OF n [unfolded v]] by blast
  qed
qed

lemma delete_steps:
  "triple (stepping J net n) (peer_delete S k) (\<lambda>_. stepping J net n) (\<lambda>_. stepping J net n)"
proof (rule triple_stepping)
  fix v
  assume n: "net_steps n v"
  show "triple (holds J net v) (peer_delete S k) (\<lambda>_. stepping J net n) (\<lambda>_. stepping J net n)"
  proof (cases v, hypsubst, rule triple_conseq [OF delete_ok], assumption)
    fix "is" ps w
    assume v: "v = (is, ps)"
      and "holds J net (is, filter (\<lambda>p. p_id p \<noteq> k) ps) w \<and> find (\<lambda>y. p_id y = k) ps \<noteq> None"
    then show "stepping J net n w"
      using step_to [OF n [unfolded v] Peer_Dropped] by blast
  qed (rule step_none [OF n], simp)
qed

end

end
