(* ===== verification/Poller.thy ===== *)
theory Poller
  imports App
begin

section \<open>The traffic poller\<close>

text \<open>
  \<open>wireforge-bin/src/poller.rs\<close>: one iteration reads the counters of every peer of every
  running interface, records them and disables the peers over their quota. \<open>sleep\<close> is what
  the rest of the program does to the world while the task sleeps.
\<close>

datatype any_error = Any_Core core_error | Any_Msg string

record 'w poller =
  po_ifaces :: "'w iface_repo"
  po_peers :: "'w peer_repo"
  po_traffic :: "'w traffic_repo"
  po_wg :: "'w wg_port"
  po_settings :: "'w settings_cell"

abbreviation any_io :: "('w, core_error, 'a) io \<Rightarrow> ('w, any_error, 'a) io" where
  "any_io m \<equiv> io_map_err Any_Core m"

text \<open>\<open>u64::saturating_add\<close>\<close>

definition saturating_add :: "u64 \<Rightarrow> u64 \<Rightarrow> u64" where
  "saturating_add a b = (if unat a + unat b < 2 ^ 64 then a + b else - 1)"

definition disable_peer :: "'w poller \<Rightarrow> peer_id \<Rightarrow> ('w, any_error, unit) io" where
  "disable_peer H pid =
     io_bind (io_some (Any_Msg ''peer vanished'') (any_io (pr_find_by_id (po_peers H) pid))) (\<lambda>p.
     io_bind (io_some (Any_Msg ''iface vanished'')
                (any_io (ir_find_by_id (po_ifaces H) (p_interface_id p)))) (\<lambda>i.
     let p' = p\<lparr>p_enabled := False\<rparr> in
     io_bind (any_io (pr_update (po_peers H) p')) (\<lambda>_.
     io_ignore (wg_remove_peer (po_wg H) i (p_public_key p')) (io_ret ()))))"

text \<open>The lookup table is a \<open>HashMap\<close> collected from the peers: the last peer with a key wins.\<close>

definition by_pubkey :: "peer list \<Rightarrow> string \<Rightarrow> peer option" where
  "by_pubkey peers = map_of (rev (map (\<lambda>p. (public_str (p_public_key p), p)) peers))"

definition quota_exceeded :: "peer \<Rightarrow> u64 \<Rightarrow> bool" where
  "quota_exceeded p sum_bytes \<longleftrightarrow>
     (case p_quota p of None \<Rightarrow> False | Some quota \<Rightarrow> sum_bytes \<ge> quota \<and> p_enabled p)"

definition poll_stat :: "'w poller \<Rightarrow> peer list \<Rightarrow> peer_stats \<Rightarrow> ('w, any_error, unit) io" where
  "poll_stat H peers s = (case by_pubkey peers (public_str (ps_public_key s)) of
     None \<Rightarrow> io_ret ()
   | Some p \<Rightarrow>
       let sum_bytes = saturating_add (ps_rx_bytes s) (ps_tx_bytes s) in
       io_ignore (tf_snapshot (po_traffic H) (p_id p) (ps_tx_bytes s) (ps_rx_bytes s)
                    (ps_last_handshake s))
      (io_ignore (pr_record_bandwidth (po_peers H) (p_id p) sum_bytes)
      (if quota_exceeded p sum_bytes then io_ignore (disable_peer H (p_id p)) (io_ret ())
       else io_ret ())))"

definition poll_iface :: "'w poller \<Rightarrow> iface \<Rightarrow> ('w, any_error, unit) io" where
  "poll_iface H i =
     (if i_status i \<noteq> Status_Up then io_ret ()
      else io_try (wg_peer_stats (po_wg H) i) (\<lambda>r. case r of
        Inl _ \<Rightarrow> io_ret ()
      | Inr stats \<Rightarrow>
          io_bind (any_io (pr_list_for_interface (po_peers H) (i_id i))) (\<lambda>peers.
          io_for stats (poll_stat H peers))))"

definition poll_once :: "'w poller \<Rightarrow> ('w, any_error, unit) io" where
  "poll_once H = io_bind (any_io (ir_list (po_ifaces H))) (\<lambda>ifaces. io_for ifaces (poll_iface H))"

definition poller_interval :: "runtime_settings \<Rightarrow> u64" where
  "poller_interval s = max (rs_traffic_poller_interval_secs s) 1"

definition poller_iteration :: "'w poller \<Rightarrow> (u64 \<Rightarrow> 'w \<Rightarrow> 'w) \<Rightarrow> ('w, 'e, unit) io" where
  "poller_iteration H sleep =
     io_bind (settings_snapshot (po_settings H)) (\<lambda>s.
     io_bind (\<lambda>w. (Inr (), sleep (poller_interval s) w)) (\<lambda>_.
     if \<not> rs_traffic_enabled s then io_ret ()
     else io_ignore (poll_once H) (io_ret ())))"

definition app_poller :: "('os, 'j) app_state \<Rightarrow> 'os world poller" where
  "app_poller A = \<lparr>
     po_ifaces = sqlite_ifaces (app_repos A), po_peers = sqlite_peers (app_repos A),
     po_traffic = sqlite_traffic (app_repos A), po_wg = defguard_port (app_wg A),
     po_settings = world_settings_cell\<rparr>"

end
