(* ===== verification/Scheduler.thy ===== *)
theory Scheduler
  imports Poller
begin

section \<open>The schedule enforcer\<close>

text \<open>
  \<open>wireforge-bin/src/scheduler.rs\<close>: every minute each peer with a schedule is enabled when the
  current time is in its window and disabled otherwise. The calendar of \<open>chrono\<close> and the JSON
  decoder of a schedule are the record \<open>sched_lib\<close>; a time of day is its number of seconds,
  with the order of \<open>NaiveTime\<close>.
\<close>

datatype naive_time = Naive_Time (nt_secs: nat)

instantiation naive_time :: linorder
begin

definition less_eq_naive_time :: "naive_time \<Rightarrow> naive_time \<Rightarrow> bool" where
  "less_eq_naive_time a b \<longleftrightarrow> nt_secs a \<le> nt_secs b"

definition less_naive_time :: "naive_time \<Rightarrow> naive_time \<Rightarrow> bool" where
  "less_naive_time a b \<longleftrightarrow> nt_secs a < nt_secs b"

instance
  by standard
    (auto simp: less_eq_naive_time_def less_naive_time_def intro: naive_time.expand)

end

record schedule =
  sd_weekdays :: "u8 list"
  sd_from :: string
  sd_to :: string

record sched_lib =
  sl_parse_schedule :: "string \<Rightarrow> string + schedule"
  sl_parse_time :: "string \<Rightarrow> naive_time option"
  sl_weekday_from_monday :: "datetime \<Rightarrow> nat"
  sl_hour :: "datetime \<Rightarrow> nat"
  sl_minute :: "datetime \<Rightarrow> nat"

text \<open>\<open>NaiveTime::from_hms_opt(hour, minute, 0)\<close>\<close>

definition from_hm_opt :: "nat \<Rightarrow> nat \<Rightarrow> naive_time option" where
  "from_hm_opt h m = (if h < 24 \<and> m < 60 then Some (Naive_Time (h * 3600 + m * 60)) else None)"

definition is_in_window :: "sched_lib \<Rightarrow> schedule \<Rightarrow> datetime \<Rightarrow> bool" where
  "is_in_window L s now =
     (if word_of_nat (sl_weekday_from_monday L now) \<notin> set (sd_weekdays s) then False
      else (case sl_parse_time L (sd_from s) of
        None \<Rightarrow> False
      | Some from_t \<Rightarrow> (case sl_parse_time L (sd_to s) of
          None \<Rightarrow> False
        | Some to_t \<Rightarrow>
            let current = unwrap_or from_t (from_hm_opt (sl_hour L now) (sl_minute L now))
            in if to_t \<ge> from_t then current \<ge> from_t \<and> current \<le> to_t
               else current \<ge> from_t \<or> current \<le> to_t)))"

record 'w scheduler =
  sh_ifaces :: "'w iface_repo"
  sh_peers :: "'w peer_repo"
  sh_wg :: "'w wg_port"
  sh_now :: "('w, any_error, datetime) io"
  sh_lib :: sched_lib

definition schedule_peer :: "'w scheduler \<Rightarrow> datetime \<Rightarrow> peer \<Rightarrow> ('w, any_error, unit) io" where
  "schedule_peer H now p = (case p_schedule p of
     None \<Rightarrow> io_ret ()
   | Some json \<Rightarrow> (case sl_parse_schedule (sh_lib H) json of
       Inl _ \<Rightarrow> io_ret ()
     | Inr s \<Rightarrow>
         let in_window = is_in_window (sh_lib H) s now in
         if in_window = p_enabled p then io_ret ()
         else
           let p' = p\<lparr>p_enabled := in_window\<rparr> in
           io_bind (any_io (pr_update (sh_peers H) p')) (\<lambda>_.
           io_bind (io_some (Any_Msg ''iface vanished'')
                      (any_io (ir_find_by_id (sh_ifaces H) (p_interface_id p')))) (\<lambda>i.
           if in_window then io_ignore (wg_apply_peer (sh_wg H) i p') (io_ret ())
           else io_ignore (wg_remove_peer (sh_wg H) i (p_public_key p')) (io_ret ())))))"

definition schedule_once :: "'w scheduler \<Rightarrow> ('w, any_error, unit) io" where
  "schedule_once H =
     io_bind (sh_now H) (\<lambda>now.
     io_bind (any_io (pr_list_all (sh_peers H))) (\<lambda>peers.
     io_for peers (schedule_peer H now)))"

definition app_scheduler :: "('os, 'j) app_state \<Rightarrow> sched_lib \<Rightarrow> 'os world scheduler" where
  "app_scheduler A L = \<lparr>
     sh_ifaces = sqlite_ifaces (app_repos A), sh_peers = sqlite_peers (app_repos A),
     sh_wg = defguard_port (app_wg A), sh_now = on_os (de_now (app_repos A)), sh_lib = L\<rparr>"

end
