(* ===== verification/Background_Ops.thy ===== *)
theory Background_Ops
  imports Peer_Ops Scheduler
begin

section \<open>The traffic poller and the scheduler over the contracts\<close>

text \<open>
  A pass of the poller takes lawful steps: it overwrites counters and disables single peers. A
  pass of the scheduler changes nothing but the \<open>enabled\<close> flags, and when it succeeds every
  peer with a readable schedule is enabled exactly when the time of the pass is in its window.
\<close>

subsection \<open>The poller\<close>

locale poller_ops = net_store "po_ifaces H" "po_peers H" J net key_ok +
    wg_frame "po_wg H" J net key_ok
  for H :: "'w poller" and J :: "'w \<Rightarrow> bool" and net :: "'w \<Rightarrow> net"
    and key_ok :: "wg_public_key \<Rightarrow> bool" +
  assumes traffic_frame: "triple (holds J net v) (tf_snapshot (po_traffic H) k' a b h)
      (\<lambda>_. holds J net v) (\<lambda>_. holds J net v)"
begin

lemma frame_steps:
  assumes "\<And>v. triple (holds J net v) m (\<lambda>_. holds J net v) (\<lambda>_. holds J net v)"
  shows "triple (stepping J net n) m (\<lambda>_. stepping J net n) (\<lambda>_. stepping J net n)"
  by (rule triple_stepping, rule triple_conseq [OF assms], assumption)
    (auto intro: step_none)

lemma bandwidth_steps:
  "triple (stepping J net n) (pr_record_bandwidth (po_peers H) k bytes)
     (\<lambda>_. stepping J net n) (\<lambda>_. stepping J net n)"
proof (rule triple_stepping)
  fix v
  assume n: "net_steps n v"
  show "triple (holds J net v) (pr_record_bandwidth (po_peers H) k bytes)
     (\<lambda>_. stepping J net n) (\<lambda>_. stepping J net n)"
  proof (cases v, hypsubst, rule triple_conseq [OF peer_bandwidth], assumption)
    fix "is" ps w
    assume v: "v = (is, ps)" and w: "holds J net (is, put_used k bytes ps) w"
    show "stepping J net n w"
      by (rule step_to [OF n [unfolded v] Peer_Used w])
  qed (rule step_none [OF n], simp)
qed

lemma find_ok:
  "triple (holds J net (is, ps)) (io_some e (any_io (pr_find_by_id (po_peers H) k)))
     (\<lambda>x w. holds J net (is, ps) w \<and> find (\<lambda>y. p_id y = k) ps = Some x \<and> key_ok (p_public_key x))
     (\<lambda>_. holds J net (is, ps))"
proof (rule triple_some, rule triple_map_err, rule triple_conseq [OF peer_find])
  fix x w
  assume "holds J net (is, ps) w \<and> x = find (\<lambda>y. p_id y = k) ps"
  then show "case x of None \<Rightarrow> holds J net (is, ps) w
     | Some x \<Rightarrow> holds J net (is, ps) w \<and> find (\<lambda>y. p_id y = k) ps = Some x \<and> key_ok (p_public_key x)"
    using stored_keys [of w] by (auto simp: holds_def split: option.splits dest!: find_SomeD)
qed

lemma iface_ok:
  "triple (holds J net (is, ps)) (io_some e (any_io (ir_find_by_id (po_ifaces H) k)))
     (\<lambda>x w. holds J net (is, ps) w \<and> find (\<lambda>y. i_id y = k) is = Some x)
     (\<lambda>_. holds J net (is, ps))"
  by (rule triple_some, rule triple_map_err, rule triple_conseq [OF iface_find])
    (auto split: option.splits)

text \<open>Disabling writes the flag of one peer or changes nothing.\<close>

lemma disable_ok:
  "triple (holds J net (is, ps)) (disable_peer H k)
     (\<lambda>_ w. \<exists>x. peer_flagged J net False k is ps x w) (\<lambda>_. holds J net (is, ps))"
  unfolding disable_peer_def Let_def
proof (rule triple_bind_pure [OF find_ok], elim conjE, rule triple_bind_pure [OF iface_ok],
      goal_cases)
  case (1 old i)
  let ?x = "old\<lparr>p_enabled := False\<rparr>"
  have key: "key_ok (p_public_key ?x)" using 1 by simp
  have flagged: "holds J net (is, put_peer ?x now ps) w \<Longrightarrow>
      \<exists>x. peer_flagged J net False k is ps x w" for now w
    using 1(1) by (auto simp: peer_flagged_def)
  show ?case
    by (rule triple_bind, rule triple_map_err, rule peer_update [OF key], rule triple_ex,
        rule triple_ignore [OF remove_peer], rule triple_ret, rule flagged)
qed

lemma disable_steps:
  assumes good: "net_good n"
  shows "triple (stepping J net n) (disable_peer H k) (\<lambda>_. stepping J net n) (\<lambda>_. stepping J net n)"
proof (rule triple_stepping)
  fix v
  assume n: "net_steps n v"
  show "triple (holds J net v) (disable_peer H k) (\<lambda>_. stepping J net n) (\<lambda>_. stepping J net n)"
  proof (cases v, hypsubst, rule triple_conseq [OF disable_ok], assumption)
    fix "is" ps w
    assume v: "v = (is, ps)" and "\<exists>x. peer_flagged J net False k is ps x w"
    then obtain now old where old: "find (\<lambda>y. p_id y = k) ps = Some old"
      and w: "holds J net (is, put_peer (old\<lparr>p_enabled := False\<rparr>) now ps) w"
      by (auto simp: peer_flagged_def)
    have "net_step (is, ps) (is, put_peer (old\<lparr>p_enabled := False\<rparr>) now ps)"
      by (rule peer_flagged_step [OF net_steps_good [OF n [unfolded v] good] old])
    then show "stepping J net n w"
      using step_to [OF n [unfolded v]] w by blast
  qed (rule step_none [OF n], simp)
qed

lemma poll_stat_steps:
  assumes good: "net_good n"
  shows "triple (stepping J net n) (poll_stat H peers s)
     (\<lambda>_. stepping J net n) (\<lambda>_. stepping J net n)"
proof (cases "by_pubkey peers (public_str (ps_public_key s))")
  case None
  have "poll_stat H peers s = io_ret ()"
    unfolding poll_stat_def None option.case ..
  then show ?thesis by (simp only:) (rule triple_ret)
next
  case (Some p)
  show ?thesis
    unfolding poll_stat_def Some option.case Let_def
    by (rule triple_ignore [OF frame_steps [OF traffic_frame]], rule triple_ignore [OF bandwidth_steps],
        intro triple_if triple_ignore [OF disable_steps [OF good]] triple_ret)
qed

lemma poll_iface_steps:
  assumes good: "net_good n"
  shows "triple (stepping J net n) (poll_iface H i) (\<lambda>_. stepping J net n) (\<lambda>_. stepping J net n)"
proof -
  have listed: "triple (stepping J net n) (any_io (pr_list_for_interface (po_peers H) k))
      (\<lambda>_. stepping J net n) (\<lambda>_. stepping J net n)" for k
  proof (rule triple_map_err, rule frame_steps)
    fix v
    show "triple (holds J net v) (pr_list_for_interface (po_peers H) k)
        (\<lambda>_. holds J net v) (\<lambda>_. holds J net v)"
      by (cases v, hypsubst, rule triple_conseq [OF peer_list_for]) auto
  qed
  have body: "triple (stepping J net n)
      (case r of Inl e \<Rightarrow> io_ret ()
       | Inr stats \<Rightarrow> io_bind (any_io (pr_list_for_interface (po_peers H) (i_id i)))
           (\<lambda>peers. io_for stats (poll_stat H peers)))
      (\<lambda>_. stepping J net n) (\<lambda>_. stepping J net n)" for r :: "core_error + peer_stats list"
  proof (cases r)
    case (Inl e)
    then show ?thesis by (simp only: sum.case) (rule triple_ret)
  next
    case (Inr a)
    then show ?thesis
      by (simp only: sum.case)
        (rule triple_bind [OF listed], rule triple_for, rule poll_stat_steps [OF good])
  qed
  show ?thesis
    unfolding poll_iface_def
    by (intro triple_if triple_ret triple_try [OF frame_steps [OF stats] body])
qed

lemma poll_once_steps:
  assumes good: "net_good n"
  shows "triple (stepping J net n) (poll_once H) (\<lambda>_. stepping J net n) (\<lambda>_. stepping J net n)"
proof -
  have listed: "triple (stepping J net n) (any_io (ir_list (po_ifaces H)))
      (\<lambda>_. stepping J net n) (\<lambda>_. stepping J net n)"
  proof (rule triple_map_err, rule frame_steps)
    fix v
    show "triple (holds J net v) (ir_list (po_ifaces H)) (\<lambda>_. holds J net v) (\<lambda>_. holds J net v)"
      by (cases v, hypsubst, rule triple_conseq [OF iface_list]) auto
  qed
  show ?thesis
    unfolding poll_once_def
    by (rule triple_bind [OF listed], rule triple_for, rule poll_iface_steps [OF good])
qed

end

subsection \<open>The scheduler\<close>

text \<open>What a pass does not touch.\<close>

definition peer_core :: "peer \<Rightarrow> peer" where
  "peer_core p = p\<lparr>p_enabled := False, p_updated_at := 0\<rparr>"

definition in_schedule :: "sched_lib \<Rightarrow> datetime \<Rightarrow> peer \<Rightarrow> bool" where
  "in_schedule L now p \<longleftrightarrow> (case p_schedule p of
     None \<Rightarrow> True
   | Some json \<Rightarrow> (case sl_parse_schedule L json of
       Inl _ \<Rightarrow> True
     | Inr s \<Rightarrow> p_enabled p = is_in_window L s now))"

text \<open>The peers \<open>ps\<close> while the peers \<open>rest\<close> of the listed \<open>ps0\<close> are still to be visited.\<close>

definition sched_inv :: "sched_lib \<Rightarrow> datetime \<Rightarrow> peer list \<Rightarrow> peer list \<Rightarrow> peer list \<Rightarrow> bool" where
  "sched_inv L now ps0 rest ps \<longleftrightarrow>
     set rest \<subseteq> set ps0 \<and> distinct (map p_id rest) \<and> map peer_core ps = map peer_core ps0 \<and>
     (\<forall>y \<in> set ps. if p_id y \<in> p_id ` set rest then y \<in> set ps0 else in_schedule L now y)"

lemma peer_core_eqD:
  assumes "peer_core a = peer_core b"
  shows "p_id a = p_id b" "p_interface_id a = p_interface_id b" "p_allowed_ips a = p_allowed_ips b"
    "p_public_key a = p_public_key b"
    "p_preshared_key_sealed a = p_preshared_key_sealed b" "p_used a = p_used b"
    "p_owner a = p_owner b" "p_created_at a = p_created_at b"
proof -
  have "f (peer_core a) = f (peer_core b)" for f :: "peer \<Rightarrow> 'x"
    using assms by simp
  from this [of p_id] this [of p_interface_id] this [of p_allowed_ips] this [of p_public_key]
    this [of p_preshared_key_sealed] this [of p_used] this [of p_owner] this [of p_created_at]
  show "p_id a = p_id b" "p_interface_id a = p_interface_id b" "p_allowed_ips a = p_allowed_ips b"
    "p_public_key a = p_public_key b"
    "p_preshared_key_sealed a = p_preshared_key_sealed b" "p_used a = p_used b"
    "p_owner a = p_owner b" "p_created_at a = p_created_at b"
    by (simp_all add: peer_core_def)
qed

lemma peer_core_ids: "map peer_core ps = map peer_core qs \<Longrightarrow> map p_id ps = map p_id qs"
proof -
  assume "map peer_core ps = map peer_core qs"
  then have "map p_id (map peer_core ps) = map p_id (map peer_core qs)" by simp
  then show ?thesis by (simp add: peer_core_def comp_def)
qed

text \<open>Writing a peer with another flag over its own row changes the flag and the time only.\<close>

lemma peer_over_flag: "peer_core (peer_over (p\<lparr>p_enabled := on\<rparr>) now p) = peer_core p"
  by (simp add: peer_core_def peer_over_def)

lemma sched_skip:
  assumes "sched_inv L now ps0 (p # rest) ps" and "in_schedule L now p"
    and "distinct (map p_id ps0)"
  shows "sched_inv L now ps0 rest ps"
proof -
  have "in_schedule L now y" if "y \<in> set ps" and "p_id y \<notin> p_id ` set rest" for y
  proof (cases "p_id y = p_id p")
    case True
    then have "y \<in> set ps0" using assms(1) that(1) by (auto simp: sched_inv_def)
    moreover have "p \<in> set ps0" using assms(1) by (simp add: sched_inv_def)
    ultimately have "y = p"
      using True assms(3) by (simp add: distinct_map inj_on_def)
    then show ?thesis using assms(2) by simp
  next
    case False
    then show ?thesis using assms(1) that by (auto simp: sched_inv_def)
  qed
  moreover have "y \<in> set ps0" if "y \<in> set ps" and "p_id y \<in> p_id ` set rest" for y
    using assms(1) that by (auto simp: sched_inv_def)
  ultimately show ?thesis
    using assms(1) by (auto simp: sched_inv_def)
qed

lemma sched_write:
  assumes inv: "sched_inv L now ps0 (p # rest) ps" and dist: "distinct (map p_id ps0)"
    and sched: "in_schedule L now (p\<lparr>p_enabled := on\<rparr>)"
  shows "p \<in> set ps" and "sched_inv L now ps0 rest (put_peer (p\<lparr>p_enabled := on\<rparr>) t ps)"
proof -
  have p0: "p \<in> set ps0" and core: "map peer_core ps = map peer_core ps0"
    using inv by (simp_all add: sched_inv_def)
  have only: "y = p" if "y \<in> set ps" and "p_id y = p_id p" for y
  proof -
    have "y \<in> set ps0" using inv that by (auto simp: sched_inv_def)
    then show ?thesis using p0 that(2) dist by (simp add: distinct_map inj_on_def)
  qed
  have "p_id p \<in> set (map p_id ps)"
    using p0 peer_core_ids [OF core] by simp
  then obtain y where "y \<in> set ps" and "p_id y = p_id p" by auto
  then show "p \<in> set ps" using only by blast
  have same: "map peer_core (put_peer (p\<lparr>p_enabled := on\<rparr>) t ps) = map peer_core ps"
    unfolding put_peer_def map_map comp_def
    by (rule map_cong [OF refl]) (auto dest: only simp: peer_over_flag)
  have done': "in_schedule L now (peer_over (p\<lparr>p_enabled := on\<rparr>) t old)" for old
    using sched by (cases "p_schedule p") (auto simp: in_schedule_def peer_over_def split: sum.splits)
  have fresh: "p_id p \<notin> p_id ` set rest"
    using inv by (simp add: sched_inv_def)
  have rows: "if p_id z \<in> p_id ` set rest then z \<in> set ps0 else in_schedule L now z"
    if "z \<in> set (put_peer (p\<lparr>p_enabled := on\<rparr>) t ps)" for z
    using that unfolding in_put_peer
  proof
    assume "z \<in> set ps \<and> p_id z \<noteq> p_id (p\<lparr>p_enabled := on\<rparr>)"
    then show ?thesis using inv by (auto simp: sched_inv_def)
  next
    assume "\<exists>old \<in> set ps. p_id old = p_id (p\<lparr>p_enabled := on\<rparr>) \<and> z = peer_over (p\<lparr>p_enabled := on\<rparr>) t old"
    then show ?thesis using fresh done' by auto
  qed
  show "sched_inv L now ps0 rest (put_peer (p\<lparr>p_enabled := on\<rparr>) t ps)"
    using inv same core rows by (auto simp: sched_inv_def)
qed

definition sched_at ::
    "('w \<Rightarrow> bool) \<Rightarrow> ('w \<Rightarrow> net) \<Rightarrow> net \<Rightarrow> sched_lib \<Rightarrow> datetime \<Rightarrow> net \<Rightarrow> peer list \<Rightarrow> 'w \<Rightarrow> bool" where
  "sched_at J net n L now v0 rest w \<longleftrightarrow> (\<exists>ps. holds J net (fst v0, ps) w \<and>
     (sched_inv L now (snd v0) rest ps \<and> net_steps n (fst v0, ps)))"

locale scheduler_ops = net_store "sh_ifaces H" "sh_peers H" J net key_ok +
    wg_frame "sh_wg H" J net key_ok
  for H :: "'w scheduler" and J :: "'w \<Rightarrow> bool" and net :: "'w \<Rightarrow> net"
    and key_ok :: "wg_public_key \<Rightarrow> bool" +
  assumes now_frame: "triple (holds J net v) (sh_now H) (\<lambda>_. holds J net v) (\<lambda>_. holds J net v)"
begin

lemma schedule_peer_ok:
  assumes good: "net_good n" and dist: "distinct (map p_id (snd v0))"
  shows "triple (sched_at J net n (sh_lib H) now v0 (p # rest)) (schedule_peer H now p)
     (\<lambda>_. sched_at J net n (sh_lib H) now v0 rest) (\<lambda>_. stepping J net n)"
  unfolding sched_at_def [of J net n "sh_lib H" now v0 "p # rest"]
proof (rule triple_ex, rule triple_pure, elim conjE)
  fix ps
  assume inv: "sched_inv (sh_lib H) now (snd v0) (p # rest) ps" and n: "net_steps n (fst v0, ps)"
  let ?R = "\<lambda>_::unit. sched_at J net n (sh_lib H) now v0 rest"
  let ?X = "\<lambda>_::any_error. stepping J net n"
  have done': "triple (holds J net (fst v0, ps)) (io_ret ()) ?R ?X" if "in_schedule (sh_lib H) now p"
    by (rule triple_ret) (use sched_skip [OF inv that dist] n in \<open>auto simp: sched_at_def\<close>)
  show "triple (holds J net (fst v0, ps)) (schedule_peer H now p) ?R ?X"
  proof (cases "p_schedule p")
    case None
    show ?thesis
      unfolding schedule_peer_def None option.case by (rule done') (simp add: in_schedule_def None)
  next
    case json: (Some json)
    show ?thesis
    proof (cases "sl_parse_schedule (sh_lib H) json")
      case (Inl e)
      show ?thesis
        unfolding schedule_peer_def json option.case Inl sum.case
        by (rule done') (simp add: in_schedule_def json Inl)
    next
      case s: (Inr s)
      let ?on = "is_in_window (sh_lib H) s now"
      let ?x = "p\<lparr>p_enabled := ?on\<rparr>"
      have sched: "in_schedule (sh_lib H) now ?x"
        by (simp add: in_schedule_def json s)
      have stored: "p \<in> set ps" and inv': "\<And>t. sched_inv (sh_lib H) now (snd v0) rest (put_peer ?x t ps)"
        using sched_write [OF inv dist sched] by blast+
      have step: "net_step (fst v0, ps) (fst v0, put_peer ?x t ps)" for t
        by (rule peer_same_addrs_step [OF net_steps_good [OF n good] stored]) simp_all
      have at: "sched_at J net n (sh_lib H) now v0 rest w \<and> stepping J net n w"
        if "holds J net (fst v0, put_peer ?x t ps) w" for t w
        using that inv' rtranclp.rtrancl_into_rtrancl [OF n step] step_to [OF n step]
        unfolding sched_at_def by blast
      have update: "triple (holds J net (fst v0, ps)) (any_io (pr_update (sh_peers H) ?x))
          (\<lambda>_ w. \<exists>t. holds J net (fst v0, put_peer ?x t ps) w) ?X"
      proof (rule triple_map_err, rule tripleI, goal_cases)
        case (1 w u w')
        have "key_ok (p_public_key ?x)"
          using stored_keys [of w] 1(1) stored by (auto simp: holds_def)
        then show ?case by (rule triple_ok [OF peer_update 1])
      next
        case (2 w e w')
        have "key_ok (p_public_key ?x)"
          using stored_keys [of w] 2(1) stored by (auto simp: holds_def)
        then show ?case by (rule step_none [OF n triple_err [OF peer_update 2]])
      qed
      have found: "triple (holds J net (fst v0, put_peer ?x t ps))
          (io_some (Any_Msg ''iface vanished'') (any_io (ir_find_by_id (sh_ifaces H) (p_interface_id ?x))))
          (\<lambda>_. holds J net (fst v0, put_peer ?x t ps)) ?X" for t
        by (rule triple_some, rule triple_map_err, rule triple_conseq [OF iface_find], assumption)
          (use at in \<open>auto split: option.split\<close>)
      show ?thesis
        unfolding schedule_peer_def json option.case s sum.case Let_def
      proof (rule triple_if, goal_cases)
        case 1
        then show ?case by (intro done') (simp add: in_schedule_def json s)
      next
        case 2
        show ?case
        proof (rule triple_bind [OF update], rule triple_ex, rule triple_bind [OF found], goal_cases)
          case (1 u t i)
          show ?case
            by (intro triple_if; rule triple_ignore, rule apply_peer remove_peer, rule triple_ret)
              (use at in blast)+
        qed
      qed
    qed
  qed
qed

lemma schedule_ok:
  assumes good: "net_good n" and n: "net_steps n v"
  shows "triple (holds J net v) (schedule_once H)
     (\<lambda>_ w. \<exists>now. sched_at J net n (sh_lib H) now v [] w) (\<lambda>_. stepping J net n)"
proof -
  obtain "is" ps where v: "v = (is, ps)" by (cases v)
  have dist: "distinct (map p_id (snd v))"
    using net_steps_good [OF n good] by (simp add: net_good_def net_wf_def)
  have now: "triple (holds J net v) (sh_now H) (\<lambda>_. holds J net v) (\<lambda>_. stepping J net n)"
    by (rule triple_conseq [OF now_frame]) (auto intro: step_none [OF n])
  have listed: "triple (holds J net v) (any_io (pr_list_all (sh_peers H)))
      (\<lambda>peers. sched_at J net n (sh_lib H) t v peers) (\<lambda>_. stepping J net n)" for t
    unfolding v
  proof (rule triple_map_err, rule triple_conseq [OF peer_list_all], assumption)
    fix peers w
    assume "holds J net (is, ps) w \<and> mset peers = mset ps"
    moreover from this have "set peers = set ps" and "distinct (map p_id peers)"
      using mset_eq_setD dist v mset_eq_imp_distinct_iff [of "map p_id peers" "map p_id ps"]
      by (auto simp: mset_map)
    ultimately show "sched_at J net n (sh_lib H) t (is, ps) peers w"
      using n v by (auto simp: sched_at_def sched_inv_def)
  qed (rule step_none [OF n [unfolded v]])
  show ?thesis
    unfolding schedule_once_def
  proof (rule triple_bind [OF now], rule triple_bind [OF listed])
    fix t peers
    show "triple (sched_at J net n (sh_lib H) t v peers) (io_for peers (schedule_peer H t))
        (\<lambda>_ w. \<exists>now. sched_at J net n (sh_lib H) now v [] w) (\<lambda>_. stepping J net n)"
      by (rule triple_conseq [OF triple_for_inv [OF schedule_peer_ok [OF good dist]]],
          assumption, rule exI, assumption, assumption)
  qed
qed

lemma schedule_steps:
  assumes good: "net_good n"
  shows "triple (stepping J net n) (schedule_once H) (\<lambda>_. stepping J net n) (\<lambda>_. stepping J net n)"
proof (rule triple_stepping, rule triple_conseq [OF schedule_ok [OF good]], assumption, assumption)
  fix v w
  assume "\<exists>now. sched_at J net n (sh_lib H) now v [] w"
  then show "stepping J net n w"
    unfolding sched_at_def using step_none by blast
qed

end

end
