(* ===== verification/Api.thy ===== *)
theory Api
  imports App
begin

section \<open>The REST API\<close>

text \<open>
  \<open>wireforge-api\<close>: errors and data transfer objects (\<open>v1/dto.rs\<close>), the parsing helpers
  (\<open>v1/mod.rs\<close>), authentication of a request (\<open>auth.rs\<close>) and the handlers of interfaces, peers
  and tokens. A request arrives as its decoded body; the derive macro of the crate \<open>validator\<close>,
  the time format of \<open>chrono\<close>, the session store and the QR encoder are the record \<open>api_lib\<close>.
  \<open>al_add_days\<close> is the sum of a time and a number of days, \<open>None\<close> where chrono panics.
\<close>

subsection \<open>Errors\<close>

datatype api_fail = Api_Error (api_error: string) (api_status: nat) | Api_Panic

definition error_response :: "nat \<Rightarrow> string \<Rightarrow> api_fail" where
  "error_response status msg = Api_Error msg status"

definition api_unauthorized :: api_fail where
  "api_unauthorized = error_response 401 ''unauthorized''"

definition api_forbidden :: "string \<Rightarrow> api_fail" where
  "api_forbidden msg = error_response 403 msg"

definition api_not_found :: api_fail where
  "api_not_found = error_response 404 ''not found''"

definition bad_request :: "string \<Rightarrow> api_fail" where
  "bad_request msg = error_response 400 msg"

definition core_status :: "core_error \<Rightarrow> nat" where
  "core_status e = (case e of
     Not_Found _ \<Rightarrow> 404 | Conflict _ \<Rightarrow> 409 | Validation _ \<Rightarrow> 400 | Forbidden _ \<Rightarrow> 403
   | Unauthorized \<Rightarrow> 401 | _ \<Rightarrow> 500)"

definition from_core :: "core_error \<Rightarrow> api_fail" where
  "from_core e = error_response (core_status e) (error_display e)"

subsection \<open>Bodies\<close>

record interface_dto =
  id_id :: string
  id_name :: string
  id_public_key :: string
  id_listen_port :: u16
  id_endpoint :: "string option"
  id_gateway :: "string option"
  id_ipv4_cidr :: "string option"
  id_ipv6_cidr :: "string option"
  id_mtu :: "u16 option"
  id_dns :: "string list"
  id_on_up :: "string option"
  id_on_down :: "string option"
  id_status :: string
  id_created_at :: string
  id_updated_at :: string

record peer_dto =
  pd_id :: string
  pd_interface_id :: string
  pd_name :: string
  pd_public_key :: string
  pd_allowed_ips :: "string list"
  pd_primary_dns :: "string option"
  pd_secondary_dns :: "string option"
  pd_nat :: bool
  pd_endpoint :: "string option"
  pd_keepalive :: "u16 option"
  pd_used :: u64
  pd_enabled :: bool
  pd_created_at :: string
  pd_updated_at :: string

record create_iface_request =
  cir_name :: string
  cir_listen_port :: u16
  cir_endpoint :: "string option"
  cir_gateway :: "string option"
  cir_ipv4_cidr :: "string option"
  cir_ipv6_cidr :: "string option"
  cir_mtu :: "u16 option"
  cir_dns :: "string list"
  cir_on_up :: "string option"
  cir_on_down :: "string option"
  cir_private_key :: "string option"

record update_iface_request =
  uir_listen_port :: u16
  uir_endpoint :: "string option"
  uir_gateway :: "string option"
  uir_ipv4_cidr :: "string option"
  uir_ipv6_cidr :: "string option"
  uir_mtu :: "u16 option"
  uir_dns :: "string list"
  uir_on_up :: "string option"
  uir_on_down :: "string option"
  uir_private_key :: "string option"

record create_peer_request =
  cpr_interface_id :: string
  cpr_name :: string
  cpr_allowed_ips :: "string list option"
  cpr_primary_dns :: "string option"
  cpr_secondary_dns :: "string option"
  cpr_nat :: bool
  cpr_keepalive :: "u16 option"
  cpr_public_key :: string
  cpr_private_key :: string

record update_peer_request =
  upr_name :: string
  upr_interface_id :: string
  upr_allowed_ips :: "string list"
  upr_primary_dns :: "string option"
  upr_secondary_dns :: "string option"
  upr_nat :: bool
  upr_keepalive :: "u16 option"
  upr_enabled :: bool
  upr_public_key :: string
  upr_private_key :: string

record create_token_request =
  ctr_name :: string
  ctr_expires_in_days :: "i64 option"

record token_dto =
  td_id :: string
  td_name :: string
  td_scopes :: "string list"
  td_created_at :: string
  td_expires_at :: "string option"
  td_revoked_at :: "string option"

record created_token_dto =
  cd_token :: string
  cd_info :: token_dto

record auth_user =
  au_id :: user_id
  au_username :: string
  au_role :: role

record 'os api_lib =
  al_validate_create_iface :: "create_iface_request \<Rightarrow> string option"
  al_validate_update_iface :: "update_iface_request \<Rightarrow> string option"
  al_validate_create_peer :: "create_peer_request \<Rightarrow> string option"
  al_validate_update_peer :: "update_peer_request \<Rightarrow> string option"
  al_validate_create_token :: "create_token_request \<Rightarrow> string option"
  al_rfc3339 :: "datetime \<Rightarrow> string"
  al_add_days :: "datetime \<Rightarrow> i64 \<Rightarrow> datetime option"
  al_session_user :: "'os \<Rightarrow> auth_user option \<times> 'os"
  al_qr_svg :: "u8 list \<Rightarrow> string + string"

record ('os, 'j) api =
  api_app :: "('os, 'j) app_state"
  api_lib :: "'os api_lib"

definition api_net :: "('os, 'j) api \<Rightarrow> net_lib" where
  "api_net A = de_net (app_repos (api_app A))"

definition interface_dto_from :: "('os, 'j) api \<Rightarrow> iface \<Rightarrow> interface_dto" where
  "interface_dto_from A i = \<lparr>
     id_id = show_id (api_net A) (i_id i), id_name = i_name i,
     id_public_key = public_str (i_public_key i), id_listen_port = i_listen_port i,
     id_endpoint = i_endpoint i, id_gateway = i_gateway i,
     id_ipv4_cidr = map_option (nl_show_net (api_net A)) (i_ipv4_cidr i),
     id_ipv6_cidr = map_option (nl_show_net (api_net A)) (i_ipv6_cidr i),
     id_mtu = i_mtu i, id_dns = i_dns i, id_on_up = i_on_up i, id_on_down = i_on_down i,
     id_status = status_as_str (i_status i),
     id_created_at = al_rfc3339 (api_lib A) (i_created_at i),
     id_updated_at = al_rfc3339 (api_lib A) (i_updated_at i)\<rparr>"

definition peer_dto_from :: "('os, 'j) api \<Rightarrow> peer \<Rightarrow> peer_dto" where
  "peer_dto_from A p = \<lparr>
     pd_id = show_id (api_net A) (p_id p),
     pd_interface_id = show_id (api_net A) (p_interface_id p), pd_name = p_name p,
     pd_public_key = public_str (p_public_key p),
     pd_allowed_ips = map (nl_show_net (api_net A)) (p_allowed_ips p),
     pd_primary_dns = p_primary_dns p, pd_secondary_dns = p_secondary_dns p, pd_nat = p_nat p,
     pd_endpoint = p_endpoint p, pd_keepalive = p_keepalive p, pd_used = p_used p,
     pd_enabled = p_enabled p, pd_created_at = al_rfc3339 (api_lib A) (p_created_at p),
     pd_updated_at = al_rfc3339 (api_lib A) (p_updated_at p)\<rparr>"

definition token_dto_from :: "('os, 'j) api \<Rightarrow> api_token \<Rightarrow> token_dto" where
  "token_dto_from A t = \<lparr>
     td_id = show_id (api_net A) (t_id t), td_name = t_name t, td_scopes = t_scopes t,
     td_created_at = al_rfc3339 (api_lib A) (t_created_at t),
     td_expires_at = map_option (al_rfc3339 (api_lib A)) (t_expires_at t),
     td_revoked_at = map_option (al_rfc3339 (api_lib A)) (t_revoked_at t)\<rparr>"

subsection \<open>Parsing helpers\<close>

definition api_parse_id :: "('os, 'j) api \<Rightarrow> string \<Rightarrow> api_fail + 'k ident" where
  "api_parse_id A s = map_error (\<lambda>_. api_not_found) (parse_id (api_net A) s)"

definition parse_cidr_opt ::
    "('os, 'j) api \<Rightarrow> string option \<Rightarrow> string \<Rightarrow> api_fail + ip_net option" where
  "parse_cidr_opt A s label =
     (case map_option trim s of
        None \<Rightarrow> Inr None
      | Some [] \<Rightarrow> Inr None
      | Some v \<Rightarrow> (case nl_parse_net (api_net A) v of
          Inl _ \<Rightarrow> Inl (bad_request (''invalid '' @ label))
        | Inr n \<Rightarrow> Inr (Some n)))"

definition parse_cidrs ::
    "('os, 'j) api \<Rightarrow> string list \<Rightarrow> string \<Rightarrow> api_fail + ip_net list" where
  "parse_cidrs A items label =
     traverse (\<lambda>s. map_error (\<lambda>_. bad_request (''invalid '' @ label)) (nl_parse_net (api_net A) s))
       (filter (\<lambda>s. s \<noteq> []) (map trim items))"

definition blank_to_none :: "string option \<Rightarrow> string option" where
  "blank_to_none s = (case s of None \<Rightarrow> None | Some v \<Rightarrow> if trim v = [] then None else Some (trim v))"

text \<open>\<open>req.validate().map_err(|e| bad_request(e.to_string()))?\<close>\<close>

definition check_valid :: "('r \<Rightarrow> string option) \<Rightarrow> 'r \<Rightarrow> ('w, api_fail, unit) io" where
  "check_valid v r = (case v r of None \<Rightarrow> io_ret () | Some e \<Rightarrow> io_fail (bad_request e))"

subsection \<open>Authentication\<close>

definition auth_user_of :: "user \<Rightarrow> auth_user" where
  "auth_user_of u = \<lparr>au_id = u_id u, au_username = u_username u, au_role = u_role u\<rparr>"

definition authenticate_request ::
    "('os, 'j) api \<Rightarrow> string option \<Rightarrow> ('os world, api_fail, auth_user) io" where
  "authenticate_request A bearer =
     (let E = app_repos (api_app A) in
      case bearer of
        Some tok \<Rightarrow>
          (let hash = hash_api_token (os_crypto (app_crypto (api_app A))) tok in
           io_bind (io_map_err (\<lambda>_. api_unauthorized) (tr_find_active_by_hash (sqlite_tokens E) hash))
             (\<lambda>found. case found of
                None \<Rightarrow> io_fail api_unauthorized
              | Some t \<Rightarrow>
                  io_bind (on_os (de_now E)) (\<lambda>now.
                  if \<not> token_is_active t now then io_fail api_unauthorized
                  else io_bind (io_some api_unauthorized (io_map_err (\<lambda>_. api_unauthorized)
                           (ur_find_by_id (sqlite_users E) (t_user_id t)))) (\<lambda>u.
                    io_ret (auth_user_of u)))))
      | None \<Rightarrow> io_some api_unauthorized (on_os (al_session_user (api_lib A))))"

definition require_mutate :: "auth_user \<Rightarrow> ('w, api_fail, unit) io" where
  "require_mutate u =
     (if can_mutate (au_role u) then io_ret ()
      else io_fail (api_forbidden ''insufficient role for this operation''))"

end
