(* ===== verification/Api_Handlers.thy ===== *)
theory Api_Handlers
  imports Api
begin

section \<open>The handlers of the REST API\<close>

text \<open>
  \<open>v1/interfaces.rs\<close>, \<open>v1/peers.rs\<close> and \<open>v1/tokens.rs\<close>, and the route table of \<open>lib.rs\<close>
  (\<open>api_call\<close>: which handler serves a request of an authenticated caller). Extractors run before
  the handler's body, so a request is first authenticated and then dispatched.
\<close>

abbreviation core_io :: "('w, core_error, 'a) io \<Rightarrow> ('w, api_fail, 'a) io" where
  "core_io m \<equiv> io_map_err from_core m"

subsection \<open>Interfaces\<close>

definition api_ifaces_list :: "('os, 'j) api \<Rightarrow> ('os world, api_fail, interface_dto list) io" where
  "api_ifaces_list A =
     io_bind (core_io (ir_list (sqlite_ifaces (app_repos (api_app A))))) (\<lambda>is.
       io_ret (map (interface_dto_from A) is))"

definition api_ifaces_get_one ::
    "('os, 'j) api \<Rightarrow> string \<Rightarrow> ('os world, api_fail, interface_dto) io" where
  "api_ifaces_get_one A raw =
     io_bind (io_lift (api_parse_id A raw)) (\<lambda>i.
     io_bind (io_some api_not_found
                (core_io (ir_find_by_id (sqlite_ifaces (app_repos (api_app A))) i))) (\<lambda>x.
     io_ret (interface_dto_from A x)))"

definition api_ifaces_create ::
    "('os, 'j) api \<Rightarrow> auth_user \<Rightarrow> create_iface_request \<Rightarrow> ('os world, api_fail, interface_dto) io" where
  "api_ifaces_create A u req =
     io_bind (require_mutate u) (\<lambda>_.
     io_bind (check_valid (al_validate_create_iface (api_lib A)) req) (\<lambda>_.
     io_bind (io_lift (parse_cidr_opt A (cir_ipv4_cidr req) ''IPv4 CIDR'')) (\<lambda>v4.
     io_bind (io_lift (parse_cidr_opt A (cir_ipv6_cidr req) ''IPv6 CIDR'')) (\<lambda>v6.
     io_bind (core_io (iface_create (interface_service (api_app A))
        \<lparr>ci_name = trim (cir_name req), ci_listen_port = cir_listen_port req,
         ci_endpoint = blank_to_none (cir_endpoint req),
         ci_gateway = blank_to_none (cir_gateway req), ci_ipv4_cidr = v4, ci_ipv6_cidr = v6,
         ci_mtu = cir_mtu req, ci_dns = cir_dns req, ci_on_up = blank_to_none (cir_on_up req),
         ci_on_down = blank_to_none (cir_on_down req),
         ci_private_key = unwrap_or [] (cir_private_key req)\<rparr>)) (\<lambda>i.
     io_ret (interface_dto_from A i))))))"

definition api_ifaces_update ::
    "('os, 'j) api \<Rightarrow> auth_user \<Rightarrow> string \<Rightarrow> update_iface_request \<Rightarrow>
     ('os world, api_fail, interface_dto) io" where
  "api_ifaces_update A u raw req =
     io_bind (require_mutate u) (\<lambda>_.
     io_bind (check_valid (al_validate_update_iface (api_lib A)) req) (\<lambda>_.
     io_bind (io_lift (api_parse_id A raw)) (\<lambda>iid.
     io_bind (io_lift (parse_cidr_opt A (uir_ipv4_cidr req) ''IPv4 CIDR'')) (\<lambda>v4.
     io_bind (io_lift (parse_cidr_opt A (uir_ipv6_cidr req) ''IPv6 CIDR'')) (\<lambda>v6.
     io_bind (core_io (iface_update (interface_service (api_app A)) iid
        \<lparr>ui_listen_port = uir_listen_port req, ui_endpoint = blank_to_none (uir_endpoint req),
         ui_gateway = blank_to_none (uir_gateway req), ui_ipv4_cidr = v4, ui_ipv6_cidr = v6,
         ui_mtu = uir_mtu req, ui_dns = uir_dns req, ui_on_up = blank_to_none (uir_on_up req),
         ui_on_down = blank_to_none (uir_on_down req),
         ui_private_key = unwrap_or [] (uir_private_key req)\<rparr>)) (\<lambda>i.
     io_ret (interface_dto_from A i)))))))"

definition api_ifaces_delete ::
    "('os, 'j) api \<Rightarrow> auth_user \<Rightarrow> string \<Rightarrow> ('os world, api_fail, nat) io" where
  "api_ifaces_delete A u raw =
     io_bind (require_mutate u) (\<lambda>_.
     io_bind (io_lift (api_parse_id A raw)) (\<lambda>iid.
     io_bind (core_io (iface_delete (interface_service (api_app A)) iid)) (\<lambda>_.
     io_ret 204)))"

definition api_ifaces_start ::
    "('os, 'j) api \<Rightarrow> auth_user \<Rightarrow> string \<Rightarrow> ('os world, api_fail, interface_dto) io" where
  "api_ifaces_start A u raw =
     io_bind (require_mutate u) (\<lambda>_.
     io_bind (io_lift (api_parse_id A raw)) (\<lambda>iid.
     io_bind (core_io (iface_start (interface_service (api_app A)) iid)) (\<lambda>i.
     io_ret (interface_dto_from A i))))"

definition api_ifaces_stop ::
    "('os, 'j) api \<Rightarrow> auth_user \<Rightarrow> string \<Rightarrow> ('os world, api_fail, interface_dto) io" where
  "api_ifaces_stop A u raw =
     io_bind (require_mutate u) (\<lambda>_.
     io_bind (io_lift (api_parse_id A raw)) (\<lambda>iid.
     io_bind (core_io (iface_stop (interface_service (api_app A)) iid)) (\<lambda>i.
     io_ret (interface_dto_from A i))))"

subsection \<open>Peers\<close>

definition FALLBACK_ENDPOINT :: string where
  "FALLBACK_ENDPOINT = ''vpn.example.com''"

definition api_peers_list :: "('os, 'j) api \<Rightarrow> ('os world, api_fail, peer_dto list) io" where
  "api_peers_list A =
     io_bind (core_io (pr_list_all (sqlite_peers (app_repos (api_app A))))) (\<lambda>ps.
       io_ret (map (peer_dto_from A) ps))"

definition api_peers_get_one ::
    "('os, 'j) api \<Rightarrow> string \<Rightarrow> ('os world, api_fail, peer_dto) io" where
  "api_peers_get_one A raw =
     io_bind (io_lift (api_parse_id A raw)) (\<lambda>pid.
     io_bind (io_some api_not_found
                (core_io (pr_find_by_id (sqlite_peers (app_repos (api_app A))) pid))) (\<lambda>p.
     io_ret (peer_dto_from A p)))"

definition api_peers_create ::
    "('os, 'j) api \<Rightarrow> auth_user \<Rightarrow> create_peer_request \<Rightarrow> ('os world, api_fail, peer_dto) io" where
  "api_peers_create A u req =
     io_bind (require_mutate u) (\<lambda>_.
     io_bind (check_valid (al_validate_create_peer (api_lib A)) req) (\<lambda>_.
     io_bind (io_lift (api_parse_id A (cpr_interface_id req))) (\<lambda>iid.
     io_bind (io_lift (opt_traverse (\<lambda>items. parse_cidrs A items ''allowed IP'')
                (cpr_allowed_ips req))) (\<lambda>allowed_ips.
     io_bind (core_io (create_with_server_keypair (peer_service (api_app A))
        \<lparr>cp_interface_id = iid, cp_name = trim (cpr_name req), cp_allowed_ips = allowed_ips,
         cp_primary_dns = cpr_primary_dns req, cp_secondary_dns = cpr_secondary_dns req,
         cp_nat = cpr_nat req, cp_keepalive = cpr_keepalive req, cp_owner = None,
         cp_public_key = cpr_public_key req, cp_private_key = cpr_private_key req\<rparr>)) (\<lambda>p.
     io_ret (peer_dto_from A p))))))"

definition api_peers_update ::
    "('os, 'j) api \<Rightarrow> auth_user \<Rightarrow> string \<Rightarrow> update_peer_request \<Rightarrow>
     ('os world, api_fail, peer_dto) io" where
  "api_peers_update A u raw req =
     io_bind (require_mutate u) (\<lambda>_.
     io_bind (check_valid (al_validate_update_peer (api_lib A)) req) (\<lambda>_.
     io_bind (io_lift (api_parse_id A raw)) (\<lambda>pid.
     io_bind (io_lift (api_parse_id A (upr_interface_id req))) (\<lambda>iid.
     io_bind (io_lift (parse_cidrs A (upr_allowed_ips req) ''allowed IP'')) (\<lambda>allowed_ips.
     io_bind (core_io (peer_update (peer_service (api_app A)) pid
        \<lparr>up_name = trim (upr_name req), up_interface_id = iid, up_allowed_ips = allowed_ips,
         up_primary_dns = upr_primary_dns req, up_secondary_dns = upr_secondary_dns req,
         up_nat = upr_nat req, up_keepalive = upr_keepalive req, up_enabled = upr_enabled req,
         up_public_key = upr_public_key req, up_private_key = upr_private_key req\<rparr>)) (\<lambda>p.
     io_ret (peer_dto_from A p)))))))"

definition api_peers_set_enabled ::
    "('os, 'j) api \<Rightarrow> auth_user \<Rightarrow> string \<Rightarrow> bool \<Rightarrow> ('os world, api_fail, peer_dto) io" where
  "api_peers_set_enabled A u raw on =
     io_bind (require_mutate u) (\<lambda>_.
     io_bind (io_lift (api_parse_id A raw)) (\<lambda>pid.
     io_bind (core_io (peer_set_enabled (peer_service (api_app A)) pid on)) (\<lambda>p.
     io_ret (peer_dto_from A p))))"

definition api_peers_delete ::
    "('os, 'j) api \<Rightarrow> auth_user \<Rightarrow> string \<Rightarrow> ('os world, api_fail, nat) io" where
  "api_peers_delete A u raw =
     io_bind (require_mutate u) (\<lambda>_.
     io_bind (io_lift (api_parse_id A raw)) (\<lambda>pid.
     io_bind (core_io (peer_delete (peer_service (api_app A)) pid)) (\<lambda>_.
     io_ret 204)))"

definition api_peer_conf :: "('os, 'j) api \<Rightarrow> string \<Rightarrow> ('os world, api_fail, string) io" where
  "api_peer_conf A raw =
     io_bind (io_lift (api_parse_id A raw)) (\<lambda>pid.
     io_bind (io_some api_not_found
                (core_io (pr_find_by_id (sqlite_peers (app_repos (api_app A))) pid))) (\<lambda>p.
     io_bind (io_some api_not_found
                (core_io (ir_find_by_id (sqlite_ifaces (app_repos (api_app A))) (p_interface_id p)))) (\<lambda>i.
     io_bind settings_snapshot_now (\<lambda>s.
     let endpoint = unwrap_or FALLBACK_ENDPOINT (rs_endpoint s) in
     core_io (io_lift (render_peer_conf (os_crypto (app_crypto (api_app A))) (api_net A)
       (app_utf8_error (api_app A)) i p endpoint (app_seal_key (api_app A))))))))"

definition api_peers_config :: "('os, 'j) api \<Rightarrow> string \<Rightarrow> ('os world, api_fail, string) io" where
  "api_peers_config A raw = api_peer_conf A raw"

definition api_peers_qr :: "('os, 'j) api \<Rightarrow> string \<Rightarrow> ('os world, api_fail, string) io" where
  "api_peers_qr A raw =
     io_bind (api_peer_conf A raw) (\<lambda>conf.
     io_lift (map_error (\<lambda>e. bad_request (''qr encode: '' @ e)) (al_qr_svg (api_lib A) (bytes_of conf))))"

subsection \<open>Tokens\<close>

definition api_tokens_list ::
    "('os, 'j) api \<Rightarrow> auth_user \<Rightarrow> ('os world, api_fail, token_dto list) io" where
  "api_tokens_list A u =
     io_bind (core_io (tr_list_for_user (sqlite_tokens (app_repos (api_app A))) (au_id u))) (\<lambda>ts.
       io_ret (map (token_dto_from A) ts))"

text \<open>The expiry of a new token; a day count is a signed 64-bit integer.\<close>

definition token_expiry ::
    "('os, 'j) api \<Rightarrow> i64 option \<Rightarrow> ('os world, api_fail, datetime option) io" where
  "token_expiry A expires_in_days = (case expires_in_days of
     None \<Rightarrow> io_ret None
   | Some days \<Rightarrow>
       if sint days > 0
       then io_bind (on_os (de_now (app_repos (api_app A)))) (\<lambda>now.
              case al_add_days (api_lib A) now days of
                None \<Rightarrow> io_fail Api_Panic
              | Some t \<Rightarrow> io_ret (Some t))
       else io_fail (bad_request ''expires_in_days must be positive''))"

definition api_tokens_create ::
    "('os, 'j) api \<Rightarrow> auth_user \<Rightarrow> create_token_request \<Rightarrow>
     ('os world, api_fail, created_token_dto) io" where
  "api_tokens_create A u req =
     io_bind (check_valid (al_validate_create_token (api_lib A)) req) (\<lambda>_.
     io_bind (token_expiry A (ctr_expires_in_days req)) (\<lambda>expires_at.
     io_bind (generate_api_token (os_crypto (app_crypto (api_app A)))) (\<lambda>(plaintext, token_hash).
     io_bind (core_io (tr_create (sqlite_tokens (app_repos (api_app A)))
        \<lparr>nt_user_id = au_id u, nt_name = trim (ctr_name req), nt_token_hash = token_hash,
         nt_scopes = [''*''], nt_expires_at = expires_at\<rparr>)) (\<lambda>t.
     io_ret \<lparr>cd_token = plaintext, cd_info = token_dto_from A t\<rparr>))))"

definition api_tokens_revoke ::
    "('os, 'j) api \<Rightarrow> auth_user \<Rightarrow> string \<Rightarrow> ('os world, api_fail, nat) io" where
  "api_tokens_revoke A u raw =
     io_bind (io_lift (api_parse_id A raw)) (\<lambda>tid.
     io_bind (core_io (tr_revoke (sqlite_tokens (app_repos (api_app A))) tid (au_id u))) (\<lambda>_.
     io_ret 204))"

subsection \<open>Routes\<close>

datatype api_request =
    Ifaces_List | Ifaces_Get string | Ifaces_Create create_iface_request
  | Ifaces_Update string update_iface_request | Ifaces_Delete string
  | Ifaces_Start string | Ifaces_Stop string
  | Peers_List | Peers_Get string | Peers_Create create_peer_request
  | Peers_Update string update_peer_request | Peers_Set_Enabled string bool
  | Peers_Delete string | Peers_Config string | Peers_Qr string
  | Tokens_List | Tokens_Create create_token_request | Tokens_Revoke string

datatype api_reply =
    Reply_Ifaces "interface_dto list" | Reply_Iface interface_dto
  | Reply_Peers "peer_dto list" | Reply_Peer peer_dto
  | Reply_Tokens "token_dto list" | Reply_Token created_token_dto
  | Reply_Status nat | Reply_Text string

definition io_map :: "('a \<Rightarrow> 'b) \<Rightarrow> ('w, 'e, 'a) io \<Rightarrow> ('w, 'e, 'b) io" where
  [io_defs]: "io_map f m = io_bind m (\<lambda>x. io_ret (f x))"

definition api_dispatch ::
    "('os, 'j) api \<Rightarrow> auth_user \<Rightarrow> api_request \<Rightarrow> ('os world, api_fail, api_reply) io" where
  "api_dispatch A u req = (case req of
     Ifaces_List \<Rightarrow> io_map Reply_Ifaces (api_ifaces_list A)
   | Ifaces_Get raw \<Rightarrow> io_map Reply_Iface (api_ifaces_get_one A raw)
   | Ifaces_Create r \<Rightarrow> io_map Reply_Iface (api_ifaces_create A u r)
   | Ifaces_Update raw r \<Rightarrow> io_map Reply_Iface (api_ifaces_update A u raw r)
   | Ifaces_Delete raw \<Rightarrow> io_map Reply_Status (api_ifaces_delete A u raw)
   | Ifaces_Start raw \<Rightarrow> io_map Reply_Iface (api_ifaces_start A u raw)
   | Ifaces_Stop raw \<Rightarrow> io_map Reply_Iface (api_ifaces_stop A u raw)
   | Peers_List \<Rightarrow> io_map Reply_Peers (api_peers_list A)
   | Peers_Get raw \<Rightarrow> io_map Reply_Peer (api_peers_get_one A raw)
   | Peers_Create r \<Rightarrow> io_map Reply_Peer (api_peers_create A u r)
   | Peers_Update raw r \<Rightarrow> io_map Reply_Peer (api_peers_update A u raw r)
   | Peers_Set_Enabled raw on \<Rightarrow> io_map Reply_Peer (api_peers_set_enabled A u raw on)
   | Peers_Delete raw \<Rightarrow> io_map Reply_Status (api_peers_delete A u raw)
   | Peers_Config raw \<Rightarrow> io_map Reply_Text (api_peers_config A raw)
   | Peers_Qr raw \<Rightarrow> io_map Reply_Text (api_peers_qr A raw)
   | Tokens_List \<Rightarrow> io_map Reply_Tokens (api_tokens_list A u)
   | Tokens_Create r \<Rightarrow> io_map Reply_Token (api_tokens_create A u r)
   | Tokens_Revoke raw \<Rightarrow> io_map Reply_Status (api_tokens_revoke A u raw))"

definition api_call ::
    "('os, 'j) api \<Rightarrow> string option \<Rightarrow> api_request \<Rightarrow> ('os world, api_fail, api_reply) io" where
  "api_call A bearer req =
     io_bind (authenticate_request A bearer) (\<lambda>u. api_dispatch A u req)"

end
