(* ===== verification/App_Contract.thy ===== *)
theory App_Contract
  imports Sqlite_Contract App Iface_Ops Background_Ops Api_Handlers
begin

section \<open>The application fulfils the contracts\<close>

text \<open>
  The interpretations that connect the generic results to the program: the WireGuard, NAT and
  host-interface adapters leave the tables of interfaces and peers alone, and with the SQLite
  repositories they satisfy the contracts under which the services, the poller and the
  scheduler were verified.
\<close>

abbreviation net_is :: "'os db_env \<Rightarrow> net \<Rightarrow> 'os world \<Rightarrow> bool" where
  "net_is E v \<equiv> holds (net_inv E) (net_view E) v"

lemma net_isI: "net_inv E w \<Longrightarrow> net_is E (net_view E w) w"
  by (simp add: holds_def)

lemma triple_at:
  "triple P m Q X \<Longrightarrow> P w \<Longrightarrow> case m w of (Inl e, w') \<Rightarrow> X e w' | (Inr x, w') \<Rightarrow> Q x w'"
  by (simp add: triple_def)

subsection \<open>Frames\<close>

text \<open>The part of the database the configuration is read from.\<close>

definition net_tables :: "db \<Rightarrow> iface_row list \<times> peer_row list" where
  "net_tables d = (tb_ifaces d, tb_peers d)"

lemma db_exec_keeps_part:
  assumes "\<And>d x d'. f d = Inr (x, d') \<Longrightarrow> g d' = g d"
  shows "keeps (\<lambda>w. g (w_db w)) (db_exec E f)"
  unfolding keeps_def
proof
  fix w
  show "g (w_db (snd (db_exec E f w))) = g (w_db w)"
  proof (cases "db_exec E f w")
    case (Pair r w')
    then show ?thesis
      using db_exec_err [of E f w _ w'] db_exec_ok [of E f w _ w'] assms by (cases r) fastforce+
  qed
qed

lemma keeps_part: "keeps w_db m \<Longrightarrow> keeps (\<lambda>w. g (w_db w)) m"
  by (simp add: keeps_def)

lemma frame_of_tables:
  assumes "keeps (\<lambda>w. net_tables (w_db w)) m"
  shows "triple (holds (net_inv E) (net_view E) v) m
     (\<lambda>_. holds (net_inv E) (net_view E) v) (\<lambda>_. holds (net_inv E) (net_view E) v)"
proof -
  let ?of = "\<lambda>t. (map (iface_of E) (fst t), map (peer_of E) (snd t))"
  let ?ok = "\<lambda>t. (\<forall>r \<in> set (fst t). iface_row_ok E r) \<and> (\<forall>r \<in> set (snd t). peer_row_ok E r)"
  have eq: "holds (net_inv E) (net_view E) v = (\<lambda>w. text_laws E \<and> ?ok (net_tables (w_db w)) \<and>
      net_wf (?of (net_tables (w_db w))) \<and> ?of (net_tables (w_db w)) = v)"
    by (auto simp: holds_def net_inv_def net_view_def net_rows_ok_def net_of_def net_tables_def)
  show ?thesis
    unfolding eq
    using triple_keeps [OF assms, of "\<lambda>t. text_laws E \<and> ?ok t \<and> net_wf (?of t) \<and> ?of t = v"] .
qed

lemmas frame_of_keeps = frame_of_tables [OF keeps_part]

lemma frame_result:
  assumes "keeps w_db m" and "\<And>w x w'. m w = (Inr x, w') \<Longrightarrow> b x"
  shows "triple (holds (net_inv E) (net_view E) v) m
     (\<lambda>x w. holds (net_inv E) (net_view E) v w \<and> b x) (\<lambda>_. holds (net_inv E) (net_view E) v)"
proof (rule tripleI, goal_cases)
  case (1 w x w')
  then show ?case using triple_ok [OF frame_of_keeps [OF assms(1)]] assms(2) by blast
next
  case (2 w e w')
  then show ?case using triple_err [OF frame_of_keeps [OF assms(1)]] by blast
qed

lemma key_from_base64_key_valid:
  "key_from_base64 (cl_b64_decode (app_crypto A)) Wg_Public_Key s = Inr k \<Longrightarrow>
   key_valid (app_repos A) k"
  by (auto simp: key_from_base64_ok_iff key_valid_def app_repos_def)

lemma adapter_derive_valid:
  assumes "adapter_derive_public_key (app_wg A) k w = (Inr x, w')"
  shows "key_valid (app_repos A) x"
  using assms unfolding adapter_derive_public_key_def
  by (auto simp: res_bind_ok_iff app_wg_def intro: key_from_base64_key_valid)

lemma adapter_generate_valid:
  assumes "adapter_generate_keypair (app_wg A) w = (Inr x, w')"
  shows "key_valid (app_repos A) (snd x)"
  using assms unfolding adapter_generate_keypair_def
  by (auto simp: io_bind_ok_iff app_wg_def Let_def intro: key_from_base64_key_valid)

interpretation app_wg_frame: wg_frame "defguard_port (app_wg A)" "net_inv (app_repos A)"
    "net_view (app_repos A)" "key_valid (app_repos A)" for A
proof (unfold_locales, unfold defguard_port_def wg_port.simps, goal_cases)
  case 1
  show ?case by (intro frame_result keeps_intros) (rule adapter_derive_valid)
next
  case 2
  show ?case by (intro frame_result keeps_intros) (rule adapter_generate_valid)
qed (intro frame_of_keeps keeps_intros)+

interpretation app_nat_frame: nat_frame "iptables_port N" "getifaddrs_port Y" "net_inv E" "net_view E"
  for N Y E
  by (unfold_locales, unfold iptables_port_def getifaddrs_port_def nat_port.simps sysnet_port.simps)
    (intro frame_of_keeps keeps_intros)+

subsection \<open>The services\<close>

interpretation app_peers: peer_ops "peer_service A" "net_inv (app_repos A)" "net_view (app_repos A)"
    "key_valid (app_repos A)" for A
proof (intro peer_ops.intro peer_ops_axioms.intro, unfold peer_service_def peer_svc.simps, goal_cases)
  case 1
  show ?case by (rule sqlite_net.net_store_axioms)
next
  case 2
  show ?case by (rule app_wg_frame.wg_frame_axioms)
next
  case (3 v bs)
  show ?case by (intro frame_of_keeps keeps_intros)
next
  case (4 s k)
  then show ?case by (intro key_from_base64_key_valid) (simp add: os_crypto_def)
qed

interpretation app_ifaces: iface_ops "interface_service A" "net_inv (app_repos A)"
    "net_view (app_repos A)" "key_valid (app_repos A)" for A
proof (intro iface_ops.intro iface_ops_axioms.intro, unfold interface_service_def iface_svc.simps, goal_cases)
  case 1
  show ?case by (rule sqlite_net.net_store_axioms)
next
  case 2
  show ?case by (rule app_wg_frame.wg_frame_axioms)
next
  case 3
  show ?case by (rule app_nat_frame.nat_frame_axioms)
next
  case (4 v bs)
  show ?case by (intro frame_of_keeps keeps_intros)
qed

lemma net_frames [keeps_intros]:
  "keeps (\<lambda>w. net_tables (w_db w)) (traffic_snapshot E k tx rx h)"
  "keeps (\<lambda>w. net_tables (w_db w)) (tokens_create E new)"
  "keeps (\<lambda>w. net_tables (w_db w)) (tokens_revoke E t owner)"
  unfolding traffic_snapshot_def tokens_create_def tokens_revoke_def
  by (intro keeps_intros db_exec_keeps_part;
    auto simp: insert_traffic_def insert_token_def net_tables_def constraint_failed_def split: if_splits)+

interpretation app_poll: poller_ops "app_poller A" "net_inv (app_repos A)" "net_view (app_repos A)"
    "key_valid (app_repos A)" for A
proof (intro poller_ops.intro poller_ops_axioms.intro, unfold app_poller_def poller.simps, goal_cases)
  case 1
  show ?case by (rule sqlite_net.net_store_axioms)
next
  case 2
  show ?case by (rule app_wg_frame.wg_frame_axioms)
next
  case (3 v k a b h)
  show ?case
    unfolding sqlite_traffic_def traffic_repo.simps by (intro frame_of_tables keeps_intros)
qed

interpretation app_sched: scheduler_ops "app_scheduler A L" "net_inv (app_repos A)"
    "net_view (app_repos A)" "key_valid (app_repos A)" for A L
proof (intro scheduler_ops.intro scheduler_ops_axioms.intro, unfold app_scheduler_def scheduler.simps,
    goal_cases)
  case 1
  show ?case by (rule sqlite_net.net_store_axioms)
next
  case 2
  show ?case by (rule app_wg_frame.wg_frame_axioms)
next
  case (3 v)
  show ?case by (intro frame_of_keeps keeps_intros)
qed

end
