(* ===== verification/Web.thy ===== *)
theory Web
  imports Api_Handlers
begin

section \<open>The web layer: sessions, errors, pages\<close>

text \<open>
  What the handlers of \<open>wireforge-web\<close> share: \<open>error.rs\<close>, \<open>flash.rs\<close>, \<open>audit.rs\<close>,
  \<open>extractors/auth_user.rs\<close> and the page structs of \<open>templates.rs\<close>.

  A handler runs over the world and the session of the browser that sent the request: a map from
  keys to values, read and written through the crate \<open>tower-sessions\<close> (each access may fail;
  reading a value at another type than it was written at is an error). A reply is the value
  handed to the template engine, not its HTML. \<open>serde_json::json!\<close>, the TOTP crate and the host
  are the record \<open>web_lib\<close>. Rust's panics are the error \<open>Web_Panic\<close>.
\<close>

subsection \<open>Sessions\<close>

record pending_user =
  pu_user_id :: string
  pu_username :: string

datatype flash_kind = Flash_Success | Flash_Error | Flash_Info

record flash_msg =
  fl_kind :: flash_kind
  fl_message :: string

definition flash_success :: "string \<Rightarrow> flash_msg" where
  "flash_success msg = \<lparr>fl_kind = Flash_Success, fl_message = msg\<rparr>"

definition flash_error :: "string \<Rightarrow> flash_msg" where
  "flash_error msg = \<lparr>fl_kind = Flash_Error, fl_message = msg\<rparr>"

definition kind_str :: "flash_msg \<Rightarrow> string" where
  "kind_str f = (case fl_kind f of
     Flash_Success \<Rightarrow> ''success'' | Flash_Error \<Rightarrow> ''error'' | Flash_Info \<Rightarrow> ''info'')"

datatype session_value =
    Sv_User auth_user | Sv_Pending pending_user | Sv_Flash flash_msg | Sv_Text string

type_synonym session = "string \<Rightarrow> session_value option"

type_synonym 'os visit = "'os world \<times> session"

fun as_user :: "session_value \<Rightarrow> auth_user option" where
  "as_user (Sv_User u) = Some u" | "as_user _ = None"

fun as_pending :: "session_value \<Rightarrow> pending_user option" where
  "as_pending (Sv_Pending p) = Some p" | "as_pending _ = None"

fun as_flash :: "session_value \<Rightarrow> flash_msg option" where
  "as_flash (Sv_Flash f) = Some f" | "as_flash _ = None"

fun as_text :: "session_value \<Rightarrow> string option" where
  "as_text (Sv_Text s) = Some s" | "as_text _ = None"

record 'j json_make =
  jm_string :: "string \<Rightarrow> 'j"
  jm_nat :: "nat \<Rightarrow> 'j"
  jm_bool :: "bool \<Rightarrow> 'j"
  jm_object :: "(string \<times> 'j) list \<Rightarrow> 'j"

record settings_readonly =
  so_database_path :: string
  so_server_bind :: string
  so_session_secure :: bool
  so_master_key_masked :: string

record ('os, 'j) web_lib =
  wb_session_fault :: "'os \<Rightarrow> string option \<times> 'os"
  wb_decode_error :: string
  wb_totp :: "'os totp_lib"
  wb_json :: "'j json_make"
  wb_log_reload :: "string \<Rightarrow> 'os \<Rightarrow> (string + unit) \<times> 'os"
  wb_database_path :: string
  wb_server_bind :: string
  wb_session_secure :: bool
  wb_version :: string
  wb_header_value_ok :: "string \<Rightarrow> bool"
  wb_hour_minute :: "datetime \<Rightarrow> string"

record ('os, 'j) server =
  sv_api :: "('os, 'j) api"
  sv_web :: "('os, 'j) web_lib"

abbreviation sv_app :: "('os, 'j) server \<Rightarrow> ('os, 'j) app_state" where
  "sv_app S \<equiv> api_app (sv_api S)"

abbreviation sv_repos :: "('os, 'j) server \<Rightarrow> 'os db_env" where
  "sv_repos S \<equiv> app_repos (sv_app S)"

definition sv_net :: "('os, 'j) server \<Rightarrow> net_lib" where
  "sv_net S = de_net (sv_repos S)"

text \<open>An operation on the world, run by a handler.\<close>

definition in_world :: "('os world, 'e, 'a) io \<Rightarrow> ('os visit, 'e, 'a) io" where
  "in_world m = (\<lambda>(w, s). case m w of (r, w') \<Rightarrow> (r, (w', s)))"

definition session_guard :: "('os, 'j) server \<Rightarrow> ('os visit, string, unit) io" where
  "session_guard S = io_bind (in_world (on_os (wb_session_fault (sv_web S)))) (\<lambda>f.
     case f of None \<Rightarrow> io_ret () | Some e \<Rightarrow> io_fail e)"

definition session_insert ::
    "('os, 'j) server \<Rightarrow> string \<Rightarrow> session_value \<Rightarrow> ('os visit, string, unit) io" where
  "session_insert S k v =
     io_bind (session_guard S) (\<lambda>_. \<lambda>(w, s). (Inr (), (w, s(k \<mapsto> v))))"

definition decode_value ::
    "('os, 'j) server \<Rightarrow> (session_value \<Rightarrow> 'a option) \<Rightarrow> session_value option \<Rightarrow> string + 'a option" where
  "decode_value S get v = (case v of
     None \<Rightarrow> Inr None
   | Some x \<Rightarrow> (case get x of None \<Rightarrow> Inl (wb_decode_error (sv_web S)) | Some y \<Rightarrow> Inr (Some y)))"

definition session_get ::
    "('os, 'j) server \<Rightarrow> string \<Rightarrow> (session_value \<Rightarrow> 'a option) \<Rightarrow> ('os visit, string, 'a option) io" where
  "session_get S k get =
     io_bind (session_guard S) (\<lambda>_. \<lambda>(w, s). (decode_value S get (s k), (w, s)))"

definition session_remove ::
    "('os, 'j) server \<Rightarrow> string \<Rightarrow> (session_value \<Rightarrow> 'a option) \<Rightarrow> ('os visit, string, 'a option) io" where
  "session_remove S k get =
     io_bind (session_guard S) (\<lambda>_. \<lambda>(w, s). (decode_value S get (s k), (w, s(k := None))))"

definition FLASH_KEY :: string where
  "FLASH_KEY = ''_flash''"

definition set_flash :: "('os, 'j) server \<Rightarrow> flash_msg \<Rightarrow> ('os visit, 'e, unit) io" where
  "set_flash S f = io_ignore (session_insert S FLASH_KEY (Sv_Flash f)) (io_ret ())"

definition take_flash :: "('os, 'j) server \<Rightarrow> ('os visit, 'e, flash_msg option) io" where
  "take_flash S = io_try (session_get S FLASH_KEY as_flash) (\<lambda>r.
     let f = (case r of Inl _ \<Rightarrow> None | Inr f \<Rightarrow> f) in
     if f \<noteq> None then io_ignore (session_remove S FLASH_KEY as_flash) (io_ret f) else io_ret f)"

subsection \<open>Errors\<close>

datatype web_error =
    Web_Validation string | Web_Not_Found | Web_Forbidden | Web_Unauthorized
  | Web_Internal string | Web_Core core_error | Web_Panic

definition web_status :: "web_error \<Rightarrow> nat" where
  "web_status e = (case e of
     Web_Validation _ \<Rightarrow> 400 | Web_Not_Found \<Rightarrow> 404 | Web_Forbidden \<Rightarrow> 403
   | Web_Unauthorized \<Rightarrow> 401 | Web_Internal _ \<Rightarrow> 500 | Web_Panic \<Rightarrow> 500
   | Web_Core c \<Rightarrow> (case c of
       Not_Found _ \<Rightarrow> 404 | Conflict _ \<Rightarrow> 400 | Validation _ \<Rightarrow> 400 | Forbidden _ \<Rightarrow> 403
     | Unauthorized \<Rightarrow> 401 | Invalid_Credentials \<Rightarrow> 401 | Two_Factor_Required \<Rightarrow> 401
     | Two_Factor_Invalid \<Rightarrow> 401 | _ \<Rightarrow> 500))"

definition web_error_display :: "web_error \<Rightarrow> string" where
  "web_error_display e = (case e of
     Web_Validation m \<Rightarrow> ''validation: '' @ m | Web_Not_Found \<Rightarrow> ''not found''
   | Web_Forbidden \<Rightarrow> ''forbidden'' | Web_Unauthorized \<Rightarrow> ''unauthorized''
   | Web_Internal m \<Rightarrow> ''internal: '' @ m | Web_Core c \<Rightarrow> error_display c | Web_Panic \<Rightarrow> [])"

subsection \<open>Pages\<close>

record iface_form_state =
  if_name :: string
  if_listen_port :: string
  if_ipv4_cidr :: string
  if_ipv6_cidr :: string
  if_mtu :: string
  if_dns :: string
  if_gateway :: string
  if_on_up :: string
  if_on_down :: string
  if_public_key :: string
  if_private_key :: string

record gateway_option =
  go_name :: string
  go_up :: bool

record web_iface_row =
  wi_id :: string
  wi_name :: string
  wi_public_key_short :: string
  wi_listen_port :: u16
  wi_status :: string
  wi_peer_count :: nat

record peer_form_state =
  pf_name :: string
  pf_interface_id :: string
  pf_allowed_ips :: string
  pf_primary_dns :: string
  pf_secondary_dns :: string
  pf_nat :: bool
  pf_keepalive :: string
  pf_public_key :: string
  pf_private_key :: string

record peer_edit_form_state = peer_form_state +
  pf_enabled :: bool

record web_peer_row =
  wp_id :: string
  wp_name :: string
  wp_interface_name :: string
  wp_public_key_short :: string
  wp_allowed_ips :: string
  wp_enabled :: bool
  wp_has_private_key :: bool

record settings_form_state =
  sf_locale_default :: string
  sf_totp_issuer :: string
  sf_login_max_attempts :: string
  sf_login_lockout_secs :: string
  sf_session_timeout_hours :: string
  sf_endpoint :: string
  sf_traffic_poller_interval_secs :: string
  sf_traffic_enabled :: bool
  sf_backup_retention_days :: string
  sf_log_level :: string

record web_audit_row =
  wa_created_at :: string
  wa_actor :: string
  wa_actor_ip :: string
  wa_action :: string
  wa_resource :: string
  wa_metadata :: string

record iface_traffic =
  it_name :: string
  it_status :: string
  it_tx_h :: string
  it_rx_h :: string

record peer_traffic =
  pt_name :: string
  pt_iface :: string
  pt_tx_h :: string
  pt_rx_h :: string

record traffic_page =
  tp_interfaces :: "iface_traffic list"
  tp_peers :: "peer_traffic list"
  tp_total_tx_h :: string
  tp_total_rx_h :: string
  tp_has_data :: bool
  tp_labels :: "string list"
  tp_tx :: "u64 list"
  tp_rx :: "u64 list"
  tp_peer_labels :: "string list"
  tp_peer_totals :: "u64 list"

record dashboard_counts =
  dc_interfaces :: nat
  dc_peers :: nat
  dc_up_interfaces :: nat
  dc_host_ifaces :: nat
  dc_host_up :: nat

datatype web_page =
    Login_Page "string option" string
  | Setup_Page "string option"
  | Totp_Challenge_Page "string option"
  | Profile_Page auth_user "flash_msg option" bool
  | Totp_Setup_Page auth_user "flash_msg option" "string option" string string
  | Audit_Page auth_user "flash_msg option" "web_audit_row list"
  | Settings_Page auth_user "flash_msg option" "string option" settings_form_state settings_readonly
  | Dashboard_Page auth_user "flash_msg option" dashboard_counts traffic_page
  | System_Page auth_user "flash_msg option" "sys_interface list"
  | Interfaces_Page auth_user "flash_msg option" "web_iface_row list"
  | New_Interface_Page auth_user "flash_msg option" "string option" iface_form_state "gateway_option list"
  | Edit_Interface_Page auth_user "flash_msg option" "string option" string string string
      iface_form_state "gateway_option list" string
  | Peers_Page auth_user "flash_msg option" "web_peer_row list" bool
  | New_Peer_Page auth_user "flash_msg option" "string option" peer_form_state "(string \<times> string) list"
  | Edit_Peer_Page auth_user "flash_msg option" "string option" string peer_edit_form_state
      "(string \<times> string) list"
  | Peer_Created_Page auth_user string string string
  | Peer_Enabled_Fragment string bool

datatype web_reply =
    Redirect_To string | Page web_page | Error_Page nat string
  | Conf_File "string option" string | Svg_Image string | Plain_Text string
  | Json_Status nat string

text \<open>\<open>WebError::into_response\<close>.\<close>

definition web_error_reply :: "web_error \<Rightarrow> web_reply" where
  "web_error_reply e =
     (if e = Web_Unauthorized \<or> e = Web_Core Unauthorized then Redirect_To ''/login''
      else Error_Page (web_status e) (web_error_display e))"

subsection \<open>The caller\<close>

abbreviation web_core :: "('os world, core_error, 'a) io \<Rightarrow> ('os visit, web_error, 'a) io" where
  "web_core m \<equiv> in_world (io_map_err Web_Core m)"

definition SESSION_USER_KEY :: string where
  "SESSION_USER_KEY = ''auth_user''"

definition auth_user_store :: "('os, 'j) server \<Rightarrow> auth_user \<Rightarrow> ('os visit, web_error, unit) io" where
  "auth_user_store S u =
     io_map_err (\<lambda>e. Web_Internal (''session insert: '' @ e)) (session_insert S SESSION_USER_KEY (Sv_User u))"

definition auth_user_clear :: "('os, 'j) server \<Rightarrow> ('os visit, web_error, unit) io" where
  "auth_user_clear S =
     io_bind (io_map_err (\<lambda>e. Web_Internal (''session remove: '' @ e))
       (session_remove S SESSION_USER_KEY as_user)) (\<lambda>_. io_ret ())"

definition current_user :: "('os, 'j) server \<Rightarrow> ('os visit, web_error, auth_user) io" where
  "current_user S =
     io_bind (io_map_err (\<lambda>_. Web_Unauthorized) (session_guard S)) (\<lambda>_.
     io_some Web_Unauthorized (io_map_err (\<lambda>e. Web_Internal (''session get: '' @ e))
       (session_get S SESSION_USER_KEY as_user)))"

definition read_session_user :: "('os, 'j) server \<Rightarrow> ('os visit, 'e, auth_user option) io" where
  "read_session_user S = io_try (session_get S SESSION_USER_KEY as_user) (\<lambda>r.
     io_ret (case r of Inl _ \<Rightarrow> None | Inr u \<Rightarrow> u))"

definition web_require_mutate :: "auth_user \<Rightarrow> ('w, web_error, unit) io" where
  "web_require_mutate u = (if can_mutate (au_role u) then io_ret () else io_fail Web_Forbidden)"

definition web_parse_id :: "('os, 'j) server \<Rightarrow> string \<Rightarrow> web_error + 'k ident" where
  "web_parse_id S s = map_error (\<lambda>_. Web_Not_Found) (parse_id (sv_net S) s)"

subsection \<open>Audit\<close>

definition web_audit ::
    "('os, 'j) server \<Rightarrow> user_id option \<Rightarrow> string option \<Rightarrow> audit_action \<Rightarrow> string option \<Rightarrow>
     string option \<Rightarrow> 'j option \<Rightarrow> ('os visit, 'e, unit) io" where
  "web_audit S actor ip action rtype rid metadata =
     io_ignore (in_world (ar_record (sqlite_audit (sv_repos S) (app_json (sv_app S)))
       actor ip action rtype rid metadata)) (io_ret ())"

text \<open>\<open>json!({ .. })\<close>.\<close>

definition jobj :: "('os, 'j) server \<Rightarrow> (string \<times> 'j) list \<Rightarrow> 'j" where
  "jobj S = jm_object (wb_json (sv_web S))"

definition jstr :: "('os, 'j) server \<Rightarrow> string \<Rightarrow> 'j" where
  "jstr S = jm_string (wb_json (sv_web S))"

definition jnat :: "('os, 'j) server \<Rightarrow> nat \<Rightarrow> 'j" where
  "jnat S = jm_nat (wb_json (sv_web S))"

definition jbool :: "('os, 'j) server \<Rightarrow> bool \<Rightarrow> 'j" where
  "jbool S = jm_bool (wb_json (sv_web S))"

subsection \<open>What the handlers share\<close>

definition web_settings :: "('os visit, 'e, runtime_settings) io" where
  "web_settings = in_world settings_snapshot_now"

text \<open>\<open>&pk[..6]\<close> and \<open>&pk[pk.len() - 6..]\<close>: slices of the bytes that panic inside a character.\<close>

definition char_boundary :: "string \<Rightarrow> nat \<Rightarrow> bool" where
  "char_boundary s i \<longleftrightarrow> i = 0 \<or> i = length s \<or> (i < length s \<and> \<not> (128 \<le> code (s ! i) \<and> code (s ! i) < 192))"

definition short_pk :: "string \<Rightarrow> string option" where
  "short_pk pk =
     (if length pk > 12
      then if char_boundary pk 6 \<and> char_boundary pk (length pk - 6)
        then Some (take 6 pk @ ''...'' @ drop (length pk - 6) pk) else None
      else Some pk)"

definition web_blank_to_none :: "string \<Rightarrow> string option" where
  "web_blank_to_none s = (if trim s = [] then None else Some (trim s))"

definition parse_u16 :: "string \<Rightarrow> u16 option" where
  "parse_u16 s = map_option word_of_nat (parse_uint (2 ^ 16 - 1) s)"

text \<open>\<open>map_err\<close> of an option-valued helper.\<close>

definition io_opt :: "'e \<Rightarrow> 'a option \<Rightarrow> ('w, 'e, 'a) io" where
  "io_opt e v = (case v of None \<Rightarrow> io_fail e | Some x \<Rightarrow> io_ret x)"

text \<open>A loop that builds a list from the results of its body.\<close>

fun io_collect :: "'a list \<Rightarrow> ('a \<Rightarrow> ('w, 'e, 'b) io) \<Rightarrow> ('w, 'e, 'b list) io" where
  "io_collect [] body = io_ret []"
| "io_collect (x # xs) body = io_bind (body x) (\<lambda>y. io_bind (io_collect xs body) (\<lambda>ys. io_ret (y # ys)))"

text \<open>Unsealing a private key to show it: every failure is the empty string.\<close>

definition reveal :: "('os, 'j) server \<Rightarrow> u8 list \<Rightarrow> string" where
  "reveal S blob =
     unwrap_or [] (Option.bind
       (res_ok (unseal (os_crypto (app_crypto (sv_app S))) blob (app_seal_key (sv_app S)))) from_utf8)"

end
