(* ===== verification/Preserves.thy ===== *)
theory Preserves
  imports Triples Web
begin

section \<open>Invariants of worlds\<close>

text \<open>
  \<open>preserves I m\<close>: whatever the outcome of \<open>m\<close>, an invariant \<open>I\<close> of the world still holds after it.
  The rules follow the combinators of the prelude and of the web layer, so a handler preserves
  what every operation it calls preserves.
\<close>

named_theorems preserves_intros \<open>operations that preserve an invariant\<close>

definition preserves :: "('w \<Rightarrow> bool) \<Rightarrow> ('w, 'e, 'a) io \<Rightarrow> bool" where
  "preserves I m \<longleftrightarrow> (\<forall>w. I w \<longrightarrow> I (snd (m w)))"

lemma preservesD: "preserves I m \<Longrightarrow> I w \<Longrightarrow> I (snd (m w))"
  by (simp add: preserves_def)

lemma preservesD2: "preserves I m \<Longrightarrow> I w \<Longrightarrow> m w = (r, w') \<Longrightarrow> I w'"
  unfolding preserves_def by (metis snd_conv)

lemma preserves_keeps: "keeps I m \<Longrightarrow> preserves I m"
  by (simp add: preserves_def keeps_def)

lemma triple_preserves: "triple I m (\<lambda>_. I) (\<lambda>_. I) \<Longrightarrow> preserves I m"
  unfolding preserves_def triple_def by (fastforce split: prod.splits sum.splits)

lemma preserves_ret [preserves_intros]: "preserves I (io_ret x)"
  and preserves_fail [preserves_intros]: "preserves I (io_fail e)"
  and preserves_lift [preserves_intros]: "preserves I (io_lift r)"
  by (simp_all add: preserves_def)

lemma preserves_bind [preserves_intros]:
  "preserves I m \<Longrightarrow> (\<And>x. preserves I (k x)) \<Longrightarrow> preserves I (io_bind m k)"
  unfolding preserves_def io_bind_def by (fastforce split: prod.splits sum.splits)

lemma preserves_try [preserves_intros]:
  "preserves I m \<Longrightarrow> (\<And>r. preserves I (k r)) \<Longrightarrow> preserves I (io_try m k)"
  unfolding preserves_def io_try_apply by auto

lemma preserves_ignore [preserves_intros]:
  "preserves I m \<Longrightarrow> preserves I k \<Longrightarrow> preserves I (io_ignore m k)"
  unfolding preserves_def by auto

lemma preserves_map_err [preserves_intros]: "preserves I m \<Longrightarrow> preserves I (io_map_err g m)"
  unfolding preserves_def io_map_err_def by (fastforce split: prod.splits sum.splits)

lemma preserves_option [preserves_intros]:
  "preserves I m \<Longrightarrow> (\<And>x. preserves I (k x)) \<Longrightarrow> preserves I (case v of None \<Rightarrow> m | Some x \<Rightarrow> k x)"
  by (cases v) auto

lemma preserves_sum [preserves_intros]:
  "(\<And>e. preserves I (m e)) \<Longrightarrow> (\<And>x. preserves I (k x)) \<Longrightarrow>
   preserves I (case v of Inl e \<Rightarrow> m e | Inr x \<Rightarrow> k x)"
  by (cases v) auto

lemma preserves_prod [preserves_intros]:
  "(\<And>x y. preserves I (k x y)) \<Longrightarrow> preserves I (case p of (x, y) \<Rightarrow> k x y)"
  by (cases p) auto

lemma preserves_if [preserves_intros]:
  "preserves I m \<Longrightarrow> preserves I k \<Longrightarrow> preserves I (if b then m else k)"
  by simp

lemma preserves_core_error [preserves_intros]:
  assumes "\<And>s. preserves I (k1 s)" "\<And>s. preserves I (k2 s)" "\<And>s. preserves I (k3 s)"
    "\<And>s. preserves I (k4 s)" "preserves I k5" "preserves I k6" "preserves I k7" "preserves I k8"
    "\<And>s. preserves I (k9 s)" "\<And>s. preserves I (k10 s)" "\<And>s. preserves I (k11 s)"
    "\<And>s. preserves I (k12 s)" "\<And>s. preserves I (k13 s)"
  shows "preserves I (case_core_error k1 k2 k3 k4 k5 k6 k7 k8 k9 k10 k11 k12 k13 e)"
  by (cases e) (simp_all add: assms)

lemma preserves_some [preserves_intros]: "preserves I m \<Longrightarrow> preserves I (io_some e m)"
  unfolding io_some_def by (intro preserves_intros)

lemma preserves_io_map [preserves_intros]: "preserves I m \<Longrightarrow> preserves I (io_map f m)"
  unfolding io_map_def by (intro preserves_intros)

lemma preserves_opt [preserves_intros]: "preserves I (io_opt e v)"
  unfolding io_opt_def by (intro preserves_intros)

lemma preserves_collect [preserves_intros]:
  "(\<And>x. preserves I (body x)) \<Longrightarrow> preserves I (io_collect xs body)"
  by (induction xs) (auto intro: preserves_intros)

text \<open>An invariant of the database is preserved by a statement that maps databases with it to
  databases with it.\<close>

lemma preserves_exec:
  fixes E :: "'os db_env"
  assumes "\<And>d x d'. P d \<Longrightarrow> f d = Inr (x, d') \<Longrightarrow> P d'"
  shows "preserves (\<lambda>w. P (w_db w)) (db_exec E f)"
  unfolding preserves_def
proof (intro allI impI)
  fix w :: "'os world"
  assume w: "P (w_db w)"
  obtain r w' where m: "db_exec E f w = (r, w')" by (cases "db_exec E f w")
  show "P (w_db (snd (db_exec E f w)))"
  proof (cases r)
    case (Inl e)
    then show ?thesis using db_exec_err [of E f w e w'] w m by simp
  next
    case (Inr x)
    then show ?thesis using db_exec_ok [of E f w x w'] assms [OF w] m by auto
  qed
qed

subsection \<open>Handlers of the web layer\<close>

abbreviation on_world :: "('os world \<Rightarrow> bool) \<Rightarrow> 'os visit \<Rightarrow> bool" where
  "on_world I \<equiv> \<lambda>v. I (fst v)"

lemma preserves_in_world [preserves_intros]:
  "preserves I m \<Longrightarrow> preserves (on_world I) (in_world m)"
  unfolding preserves_def in_world_def by (fastforce split: prod.splits)

lemma session_keeps_world [preserves_intros]:
  "preserves (on_world I) (\<lambda>(w, s). (r w s, (w, f w s)))"
  by (simp add: preserves_def split: prod.splits)

lemma session_ops_preserve [preserves_intros]:
  assumes "os_blind I"
  shows "preserves (on_world I) (session_guard S)"
    and "preserves (on_world I) (session_insert S k v)"
    and "preserves (on_world I) (session_get S k get)"
    and "preserves (on_world I) (session_remove S k get)"
proof -
  show guard: "preserves (on_world I) (session_guard S)"
    unfolding session_guard_def by (intro preserves_intros preserves_keeps [OF on_os_keeps] assms)
  show "preserves (on_world I) (session_insert S k v)"
    "preserves (on_world I) (session_get S k get)"
    "preserves (on_world I) (session_remove S k get)"
    unfolding session_insert_def session_get_def session_remove_def
    by (intro preserves_intros guard)+
qed

lemma flash_preserves [preserves_intros]:
  assumes "os_blind I"
  shows "preserves (on_world I) (set_flash S f)" and "preserves (on_world I) (take_flash S)"
  unfolding set_flash_def take_flash_def Let_def by (intro preserves_intros assms)+

lemma caller_preserves [preserves_intros]:
  assumes "os_blind I"
  shows "preserves (on_world I) (auth_user_store S u)" and "preserves (on_world I) (auth_user_clear S)"
    and "preserves (on_world I) (current_user S)" and "preserves (on_world I) (read_session_user S)"
    and "preserves (on_world I) (web_require_mutate u)" and "preserves (on_world I) web_settings"
  unfolding auth_user_store_def auth_user_clear_def current_user_def read_session_user_def
    web_require_mutate_def web_settings_def settings_snapshot_now_def settings_snapshot_def
  by (intro preserves_intros assms; simp add: preserves_def)+

end
