(* ===== verification/App_Steps.thy ===== *)
theory App_Steps
  imports App_Contract Preserves
begin

section \<open>The services take lawful steps\<close>

text \<open>
  Every operation of the services, and the passes of the traffic poller and of the scheduler,
  change the stored configuration by lawful steps of the specification \<open>net_step\<close> only, whatever
  their inputs are and however the host behaves: each preserves \<open>net_stepping E n\<close>, which says
  that the stored configuration is decodable, well-formed and reachable from \<open>n\<close> by lawful
  steps. An operation that leaves the two tables of the configuration alone takes no step.
\<close>

abbreviation net_stepping :: "'os db_env \<Rightarrow> net \<Rightarrow> 'os world \<Rightarrow> bool" where
  "net_stepping E \<equiv> stepping (net_inv E) (net_view E)"

lemma net_stepping_blind: "os_blind (net_stepping E n)"
  by (simp add: os_blind_def stepping_def net_inv_def net_view_def)

lemma net_stepping_settings: "net_stepping E n (w\<lparr>w_settings := s\<rparr>) = net_stepping E n w"
  by (simp add: stepping_def net_inv_def net_view_def)

lemma tables_steps: "keeps (\<lambda>w. net_tables (w_db w)) m \<Longrightarrow> preserves (net_stepping E n) m"
  by (rule triple_preserves, rule triple_stepping, rule triple_conseq [OF frame_of_tables], assumption, assumption)
    (auto intro: holds_stepping)

lemma service_steps:
  assumes good: "net_good n"
  shows "preserves (net_stepping (app_repos A) n) (iface_create (interface_service A) ci)"
    and "preserves (net_stepping (app_repos A) n) (iface_update (interface_service A) i ui)"
    and "preserves (net_stepping (app_repos A) n) (iface_delete (interface_service A) i)"
    and "preserves (net_stepping (app_repos A) n) (iface_start (interface_service A) i)"
    and "preserves (net_stepping (app_repos A) n) (iface_stop (interface_service A) i)"
    and "preserves (net_stepping (app_repos A) n) (peer_update (peer_service A) k up)"
    and "preserves (net_stepping (app_repos A) n) (peer_set_enabled (peer_service A) k on)"
    and "preserves (net_stepping (app_repos A) n) (peer_delete (peer_service A) k)"
    and "preserves (net_stepping (app_repos A) n) (poll_once (app_poller A))"
    and "preserves (net_stepping (app_repos A) n) (schedule_once (app_scheduler A L))"
  by (rule triple_preserves, rule app_ifaces.create_steps app_ifaces.update_steps
      app_ifaces.delete_steps app_ifaces.start_steps app_ifaces.stop_steps app_peers.update_steps
      app_peers.set_enabled_steps [OF good] app_peers.delete_steps
      app_poll.poll_once_steps [OF good] app_sched.schedule_steps [OF good])+

lemma create_peer_steps:
  assumes "alloc_laws (de_net (app_env A))"
  shows "preserves (net_stepping (app_repos A) n) (create_with_server_keypair (peer_service A) cp)"
  by (rule triple_preserves, rule app_peers.create_steps) (simp add: peer_service_def assms)

end
