(* ===== verification/Accounts.thy ===== *)
theory Accounts
  imports Api Sqlite_Contract Preserves
begin

section \<open>Accounts: the tables of users and API tokens\<close>

text \<open>
  \<open>acct_ok\<close> says that every user and token row decodes with its identifiers in canonical text
  form, that identifiers, user names and token hashes are unique and that every token has an
  owner. Every operation of the two repositories keeps it; on such tables a lookup returns
  exactly what is stored.
\<close>

definition user_row_ok :: "'os db_env \<Rightarrow> user_row \<Rightarrow> bool" where
  "user_row_ok E r \<longleftrightarrow> (\<exists>x. user_into_domain E r = Inr x \<and> uc_id r = show_id (de_net E) (u_id x))"

definition token_row_ok :: "'os db_env \<Rightarrow> token_row \<Rightarrow> bool" where
  "token_row_ok E r \<longleftrightarrow> (\<exists>t. token_into_domain E r = Inr t \<and>
     tc_id r = show_id (de_net E) (t_id t) \<and> tc_user_id r = show_id (de_net E) (t_user_id t))"

definition acct_ok :: "'os db_env \<Rightarrow> db \<Rightarrow> bool" where
  "acct_ok E d \<longleftrightarrow>
     (\<forall>r \<in> set (tb_users d). user_row_ok E r) \<and> (\<forall>r \<in> set (tb_tokens d). token_row_ok E r) \<and>
     distinct (map uc_id (tb_users d)) \<and> distinct (map uc_username (tb_users d)) \<and>
     distinct (map tc_id (tb_tokens d)) \<and> distinct (map tc_token_hash (tb_tokens d)) \<and>
     tc_user_id ` set (tb_tokens d) \<subseteq> uc_id ` set (tb_users d)"

definition users_of :: "'os db_env \<Rightarrow> db \<Rightarrow> user list" where
  "users_of E d = map (\<lambda>r. projr (user_into_domain E r)) (tb_users d)"

definition tokens_of :: "'os db_env \<Rightarrow> db \<Rightarrow> api_token list" where
  "tokens_of E d = map (\<lambda>r. projr (token_into_domain E r)) (tb_tokens d)"

subsection \<open>Rows and entities\<close>

lemma user_fields:
  "user_into_domain E r = Inr x \<Longrightarrow> u_username x = uc_username r \<and>
     parse_id (de_net E) (uc_id r) = Inr (u_id x) \<and> role_from_str (uc_role r) = Inr (u_role x)"
  by (auto simp: user_into_domain_def res_bind_ok_iff)

lemma token_fields:
  "token_into_domain E r = Inr t \<Longrightarrow> t_token_hash t = tc_token_hash r \<and>
     t_expires_at t = tc_expires_at r \<and> t_revoked_at t = tc_revoked_at r \<and>
     parse_id (de_net E) (tc_id r) = Inr (t_id t) \<and> parse_id (de_net E) (tc_user_id r) = Inr (t_user_id t)"
  by (auto simp: token_into_domain_def res_bind_ok_iff Let_def)

text \<open>Changing columns that the identifier and the role do not depend on.\<close>

lemma user_row_ok_cong:
  assumes "user_row_ok E r" and "uc_id r' = uc_id r" and "\<exists>ro. role_from_str (uc_role r') = Inr ro"
  shows "user_row_ok E r'"
  using assms by (auto simp: user_row_ok_def user_into_domain_def res_bind_ok_iff)

lemma token_row_ok_revoked: "token_row_ok E r \<Longrightarrow> token_row_ok E (r\<lparr>tc_revoked_at := v\<rparr>)"
  by (auto simp: token_row_ok_def token_into_domain_def res_bind_ok_iff Let_def)

lemma user_row_role: "user_row_ok E r \<Longrightarrow> \<exists>ro. role_from_str (uc_role r) = Inr ro"
  by (auto simp: user_row_ok_def user_into_domain_def res_bind_ok_iff)

lemma update_rows_map:
  assumes "\<And>r. g (f r) = g r"
  shows "map g (update_rows p f rows) = map g rows"
  by (simp add: update_rows_def assms)

lemma update_rows_image: "(\<And>r. g (f r) = g r) \<Longrightarrow> g ` set (update_rows p f rows) = g ` set rows"
  by (metis list.set_map update_rows_map)

lemma update_rows_set: "r \<in> set (update_rows p f rows) \<Longrightarrow> \<exists>q \<in> set rows. r = q \<or> (p q \<and> r = f q)"
  by (auto simp: update_rows_def split: if_splits)

subsection \<open>Every operation keeps the tables consistent\<close>

abbreviation keeps_acct :: "'os db_env \<Rightarrow> ('os world, 'e, 'a) io \<Rightarrow> bool" where
  "keeps_acct E \<equiv> preserves (\<lambda>w. acct_ok E (w_db w))"

lemma keeps_acct_db: "keeps w_db m \<Longrightarrow> keeps_acct E m"
  by (simp add: preserves_def keeps_def)

lemma keeps_acct_os: "keeps_acct E (on_os f)"
  by (rule keeps_acct_db) (intro keeps_intros)

lemma acct_insert_user:
  assumes ok: "acct_ok E d" and ins: "insert_user E r d = Inr (x, d')" and row: "user_row_ok E r"
  shows "acct_ok E d'"
proof -
  have "d' = d\<lparr>tb_users := tb_users d @ [r]\<rparr>" "uc_id r \<notin> uc_id ` set (tb_users d)"
    "uc_username r \<notin> uc_username ` set (tb_users d)"
    using ins by (auto simp: insert_user_def constraint_failed_def split: if_splits)
  then show ?thesis using ok row by (auto simp: acct_ok_def)
qed

lemma acct_update_user:
  assumes ok: "acct_ok E d"
    and f: "\<And>r. uc_id (f r) = uc_id r" "\<And>r. uc_username (f r) = uc_username r"
      "\<And>r. user_row_ok E r \<Longrightarrow> user_row_ok E (f r)"
  shows "acct_ok E (d\<lparr>tb_users := update_rows p f (tb_users d)\<rparr>)"
proof -
  have "user_row_ok E r" if "r \<in> set (update_rows p f (tb_users d))" for r
    using update_rows_set [OF that] ok f(3) by (auto simp: acct_ok_def)
  then show ?thesis
    using ok update_rows_map [of uc_id f] update_rows_map [of uc_username f] update_rows_image [of uc_id f] f
    by (simp add: acct_ok_def)
qed

lemma acct_delete_user:
  assumes ok: "acct_ok E d" and del: "delete_user_rows E key d = Inr (x, d')"
  shows "acct_ok E d'"
proof -
  have "tb_users d' = tb_users d \<and> tb_tokens d' = tb_tokens d \<or>
      tb_users d' = filter (\<lambda>r. uc_id r \<noteq> key) (tb_users d) \<and>
      tb_tokens d' = filter (\<lambda>r. tc_user_id r \<noteq> key) (tb_tokens d)"
    using del by (auto simp: delete_user_rows_def constraint_failed_def split: if_splits)
  moreover have "tc_user_id ` set (filter (\<lambda>r. tc_user_id r \<noteq> key) (tb_tokens d)) \<subseteq>
      uc_id ` set (filter (\<lambda>r. uc_id r \<noteq> key) (tb_users d))"
  proof
    fix k
    assume "k \<in> tc_user_id ` set (filter (\<lambda>r. tc_user_id r \<noteq> key) (tb_tokens d))"
    then have "k \<in> tc_user_id ` set (tb_tokens d)" and ne: "k \<noteq> key" by auto
    then have "k \<in> uc_id ` set (tb_users d)" using ok unfolding acct_ok_def by blast
    then show "k \<in> uc_id ` set (filter (\<lambda>r. uc_id r \<noteq> key) (tb_users d))" using ne by auto
  qed
  ultimately show ?thesis
    using ok by (elim disjE) (simp_all add: acct_ok_def distinct_map_filter)
qed

lemma acct_insert_token:
  assumes ok: "acct_ok E d" and ins: "insert_token E r d = Inr (x, d')" and row: "token_row_ok E r"
  shows "acct_ok E d'"
proof -
  have "d' = d\<lparr>tb_tokens := tb_tokens d @ [r]\<rparr>" "tc_id r \<notin> tc_id ` set (tb_tokens d)"
    "tc_token_hash r \<notin> tc_token_hash ` set (tb_tokens d)" "tc_user_id r \<in> uc_id ` set (tb_users d)"
    using ins by (auto simp: insert_token_def constraint_failed_def split: if_splits)
  then show ?thesis using ok row by (auto simp: acct_ok_def)
qed

lemma acct_revoke:
  assumes ok: "acct_ok E d"
  shows "acct_ok E (d\<lparr>tb_tokens := update_rows p (\<lambda>r. r\<lparr>tc_revoked_at := v\<rparr>) (tb_tokens d)\<rparr>)"
proof -
  let ?f = "\<lambda>r :: token_row. r\<lparr>tc_revoked_at := v\<rparr>"
  have "token_row_ok E r" if "r \<in> set (update_rows p ?f (tb_tokens d))" for r
    using update_rows_set [OF that] ok by (auto simp: acct_ok_def intro: token_row_ok_revoked)
  then show ?thesis
    using ok update_rows_map [of tc_id ?f] update_rows_map [of tc_token_hash ?f]
      update_rows_image [of tc_user_id ?f]
    by (simp add: acct_ok_def)
qed

lemma new_user_row_ok:
  assumes "uuid_text_law (de_net E)"
  shows "user_row_ok E \<lparr>uc_id = nl_show_uuid (de_net E) u, uc_username = n, uc_email = e,
     uc_password_hash = h, uc_role = role_as_str r, uc_totp_enabled = t, uc_totp_secret = s,
     uc_oidc_subject = oidc, uc_created_at = c, uc_updated_at = c', uc_last_login_at = l\<rparr>"
  using assms
  by (simp add: user_row_ok_def user_into_domain_def parse_id_def show_id_def uuid_text_law_def
      role_roundtrip)

lemma new_token_row_ok:
  assumes "uuid_text_law (de_net E)"
  shows "token_row_ok E \<lparr>tc_id = nl_show_uuid (de_net E) u, tc_user_id = show_id (de_net E) o', tc_name = n,
     tc_token_hash = h, tc_scopes = sc, tc_created_at = c, tc_expires_at = e, tc_revoked_at = v\<rparr>"
  using assms
  by (simp add: token_row_ok_def token_into_domain_def Let_def) (simp add: parse_id_def show_id_def uuid_text_law_def)

lemma users_create_acct: "uuid_text_law (de_net E) \<Longrightarrow> keeps_acct E (users_create E new)"
  unfolding users_create_def
  by (intro preserves_bind keeps_acct_os preserves_exec keeps_acct_db [OF keeps_ret])
    (rule acct_insert_user, assumption, assumption, rule new_user_row_ok)

lemma update_user_acct:
  assumes "\<And>r. uc_id (f r) = uc_id r" "\<And>r. uc_username (f r) = uc_username r"
    "\<And>r. user_row_ok E r \<Longrightarrow> user_row_ok E (f r)"
  shows "keeps_acct E (update_user E i f)"
  unfolding update_user_def
  by (rule preserves_exec) (use acct_update_user [OF _ assms] in auto)

lemma user_row_ok_same:
  "user_row_ok E r \<Longrightarrow> uc_id r' = uc_id r \<Longrightarrow> uc_role r' = uc_role r \<Longrightarrow> user_row_ok E r'"
  using user_row_ok_cong user_row_role by metis

lemma users_updates_acct:
  "keeps_acct E (users_update_password E i h)" "keeps_acct E (users_update_role E i ro)"
  "keeps_acct E (users_update_totp E i on s)" "keeps_acct E (users_touch_last_login E i)"
proof -
  show "keeps_acct E (users_update_password E i h)"
    unfolding users_update_password_def
    by (intro preserves_bind keeps_acct_os update_user_acct) (auto intro: user_row_ok_same)
  show "keeps_acct E (users_update_role E i ro)"
    unfolding users_update_role_def
    by (intro preserves_bind keeps_acct_os update_user_acct)
      (simp_all, erule user_row_ok_cong, simp_all add: role_roundtrip)
  show "keeps_acct E (users_update_totp E i on s)"
    unfolding users_update_totp_def
    by (intro preserves_bind keeps_acct_os update_user_acct) (auto intro: user_row_ok_same)
  show "keeps_acct E (users_touch_last_login E i)"
    unfolding users_touch_last_login_def
    by (intro preserves_bind keeps_acct_os update_user_acct) (auto intro: user_row_ok_same)
qed

lemma users_delete_acct: "keeps_acct E (users_delete E i)"
  unfolding users_delete_def by (intro preserves_exec) (rule acct_delete_user)

lemma tokens_create_acct: "uuid_text_law (de_net E) \<Longrightarrow> keeps_acct E (tokens_create E new)"
  unfolding tokens_create_def
  by (intro preserves_bind keeps_acct_os preserves_exec keeps_acct_db [OF keeps_ret])
    (rule acct_insert_token, assumption, assumption, rule new_token_row_ok)

lemma tokens_revoke_acct: "keeps_acct E (tokens_revoke E i owner)"
  unfolding tokens_revoke_def
  by (intro preserves_bind keeps_acct_os preserves_exec)
    (auto simp: acct_revoke intro: keeps_acct_db keeps_intros)

subsection \<open>Looking up accounts\<close>

text \<open>A database whose statements do not fail.\<close>

definition db_quiet :: "'os db_env \<Rightarrow> bool" where
  "db_quiet E \<longleftrightarrow> (\<forall>s. de_fault E s = (None, s))"

lemma db_query_quiet: "db_quiet E \<Longrightarrow> db_query E g w = (Inr (g (w_db w)), w)"
  by (simp add: db_query_def db_guard_def db_quiet_def io_bind_def on_os_def db_read_def)

lemma db_exec_quiet:
  "db_quiet E \<Longrightarrow> db_exec E f w = (case f (w_db w) of
     Inl e \<Rightarrow> (Inl (map_err e), w) | Inr (x, d) \<Rightarrow> (Inr x, w\<lparr>w_db := d\<rparr>))"
  by (simp add: db_exec_def db_guard_def db_quiet_def io_bind_def on_os_def db_write_def)

lemma fetch_optional_quiet:
  "db_quiet E \<Longrightarrow> fetch_optional E tb p into w = (opt_traverse into (find p (tb (w_db w))), w)"
  by (simp add: fetch_optional_def db_query_quiet io_bind_def)

lemma find_unique:
  assumes "distinct (map f xs)"
  shows "find (\<lambda>x. f x = k \<and> P x) xs = Some x \<longleftrightarrow> x \<in> set xs \<and> f x = k \<and> P x"
  using assms
proof (induction xs)
  case (Cons y ys)
  then show ?case by (cases "f y = k \<and> P y") (auto simp: image_iff)
qed simp

lemma token_row_okD:
  assumes "acct_ok E d" and "r \<in> set (tb_tokens d)"
  shows "token_into_domain E r = Inr (projr (token_into_domain E r))"
    and "tc_user_id r = show_id (de_net E) (t_user_id (projr (token_into_domain E r)))"
    and "tc_id r = show_id (de_net E) (t_id (projr (token_into_domain E r)))"
  using assms by (auto simp: acct_ok_def token_row_ok_def)

lemma user_row_okD:
  assumes "acct_ok E d" and "r \<in> set (tb_users d)"
  shows "user_into_domain E r = Inr (projr (user_into_domain E r))"
    and "uc_id r = show_id (de_net E) (u_id (projr (user_into_domain E r)))"
  using assms by (auto simp: acct_ok_def user_row_ok_def)

lemma tokens_of_hashes:
  assumes "acct_ok E d"
  shows "map t_token_hash (tokens_of E d) = map tc_token_hash (tb_tokens d)"
  unfolding tokens_of_def map_map
  by (rule map_cong [OF refl]) (use token_row_okD(1) [OF assms] token_fields in fastforce)

lemma tokens_of_distinct: "acct_ok E d \<Longrightarrow> distinct (map t_token_hash (tokens_of E d))"
  by (simp add: tokens_of_hashes) (simp add: acct_ok_def)

lemma users_of_distinct:
  assumes "acct_ok E d"
  shows "distinct (map u_id (users_of E d))"
proof -
  have "map (show_id (de_net E)) (map u_id (users_of E d)) = map uc_id (tb_users d)"
    unfolding users_of_def map_map comp_def
    by (rule map_cong [OF refl]) (use user_row_okD(2) [OF assms] in simp)
  then have "distinct (map (show_id (de_net E)) (map u_id (users_of E d)))"
    using assms by (simp only: acct_ok_def)
  then show ?thesis unfolding distinct_map [of "show_id (de_net E)"] by (rule conjunct1)
qed

lemma find_token:
  assumes "acct_ok E d"
  shows "opt_traverse (token_into_domain E)
      (find (\<lambda>r. tc_token_hash r = h \<and> tc_revoked_at r = None) (tb_tokens d)) =
    Inr (find (\<lambda>t. t_token_hash t = h \<and> t_revoked_at t = None) (tokens_of E d))"
  unfolding tokens_of_def
  by (rule find_decoded) (use token_row_okD(1) [OF assms] token_fields in fastforce)

lemma find_user:
  assumes "acct_ok E d" and "uuid_text_law (de_net E)"
  shows "opt_traverse (user_into_domain E) (find (\<lambda>r. uc_id r = show_id (de_net E) i) (tb_users d)) =
    Inr (find (\<lambda>u. u_id u = i) (users_of E d))"
  unfolding users_of_def
proof (rule find_decoded)
  fix r
  assume "r \<in> set (tb_users d)"
  from user_row_okD [OF assms(1) this]
  show "user_into_domain E r = Inr (projr (user_into_domain E r)) \<and>
      (uc_id r = show_id (de_net E) i \<longleftrightarrow> u_id (projr (user_into_domain E r)) = i)"
    using show_id_inj [OF assms(2)] by metis
qed

lemma token_owner:
  assumes "acct_ok E d" and "uuid_text_law (de_net E)" and "t \<in> set (tokens_of E d)"
  shows "\<exists>x \<in> set (users_of E d). u_id x = t_user_id t"
proof -
  obtain r where r: "r \<in> set (tb_tokens d)" "t = projr (token_into_domain E r)"
    using assms(3) by (auto simp: tokens_of_def)
  then obtain q where q: "q \<in> set (tb_users d)" "uc_id q = tc_user_id r"
    using assms(1) by (force simp: acct_ok_def)
  then have "u_id (projr (user_into_domain E q)) = t_user_id t"
    using token_row_okD(2) [OF assms(1) r(1)] user_row_okD(2) [OF assms(1) q(1)] r(2)
      show_id_inj [OF assms(2)] by metis
  then show ?thesis
    using q(1) by (auto simp: users_of_def)
qed

end
