(* ===== verification/Web_Auth.thy ===== *)
theory Web_Auth
  imports Web
begin

section \<open>Login, two-factor challenge, logout, first set-up and profile\<close>

text \<open>
  \<open>routes/auth.rs\<close> and \<open>routes/profile.rs\<close>. A handler gets the text of the client's address
  where the source reads it from the connection. The clock and the TOTP check step the host.
\<close>

definition os_totp :: "'os totp_lib \<Rightarrow> 'os world totp_lib" where
  "os_totp T = \<lparr>
     tl_generate_secret = os_step (tl_generate_secret T), tl_show_secret = tl_show_secret T,
     tl_to_bytes = tl_to_bytes T, tl_new_error = tl_new_error T, tl_get_url = tl_get_url T,
     tl_get_qr_png = tl_get_qr_png T,
     tl_check_current = (\<lambda>t c. on_os_res (tl_check_current T t c))\<rparr>"

abbreviation sv_totp :: "('os, 'j) server \<Rightarrow> 'os world totp_lib" where
  "sv_totp S \<equiv> os_totp (wb_totp (sv_web S))"

abbreviation sv_users :: "('os, 'j) server \<Rightarrow> 'os world user_repo" where
  "sv_users S \<equiv> sqlite_users (sv_repos S)"

abbreviation sv_bans :: "('os, 'j) server \<Rightarrow> 'os world ban_repo" where
  "sv_bans S \<equiv> sqlite_bans (sv_repos S)"

definition PENDING_USER_KEY :: string where
  "PENDING_USER_KEY = ''auth_pending_user_id''"

definition TOTP_PENDING_KEY :: string where
  "TOTP_PENDING_KEY = ''_totp_setup_secret''"

record login_form =
  lf_username :: string
  lf_password :: string

record setup_form =
  su_username :: string
  su_password :: string
  su_password_confirm :: string
  su_email :: "string option"

definition web_login_page :: "('os, 'j) server \<Rightarrow> ('os visit, web_error, web_reply) io" where
  "web_login_page S =
     io_bind (web_core (ur_count (sv_users S))) (\<lambda>n.
       if n = 0 then io_ret (Redirect_To ''/setup'') else io_ret (Page (Login_Page None [])))"

subsection \<open>Login\<close>

text \<open>The lockout check: whether an active ban is stored for the address.\<close>

definition web_banned :: "('os, 'j) server \<Rightarrow> string \<Rightarrow> ('os visit, web_error, bool) io" where
  "web_banned S client_ip =
     io_bind (web_core (br_find (sv_bans S) client_ip)) (\<lambda>ban.
       case ban of
         None \<Rightarrow> io_ret False
       | Some b \<Rightarrow> io_bind (in_world (on_os (de_now (sv_repos S)))) (\<lambda>now. io_ret (ban_is_active b now)))"

definition web_login_ok ::
    "('os, 'j) server \<Rightarrow> string \<Rightarrow> user \<Rightarrow> ('os visit, web_error, web_reply) io" where
  "web_login_ok S client_ip u =
     io_ignore (in_world (br_clear (sv_bans S) client_ip))
     (if u_totp_enabled u then
        io_ignore (session_insert S PENDING_USER_KEY (Sv_Pending
          \<lparr>pu_user_id = show_id (sv_net S) (u_id u), pu_username = u_username u\<rparr>))
        (io_ret (Page (Totp_Challenge_Page None)))
      else
        io_bind (web_core (ur_touch_last_login (sv_users S) (u_id u))) (\<lambda>_.
        io_bind (auth_user_store S (auth_user_of u)) (\<lambda>_.
        io_bind (web_audit S (Some (u_id u)) (Some client_ip) User_Login (Some ''user'')
          (Some (show_id (sv_net S) (u_id u))) None) (\<lambda>_.
        io_ret (Redirect_To ''/'')))))"

definition web_login_failed ::
    "('os, 'j) server \<Rightarrow> string \<Rightarrow> string \<Rightarrow> ('os visit, web_error, web_reply) io" where
  "web_login_failed S client_ip username =
     io_bind web_settings (\<lambda>s.
     io_ignore (in_world (br_record_failure (sv_bans S) client_ip (rs_login_max_attempts s)
       (rs_login_lockout_secs s)))
     (io_bind (web_audit S None (Some client_ip) User_Login_Failed None None
        (Some (jobj S [(''username'', jstr S username)]))) (\<lambda>_.
      io_ret (Page (Login_Page (Some ''Invalid username or password'') username)))))"

definition web_login_submit ::
    "('os, 'j) server \<Rightarrow> string \<Rightarrow> login_form \<Rightarrow> ('os visit, web_error, web_reply) io" where
  "web_login_submit S client_ip form =
     io_bind (web_banned S client_ip) (\<lambda>banned.
     if banned then
       io_bind (web_audit S None (Some client_ip) User_Login_Failed None None
         (Some (jobj S [(''reason'', jstr S ''ip_locked'')]))) (\<lambda>_.
       io_ret (Page (Login_Page (Some ''Too many failed attempts. Try again later.'') (lf_username form))))
     else
       io_try (in_world (authenticate_password (auth_service (sv_app S))
         (lf_username form) (lf_password form))) (\<lambda>r.
       case r of
         Inr u \<Rightarrow> web_login_ok S client_ip u
       | Inl Invalid_Credentials \<Rightarrow> web_login_failed S client_ip (lf_username form)
       | Inl e \<Rightarrow> io_fail (Web_Core e)))"

subsection \<open>The two-factor challenge\<close>

definition web_totp_session ::
    "('os, 'j) server \<Rightarrow> string \<Rightarrow> user \<Rightarrow> ('os visit, web_error, web_reply) io" where
  "web_totp_session S client_ip u =
     io_ignore (session_remove S PENDING_USER_KEY as_pending)
     (io_bind (web_core (ur_touch_last_login (sv_users S) (u_id u))) (\<lambda>_.
      io_bind (auth_user_store S (auth_user_of u)) (\<lambda>_.
      io_bind (web_audit S (Some (u_id u)) (Some client_ip) User_Login (Some ''user'')
        (Some (show_id (sv_net S) (u_id u))) (Some (jobj S [(''totp'', jbool S True)]))) (\<lambda>_.
      io_ret (Redirect_To ''/'')))))"

definition web_totp_check ::
    "('os, 'j) server \<Rightarrow> string \<Rightarrow> string \<Rightarrow> pending_user \<Rightarrow> ('os visit, web_error, web_reply) io" where
  "web_totp_check S client_ip given pending =
     io_bind (io_lift (map_error (\<lambda>_. Web_Unauthorized) (parse_id (sv_net S) (pu_user_id pending)))) (\<lambda>i.
     io_bind (io_some Web_Unauthorized (web_core (ur_find_by_id (sv_users S) i))) (\<lambda>u.
     io_bind (io_opt Web_Unauthorized (u_totp_secret u)) (\<lambda>blob.
     io_bind (io_lift (map_error Web_Core
       (unseal (os_crypto (app_crypto (sv_app S))) blob (app_seal_key (sv_app S))))) (\<lambda>bytes.
     io_bind (io_opt (Web_Internal (''totp utf8: '' @ app_utf8_error (sv_app S) bytes))
       (from_utf8 bytes)) (\<lambda>secret.
     io_bind web_settings (\<lambda>s.
     io_bind (in_world (verify_totp (sv_totp S) secret (trim given) (rs_totp_issuer s) (u_username u))) (\<lambda>good.
     if \<not> good then
       io_bind (web_audit S (Some (u_id u)) (Some client_ip) User_Login_Failed (Some ''user'')
         (Some (show_id (sv_net S) (u_id u))) (Some (jobj S [(''reason'', jstr S ''totp_invalid'')]))) (\<lambda>_.
       io_ret (Page (Totp_Challenge_Page (Some ''Invalid code''))))
     else web_totp_session S client_ip u)))))))"

definition web_totp_submit ::
    "('os, 'j) server \<Rightarrow> string \<Rightarrow> string \<Rightarrow> ('os visit, web_error, web_reply) io" where
  "web_totp_submit S client_ip given =
     io_try (session_get S PENDING_USER_KEY as_pending) (\<lambda>r.
     case r of
       Inr (Some p) \<Rightarrow> web_totp_check S client_ip given p
     | _ \<Rightarrow> io_ret (Redirect_To ''/login''))"

subsection \<open>Logout and first set-up\<close>

definition web_logout :: "('os, 'j) server \<Rightarrow> ('os visit, web_error, web_reply) io" where
  "web_logout S =
     io_bind (read_session_user S) (\<lambda>user.
     io_bind (case user of
         None \<Rightarrow> io_ret ()
       | Some u \<Rightarrow> web_audit S (Some (au_id u)) None User_Logout (Some ''user'')
           (Some (show_id (sv_net S) (au_id u))) None) (\<lambda>_.
     io_bind (auth_user_clear S) (\<lambda>_.
     io_ignore (session_remove S PENDING_USER_KEY as_pending) (io_ret (Redirect_To ''/login'')))))"

definition web_setup_page :: "('os, 'j) server \<Rightarrow> ('os visit, web_error, web_reply) io" where
  "web_setup_page S =
     io_bind (web_core (ur_count (sv_users S))) (\<lambda>n.
       if n > 0 then io_ret (Redirect_To ''/login'') else io_ret (Page (Setup_Page None)))"

definition web_setup_submit ::
    "('os, 'j) server \<Rightarrow> string \<Rightarrow> setup_form \<Rightarrow> ('os visit, web_error, web_reply) io" where
  "web_setup_submit S client_ip form =
     io_bind (web_core (ur_count (sv_users S))) (\<lambda>n.
     if n > 0 then io_ret (Redirect_To ''/login'')
     else if su_password form \<noteq> su_password_confirm form
       then io_ret (Page (Setup_Page (Some ''Passwords do not match'')))
     else if length (su_password form) < 12
       then io_ret (Page (Setup_Page (Some ''Password must be at least 12 characters'')))
     else
       io_bind (web_core (register_initial_admin (auth_service (sv_app S)) (su_username form)
         (su_password form) (su_email form))) (\<lambda>u.
       io_bind (auth_user_store S
         \<lparr>au_id = u_id u, au_username = u_username u, au_role = Admin\<rparr>) (\<lambda>_.
       io_bind (web_audit S (Some (u_id u)) (Some client_ip) User_Created (Some ''user'')
         (Some (show_id (sv_net S) (u_id u))) (Some (jobj S [(''bootstrap'', jbool S True)]))) (\<lambda>_.
       io_ret (Redirect_To ''/'')))))"

subsection \<open>Profile and two-factor set-up\<close>

definition web_profile :: "('os, 'j) server \<Rightarrow> auth_user \<Rightarrow> ('os visit, web_error, web_reply) io" where
  "web_profile S u =
     io_bind (io_some Web_Not_Found (web_core (ur_find_by_id (sv_users S) (au_id u)))) (\<lambda>db_user.
     io_bind (take_flash S) (\<lambda>flash.
     io_ret (Page (Profile_Page u flash (u_totp_enabled db_user)))))"

definition web_qr :: "('os, 'j) server \<Rightarrow> string \<Rightarrow> string \<Rightarrow> web_error + string" where
  "web_qr S label text =
     map_error (\<lambda>e. Web_Internal (label @ '': '' @ e)) (al_qr_svg (api_lib (sv_api S)) (bytes_of text))"

definition totp_uri :: "string \<Rightarrow> string \<Rightarrow> string \<Rightarrow> string" where
  "totp_uri issuer account secret =
     ''otpauth://totp/'' @ issuer @ '':'' @ account @ ''?secret='' @ secret @ ''&issuer='' @ issuer @
     ''&digits=6&period=30''"

definition web_totp_setup_page ::
    "('os, 'j) server \<Rightarrow> auth_user \<Rightarrow> ('os visit, web_error, web_reply) io" where
  "web_totp_setup_page S u =
     io_bind web_settings (\<lambda>s.
     io_bind (web_core (generate_totp_secret (sv_totp S) (rs_totp_issuer s) (au_username u))) (\<lambda>t.
     io_ignore (session_insert S TOTP_PENDING_KEY (Sv_Text (ts_base32 t)))
     (io_bind (io_lift (web_qr S ''qr'' (ts_uri t))) (\<lambda>svg.
      io_bind (take_flash S) (\<lambda>flash.
      io_ret (Page (Totp_Setup_Page u flash None (ts_base32 t) svg)))))))"

definition web_totp_enable ::
    "('os, 'j) server \<Rightarrow> auth_user \<Rightarrow> string \<Rightarrow> ('os visit, web_error, web_reply) io" where
  "web_totp_enable S u secret =
     io_bind (web_core (seal (os_crypto (app_crypto (sv_app S))) (bytes_of secret)
       (app_seal_key (sv_app S)))) (\<lambda>sealed.
     io_bind (web_core (ur_update_totp (sv_users S) (au_id u) True (Some sealed))) (\<lambda>_.
     io_ignore (session_remove S TOTP_PENDING_KEY as_text)
     (io_bind (set_flash S (flash_success ''Two-factor authentication enabled'')) (\<lambda>_.
      io_bind (web_audit S (Some (au_id u)) None Totp_Enabled (Some ''user'')
        (Some (show_id (sv_net S) (au_id u))) None) (\<lambda>_.
      io_ret (Redirect_To ''/profile''))))))"

definition web_totp_confirm ::
    "('os, 'j) server \<Rightarrow> auth_user \<Rightarrow> string \<Rightarrow> ('os visit, web_error, web_reply) io" where
  "web_totp_confirm S u given =
     io_try (session_get S TOTP_PENDING_KEY as_text) (\<lambda>r.
     case r of
       Inr (Some secret) \<Rightarrow>
         io_bind web_settings (\<lambda>s.
         io_bind (in_world (verify_totp (sv_totp S) secret (trim given) (rs_totp_issuer s)
           (au_username u))) (\<lambda>good.
         if good then web_totp_enable S u secret
         else io_bind (io_lift (web_qr S ''qr'' (totp_uri (rs_totp_issuer s) (au_username u) secret)))
           (\<lambda>svg. io_ret (Page (Totp_Setup_Page u None
              (Some ''Invalid code; check the time on your device and retry.'') secret svg)))))
     | _ \<Rightarrow> io_ret (Redirect_To ''/profile/2fa''))"

definition web_totp_disable :: "('os, 'j) server \<Rightarrow> auth_user \<Rightarrow> ('os visit, web_error, web_reply) io" where
  "web_totp_disable S u =
     io_bind (web_core (ur_update_totp (sv_users S) (au_id u) False None)) (\<lambda>_.
     io_bind (set_flash S (flash_success ''Two-factor authentication disabled'')) (\<lambda>_.
     io_bind (web_audit S (Some (au_id u)) None Totp_Disabled (Some ''user'')
       (Some (show_id (sv_net S) (au_id u))) None) (\<lambda>_.
     io_ret (Redirect_To ''/profile''))))"

end
