(* ===== verification/Web_Interfaces.thy ===== *)
theory Web_Interfaces
  imports Web
begin

section \<open>The interface pages\<close>

text \<open>
  \<open>routes/interfaces.rs\<close>: the list, the forms and the operations of interfaces. Every operation
  that changes something asks for a role that may mutate first; a form that does not parse, and
  an error of the service that is about the input, re-render the form.
\<close>

record iface_form =
  ff_name :: string
  ff_listen_port :: string
  ff_ipv4_cidr :: string
  ff_ipv6_cidr :: string
  ff_mtu :: string
  ff_dns :: string
  ff_gateway :: string
  ff_on_up :: string
  ff_on_down :: string
  ff_public_key :: string
  ff_private_key :: string

record parsed_iface_form =
  pi_listen_port :: u16
  pi_ipv4_cidr :: "ip_net option"
  pi_ipv6_cidr :: "ip_net option"
  pi_mtu :: "u16 option"
  pi_dns :: "string list"

abbreviation sv_ifaces :: "('os, 'j) server \<Rightarrow> 'os world iface_repo" where
  "sv_ifaces S \<equiv> sqlite_ifaces (sv_repos S)"

abbreviation sv_peers :: "('os, 'j) server \<Rightarrow> 'os world peer_repo" where
  "sv_peers S \<equiv> sqlite_peers (sv_repos S)"

abbreviation sv_sysnet :: "('os, 'j) server \<Rightarrow> 'os world sysnet_port" where
  "sv_sysnet S \<equiv> getifaddrs_port (app_sysnet (sv_app S))"

subsection \<open>Reading the form\<close>

definition parse_cidr_field :: "net_lib \<Rightarrow> string \<Rightarrow> string \<Rightarrow> string + ip_net option" where
  "parse_cidr_field L msg s =
     (let t = trim s in
      if t = [] then Inr None else map_error (\<lambda>_. msg) (map_sum id Some (nl_parse_net L t)))"

definition parse_port_field :: "string \<Rightarrow> string + u16" where
  "parse_port_field s = (case parse_u16 s of
     None \<Rightarrow> Inl ''Listen port must be 1-65535''
   | Some v \<Rightarrow> if v > 0 then Inr v else Inl ''Listen port must be 1-65535'')"

definition parse_mtu_field :: "string \<Rightarrow> string + u16 option" where
  "parse_mtu_field s =
     (let t = trim s in
      if t = [] then Inr None
      else (case parse_u16 t of None \<Rightarrow> Inl ''Invalid MTU'' | Some v \<Rightarrow> Inr (Some v)))"

definition parse_list_field :: "string \<Rightarrow> string list" where
  "parse_list_field s = filter (\<lambda>t. t \<noteq> []) (map trim (split_on (CHR '','') s))"

definition parse_iface_form :: "net_lib \<Rightarrow> iface_form \<Rightarrow> string + parsed_iface_form" where
  "parse_iface_form L f =
     res_bind (parse_port_field (ff_listen_port f)) (\<lambda>port.
     res_bind (parse_cidr_field L ''Invalid IPv4 CIDR'' (ff_ipv4_cidr f)) (\<lambda>v4.
     res_bind (parse_cidr_field L ''Invalid IPv6 CIDR'' (ff_ipv6_cidr f)) (\<lambda>v6.
     res_bind (parse_mtu_field (ff_mtu f)) (\<lambda>mtu.
     Inr \<lparr>pi_listen_port = port, pi_ipv4_cidr = v4, pi_ipv6_cidr = v6, pi_mtu = mtu,
          pi_dns = parse_list_field (ff_dns f)\<rparr>))))"

definition form_state :: "iface_form \<Rightarrow> iface_form_state" where
  "form_state f = \<lparr>
     if_name = ff_name f, if_listen_port = ff_listen_port f, if_ipv4_cidr = ff_ipv4_cidr f,
     if_ipv6_cidr = ff_ipv6_cidr f, if_mtu = ff_mtu f, if_dns = ff_dns f,
     if_gateway = ff_gateway f, if_on_up = ff_on_up f, if_on_down = ff_on_down f,
     if_public_key = ff_public_key f, if_private_key = ff_private_key f\<rparr>"

subsection \<open>Pages\<close>

definition gateways :: "('os, 'j) server \<Rightarrow> ('os visit, 'e, gateway_option list) io" where
  "gateways S = io_try (in_world (sn_list (sv_sysnet S))) (\<lambda>r.
     let found = (case r of Inl _ \<Rightarrow> [] | Inr xs \<Rightarrow> xs) in
     io_ret (map (\<lambda>i. \<lparr>go_name = s_name i, go_up = s_up i\<rparr>)
       (filter (\<lambda>i. s_name i \<noteq> ''lo'' \<and> \<not> starts_with ''wg'' (s_name i)) found)))"

definition generated_rules_for :: "iface \<Rightarrow> string" where
  "generated_rules_for i = (case i_gateway i of
     None \<Rightarrow> []
   | Some gw \<Rightarrow> if gw \<noteq> [] then render_nat_rules (i_name i) gw (i_ipv6_cidr i \<noteq> None) else [])"

definition form_error_new ::
    "('os, 'j) server \<Rightarrow> auth_user \<Rightarrow> iface_form \<Rightarrow> string \<Rightarrow> ('os visit, web_error, web_reply) io" where
  "form_error_new S u f msg =
     io_bind (gateways S) (\<lambda>gs. io_ret (Page (New_Interface_Page u None (Some msg) (form_state f) gs)))"

definition form_error_edit ::
    "('os, 'j) server \<Rightarrow> auth_user \<Rightarrow> iface \<Rightarrow> iface_form \<Rightarrow> string \<Rightarrow>
     ('os visit, web_error, web_reply) io" where
  "form_error_edit S u i f msg =
     io_bind (gateways S) (\<lambda>gs. io_ret (Page (Edit_Interface_Page u None (Some msg)
       (show_id (sv_net S) (i_id i)) (i_name i) (status_as_str (i_status i)) (form_state f) gs
       (generated_rules_for i))))"

definition web_ifaces_list :: "('os, 'j) server \<Rightarrow> auth_user \<Rightarrow> ('os visit, web_error, web_reply) io" where
  "web_ifaces_list S u =
     io_bind (web_core (ir_list (sv_ifaces S))) (\<lambda>is.
     io_bind (io_collect is (\<lambda>i.
       io_bind (web_core (pr_list_for_interface (sv_peers S) (i_id i))) (\<lambda>ps.
       io_bind (io_opt Web_Panic (short_pk (public_str (i_public_key i)))) (\<lambda>pk.
       io_ret \<lparr>wi_id = show_id (sv_net S) (i_id i), wi_name = i_name i, wi_public_key_short = pk,
               wi_listen_port = i_listen_port i, wi_status = status_as_str (i_status i),
               wi_peer_count = length ps\<rparr>)))) (\<lambda>rows.
     io_bind (take_flash S) (\<lambda>flash.
     io_ret (Page (Interfaces_Page u flash rows)))))"

definition web_ifaces_new_page ::
    "('os, 'j) server \<Rightarrow> auth_user \<Rightarrow> ('os visit, web_error, web_reply) io" where
  "web_ifaces_new_page S u =
     io_bind (take_flash S) (\<lambda>flash.
     io_try (in_world (iface_fresh_keypair (interface_service (sv_app S)))) (\<lambda>r.
     case (case r of Inl _ \<Rightarrow> ([], []) | Inr ks \<Rightarrow> ks) of (priv, pub) \<Rightarrow>
     io_bind (gateways S) (\<lambda>gs.
     io_ret (Page (New_Interface_Page u flash None
       \<lparr>if_name = [], if_listen_port = ''51820'', if_ipv4_cidr = ''10.7.0.1/24'', if_ipv6_cidr = [],
        if_mtu = ''1420'', if_dns = ''1.1.1.1, 1.0.0.1'', if_gateway = [], if_on_up = [],
        if_on_down = [], if_public_key = pub, if_private_key = priv\<rparr> gs)))))"

definition web_ifaces_edit_page ::
    "('os, 'j) server \<Rightarrow> auth_user \<Rightarrow> string \<Rightarrow> ('os visit, web_error, web_reply) io" where
  "web_ifaces_edit_page S u raw =
     io_bind (io_lift (web_parse_id S raw)) (\<lambda>k.
     io_bind (io_some Web_Not_Found (web_core (ir_find_by_id (sv_ifaces S) k))) (\<lambda>i.
     io_bind (take_flash S) (\<lambda>flash.
     let form = \<lparr>
        if_name = i_name i, if_listen_port = dec (unat (i_listen_port i)),
        if_ipv4_cidr = unwrap_or [] (map_option (nl_show_net (sv_net S)) (i_ipv4_cidr i)),
        if_ipv6_cidr = unwrap_or [] (map_option (nl_show_net (sv_net S)) (i_ipv6_cidr i)),
        if_mtu = unwrap_or [] (map_option (\<lambda>m. dec (unat m)) (i_mtu i)),
        if_dns = join '', '' (i_dns i), if_gateway = unwrap_or [] (i_gateway i),
        if_on_up = unwrap_or [] (i_on_up i), if_on_down = unwrap_or [] (i_on_down i),
        if_public_key = public_str (i_public_key i),
        if_private_key = reveal S (i_private_key_sealed i)\<rparr> in
     io_bind (gateways S) (\<lambda>gs.
     io_ret (Page (Edit_Interface_Page u flash None (show_id (sv_net S) (i_id i)) (i_name i)
       (status_as_str (i_status i)) form gs (generated_rules_for i)))))))"

subsection \<open>Operations\<close>

definition web_ifaces_create ::
    "('os, 'j) server \<Rightarrow> auth_user \<Rightarrow> iface_form \<Rightarrow> ('os visit, web_error, web_reply) io" where
  "web_ifaces_create S u f =
     io_bind (web_require_mutate u) (\<lambda>_.
     case parse_iface_form (sv_net S) f of
       Inl msg \<Rightarrow> form_error_new S u f msg
     | Inr p \<Rightarrow>
         io_try (in_world (iface_create (interface_service (sv_app S))
           \<lparr>ci_name = trim (ff_name f), ci_listen_port = pi_listen_port p, ci_endpoint = None,
            ci_gateway = web_blank_to_none (ff_gateway f), ci_ipv4_cidr = pi_ipv4_cidr p,
            ci_ipv6_cidr = pi_ipv6_cidr p, ci_mtu = pi_mtu p, ci_dns = pi_dns p,
            ci_on_up = web_blank_to_none (ff_on_up f), ci_on_down = web_blank_to_none (ff_on_down f),
            ci_private_key = trim (ff_private_key f)\<rparr>)) (\<lambda>r.
         case r of
           Inr i \<Rightarrow>
             io_bind (web_audit S (Some (au_id u)) None Interface_Created (Some ''interface'')
               (Some (show_id (sv_net S) (i_id i))) (Some (jobj S [(''name'', jstr S (i_name i))]))) (\<lambda>_.
             io_bind (set_flash S (flash_success (''Interface '' @ [CHR 0x27] @ i_name i @ [CHR 0x27] @ '' created'')))
               (\<lambda>_. io_ret (Redirect_To ''/interfaces'')))
         | Inl (Conflict msg) \<Rightarrow> form_error_new S u f msg
         | Inl (Validation msg) \<Rightarrow> form_error_new S u f msg
         | Inl e \<Rightarrow> io_fail (Web_Core e)))"

definition web_ifaces_edit ::
    "('os, 'j) server \<Rightarrow> auth_user \<Rightarrow> string \<Rightarrow> iface_form \<Rightarrow> ('os visit, web_error, web_reply) io" where
  "web_ifaces_edit S u raw f =
     io_bind (web_require_mutate u) (\<lambda>_.
     io_bind (io_lift (web_parse_id S raw)) (\<lambda>k.
     io_bind (io_some Web_Not_Found (web_core (ir_find_by_id (sv_ifaces S) k))) (\<lambda>i.
     case parse_iface_form (sv_net S) f of
       Inl msg \<Rightarrow> form_error_edit S u i f msg
     | Inr p \<Rightarrow>
         io_try (in_world (iface_update (interface_service (sv_app S)) k
           \<lparr>ui_listen_port = pi_listen_port p, ui_endpoint = None,
            ui_gateway = web_blank_to_none (ff_gateway f), ui_ipv4_cidr = pi_ipv4_cidr p,
            ui_ipv6_cidr = pi_ipv6_cidr p, ui_mtu = pi_mtu p, ui_dns = pi_dns p,
            ui_on_up = web_blank_to_none (ff_on_up f), ui_on_down = web_blank_to_none (ff_on_down f),
            ui_private_key = trim (ff_private_key f)\<rparr>)) (\<lambda>r.
         case r of
           Inr _ \<Rightarrow>
             io_bind (set_flash S (flash_success (''Interface '' @ [CHR 0x27] @ i_name i @ [CHR 0x27] @ '' updated'')))
               (\<lambda>_. io_ret (Redirect_To ''/interfaces''))
         | Inl (Validation msg) \<Rightarrow> form_error_edit S u i f msg
         | Inl e \<Rightarrow> io_fail (Web_Core e)))))"

definition web_ifaces_start ::
    "('os, 'j) server \<Rightarrow> auth_user \<Rightarrow> string \<Rightarrow> ('os visit, web_error, web_reply) io" where
  "web_ifaces_start S u raw =
     io_bind (web_require_mutate u) (\<lambda>_.
     io_bind (io_lift (web_parse_id S raw)) (\<lambda>k.
     io_bind (web_core (iface_start (interface_service (sv_app S)) k)) (\<lambda>i.
     io_bind (web_audit S (Some (au_id u)) None Interface_Started (Some ''interface'')
       (Some (show_id (sv_net S) (i_id i))) None) (\<lambda>_.
     io_bind (set_flash S (flash_success (''Interface '' @ [CHR 0x27] @ i_name i @ [CHR 0x27] @ '' is up''))) (\<lambda>_.
     io_ret (Redirect_To ''/interfaces''))))))"

definition web_ifaces_stop ::
    "('os, 'j) server \<Rightarrow> auth_user \<Rightarrow> string \<Rightarrow> ('os visit, web_error, web_reply) io" where
  "web_ifaces_stop S u raw =
     io_bind (web_require_mutate u) (\<lambda>_.
     io_bind (io_lift (web_parse_id S raw)) (\<lambda>k.
     io_bind (web_core (iface_stop (interface_service (sv_app S)) k)) (\<lambda>i.
     io_bind (web_audit S (Some (au_id u)) None Interface_Stopped (Some ''interface'')
       (Some (show_id (sv_net S) (i_id i))) None) (\<lambda>_.
     io_bind (set_flash S (flash_success (''Interface '' @ [CHR 0x27] @ i_name i @ [CHR 0x27] @ '' is down''))) (\<lambda>_.
     io_ret (Redirect_To ''/interfaces''))))))"

definition web_ifaces_delete ::
    "('os, 'j) server \<Rightarrow> auth_user \<Rightarrow> string \<Rightarrow> ('os visit, web_error, web_reply) io" where
  "web_ifaces_delete S u raw =
     io_bind (web_require_mutate u) (\<lambda>_.
     io_bind (io_lift (web_parse_id S raw)) (\<lambda>k.
     io_bind (web_core (iface_delete (interface_service (sv_app S)) k)) (\<lambda>_.
     io_bind (web_audit S (Some (au_id u)) None Interface_Deleted (Some ''interface'')
       (Some (show_id (sv_net S) k)) None) (\<lambda>_.
     io_bind (set_flash S (flash_success ''Interface deleted'')) (\<lambda>_.
     io_ret (Redirect_To ''/interfaces''))))))"

end
