(* ===== verification/Web_Peers.thy ===== *)
theory Web_Peers
  imports Web_Interfaces
begin

section \<open>The peer pages\<close>

text \<open>
  \<open>routes/peers.rs\<close>: the list, the forms, the operations and the downloads of peers. The DNS
  fields are checked with the parser of \<open>std::net::IpAddr\<close>, whose grammar is modelled here.
\<close>

subsection \<open>The grammar of IP addresses\<close>

text \<open>Each reader returns what is left of the input. A number has at most \<open>digits\<close> digits and a
  value of at most \<open>bound\<close>; \<open>zero\<close> says whether a leading zero is allowed.\<close>

definition digit_value :: "nat \<Rightarrow> char \<Rightarrow> nat option" where
  "digit_value radix c =
     (let v = (if is_digit c then code c - 48
               else if 97 \<le> code c \<and> code c \<le> 102 then code c - 87
               else if 65 \<le> code c \<and> code c \<le> 70 then code c - 55 else 99)
      in if v < radix then Some v else None)"

fun take_digits :: "nat \<Rightarrow> string \<Rightarrow> nat list \<times> string" where
  "take_digits radix [] = ([], [])"
| "take_digits radix (c # cs) =
     (case digit_value radix c of
        None \<Rightarrow> ([], c # cs)
      | Some v \<Rightarrow> (case take_digits radix cs of (vs, rest) \<Rightarrow> (v # vs, rest)))"

definition read_number :: "nat \<Rightarrow> nat \<Rightarrow> bool \<Rightarrow> nat \<Rightarrow> string \<Rightarrow> string option" where
  "read_number radix digits zero bound s =
     (case take_digits radix s of (vs, rest) \<Rightarrow>
        if vs = [] \<or> length vs > digits \<or> (\<not> zero \<and> hd vs = 0 \<and> length vs > 1) \<or>
           foldl (\<lambda>n v. n * radix + v) 0 vs > bound
        then None else Some rest)"

definition read_char :: "char \<Rightarrow> string \<Rightarrow> string option" where
  "read_char c s = (case s of [] \<Rightarrow> None | d # r \<Rightarrow> if c = d then Some r else None)"

definition read_octet :: "string \<Rightarrow> string option" where
  "read_octet = read_number 10 3 False 255"

definition read_ipv4 :: "string \<Rightarrow> string option" where
  "read_ipv4 s =
     Option.bind (read_octet s) (\<lambda>r1.
     Option.bind (Option.bind (read_char (CHR ''.'') r1) read_octet) (\<lambda>r2.
     Option.bind (Option.bind (read_char (CHR ''.'') r2) read_octet) (\<lambda>r3.
     Option.bind (read_char (CHR ''.'') r3) read_octet)))"

definition after_separator :: "nat \<Rightarrow> (string \<Rightarrow> string option) \<Rightarrow> string \<Rightarrow> string option" where
  "after_separator i inner s = (if i = 0 then inner s else Option.bind (read_char (CHR '':'') s) inner)"

text \<open>\<open>read_groups\<close>: reads groups \<open>i\<close>, \<open>i + 1\<close>, ... while there is room for \<open>limit\<close>; the result is how
  many groups were read, whether the last two were an IPv4 address, and the rest.\<close>

fun read_groups :: "nat \<Rightarrow> nat \<Rightarrow> nat \<Rightarrow> string \<Rightarrow> nat \<times> bool \<times> string" where
  "read_groups limit i 0 s = (limit, False, s)"
| "read_groups limit i (Suc room) s =
     (case (if i + 1 < limit then after_separator i read_ipv4 s else None) of
        Some r \<Rightarrow> (i + 2, True, r)
      | None \<Rightarrow>
          (case after_separator i (read_number 16 4 True 65535) s of
             None \<Rightarrow> (i, False, s)
           | Some r \<Rightarrow> read_groups limit (i + 1) room r))"

definition read_ipv6 :: "string \<Rightarrow> string option" where
  "read_ipv6 s =
     (case read_groups 8 0 8 s of (head_size, head_ipv4, r) \<Rightarrow>
        if head_size = 8 then Some r
        else if head_ipv4 then None
        else Option.bind (Option.bind (read_char (CHR '':'') r) (read_char (CHR '':''))) (\<lambda>r'.
          let limit = 8 - (head_size + 1) in
          case read_groups limit 0 limit r' of (tail_size, tail_ipv4, r'') \<Rightarrow> Some r''))"

definition is_ip_addr :: "string \<Rightarrow> bool" where
  "is_ip_addr s = ((case read_ipv4 s of Some r \<Rightarrow> Some r | None \<Rightarrow> read_ipv6 s) = Some [])"

subsection \<open>Reading the forms\<close>

record peer_form =
  pq_name :: string
  pq_interface_id :: string
  pq_allowed_ips :: string
  pq_primary_dns :: string
  pq_secondary_dns :: string
  pq_nat :: "string option"
  pq_keepalive :: string
  pq_public_key :: string
  pq_private_key :: string

record peer_edit_form = peer_form +
  pq_enabled :: "string option"

definition parse_allowed :: "net_lib \<Rightarrow> string \<Rightarrow> string + ip_net list option" where
  "parse_allowed L s =
     (if trim s = [] then Inr None
      else map_error (\<lambda>_. ''Invalid Allowed IPs'')
        (map_sum id Some (traverse (\<lambda>t. nl_parse_net L (trim t)) (split_on (CHR '','') s))))"

definition parse_keepalive :: "string \<Rightarrow> string + u16 option" where
  "parse_keepalive s =
     (let t = trim s in
      if t = [] then Inr None
      else (case parse_u16 t of None \<Rightarrow> Inl ''Invalid keepalive'' | Some v \<Rightarrow> Inr (Some v)))"

definition parse_dns :: "string \<Rightarrow> string + string option" where
  "parse_dns s =
     (let t = trim s in
      if t = [] then Inr None else if is_ip_addr t then Inr (Some t) else Inl ''Invalid DNS address'')"

text \<open>\<open>name.chars()\<close>: one result per character, which has one byte that does not continue it.\<close>

definition continuation :: "char \<Rightarrow> bool" where
  "continuation c \<longleftrightarrow> 128 \<le> code c \<and> code c < 192"

definition sanitize_filename :: "string \<Rightarrow> string" where
  "sanitize_filename name = map (\<lambda>c.
     if is_ascii_alphanumeric c \<or> c = CHR ''-'' \<or> c = CHR ''_'' then c else CHR ''_'')
     (filter (\<lambda>c. \<not> continuation c) name)"

subsection \<open>Pages\<close>

definition iface_options :: "('os, 'j) server \<Rightarrow> iface list \<Rightarrow> (string \<times> string) list" where
  "iface_options S is = map (\<lambda>i. (show_id (sv_net S) (i_id i), i_name i)) is"

definition form_error ::
    "('os, 'j) server \<Rightarrow> auth_user \<Rightarrow> peer_form \<Rightarrow> string \<Rightarrow> ('os visit, web_error, web_reply) io" where
  "form_error S u f msg = io_try (in_world (ir_list (sv_ifaces S))) (\<lambda>r.
     io_ret (Page (New_Peer_Page u None (Some msg)
       \<lparr>pf_name = pq_name f, pf_interface_id = pq_interface_id f, pf_allowed_ips = pq_allowed_ips f,
        pf_primary_dns = pq_primary_dns f, pf_secondary_dns = pq_secondary_dns f,
        pf_nat = (pq_nat f \<noteq> None), pf_keepalive = pq_keepalive f,
        pf_public_key = pq_public_key f, pf_private_key = pq_private_key f\<rparr>
       (iface_options S (case r of Inl _ \<Rightarrow> [] | Inr is \<Rightarrow> is)))))"

definition edit_form_error ::
    "('os, 'j) server \<Rightarrow> auth_user \<Rightarrow> peer_id \<Rightarrow> peer_edit_form \<Rightarrow> string \<Rightarrow>
     ('os visit, web_error, web_reply) io" where
  "edit_form_error S u k f msg =
     io_try (in_world (pr_find_by_id (sv_peers S) k)) (\<lambda>found.
     let peer = (case found of Inl _ \<Rightarrow> None | Inr p \<Rightarrow> p) in
     io_try (in_world (ir_list (sv_ifaces S))) (\<lambda>r.
     io_ret (Page (Edit_Peer_Page u None (Some msg)
       (unwrap_or (show_id (sv_net S) k) (map_option (\<lambda>p. show_id (sv_net S) (p_id p)) peer))
       \<lparr>pf_name = pq_name f, pf_interface_id = pq_interface_id f, pf_allowed_ips = pq_allowed_ips f,
        pf_primary_dns = pq_primary_dns f, pf_secondary_dns = pq_secondary_dns f,
        pf_nat = (pq_nat f \<noteq> None), pf_keepalive = pq_keepalive f,
        pf_public_key = pq_public_key f, pf_private_key = pq_private_key f,
        pf_enabled = (pq_enabled f = Some ''on'')\<rparr>
       (iface_options S (case r of Inl _ \<Rightarrow> [] | Inr is \<Rightarrow> is))))))"

definition show_nets :: "('os, 'j) server \<Rightarrow> ip_net list \<Rightarrow> string" where
  "show_nets S ns = join '', '' (map (nl_show_net (sv_net S)) ns)"

definition web_peers_list :: "('os, 'j) server \<Rightarrow> auth_user \<Rightarrow> ('os visit, web_error, web_reply) io" where
  "web_peers_list S u =
     io_bind (web_core (ir_list (sv_ifaces S))) (\<lambda>is.
     let names = map_of (rev (map (\<lambda>i. (i_id i, i_name i)) is)) in
     io_bind (web_core (pr_list_all (sv_peers S))) (\<lambda>ps.
     io_bind (io_collect ps (\<lambda>p.
       io_bind (io_opt Web_Panic (short_pk (public_str (p_public_key p)))) (\<lambda>pk.
       io_ret \<lparr>wp_id = show_id (sv_net S) (p_id p), wp_name = p_name p,
               wp_interface_name = unwrap_or ''(orphan)'' (names (p_interface_id p)),
               wp_public_key_short = pk, wp_allowed_ips = show_nets S (p_allowed_ips p),
               wp_enabled = p_enabled p, wp_has_private_key = (p_private_key_sealed p \<noteq> None)\<rparr>))) (\<lambda>rows.
     io_bind (take_flash S) (\<lambda>flash.
     io_ret (Page (Peers_Page u flash rows (is \<noteq> [])))))))"

definition web_peers_new_page ::
    "('os, 'j) server \<Rightarrow> auth_user \<Rightarrow> ('os visit, web_error, web_reply) io" where
  "web_peers_new_page S u =
     io_bind (web_core (ir_list (sv_ifaces S))) (\<lambda>is. case is of
       [] \<Rightarrow> io_ret (Redirect_To ''/interfaces/new'')
     | i # _ \<Rightarrow>
         io_bind (take_flash S) (\<lambda>flash.
         io_ret (Page (New_Peer_Page u flash None
           \<lparr>pf_name = [], pf_interface_id = show_id (sv_net S) (i_id i), pf_allowed_ips = [],
            pf_primary_dns = [], pf_secondary_dns = [], pf_nat = True, pf_keepalive = ''25'',
            pf_public_key = [], pf_private_key = []\<rparr> (iface_options S is)))))"

definition web_peers_edit_page ::
    "('os, 'j) server \<Rightarrow> auth_user \<Rightarrow> string \<Rightarrow> ('os visit, web_error, web_reply) io" where
  "web_peers_edit_page S u raw =
     io_bind (io_lift (web_parse_id S raw)) (\<lambda>k.
     io_bind (io_some Web_Not_Found (web_core (pr_find_by_id (sv_peers S) k))) (\<lambda>p.
     io_bind (web_core (ir_list (sv_ifaces S))) (\<lambda>is.
     io_bind (take_flash S) (\<lambda>flash.
     io_ret (Page (Edit_Peer_Page u flash None (show_id (sv_net S) (p_id p))
       \<lparr>pf_name = p_name p, pf_interface_id = show_id (sv_net S) (p_interface_id p),
        pf_allowed_ips = show_nets S (p_allowed_ips p),
        pf_primary_dns = unwrap_or [] (p_primary_dns p),
        pf_secondary_dns = unwrap_or [] (p_secondary_dns p), pf_nat = p_nat p,
        pf_keepalive = unwrap_or [] (map_option (\<lambda>m. dec (unat m)) (p_keepalive p)),
        pf_public_key = public_str (p_public_key p),
        pf_private_key = unwrap_or [] (map_option (reveal S) (p_private_key_sealed p)),
        pf_enabled = p_enabled p\<rparr> (iface_options S is)))))))"

subsection \<open>Operations\<close>

text \<open>The text of a peer's configuration as the pages show it.\<close>

definition web_peer_conf ::
    "('os, 'j) server \<Rightarrow> iface \<Rightarrow> peer \<Rightarrow> ('os visit, web_error, string) io" where
  "web_peer_conf S i p =
     io_bind web_settings (\<lambda>s.
     web_core (io_lift (render_peer_conf (os_crypto (app_crypto (sv_app S))) (sv_net S)
       (app_utf8_error (sv_app S)) i p (unwrap_or ''vpn.example.com'' (rs_endpoint s))
       (app_seal_key (sv_app S)))))"

definition parse_peer_fields ::
    "net_lib \<Rightarrow> string \<Rightarrow> string \<Rightarrow> string \<Rightarrow> string \<Rightarrow>
     string + (ip_net list option \<times> u16 option \<times> string option \<times> string option)" where
  "parse_peer_fields L allowed keepalive dns1 dns2 =
     res_bind (parse_allowed L allowed) (\<lambda>a.
     res_bind (parse_keepalive keepalive) (\<lambda>k.
     res_bind (parse_dns dns1) (\<lambda>d1.
     res_bind (parse_dns dns2) (\<lambda>d2. Inr (a, k, d1, d2)))))"

definition web_peer_created ::
    "('os, 'j) server \<Rightarrow> auth_user \<Rightarrow> peer \<Rightarrow> ('os visit, web_error, web_reply) io" where
  "web_peer_created S u p =
     io_bind (io_some Web_Not_Found (web_core (ir_find_by_id (sv_ifaces S) (p_interface_id p)))) (\<lambda>i.
     io_bind (web_peer_conf S i p) (\<lambda>conf.
     io_bind (web_audit S (Some (au_id u)) None Peer_Created (Some ''peer'')
       (Some (show_id (sv_net S) (p_id p)))
       (Some (jobj S [(''name'', jstr S (p_name p)),
                      (''interface_id'', jstr S (show_id (sv_net S) (p_interface_id p)))]))) (\<lambda>_.
     io_ret (Page (Peer_Created_Page u (show_id (sv_net S) (p_id p)) (p_name p) conf)))))"

definition web_peers_create ::
    "('os, 'j) server \<Rightarrow> auth_user \<Rightarrow> peer_form \<Rightarrow> ('os visit, web_error, web_reply) io" where
  "web_peers_create S u f =
     io_bind (web_require_mutate u) (\<lambda>_.
     case parse_id (sv_net S) (pq_interface_id f) of
       Inl _ \<Rightarrow> form_error S u f ''Invalid interface''
     | Inr iid \<Rightarrow>
         (case parse_peer_fields (sv_net S) (pq_allowed_ips f) (pq_keepalive f) (pq_primary_dns f)
                 (pq_secondary_dns f) of
            Inl msg \<Rightarrow> form_error S u f msg
          | Inr (allowed, keepalive, dns1, dns2) \<Rightarrow>
              io_try (in_world (create_with_server_keypair (peer_service (sv_app S))
                \<lparr>cp_interface_id = iid, cp_name = trim (pq_name f), cp_allowed_ips = allowed,
                 cp_primary_dns = dns1, cp_secondary_dns = dns2, cp_nat = (pq_nat f \<noteq> None),
                 cp_keepalive = keepalive, cp_owner = Some (au_id u),
                 cp_public_key = trim (pq_public_key f), cp_private_key = trim (pq_private_key f)\<rparr>)) (\<lambda>r.
              case r of
                Inr p \<Rightarrow> web_peer_created S u p
              | Inl (Validation msg) \<Rightarrow> form_error S u f msg
              | Inl (Conflict msg) \<Rightarrow> form_error S u f msg
              | Inl (Ip_Pool_Exhausted msg) \<Rightarrow> form_error S u f msg
              | Inl e \<Rightarrow> io_fail (Web_Core e))))"

text \<open>The edit form asks for at least one address; its interface field is read last.\<close>

definition parse_edit_fields ::
    "net_lib \<Rightarrow> peer_edit_form \<Rightarrow>
     string + (ip_net list \<times> u16 option \<times> string option \<times> string option \<times> interface_id)" where
  "parse_edit_fields L f =
     res_bind (case parse_allowed L (pq_allowed_ips f) of
         Inl msg \<Rightarrow> Inl msg
       | Inr None \<Rightarrow> Inl ''Allowed IPs required''
       | Inr (Some v) \<Rightarrow> if v \<noteq> [] then Inr v else Inl ''Allowed IPs required'') (\<lambda>a.
     res_bind (parse_keepalive (pq_keepalive f)) (\<lambda>k.
     res_bind (parse_dns (pq_primary_dns f)) (\<lambda>d1.
     res_bind (parse_dns (pq_secondary_dns f)) (\<lambda>d2.
     res_bind (map_error (\<lambda>_. ''Invalid interface'') (parse_id L (pq_interface_id f))) (\<lambda>iid.
     Inr (a, k, d1, d2, iid))))))"

definition web_peers_edit ::
    "('os, 'j) server \<Rightarrow> auth_user \<Rightarrow> string \<Rightarrow> peer_edit_form \<Rightarrow> ('os visit, web_error, web_reply) io" where
  "web_peers_edit S u raw f =
     io_bind (web_require_mutate u) (\<lambda>_.
     io_bind (io_lift (web_parse_id S raw)) (\<lambda>k.
     case parse_edit_fields (sv_net S) f of
       Inl msg \<Rightarrow> edit_form_error S u k f msg
     | Inr (allowed, keepalive, dns1, dns2, iid) \<Rightarrow>
         io_try (in_world (peer_update (peer_service (sv_app S)) k
           \<lparr>up_name = trim (pq_name f), up_interface_id = iid, up_allowed_ips = allowed,
            up_primary_dns = dns1, up_secondary_dns = dns2, up_nat = (pq_nat f \<noteq> None),
            up_keepalive = keepalive, up_enabled = (pq_enabled f = Some ''on''),
            up_public_key = trim (pq_public_key f), up_private_key = trim (pq_private_key f)\<rparr>)) (\<lambda>r.
         case r of
           Inr p \<Rightarrow>
             io_bind (set_flash S (flash_success (''Peer '' @ [CHR 0x27] @ p_name p @ [CHR 0x27] @ '' updated'')))
               (\<lambda>_. io_ret (Redirect_To ''/peers''))
         | Inl (Validation msg) \<Rightarrow> edit_form_error S u k f msg
         | Inl (Conflict msg) \<Rightarrow> edit_form_error S u k f msg
         | Inl e \<Rightarrow> io_fail (Web_Core e))))"

definition web_peers_toggle ::
    "('os, 'j) server \<Rightarrow> auth_user \<Rightarrow> string \<Rightarrow> ('os visit, web_error, web_reply) io" where
  "web_peers_toggle S u raw =
     io_bind (web_require_mutate u) (\<lambda>_.
     io_bind (io_lift (web_parse_id S raw)) (\<lambda>k.
     io_bind (io_some Web_Not_Found (web_core (pr_find_by_id (sv_peers S) k))) (\<lambda>p.
     io_bind (web_core (peer_set_enabled (peer_service (sv_app S)) k (\<not> p_enabled p))) (\<lambda>q.
     io_bind (web_audit S (Some (au_id u)) None (if p_enabled q then Peer_Enabled else Peer_Disabled)
       (Some ''peer'') (Some (show_id (sv_net S) (p_id q))) None) (\<lambda>_.
     io_ret (Page (Peer_Enabled_Fragment (show_id (sv_net S) (p_id q)) (p_enabled q))))))))"

definition web_peers_delete ::
    "('os, 'j) server \<Rightarrow> auth_user \<Rightarrow> string \<Rightarrow> ('os visit, web_error, web_reply) io" where
  "web_peers_delete S u raw =
     io_bind (web_require_mutate u) (\<lambda>_.
     io_bind (io_lift (web_parse_id S raw)) (\<lambda>k.
     io_bind (web_core (peer_delete (peer_service (sv_app S)) k)) (\<lambda>_.
     io_bind (web_audit S (Some (au_id u)) None Peer_Deleted (Some ''peer'')
       (Some (show_id (sv_net S) k)) None) (\<lambda>_.
     io_bind (set_flash S (flash_success ''Peer deleted'')) (\<lambda>_.
     io_ret (Redirect_To ''/peers''))))))"

subsection \<open>Downloads\<close>

definition web_peer_and_conf ::
    "('os, 'j) server \<Rightarrow> string \<Rightarrow> ('os visit, web_error, peer \<times> string) io" where
  "web_peer_and_conf S raw =
     io_bind (io_lift (web_parse_id S raw)) (\<lambda>k.
     io_bind (io_some Web_Not_Found (web_core (pr_find_by_id (sv_peers S) k))) (\<lambda>p.
     io_bind (io_some Web_Not_Found (web_core (ir_find_by_id (sv_ifaces S) (p_interface_id p)))) (\<lambda>i.
     io_bind (web_peer_conf S i p) (\<lambda>conf. io_ret (p, conf)))))"

definition web_peers_download ::
    "('os, 'j) server \<Rightarrow> string \<Rightarrow> ('os visit, web_error, web_reply) io" where
  "web_peers_download S raw =
     io_bind (web_peer_and_conf S raw) (\<lambda>(p, conf).
     let disposition = ''attachment; filename='' @ [DQ] @ sanitize_filename (p_name p) @ ''.conf'' @ [DQ] in
     io_ret (Conf_File
       (if wb_header_value_ok (sv_web S) disposition then Some disposition else None) conf))"

definition web_peers_qr :: "('os, 'j) server \<Rightarrow> string \<Rightarrow> ('os visit, web_error, web_reply) io" where
  "web_peers_qr S raw =
     io_bind (web_peer_and_conf S raw) (\<lambda>(p, conf).
     io_bind (io_lift (map_error (\<lambda>e. Web_Internal (''qr encode: '' @ e))
       (al_qr_svg (api_lib (sv_api S)) (bytes_of conf)))) (\<lambda>svg.
     io_ret (Svg_Image svg)))"

lemma read_groups_step:
  "0 < room \<Longrightarrow> read_groups limit i room s =
     (case (if i + 1 < limit then after_separator i read_ipv4 s else None) of
        Some r \<Rightarrow> (i + 2, True, r)
      | None \<Rightarrow>
          (case after_separator i (read_number 16 4 True 65535) s of
             None \<Rightarrow> (i, False, s)
           | Some r \<Rightarrow> read_groups limit (i + 1) (room - 1) r))"
  by (cases room; hypsubst; simp only: read_groups.simps diff_Suc_1)

lemmas ip_addr_defs = is_ip_addr_def read_ipv4_def read_ipv6_def read_octet_def read_number_def
  read_char_def digit_value_def is_digit_def code_def after_separator_def read_groups_step

lemma ip_addr_examples:
  "is_ip_addr ''1.1.1.1''" "is_ip_addr ''::1''" "is_ip_addr ''2606:4700::1111''"
  by (simp_all add: ip_addr_defs)

lemma ip_addr_counterexamples:
  "\<not> is_ip_addr ''1.1.1''" "\<not> is_ip_addr ''01.1.1.1''" "\<not> is_ip_addr ''256.1.1.1''"
  "\<not> is_ip_addr ''1::2::3''" "\<not> is_ip_addr []"
  by (simp_all add: ip_addr_defs)

end
