(* ===== verification/Web_System.thy ===== *)
theory Web_System
  imports Web_Peers
begin

section \<open>Settings, audit, metrics, dashboard and the other pages\<close>

text \<open>
  \<open>routes/settings.rs\<close>, \<open>routes/audit.rs\<close>, \<open>routes/metrics.rs\<close>, \<open>routes/dashboard.rs\<close>,
  \<open>routes/system.rs\<close>, \<open>routes/health.rs\<close> and the locale negotiation of \<open>i18n.rs\<close>. Sums of byte
  counts wrap at 64 bits, as a release build does. A floating point number is only met where a
  byte count is printed: \<open>f64_of_u64\<close> is the integer that the conversion rounds to, and divisions
  by 1024 are exact.
\<close>

subsection \<open>The settings form\<close>

definition LOCALES :: "string list" where
  "LOCALES = [''en'', ''tr'', ''es'', ''de'', ''fr'']"

definition LOG_LEVELS :: "string list" where
  "LOG_LEVELS = [''trace'', ''debug'', ''info'', ''warn'', ''error'']"

definition MASTER_KEY_MASK :: string where
  "MASTER_KEY_MASK = concat (replicate 16 [CHR 0xE2, CHR 0x80, CHR 0xA2])"

definition EN_DASH :: string where
  "EN_DASH = [CHR 0xE2, CHR 0x80, CHR 0x93]"

definition EM_DASH :: string where
  "EM_DASH = [CHR 0xE2, CHR 0x80, CHR 0x94]"

record settings_form =
  sg_locale_default :: string
  sg_totp_issuer :: string
  sg_login_max_attempts :: u32
  sg_login_lockout_secs :: u64
  sg_session_timeout_hours :: u32
  sg_endpoint :: string
  sg_traffic_poller_interval_secs :: u64
  sg_traffic_enabled :: bool
  sg_backup_retention_days :: u32
  sg_log_level :: string

definition form_from_settings :: "runtime_settings \<Rightarrow> settings_form_state" where
  "form_from_settings s = \<lparr>
     sf_locale_default = rs_locale_default s, sf_totp_issuer = rs_totp_issuer s,
     sf_login_max_attempts = dec (unat (rs_login_max_attempts s)),
     sf_login_lockout_secs = dec (unat (rs_login_lockout_secs s)),
     sf_session_timeout_hours = dec (unat (rs_session_timeout_hours s)),
     sf_endpoint = unwrap_or [] (rs_endpoint s),
     sf_traffic_poller_interval_secs = dec (unat (rs_traffic_poller_interval_secs s)),
     sf_traffic_enabled = rs_traffic_enabled s,
     sf_backup_retention_days = dec (unat (rs_backup_retention_days s)),
     sf_log_level = rs_log_level s\<rparr>"

definition form_from_submitted :: "settings_form \<Rightarrow> settings_form_state" where
  "form_from_submitted f = \<lparr>
     sf_locale_default = sg_locale_default f, sf_totp_issuer = sg_totp_issuer f,
     sf_login_max_attempts = dec (unat (sg_login_max_attempts f)),
     sf_login_lockout_secs = dec (unat (sg_login_lockout_secs f)),
     sf_session_timeout_hours = dec (unat (sg_session_timeout_hours f)),
     sf_endpoint = sg_endpoint f,
     sf_traffic_poller_interval_secs = dec (unat (sg_traffic_poller_interval_secs f)),
     sf_traffic_enabled = sg_traffic_enabled f,
     sf_backup_retention_days = dec (unat (sg_backup_retention_days f)),
     sf_log_level = sg_log_level f\<rparr>"

definition readonly_from_state :: "('os, 'j) server \<Rightarrow> settings_readonly" where
  "readonly_from_state S = \<lparr>
     so_database_path = wb_database_path (sv_web S), so_server_bind = wb_server_bind (sv_web S),
     so_session_secure = wb_session_secure (sv_web S), so_master_key_masked = MASTER_KEY_MASK\<rparr>"

definition web_settings_page ::
    "('os, 'j) server \<Rightarrow> auth_user \<Rightarrow> ('os visit, web_error, web_reply) io" where
  "web_settings_page S u =
     (if \<not> can_manage_settings (au_role u) then io_fail Web_Forbidden
      else io_bind web_settings (\<lambda>s.
        io_bind (take_flash S) (\<lambda>flash.
        io_ret (Page (Settings_Page u flash None (form_from_settings s) (readonly_from_state S))))))"

text \<open>The first failing check.\<close>

definition validate_settings :: "settings_form \<Rightarrow> string option" where
  "validate_settings f =
     (if sg_locale_default f \<notin> set LOCALES then Some (''Unsupported locale: '' @ sg_locale_default f)
      else if sg_log_level f \<notin> set LOG_LEVELS then Some (''Unsupported log level: '' @ sg_log_level f)
      else if trim (sg_totp_issuer f) = [] then Some ''TOTP issuer cannot be empty''
      else if \<not> (1 \<le> sg_login_max_attempts f \<and> sg_login_max_attempts f \<le> 50)
        then Some (''Login max attempts must be 1'' @ EN_DASH @ ''50'')
      else if \<not> (60 \<le> sg_login_lockout_secs f \<and> sg_login_lockout_secs f \<le> 86400)
        then Some (''Lockout must be 60'' @ EN_DASH @ ''86400 seconds'')
      else if \<not> (1 \<le> sg_session_timeout_hours f \<and> sg_session_timeout_hours f \<le> 168)
        then Some (''Session timeout must be 1'' @ EN_DASH @ ''168 hours'')
      else if \<not> (10 \<le> sg_traffic_poller_interval_secs f \<and> sg_traffic_poller_interval_secs f \<le> 3600)
        then Some (''Poller interval must be 10'' @ EN_DASH @ ''3600 seconds'')
      else if \<not> (1 \<le> sg_backup_retention_days f \<and> sg_backup_retention_days f \<le> 365)
        then Some (''Backup retention must be 1'' @ EN_DASH @ ''365 days'')
      else None)"

definition settings_entries :: "('os, 'j) server \<Rightarrow> settings_form \<Rightarrow> (string \<times> 'j) list" where
  "settings_entries S f =
     [(''locale_default'', jstr S (sg_locale_default f)),
      (''totp_issuer'', jstr S (trim (sg_totp_issuer f))),
      (''login_max_attempts'', jnat S (unat (sg_login_max_attempts f))),
      (''login_lockout_secs'', jnat S (unat (sg_login_lockout_secs f))),
      (''session_timeout_hours'', jnat S (unat (sg_session_timeout_hours f))),
      (''endpoint'', if trim (sg_endpoint f) = [] then jstr S [] else jstr S (trim (sg_endpoint f))),
      (''traffic_poller_interval_secs'', jnat S (unat (sg_traffic_poller_interval_secs f))),
      (''traffic_enabled'', jbool S (sg_traffic_enabled f)),
      (''backup_retention_days'', jnat S (unat (sg_backup_retention_days f))),
      (''log_level'', jstr S (sg_log_level f))]"

definition web_settings_save ::
    "('os, 'j) server \<Rightarrow> auth_user \<Rightarrow> settings_form \<Rightarrow> ('os visit, web_error, web_reply) io" where
  "web_settings_save S u f =
     (if \<not> can_manage_settings (au_role u) then io_fail Web_Forbidden
      else case validate_settings f of
        Some msg \<Rightarrow> io_ret (Page (Settings_Page u None (Some msg) (form_from_submitted f)
          (readonly_from_state S)))
      | None \<Rightarrow>
          io_bind (web_core (settings_set_many (sqlite_settings (sv_repos S)) world_settings_cell
            (js_show (app_json (sv_app S))) (settings_entries S f) (Some (au_id u)))) (\<lambda>_.
          io_ignore (in_world (on_os_res (wb_log_reload (sv_web S) (sg_log_level f))))
          (io_bind (web_audit S (Some (au_id u)) None Settings_Updated (Some ''settings'') None
            (Some (jobj S [(''login_max_attempts'', jnat S (unat (sg_login_max_attempts f))),
                           (''traffic_enabled'', jbool S (sg_traffic_enabled f)),
                           (''log_level'', jstr S (sg_log_level f)),
                           (''locale_default'', jstr S (sg_locale_default f))]))) (\<lambda>_.
           io_bind (set_flash S (flash_success
             (''Settings saved '' @ EM_DASH @ '' changes apply immediately.''))) (\<lambda>_.
           io_ret (Redirect_To ''/settings''))))))"

subsection \<open>The audit page\<close>

definition audit_row_of :: "('os, 'j) server \<Rightarrow> 'j audit_event \<Rightarrow> web_audit_row" where
  "audit_row_of S e = \<lparr>
     wa_created_at = al_rfc3339 (api_lib (sv_api S)) (ae_created_at e),
     wa_actor = unwrap_or EM_DASH (map_option (show_id (sv_net S)) (ae_actor_user_id e)),
     wa_actor_ip = unwrap_or [] (ae_actor_ip e), wa_action = action_as_str (ae_action e),
     wa_resource = (case (ae_resource_type e, ae_resource_id e) of
        (Some t, Some i) \<Rightarrow> t @ '':'' @ i | _ \<Rightarrow> EM_DASH),
     wa_metadata = unwrap_or [] (map_option (js_show (app_json (sv_app S))) (ae_metadata e))\<rparr>"

definition web_audit_page ::
    "('os, 'j) server \<Rightarrow> auth_user \<Rightarrow> ('os visit, web_error, web_reply) io" where
  "web_audit_page S u =
     (if \<not> can_read_audit (au_role u) then io_fail Web_Forbidden
      else io_bind (web_core (ar_list (sqlite_audit (sv_repos S) (app_json (sv_app S))) 200)) (\<lambda>events.
        io_bind (take_flash S) (\<lambda>flash.
        io_ret (Page (Audit_Page u flash (map (audit_row_of S) events))))))"

subsection \<open>Metrics and health\<close>

definition metric_lines :: "string \<Rightarrow> string \<Rightarrow> string \<Rightarrow> string \<Rightarrow> string" where
  "metric_lines name help kind sample =
     ''# HELP '' @ name @ '' '' @ help @ [NL] @ ''# TYPE '' @ name @ '' '' @ kind @ [NL] @ sample @ [NL]"

definition metrics_body :: "string \<Rightarrow> iface list \<Rightarrow> peer list \<Rightarrow> string" where
  "metrics_body version is ps =
     metric_lines ''wireforge_build_info'' ''Wireforge build information.'' ''gauge''
       (''wireforge_build_info{version='' @ [DQ] @ version @ [DQ] @ ''} 1'') @
     metric_lines ''wireforge_interfaces_total'' ''Number of configured WireGuard interfaces.'' ''gauge''
       (''wireforge_interfaces_total '' @ dec (length is)) @
     metric_lines ''wireforge_interfaces_up'' ''Number of interfaces currently up.'' ''gauge''
       (''wireforge_interfaces_up '' @ dec (length (filter (\<lambda>i. i_status i = Status_Up) is))) @
     metric_lines ''wireforge_peers_total'' ''Number of configured peers.'' ''gauge''
       (''wireforge_peers_total '' @ dec (length ps)) @
     metric_lines ''wireforge_peers_enabled'' ''Peers with enabled=true.'' ''gauge''
       (''wireforge_peers_enabled '' @ dec (length (filter p_enabled ps))) @
     metric_lines ''wireforge_bandwidth_used_bytes_total''
       ''Lifetime bandwidth consumed across all peers.'' ''counter''
       (''wireforge_bandwidth_used_bytes_total '' @ dec (unat (sum_list (map p_used ps))))"

definition web_metrics :: "('os, 'j) server \<Rightarrow> ('os visit, web_error, web_reply) io" where
  "web_metrics S =
     io_bind (web_core (ir_list (sv_ifaces S))) (\<lambda>is.
     io_bind (web_core (pr_list_all (sv_peers S))) (\<lambda>ps.
     io_ret (Plain_Text (metrics_body (wb_version (sv_web S)) is ps))))"

definition healthz :: "('os visit, web_error, web_reply) io" where
  "healthz = io_ret (Json_Status 200 ''ok'')"

definition readyz :: "('os, 'j) server \<Rightarrow> ('os visit, web_error, web_reply) io" where
  "readyz S = io_try (in_world (ur_count (sqlite_users (sv_repos S)))) (\<lambda>r.
     io_ret (case r of
       Inr _ \<Rightarrow> Json_Status 200 ''ready''
     | Inl e \<Rightarrow> Json_Status 503 (error_display e)))"

subsection \<open>Host interfaces\<close>

definition sys_snapshot :: "('os, 'j) server \<Rightarrow> ('os visit, 'e, sys_interface list) io" where
  "sys_snapshot S = io_try (in_world (sn_list (sv_sysnet S))) (\<lambda>r.
     io_ret (case r of Inl _ \<Rightarrow> [] | Inr xs \<Rightarrow> xs))"

definition web_system_page ::
    "('os, 'j) server \<Rightarrow> auth_user \<Rightarrow> ('os visit, web_error, web_reply) io" where
  "web_system_page S u =
     io_bind (sys_snapshot S) (\<lambda>xs.
     io_bind (take_flash S) (\<lambda>flash. io_ret (Page (System_Page u flash xs))))"

subsection \<open>The dashboard\<close>

fun extra_bits :: "nat \<Rightarrow> nat" where
  "extra_bits n = (if n < 2 ^ 53 then 0 else Suc (extra_bits (n div 2)))"

declare extra_bits.simps [simp del]

text \<open>\<open>n as f64\<close>: 53 significant bits, rounded to the nearest and on a tie to the even one.\<close>

definition round_div :: "nat \<Rightarrow> nat \<Rightarrow> nat" where
  "round_div n d =
     (let q = n div d; r = n mod d
      in if 2 * r > d \<or> (2 * r = d \<and> odd q) then q + 1 else q)"

definition f64_of_u64 :: "nat \<Rightarrow> nat" where
  "f64_of_u64 n = round_div n (2 ^ extra_bits n) * 2 ^ extra_bits n"

definition UNITS :: "string list" where
  "UNITS = [''B'', ''KiB'', ''MiB'', ''GiB'', ''TiB'', ''PiB'']"

text \<open>How often the value is divided by 1024: while it is at least 1024 and a unit is left.\<close>

function unit_index :: "nat \<Rightarrow> nat \<Rightarrow> nat" where
  "unit_index v idx =
     (if v \<ge> 1024 * 1024 ^ idx \<and> idx < length UNITS - 1 then unit_index v (idx + 1) else idx)"
  by pat_completeness auto

termination by (relation "measure (\<lambda>(v, idx). length UNITS - idx)") (auto simp: UNITS_def)

declare unit_index.simps [simp del]

definition human_bytes :: "u64 \<Rightarrow> string" where
  "human_bytes n =
     (if unat n < 1024 then dec (unat n) @ '' B''
      else
        let v = f64_of_u64 (unat n); idx = unit_index v 0; t = round_div (10 * v) (1024 ^ idx)
        in dec (t div 10) @ ''.'' @ dec (t mod 10) @ '' '' @ UNITS ! idx)"

text \<open>The entry of an interface, created at zero, grows by the peer's counters.\<close>

definition add_iface_traffic ::
    "(peer_id \<Rightarrow> (u64 \<times> u64) option) \<Rightarrow> peer \<Rightarrow> (interface_id \<times> u64 \<times> u64) list \<Rightarrow>
     (interface_id \<times> u64 \<times> u64) list" where
  "add_iface_traffic by_peer p totals =
     (case unwrap_or (0, 0) (by_peer (p_id p)) of (tx, rx) \<Rightarrow>
      case unwrap_or (0, 0) (map_of totals (p_interface_id p)) of (t, r) \<Rightarrow>
        hm_insert (p_interface_id p) (t + tx, r + rx) totals)"

definition rank_peers ::
    "(peer_id \<Rightarrow> (u64 \<times> u64) option) \<Rightarrow> (interface_id \<Rightarrow> string option) \<Rightarrow> peer list \<Rightarrow>
     (u64 \<times> peer_traffic) list" where
  "rank_peers by_peer names ps =
     take 5 (sort_key (\<lambda>x. - uint (fst x)) (List.map_filter (\<lambda>p.
       case unwrap_or (0, 0) (by_peer (p_id p)) of (tx, rx) \<Rightarrow>
         if tx + rx = 0 then None
         else Some (tx + rx,
           \<lparr>pt_name = p_name p, pt_iface = unwrap_or [] (names (p_interface_id p)),
            pt_tx_h = human_bytes tx, pt_rx_h = human_bytes rx\<rparr>)) ps))"

definition traffic_page_of ::
    "(datetime \<Rightarrow> string) \<Rightarrow> peer_traffic_row list \<Rightarrow> peer list \<Rightarrow> iface list \<Rightarrow>
     (datetime \<times> u64 \<times> u64) list \<Rightarrow> traffic_page" where
  "traffic_page_of hour_minute latest ps is series =
     (let by_peer = map_of (rev (map (\<lambda>r. (pt_peer_id r, (pt_tx r, pt_rx r))) latest));
          totals = fold (add_iface_traffic by_peer) ps [];
          names = map_of (rev (map (\<lambda>i. (i_id i, i_name i)) is));
          top = rank_peers by_peer names ps
      in \<lparr>tp_interfaces = map (\<lambda>i. case unwrap_or (0, 0) (map_of totals (i_id i)) of (tx, rx) \<Rightarrow>
             \<lparr>it_name = i_name i, it_status = status_as_str (i_status i),
              it_tx_h = human_bytes tx, it_rx_h = human_bytes rx\<rparr>) is,
          tp_peers = map snd top,
          tp_total_tx_h = human_bytes (sum_list (map (\<lambda>(_, t, _). t) totals)),
          tp_total_rx_h = human_bytes (sum_list (map (\<lambda>(_, _, r). r) totals)),
          tp_has_data = (latest \<noteq> [] \<or> series \<noteq> []),
          tp_labels = map (\<lambda>(t, _, _). hour_minute t) series,
          tp_tx = map (\<lambda>(_, tx, _). tx) series, tp_rx = map (\<lambda>(_, _, rx). rx) series,
          tp_peer_labels = map (\<lambda>(_, r). pt_name r) top, tp_peer_totals = map fst top\<rparr>)"

definition build_traffic_snapshot :: "('os, 'j) server \<Rightarrow> ('os visit, web_error, traffic_page) io" where
  "build_traffic_snapshot S =
     io_bind (web_core (tf_latest_per_peer (sqlite_traffic (sv_repos S)))) (\<lambda>latest.
     io_bind (web_core (pr_list_all (sv_peers S))) (\<lambda>ps.
     io_bind (web_core (ir_list (sv_ifaces S))) (\<lambda>is.
     io_bind (in_world (on_os (de_now (sv_repos S)))) (\<lambda>now.
     io_bind (web_core (tf_series_totals (sqlite_traffic (sv_repos S))
       (now - 24 * 3600 * 1000000000))) (\<lambda>series.
     io_ret (traffic_page_of (wb_hour_minute (sv_web S)) latest ps is series))))))"

definition web_dashboard :: "('os, 'j) server \<Rightarrow> auth_user \<Rightarrow> ('os visit, web_error, web_reply) io" where
  "web_dashboard S u =
     io_bind (web_core (ir_list (sv_ifaces S))) (\<lambda>is.
     io_bind (web_core (pr_list_all (sv_peers S))) (\<lambda>ps.
     io_bind (sys_snapshot S) (\<lambda>host.
     io_bind (build_traffic_snapshot S) (\<lambda>snapshot.
     io_bind (take_flash S) (\<lambda>flash.
     io_ret (Page (Dashboard_Page u flash
       \<lparr>dc_interfaces = length is, dc_peers = length ps,
        dc_up_interfaces = length (filter (\<lambda>i. i_status i = Status_Up) is),
        dc_host_ifaces = length host, dc_host_up = length (filter s_up host)\<rparr> snapshot)))))))"

subsection \<open>Locales\<close>

definition SUPPORTED_LOCALES :: "string list" where
  "SUPPORTED_LOCALES = [''en'', ''tr'']"

definition DEFAULT_LOCALE :: string where
  "DEFAULT_LOCALE = ''en''"

text \<open>The primary language of one entry of an \<open>Accept-Language\<close> header, if it has a tag.\<close>

definition primary_language :: "string \<Rightarrow> string option" where
  "primary_language part =
     (let tag = trim (hd (split_on (CHR '';'') part))
      in if tag = [] then None else Some (hd (split_on (CHR ''-'') tag)))"

fun first_supported :: "string list \<Rightarrow> string" where
  "first_supported [] = DEFAULT_LOCALE"
| "first_supported (part # parts) =
     (case primary_language part of
        None \<Rightarrow> first_supported parts
      | Some l \<Rightarrow> if l \<in> set SUPPORTED_LOCALES then l else first_supported parts)"

definition negotiate :: "string option \<Rightarrow> string" where
  "negotiate accept_language = (case accept_language of
     None \<Rightarrow> DEFAULT_LOCALE
   | Some header \<Rightarrow> first_supported (split_on (CHR '','') header))"

end
