(* ===== verification/Web_Router.thy ===== *)
theory Web_Router
  imports Web_Auth Web_System
begin

section \<open>The routes of the web interface\<close>

text \<open>
  \<open>routes/mod.rs\<close>: which handler serves a request, and which need a logged-in user (the extractor
  \<open>AuthUser\<close> of the handler's signature). An error becomes a reply (\<open>WebError::into_response\<close>).
  The event streams, the web socket and the static files change nothing and are left out.
\<close>

datatype web_request =
    Get_Healthz | Get_Readyz | Get_Login | Post_Login login_form | Post_Totp string | Post_Logout
  | Get_Setup | Post_Setup setup_form | Get_Metrics
  | Get_Dashboard | Get_Ifaces | Get_Ifaces_New | Post_Ifaces_New iface_form
  | Get_Ifaces_Edit string | Post_Ifaces_Edit string iface_form
  | Post_Ifaces_Start string | Post_Ifaces_Stop string | Post_Ifaces_Delete string
  | Get_System | Get_Peers | Get_Peers_New | Post_Peers_New peer_form
  | Get_Peers_Edit string | Post_Peers_Edit string peer_edit_form
  | Post_Peers_Toggle string | Post_Peers_Delete string | Get_Peers_Download string | Get_Peers_Qr string
  | Get_Profile | Get_Profile_Totp | Post_Profile_Totp string | Post_Totp_Disable
  | Get_Audit | Get_Settings | Post_Settings settings_form

text \<open>The routes of a logged-in user.\<close>

definition web_user_route ::
    "('os, 'j) server \<Rightarrow> auth_user \<Rightarrow> web_request \<Rightarrow> ('os visit, web_error, web_reply) io" where
  "web_user_route S u req = (case req of
     Get_Dashboard \<Rightarrow> web_dashboard S u
   | Get_Ifaces \<Rightarrow> web_ifaces_list S u
   | Get_Ifaces_New \<Rightarrow> web_ifaces_new_page S u
   | Post_Ifaces_New f \<Rightarrow> web_ifaces_create S u f
   | Get_Ifaces_Edit raw \<Rightarrow> web_ifaces_edit_page S u raw
   | Post_Ifaces_Edit raw f \<Rightarrow> web_ifaces_edit S u raw f
   | Post_Ifaces_Start raw \<Rightarrow> web_ifaces_start S u raw
   | Post_Ifaces_Stop raw \<Rightarrow> web_ifaces_stop S u raw
   | Post_Ifaces_Delete raw \<Rightarrow> web_ifaces_delete S u raw
   | Get_System \<Rightarrow> web_system_page S u
   | Get_Peers \<Rightarrow> web_peers_list S u
   | Get_Peers_New \<Rightarrow> web_peers_new_page S u
   | Post_Peers_New f \<Rightarrow> web_peers_create S u f
   | Get_Peers_Edit raw \<Rightarrow> web_peers_edit_page S u raw
   | Post_Peers_Edit raw f \<Rightarrow> web_peers_edit S u raw f
   | Post_Peers_Toggle raw \<Rightarrow> web_peers_toggle S u raw
   | Post_Peers_Delete raw \<Rightarrow> web_peers_delete S u raw
   | Get_Peers_Download raw \<Rightarrow> web_peers_download S raw
   | Get_Peers_Qr raw \<Rightarrow> web_peers_qr S raw
   | Get_Profile \<Rightarrow> web_profile S u
   | Get_Profile_Totp \<Rightarrow> web_totp_setup_page S u
   | Post_Profile_Totp given \<Rightarrow> web_totp_confirm S u given
   | Post_Totp_Disable \<Rightarrow> web_totp_disable S u
   | Get_Audit \<Rightarrow> web_audit_page S u
   | Get_Settings \<Rightarrow> web_settings_page S u
   | Post_Settings f \<Rightarrow> web_settings_save S u f
   | _ \<Rightarrow> io_fail Web_Not_Found)"

definition web_dispatch ::
    "('os, 'j) server \<Rightarrow> string \<Rightarrow> web_request \<Rightarrow> ('os visit, web_error, web_reply) io" where
  "web_dispatch S client_ip req = (case req of
     Get_Healthz \<Rightarrow> healthz
   | Get_Readyz \<Rightarrow> readyz S
   | Get_Login \<Rightarrow> web_login_page S
   | Post_Login f \<Rightarrow> web_login_submit S client_ip f
   | Post_Totp given \<Rightarrow> web_totp_submit S client_ip given
   | Post_Logout \<Rightarrow> web_logout S
   | Get_Setup \<Rightarrow> web_setup_page S
   | Post_Setup f \<Rightarrow> web_setup_submit S client_ip f
   | Get_Metrics \<Rightarrow> web_metrics S
   | _ \<Rightarrow> io_bind (current_user S) (\<lambda>u. web_user_route S u req))"

definition web_call ::
    "('os, 'j) server \<Rightarrow> string \<Rightarrow> web_request \<Rightarrow> ('os visit, web_error, web_reply) io" where
  "web_call S client_ip req = io_try (web_dispatch S client_ip req) (\<lambda>r.
     io_ret (case r of Inl e \<Rightarrow> web_error_reply e | Inr reply \<Rightarrow> reply))"

end
