(* ===== verification/Server_Steps.thy ===== *)
theory Server_Steps
  imports App_Steps Accounts Web_Router
begin

section \<open>The server preserves what its services preserve\<close>

text \<open>
  The interface between the request handlers and what they call. The locale \<open>reader_invariant\<close>
  says that an invariant of worlds does not look at the host and that the writes to users, bans
  and the audit trail preserve it; then every page, every login and every change of the own
  profile does. The locale \<open>server_invariant\<close> adds the live settings and every operation of the
  services and repositories the other handlers call; then every request to the REST API and to
  the web interface preserves it.
\<close>

lemma traffic_rows_keep [keeps_intros]: "os_blind f \<Longrightarrow> keeps f (traffic_rows_out E rs)"
  by (induction rs) (auto intro!: keeps_intros simp del: io_apply)

lemma reads_keep [keeps_intros]:
  assumes "os_blind f"
  shows "keeps f (ir_list (sqlite_ifaces E))" "keeps f (ir_find_by_id (sqlite_ifaces E) i)"
    "keeps f (pr_list_all (sqlite_peers E))" "keeps f (pr_find_by_id (sqlite_peers E) k)"
    "keeps f (pr_list_for_interface (sqlite_peers E) i)"
    "keeps f (tr_find_active_by_hash (sqlite_tokens E) h)"
    "keeps f (tr_list_for_user (sqlite_tokens E) u)"
    "keeps f (ur_find_by_id (sqlite_users E) u)" "keeps f (ur_find_by_username (sqlite_users E) s)"
    "keeps f (ur_count (sqlite_users E))" "keeps f (br_find (sqlite_bans E) ip)"
    "keeps f (ar_list (sqlite_audit E J) lim)" "keeps f (tf_latest_per_peer (sqlite_traffic E))"
    "keeps f (tf_series_totals (sqlite_traffic E) since)"
  unfolding sqlite_ifaces_def sqlite_peers_def sqlite_tokens_def sqlite_users_def sqlite_bans_def
    sqlite_audit_def sqlite_traffic_def iface_repo.simps peer_repo.simps token_repo.simps
    user_repo.simps ban_repo.simps audit_repo.simps traffic_repo.simps
    ifaces_list_def ifaces_find_by_id_def peers_list_all_def peers_find_by_id_def
    peers_list_for_interface_def tokens_find_active_by_hash_def tokens_list_for_user_def
    users_find_by_id_def users_find_by_username_def users_count_def bans_find_def audit_list_def
    traffic_latest_per_peer_def traffic_series_totals_def fetch_optional_def fetch_all_def
  by (intro keeps_intros assms)+

lemma crypto_keep [keeps_intros]:
  assumes "os_blind f"
  shows "keeps f (generate_api_token (os_crypto C))" "keeps f (hash_password (os_crypto C) pw)"
    "keeps f (generate_totp_secret (os_totp T) issuer account)"
    "keeps f (verify_totp (os_totp T) secret given issuer account)"
  unfolding generate_api_token_def hash_password_def generate_totp_secret_def verify_totp_def
    os_crypto_def os_totp_def crypto_lib.simps totp_lib.simps Let_def io_rand_os_step
  by (intro keeps_intros assms)+

lemma sysnet_keep: "os_blind f \<Longrightarrow> keeps f (sn_list (getifaddrs_port A))"
  unfolding getifaddrs_port_def sysnet_port.simps by (rule sysnet_list_keeps)

lemma token_expiry_keeps: "os_blind f \<Longrightarrow> keeps f (token_expiry A days)"
  unfolding token_expiry_def by (intro keeps_intros)

lemma authenticate_keeps: "os_blind f \<Longrightarrow> keeps f (authenticate_request A bearer)"
  unfolding authenticate_request_def Let_def by (intro keeps_intros)

lemma keypair_keeps: "os_blind f \<Longrightarrow> keeps f (iface_fresh_keypair (interface_service A))"
  unfolding iface_fresh_keypair_def interface_service_def iface_svc.simps defguard_port_def wg_port.simps
  by (intro keeps_intros adapter_keeps)

text \<open>The right a request of the web interface needs to change interfaces, peers or settings.\<close>

fun write_right :: "web_request \<Rightarrow> (role \<Rightarrow> bool) option" where
  "write_right (Post_Ifaces_New _) = Some can_mutate"
| "write_right (Post_Ifaces_Edit _ _) = Some can_mutate"
| "write_right (Post_Ifaces_Start _) = Some can_mutate"
| "write_right (Post_Ifaces_Stop _) = Some can_mutate"
| "write_right (Post_Ifaces_Delete _) = Some can_mutate"
| "write_right (Post_Peers_New _) = Some can_mutate"
| "write_right (Post_Peers_Edit _ _) = Some can_mutate"
| "write_right (Post_Peers_Toggle _) = Some can_mutate"
| "write_right (Post_Peers_Delete _) = Some can_mutate"
| "write_right (Post_Settings _) = Some can_manage_settings"
| "write_right _ = None"

locale reader_invariant =
  fixes S :: "('os, 'j) server" and I :: "'os world \<Rightarrow> bool"
  assumes blind: "os_blind I"
    and users_preserve:
      "preserves I (users_create (sv_repos S) new)"
      "preserves I (users_update_totp (sv_repos S) u b sec)"
      "preserves I (users_touch_last_login (sv_repos S) u)"
    and bans_preserve:
      "preserves I (bans_record_failure (sv_repos S) ip m l)"
      "preserves I (bans_clear (sv_repos S) ip)"
    and audit_preserve:
      "preserves I (audit_record (sv_repos S) (app_json (sv_app S)) who ip' action rt rid meta)"
begin

lemma core_ops:
  shows "preserves I (ur_create (sqlite_users (sv_repos S)) new)"
    and "preserves I (ur_update_totp (sqlite_users (sv_repos S)) u b sec)"
    and "preserves I (ur_touch_last_login (sqlite_users (sv_repos S)) u)"
    and "preserves I (br_record_failure (sqlite_bans (sv_repos S)) ip m l)"
    and "preserves I (br_clear (sqlite_bans (sv_repos S)) ip)"
    and "preserves I (ar_record (sqlite_audit (sv_repos S) (app_json (sv_app S))) who ip' action rt rid meta)"
  by (simp_all add: sqlite_users_def sqlite_bans_def sqlite_audit_def users_preserve bans_preserve
      audit_preserve)

lemma web_basics:
  shows "preserves (on_world I) (web_audit S who ip' action rt rid meta)"
    and "preserves (on_world I) (gateways S)"
    and "preserves (on_world I) (sys_snapshot S)"
    and "preserves (on_world I) (web_peer_conf S i p)"
  unfolding web_audit_def gateways_def sys_snapshot_def web_peer_conf_def Let_def
  by (intro preserves_intros core_ops blind preserves_keeps [OF sysnet_keep])+

lemma web_forms:
  shows "preserves (on_world I) (form_error_new S u f msg)"
    and "preserves (on_world I) (form_error_edit S u i f msg)"
    and "preserves (on_world I) (form_error S u pf msg)"
    and "preserves (on_world I) (edit_form_error S u k ef msg)"
  unfolding form_error_new_def form_error_edit_def form_error_def edit_form_error_def Let_def
  by (intro preserves_intros web_basics preserves_keeps [OF reads_keep(1)]
      preserves_keeps [OF reads_keep(4)] blind)+

lemmas read_ops = reads_keep [THEN preserves_keeps, OF blind]

lemma web_auth_pages:
  shows "preserves (on_world I) (web_login_page S)" and "preserves (on_world I) (web_logout S)"
    and "preserves (on_world I) (web_setup_page S)" and "preserves (on_world I) (web_profile S u)"
    and "preserves (on_world I) (web_totp_setup_page S u)"
    and "preserves (on_world I) (web_totp_disable S u)"
  unfolding web_login_page_def web_logout_def web_setup_page_def web_profile_def
    web_totp_setup_page_def web_totp_disable_def web_qr_def
  by (intro preserves_intros web_basics core_ops read_ops blind
      preserves_keeps [OF crypto_keep(3) [OF blind]])+

lemma os_preserves: "preserves I (on_os g)" "preserves I (on_os_res g')"
  by (intro preserves_keeps on_os_keeps on_os_res_keeps blind)+

lemma auth_service_preserves:
  "preserves I (authenticate_password (auth_service (sv_app S)) name pw)"
  "preserves I (register_initial_admin (auth_service (sv_app S)) name pw email)"
  unfolding authenticate_password_def register_initial_admin_def auth_service_def auth_svc.simps
  by (intro preserves_intros core_ops read_ops preserves_keeps [OF crypto_keep(2) [OF blind]])+

lemma web_login:
  shows "preserves (on_world I) (web_login_submit S ip form)"
    and "preserves (on_world I) (web_totp_submit S ip given)"
    and "preserves (on_world I) (web_setup_submit S ip setup)"
  unfolding web_login_submit_def web_banned_def web_login_ok_def web_login_failed_def
    web_totp_submit_def web_totp_check_def web_totp_session_def web_setup_submit_def
  by (intro preserves_intros web_basics core_ops read_ops blind os_preserves auth_service_preserves
      preserves_keeps [OF crypto_keep(4) [OF blind]])+

lemma web_totp_setup: "preserves (on_world I) (web_totp_confirm S u given)"
  unfolding web_totp_confirm_def web_totp_enable_def web_qr_def
  by (intro preserves_intros web_basics core_ops read_ops blind
      preserves_keeps [OF crypto_keep(4) [OF blind]] preserves_keeps [OF seal_keeps [OF blind]])

lemma web_iface_pages:
  shows "preserves (on_world I) (web_ifaces_list S u)" and "preserves (on_world I) (web_ifaces_new_page S u)"
    and "preserves (on_world I) (web_ifaces_edit_page S u raw)"
  unfolding web_ifaces_list_def web_ifaces_new_page_def web_ifaces_edit_page_def Let_def
  by (intro preserves_intros web_basics read_ops blind preserves_keeps [OF keypair_keeps [OF blind]])+

lemma web_peer_pages:
  shows "preserves (on_world I) (web_peers_list S u)"
    and "preserves (on_world I) (web_peers_edit_page S u raw)"
    and "preserves (on_world I) (web_peers_download S raw)"
    and "preserves (on_world I) (web_peers_qr S raw)"
  unfolding web_peers_list_def web_peers_edit_page_def web_peers_download_def
    web_peers_qr_def web_peer_and_conf_def Let_def
  by (intro preserves_intros web_basics read_ops blind)+

lemma web_peers_new_page_preserves: "preserves (on_world I) (web_peers_new_page S u)"
  unfolding web_peers_new_page_def
  by (intro preserves_bind preserves_intros read_ops blind, simp split: list.split)
    (intro conjI allI impI preserves_intros blind)

lemma web_system_pages:
  shows "preserves (on_world I) (web_settings_page S u)"
    and "preserves (on_world I) (web_audit_page S u)"
    and "preserves (on_world I) (web_metrics S)" and "preserves (on_world I) (readyz S)"
    and "preserves (on_world I) healthz" and "preserves (on_world I) (web_system_page S u)"
    and "preserves (on_world I) (web_dashboard S u)"
  unfolding web_settings_page_def web_audit_page_def web_metrics_def readyz_def healthz_def
    web_system_page_def web_dashboard_def build_traffic_snapshot_def
  by (intro preserves_intros web_basics read_ops blind os_preserves)+

lemmas web_pages = web_auth_pages web_totp_setup web_iface_pages web_peer_pages
  web_peers_new_page_preserves web_system_pages

text \<open>The requests that write nothing but users, bans and the audit trail.\<close>

lemma web_reader_preserves:
  assumes "write_right req = None"
  shows "preserves (on_world I) (web_call S ip req)"
proof -
  have "preserves (on_world I) (web_user_route S u req)" for u
    using assms unfolding web_user_route_def
    by (cases req; simp only: web_request.case write_right.simps option.distinct)
      (intro preserves_fail web_pages)+
  then have "preserves (on_world I) (web_dispatch S ip req)"
    unfolding web_dispatch_def
    by (cases req; simp only: web_request.case)
      (intro preserves_bind caller_preserves blind web_auth_pages web_login web_system_pages; assumption?)+
  then show ?thesis
    unfolding web_call_def by (intro preserves_intros)
qed

end

locale server_invariant = reader_invariant S I for S :: "('os, 'j) server" and I :: "'os world \<Rightarrow> bool" +
  assumes settings_blind: "I (w\<lparr>w_settings := x\<rparr>) = I w"
    and ifaces_preserve:
      "preserves I (iface_create (interface_service (sv_app S)) ci)"
      "preserves I (iface_update (interface_service (sv_app S)) i ui)"
      "preserves I (iface_delete (interface_service (sv_app S)) i)"
      "preserves I (iface_start (interface_service (sv_app S)) i)"
      "preserves I (iface_stop (interface_service (sv_app S)) i)"
    and peers_preserve:
      "preserves I (create_with_server_keypair (peer_service (sv_app S)) cp)"
      "preserves I (peer_update (peer_service (sv_app S)) k up)"
      "preserves I (peer_set_enabled (peer_service (sv_app S)) k on)"
      "preserves I (peer_delete (peer_service (sv_app S)) k)"
    and tokens_preserve:
      "preserves I (tokens_create (sv_repos S) nt)"
      "preserves I (tokens_revoke (sv_repos S) t u)"
    and settings_preserve: "preserves I (settings_upsert (sv_repos S) key v who)"
begin

lemma token_ops:
  shows "preserves I (tr_create (sqlite_tokens (sv_repos S)) nt)"
    and "preserves I (tr_revoke (sqlite_tokens (sv_repos S)) t u)"
  by (simp_all add: sqlite_tokens_def tokens_preserve)

lemma upsert_all_preserves:
  "preserves I (upsert_all (sqlite_settings (sv_repos S)) show_j who kvs acc)"
  by (induction kvs arbitrary: acc)
    (auto simp: sqlite_settings_def Let_def intro!: preserves_intros(2,4) settings_preserve preserves_ret)

lemma settings_ops:
  "preserves I (settings_set_many (sqlite_settings (sv_repos S)) world_settings_cell show_j kvs who)"
  unfolding settings_set_many_def
  by (intro preserves_bind upsert_all_preserves)
    (simp add: preserves_def cell_apply_def world_settings_cell_def settings_blind)

subsection \<open>The REST API\<close>

lemma api_check: "preserves I (check_valid v r)" "preserves I (require_mutate u)"
  unfolding check_valid_def require_mutate_def by (intro preserves_intros)+

lemma api_reads:
  "preserves I (api_ifaces_list (sv_api S))" "preserves I (api_ifaces_get_one (sv_api S) raw)"
  "preserves I (api_peers_list (sv_api S))" "preserves I (api_peers_get_one (sv_api S) raw)"
  "preserves I (api_peers_config (sv_api S) raw)" "preserves I (api_peers_qr (sv_api S) raw)"
  "preserves I (api_tokens_list (sv_api S) u)"
  unfolding api_ifaces_list_def api_ifaces_get_one_def api_peers_list_def api_peers_get_one_def
    api_peers_config_def api_peers_qr_def api_peer_conf_def api_tokens_list_def
    settings_snapshot_now_def settings_snapshot_def Let_def
  by (intro preserves_keeps keeps_intros blind; simp add: keeps_def)+

lemma api_call_preserves: "preserves I (api_call (sv_api S) bearer req)"
  unfolding api_call_def
proof (rule preserves_bind [OF preserves_keeps [OF authenticate_keeps [OF blind]]])
  fix u
  show "preserves I (api_dispatch (sv_api S) u req)"
    unfolding api_dispatch_def
    by (cases req; simp only: api_request.case)
      (unfold api_ifaces_create_def api_ifaces_update_def api_ifaces_delete_def
        api_ifaces_start_def api_ifaces_stop_def api_peers_create_def api_peers_update_def
        api_peers_set_enabled_def api_peers_delete_def api_tokens_create_def api_tokens_revoke_def,
        (intro preserves_ret preserves_fail preserves_lift preserves_bind preserves_map_err
          preserves_io_map preserves_prod api_check api_reads ifaces_preserve peers_preserve token_ops core_ops
          preserves_keeps [OF token_expiry_keeps [OF blind]] preserves_keeps [OF crypto_keep(1) [OF blind]])+)
qed

subsection \<open>The web interface\<close>

lemma web_iface_ops:
  shows "preserves (on_world I) (web_ifaces_create S u f)"
    and "preserves (on_world I) (web_ifaces_edit S u raw f)"
    and "preserves (on_world I) (web_ifaces_start S u raw)"
    and "preserves (on_world I) (web_ifaces_stop S u raw)"
    and "preserves (on_world I) (web_ifaces_delete S u raw)"
  unfolding web_ifaces_create_def web_ifaces_edit_def web_ifaces_start_def web_ifaces_stop_def
    web_ifaces_delete_def
  by (intro preserves_intros web_basics web_forms read_ops blind ifaces_preserve)+

lemma web_peer_ops:
  shows "preserves (on_world I) (web_peers_create S u pf)"
    and "preserves (on_world I) (web_peers_edit S u raw ef)"
    and "preserves (on_world I) (web_peers_toggle S u raw)"
    and "preserves (on_world I) (web_peers_delete S u raw)"
  unfolding web_peers_create_def web_peers_edit_def web_peers_toggle_def web_peers_delete_def
    web_peer_created_def
  by (intro preserves_intros web_basics web_forms read_ops blind peers_preserve)+

lemma web_settings_save_preserves: "preserves (on_world I) (web_settings_save S u sf)"
  unfolding web_settings_save_def
  by (intro preserves_intros web_basics read_ops blind os_preserves settings_ops)

lemma web_call_preserves: "preserves (on_world I) (web_call S ip req)"
proof -
  have "preserves (on_world I) (web_user_route S u req)" for u
    unfolding web_user_route_def
    by (cases req; simp only: web_request.case)
      (intro preserves_fail web_pages web_iface_ops web_peer_ops web_settings_save_preserves)+
  then have "preserves (on_world I) (web_dispatch S ip req)"
    unfolding web_dispatch_def
    by (cases req; simp only: web_request.case)
      (intro preserves_bind caller_preserves blind web_auth_pages web_login web_system_pages; assumption?)+
  then show ?thesis
    unfolding web_call_def by (intro preserves_intros)
qed

end

end
