(* ===== verification/Server_Run.thy ===== *)
theory Server_Run
  imports Server_Steps "HOL-Library.Sublist"
begin

section \<open>Runs of the server and what they preserve\<close>

text \<open>
  The server as a transition system on worlds: a request to the REST API or to the web interface
  (by any client, in any session), a pass of the traffic poller or of the scheduler, or the host
  moving on by itself. The locale \<open>server_invariant\<close> is interpreted four times: lawful steps of
  the network configuration, consistency of the accounts, the audit trail as a log that only
  grows, and the identity and privileges of every account.
\<close>

subsection \<open>The services leave the other tables alone\<close>

text \<open>The tables that only requests about users, tokens, settings and logins write.\<close>

definition side_tables :: "db \<Rightarrow> db" where
  "side_tables d = d\<lparr>tb_ifaces := [], tb_peers := [], tb_traffic := []\<rparr>"

abbreviation side_view :: "(db \<Rightarrow> 'b) \<Rightarrow> 'os world \<Rightarrow> 'b" where
  "side_view g \<equiv> \<lambda>w. g (side_tables (w_db w))"

lemma side_blind: "os_blind (side_view g)" "nat_blind (side_view g)"
  by (simp_all add: os_blind_def nat_blind_def)

lemma side_exec:
  "(\<And>d x d'. f d = Inr (x, d') \<Longrightarrow> side_tables d' = side_tables d) \<Longrightarrow> keeps (side_view g) (db_exec E f)"
  by (rule db_exec_keeps_part) fastforce

lemma side_network_writes:
  "keeps (side_view g) (ifaces_create E ni sealed)" "keeps (side_view g) (ifaces_update E i)"
  "keeps (side_view g) (ifaces_delete E ik)" "keeps (side_view g) (peers_create E np sealed')"
  "keeps (side_view g) (peers_update E p)" "keeps (side_view g) (peers_delete E pk)"
  "keeps (side_view g) (peers_record_bandwidth E pk bytes)"
  "keeps (side_view g) (traffic_snapshot E pk tx rx hs)"
  unfolding ifaces_create_def ifaces_update_def ifaces_delete_def peers_create_def peers_update_def
    peers_delete_def peers_record_bandwidth_def traffic_snapshot_def Let_def
  by (intro keeps_intros side_blind side_exec;
      auto simp: insert_iface_def insert_peer_def update_peer_rows_def insert_traffic_def
        drop_peers_def side_tables_def constraint_failed_def Let_def split: if_splits)+

lemma adapter_side:
  "keeps (side_view g) (adapter_derive_public_key W k)" "keeps (side_view g) (adapter_generate_keypair W)"
  "keeps (side_view g) (adapter_create_interface W i)" "keeps (side_view g) (adapter_interface_up W i ps)"
  "keeps (side_view g) (adapter_interface_down W i)" "keeps (side_view g) (adapter_delete_interface W i)"
  "keeps (side_view g) (adapter_apply_peer W i p)" "keeps (side_view g) (adapter_remove_peer W i key)"
  "keeps (side_view g) (adapter_peer_stats W i)"
  "keeps (side_view g) (adapter_nat_apply N i gw)" "keeps (side_view g) (adapter_nat_remove N i gw)"
  "keeps (side_view g) (adapter_run_hook N script)" "keeps (side_view g) (sysnet_list Y)"
  by (rule adapter_keeps nat_adapter_keeps sysnet_list_keeps; rule side_blind)+

lemmas repo_ports = sqlite_ifaces_def sqlite_peers_def sqlite_traffic_def iface_repo.simps
  peer_repo.simps traffic_repo.simps defguard_port_def wg_port.simps iptables_port_def nat_port.simps
  getifaddrs_port_def sysnet_port.simps

lemma side_repo_reads:
  "keeps (side_view g) (ifaces_list E)" "keeps (side_view g) (ifaces_find_by_id E i)"
  "keeps (side_view g) (ifaces_find_by_name E s)" "keeps (side_view g) (peers_list_all E)"
  "keeps (side_view g) (peers_find_by_id E k)" "keeps (side_view g) (peers_list_for_interface E i)"
  unfolding ifaces_list_def ifaces_find_by_id_def ifaces_find_by_name_def peers_list_all_def
    peers_find_by_id_def peers_list_for_interface_def fetch_optional_def fetch_all_def
  by (intro keeps_intros side_blind)+

lemmas side_ops = side_network_writes adapter_side side_repo_reads seal_keeps [OF side_blind(1)]

lemma iface_ports_side:
  "keeps (side_view g) (ir_create (is_ifaces (interface_service A)) ni sealed)"
  "keeps (side_view g) (ir_update (is_ifaces (interface_service A)) x)"
  "keeps (side_view g) (ir_delete (is_ifaces (interface_service A)) i)"
  "keeps (side_view g) (ir_find_by_id (is_ifaces (interface_service A)) i)"
  "keeps (side_view g) (ir_find_by_name (is_ifaces (interface_service A)) s)"
  "keeps (side_view g) (pr_list_for_interface (is_peers (interface_service A)) i)"
  "keeps (side_view g) (wg_derive_public_key (is_wg (interface_service A)) k)"
  "keeps (side_view g) (wg_generate_keypair (is_wg (interface_service A)))"
  "keeps (side_view g) (wg_create_interface (is_wg (interface_service A)) x)"
  "keeps (side_view g) (wg_interface_up (is_wg (interface_service A)) x ps)"
  "keeps (side_view g) (wg_interface_down (is_wg (interface_service A)) x)"
  "keeps (side_view g) (wg_delete_interface (is_wg (interface_service A)) x)"
  "keeps (side_view g) (nat_apply (is_nat (interface_service A)) x gw)"
  "keeps (side_view g) (nat_remove (is_nat (interface_service A)) x gw)"
  "keeps (side_view g) (nat_run_hook (is_nat (interface_service A)) script)"
  "keeps (side_view g) (sn_list (is_sysnet (interface_service A)))"
  "keeps (side_view g) (seal (is_crypto (interface_service A)) bs key)"
  unfolding interface_service_def iface_svc.simps repo_ports by (rule side_ops)+

lemma iface_services_side:
  "keeps (side_view g) (iface_create (interface_service A) ci)"
  "keeps (side_view g) (iface_update (interface_service A) i ui)"
  "keeps (side_view g) (iface_delete (interface_service A) i)"
  "keeps (side_view g) (iface_start (interface_service A) i)"
  "keeps (side_view g) (iface_stop (interface_service A) i)"
  unfolding iface_create_def iface_update_def iface_delete_def iface_start_def iface_stop_def
    iface_get_def iface_keypair_def iface_rekey_def validate_gateway_def validate_gateway_opt_def Let_def
  by (intro keeps_intros iface_ports_side)+

lemma peer_ports_side:
  "keeps (side_view g) (pr_create (pe_peers (peer_service A)) np psk)"
  "keeps (side_view g) (pr_update (pe_peers (peer_service A)) p)"
  "keeps (side_view g) (pr_delete (pe_peers (peer_service A)) k)"
  "keeps (side_view g) (pr_find_by_id (pe_peers (peer_service A)) k)"
  "keeps (side_view g) (pr_list_for_interface (pe_peers (peer_service A)) i)"
  "keeps (side_view g) (ir_find_by_id (pe_ifaces (peer_service A)) i)"
  "keeps (side_view g) (wg_derive_public_key (pe_wg (peer_service A)) sk)"
  "keeps (side_view g) (wg_generate_keypair (pe_wg (peer_service A)))"
  "keeps (side_view g) (wg_apply_peer (pe_wg (peer_service A)) x p)"
  "keeps (side_view g) (wg_remove_peer (pe_wg (peer_service A)) x key)"
  "keeps (side_view g) (seal (pe_crypto (peer_service A)) bs skey)"
  unfolding peer_service_def peer_svc.simps repo_ports by (rule side_ops)+

lemma peer_services_side:
  "keeps (side_view g) (create_with_server_keypair (peer_service A) cp)"
  "keeps (side_view g) (peer_update (peer_service A) k up)"
  "keeps (side_view g) (peer_set_enabled (peer_service A) k on)"
  "keeps (side_view g) (peer_delete (peer_service A) k)"
  unfolding create_with_server_keypair_def peer_update_def peer_set_enabled_def peer_delete_def
    peer_get_def peer_keypair_def peer_rekey_def choose_allowed_ips_def push_peer_def
    drop_stale_entry_def Let_def
  by (intro keeps_intros peer_ports_side)+

lemma background_side:
  "keeps (side_view g) (poll_once (app_poller A))"
  "keeps (side_view g) (schedule_once (app_scheduler A L))"
  unfolding poll_once_def poll_iface_def poll_stat_def disable_peer_def schedule_once_def
    schedule_peer_def app_poller_def app_scheduler_def poller.simps scheduler.simps repo_ports Let_def
  by (intro keeps_intros side_ops side_blind)+

lemma side_preserves:
  assumes "\<And>d. P (side_tables d) = P d" and "keeps (side_view P) m"
  shows "preserves (\<lambda>w. P (w_db w)) m"
  using preserves_keeps [OF assms(2)] by (simp add: assms(1))

lemmas services_side = iface_services_side peer_services_side background_side

subsection \<open>What the handlers' writes keep\<close>

lemma bans_writes:
  assumes "\<And>d rows. P (d\<lparr>tb_bans := rows\<rparr>) = P d"
  shows "preserves (\<lambda>w. P (w_db w)) (bans_record_failure E ip m l)"
    and "preserves (\<lambda>w. P (w_db w)) (bans_clear E ip)"
  unfolding bans_record_failure_def bans_clear_def
  by (intro preserves_intros preserves_exec preserves_keeps [OF on_os_keeps] preserves_keeps [OF db_guard_keeps]
      preserves_keeps [OF db_query_keeps] os_blind_fields; auto simp: assms)+

lemma settings_writes:
  assumes "\<And>d rows. P (d\<lparr>tb_settings := rows\<rparr>) = P d"
  shows "preserves (\<lambda>w. P (w_db w)) (settings_upsert E key v who)"
  unfolding settings_upsert_def
  by (intro preserves_intros preserves_exec preserves_keeps [OF on_os_keeps] os_blind_fields;
      auto simp: assms upsert_setting_def constraint_failed_def split: if_splits)

lemma audit_writes:
  assumes "\<And>d rows n. P d \<Longrightarrow> P (d\<lparr>tb_audit := tb_audit d @ rows, tb_audit_seq := n\<rparr>)"
  shows "preserves (\<lambda>w. P (w_db w)) (audit_record E J who ip action rt rid meta)"
  unfolding audit_record_def
  by (intro preserves_intros preserves_exec preserves_keeps [OF on_os_keeps] os_blind_fields;
      auto simp: assms insert_audit_def constraint_failed_def split: if_splits)

lemma user_writes:
  assumes "\<And>d r. P d \<Longrightarrow> P (d\<lparr>tb_users := tb_users d @ [r]\<rparr>)"
    and "\<And>d p b s t. P d \<Longrightarrow> P (d\<lparr>tb_users := update_rows p (\<lambda>r. r\<lparr>uc_totp_enabled := b, uc_totp_secret := s, uc_updated_at := t\<rparr>) (tb_users d)\<rparr>)"
    and "\<And>d p t. P d \<Longrightarrow> P (d\<lparr>tb_users := update_rows p (\<lambda>r. r\<lparr>uc_last_login_at := t\<rparr>) (tb_users d)\<rparr>)"
  shows "preserves (\<lambda>w. P (w_db w)) (users_create E new)"
    and "preserves (\<lambda>w. P (w_db w)) (users_update_totp E u b sec)"
    and "preserves (\<lambda>w. P (w_db w)) (users_touch_last_login E u)"
  unfolding users_create_def users_update_totp_def users_touch_last_login_def update_user_def
  by (intro preserves_intros preserves_exec preserves_keeps [OF on_os_keeps] os_blind_fields;
      auto simp: assms insert_user_def constraint_failed_def split: if_splits)+

lemma token_writes:
  assumes "\<And>d rows. P (d\<lparr>tb_tokens := rows\<rparr>) = P d"
  shows "preserves (\<lambda>w. P (w_db w)) (tokens_create E nt)"
    and "preserves (\<lambda>w. P (w_db w)) (tokens_revoke E t u)"
  unfolding tokens_create_def tokens_revoke_def
  by (intro preserves_intros preserves_exec preserves_keeps [OF on_os_keeps] os_blind_fields;
      auto simp: assms insert_token_def constraint_failed_def split: if_splits)+

subsection \<open>The transition system\<close>

inductive app_step :: "('os, 'j) server \<Rightarrow> sched_lib \<Rightarrow> 'os world \<Rightarrow> 'os world \<Rightarrow> bool"
  for S :: "('os, 'j) server" and L :: sched_lib where
  Api: "app_step S L w (snd (api_call (sv_api S) bearer req w))"
| Web: "app_step S L w (fst (snd (web_call S client_ip page (w, session))))"
| Poll: "app_step S L w (snd (poll_once (app_poller (sv_app S)) w))"
| Schedule: "app_step S L w (snd (schedule_once (app_scheduler (sv_app S) L) w))"
| Host: "app_step S L w (w\<lparr>w_os := s\<rparr>)"

inductive_cases app_stepE: "app_step S L w w'"

abbreviation app_run :: "('os, 'j) server \<Rightarrow> sched_lib \<Rightarrow> 'os world \<Rightarrow> 'os world \<Rightarrow> bool" where
  "app_run S L \<equiv> (app_step S L)\<^sup>*\<^sup>*"

locale run_invariant = server_invariant S I for S :: "('os, 'j) server" and I :: "'os world \<Rightarrow> bool" +
  fixes L :: sched_lib
  assumes background_preserve:
      "preserves I (poll_once (app_poller (sv_app S)))"
      "preserves I (schedule_once (app_scheduler (sv_app S) L))"
begin

lemma step_preserves:
  assumes "app_step S L w w'" and "I w"
  shows "I w'"
  using assms(1)
proof (cases rule: app_step.cases)
  case (Api bearer req)
  then show ?thesis using preservesD [OF api_call_preserves assms(2)] by simp
next
  case (Web client_ip page session)
  then show ?thesis using preservesD [OF web_call_preserves, of "(w, session)"] assms(2) by simp
next
  case (Host s)
  then show ?thesis using blind assms(2) by (simp add: os_blind_def)
qed (use preservesD [OF background_preserve(1) assms(2)] preservesD [OF background_preserve(2) assms(2)] in simp_all)

lemma run_preserves: "app_run S L w w' \<Longrightarrow> I w \<Longrightarrow> I w'"
  by (induction rule: rtranclp_induct) (auto intro: step_preserves)

end

subsection \<open>Lawful steps of the configuration\<close>

lemma repos_net: "de_net (app_repos A) = de_net (app_env A)"
  by (simp add: app_repos_def)

lemma preserves_under: "(h \<Longrightarrow> preserves I m) \<Longrightarrow> preserves (\<lambda>w. h \<longrightarrow> I w) m"
  by (auto simp: preserves_def)

abbreviation net_law :: "('os, 'j) server \<Rightarrow> net \<Rightarrow> bool" where
  "net_law S n \<equiv> alloc_laws (de_net (sv_repos S)) \<and> net_good n"

lemma side_writes_steps:
  "preserves (net_stepping E n) (users_create E new)"
  "preserves (net_stepping E n) (users_update_totp E u b sec)"
  "preserves (net_stepping E n) (users_touch_last_login E u)"
  "preserves (net_stepping E n) (tokens_create E nt)"
  "preserves (net_stepping E n) (tokens_revoke E t u)"
  "preserves (net_stepping E n) (bans_record_failure E ip m l)"
  "preserves (net_stepping E n) (bans_clear E ip)"
  "preserves (net_stepping E n) (audit_record E J who ip' action rt rid meta)"
  "preserves (net_stepping E n) (settings_upsert E key v who')"
  by (rule tables_steps;
     unfold users_create_def users_update_totp_def users_touch_last_login_def update_user_def
       tokens_create_def tokens_revoke_def bans_record_failure_def bans_clear_def audit_record_def
       settings_upsert_def;
     intro keeps_intros db_exec_keeps_part;
     auto simp: net_tables_def insert_user_def insert_token_def insert_audit_def upsert_setting_def
       constraint_failed_def split: if_splits)+

interpretation net_run: run_invariant S "\<lambda>w. net_law S n \<longrightarrow> net_stepping (sv_repos S) n w" L for S n L
proof (unfold_locales, goal_cases)
  case 1
  show ?case using net_stepping_blind [of "sv_repos S" n] by (simp add: os_blind_def)
next
  case (8 w x)
  show ?case by (simp add: net_stepping_settings)
next
  case (14 cp)
  show ?case by (rule preserves_under, rule create_peer_steps) (simp add: repos_net)
qed (rule preserves_under, (rule side_writes_steps | (rule service_steps, simp)))+

subsection \<open>Accounts\<close>

lemma acct_side: "acct_ok E (side_tables d) = acct_ok E d"
  by (simp add: acct_ok_def side_tables_def)

lemma acct_other: "acct_ok E (d\<lparr>tb_bans := rows\<rparr>) = acct_ok E d"
    "acct_ok E (d\<lparr>tb_settings := srows\<rparr>) = acct_ok E d"
    "acct_ok E (d\<lparr>tb_audit := arows, tb_audit_seq := k\<rparr>) = acct_ok E d"
  by (simp_all add: acct_ok_def)

interpretation acct_run: run_invariant S
    "\<lambda>w. uuid_text_law (de_net (sv_repos S)) \<longrightarrow> acct_ok (sv_repos S) (w_db w)" L for S L
proof (unfold_locales, goal_cases)
  case 1
  show ?case by (simp add: os_blind_def)
next
  case (8 w x)
  show ?case by simp
qed (rule preserves_under,
    ((rule users_create_acct, assumption) | rule users_updates_acct | (rule tokens_create_acct, assumption) |
     rule tokens_revoke_acct |
     (rule side_preserves, rule acct_side, rule services_side) |
     (rule bans_writes settings_writes audit_writes, simp add: acct_other)))+

subsection \<open>The audit trail\<close>

lemma prefix_snoc: "prefix xs ys \<Longrightarrow> prefix xs (ys @ zs)"
  by (auto simp: prefix_def)

interpretation audit_run: run_invariant S "\<lambda>w. prefix trail (tb_audit (w_db w))" L for S trail L
proof (unfold_locales, goal_cases)
  case 1
  show ?case by (simp add: os_blind_def)
next
  case (8 w x)
  show ?case by simp
qed ((rule side_preserves, simp add: side_tables_def, rule services_side) |
     (rule bans_writes settings_writes audit_writes user_writes token_writes; simp add: prefix_snoc))+

subsection \<open>Identity and privileges of accounts\<close>

definition user_core :: "user_row \<Rightarrow> string \<times> string \<times> string \<times> string" where
  "user_core r = (uc_id r, uc_username r, uc_password_hash r, uc_role r)"

lemma user_core_updates:
  "map user_core (update_rows p (\<lambda>r. r\<lparr>uc_totp_enabled := b, uc_totp_secret := s, uc_updated_at := t\<rparr>) rows) =
     map user_core rows"
  "map user_core (update_rows p (\<lambda>r. r\<lparr>uc_last_login_at := l\<rparr>) rows) = map user_core rows"
  by (simp_all add: update_rows_def user_core_def)

interpretation core_run: run_invariant S "\<lambda>w. prefix cores (map user_core (tb_users (w_db w)))" L
  for S cores L
proof (unfold_locales, goal_cases)
  case 1
  show ?case by (simp add: os_blind_def)
next
  case (8 w x)
  show ?case by simp
qed ((rule side_preserves, simp add: side_tables_def, rule services_side) |
     (rule bans_writes settings_writes audit_writes user_writes token_writes;
       simp add: prefix_snoc user_core_updates))+

end
