(* ===== verification/Sample.thy ===== *)
theory Sample
  imports Server_Run
begin

section \<open>A sample environment\<close>

text \<open>
  One concrete instance of everything the model takes as a parameter: the host is a counter that
  serves as clock and as source of identifiers, statements do not fail, identifiers and networks
  are written in unary, keys are any 32 characters. It satisfies the laws of the third-party
  crates, so the theorems that assume them can be applied; the witnesses are stated over it.
\<close>

subsection \<open>Texts of identifiers and networks\<close>

definition sample_show_uuid :: "uuid \<Rightarrow> string" where
  "sample_show_uuid u = replicate (unat u) (CHR ''x'')"

definition sample_parse_uuid :: "string \<Rightarrow> string + uuid" where
  "sample_parse_uuid s =
     (if list_all (\<lambda>c. c = CHR ''x'') s then Inr (word_of_nat (length s)) else Inl ''invalid uuid'')"

definition sample_show_net :: "ip_net \<Rightarrow> string" where
  "sample_show_net n = (case n of
     Net_V4 a p \<Rightarrow> replicate p (CHR ''p'') @ CHR ''4'' # replicate (unat a) (CHR ''x'')
   | Net_V6 a p \<Rightarrow> replicate p (CHR ''p'') @ CHR ''6'' # replicate (unat a) (CHR ''x''))"

definition sample_parse_net :: "string \<Rightarrow> string + ip_net" where
  "sample_parse_net s =
     (let p = length (takeWhile (\<lambda>c. c = CHR ''p'') s)
      in case dropWhile (\<lambda>c. c = CHR ''p'') s of
        [] \<Rightarrow> Inl ''invalid network''
      | c # r \<Rightarrow>
          if c = CHR ''4'' then Inr (Net_V4 (word_of_nat (length r)) p)
          else if c = CHR ''6'' then Inr (Net_V6 (word_of_nat (length r)) p)
          else Inl ''invalid network'')"

definition sample_network :: "ip_net \<Rightarrow> ip_addr" where
  "sample_network n = (case n of
     Net_V4 a p \<Rightarrow> Ip_V4 (push_bit (32 - p) (drop_bit (32 - p) a))
   | Net_V6 a p \<Rightarrow> Ip_V6 (push_bit (128 - p) (drop_bit (128 - p) a)))"

definition sample_hosts :: "ip_net \<Rightarrow> ip_addr list" where
  "sample_hosts n = (case n of
     Net_V4 a p \<Rightarrow>
       map (\<lambda>i. Ip_V4 (push_bit (32 - p) (drop_bit (32 - p) a) + word_of_nat i)) [1..<2 ^ (32 - p) - 1]
   | Net_V6 a p \<Rightarrow> [])"

definition sample_trunc :: "ip_net \<Rightarrow> ip_net" where
  "sample_trunc n = (case n of
     Net_V4 a p \<Rightarrow> Net_V4 (push_bit (32 - p) (drop_bit (32 - p) a)) p
   | Net_V6 a p \<Rightarrow> Net_V6 (push_bit (128 - p) (drop_bit (128 - p) a)) p)"

definition sample_new :: "ip_addr \<Rightarrow> nat \<Rightarrow> string + ip_net" where
  "sample_new a p = (case a of
     Ip_V4 x \<Rightarrow> if p \<le> 32 then Inr (Net_V4 x p) else Inl ''invalid prefix''
   | Ip_V6 x \<Rightarrow> if p \<le> 128 then Inr (Net_V6 x p) else Inl ''invalid prefix'')"

definition sample_net :: net_lib where
  "sample_net = \<lparr>
     nl_show_uuid = sample_show_uuid, nl_parse_uuid = sample_parse_uuid,
     nl_show_net = sample_show_net, nl_parse_net = sample_parse_net,
     nl_network = sample_network, nl_hosts = sample_hosts, nl_trunc = sample_trunc,
     nl_new = sample_new\<rparr>"

lemma sample_uuid_law: "uuid_text_law sample_net"
  by (simp add: uuid_text_law_def sample_net_def sample_show_uuid_def sample_parse_uuid_def list_all_iff)

lemma sample_net_law: "net_text_law sample_net"
  unfolding net_text_law_def
proof
  fix n
  show "nl_parse_net sample_net (nl_show_net sample_net n) = Inr n"
    by (cases n) (simp_all add: sample_net_def sample_show_net_def sample_parse_net_def Let_def
        takeWhile_append dropWhile_append)
qed

lemma sample_alloc_laws: "alloc_laws sample_net"
  by (auto simp: alloc_laws_def host_net_law_def hosts_law_def sample_net_def sample_new_def
      sample_network_def sample_hosts_def host_net_def split: ip_addr.splits ip_net.splits)

subsection \<open>Lists of strings\<close>

definition sample_to_json :: "string list \<Rightarrow> string" where
  "sample_to_json xs = concat (map (\<lambda>s. concat (map (\<lambda>c. [CHR ''c'', c]) s) @ ''.'') xs)"

fun sample_from_json :: "string \<Rightarrow> string \<Rightarrow> string list option" where
  "sample_from_json acc [] = (if acc = [] then Some [] else None)"
| "sample_from_json acc [c] =
     (if c = CHR ''.'' then Some [rev acc] else None)"
| "sample_from_json acc (c # d # r) =
     (if c = CHR ''.'' then map_option ((#) (rev acc)) (sample_from_json [] (d # r))
      else sample_from_json (d # acc) r)"

lemma sample_from_json_dot:
  "sample_from_json acc (CHR ''.'' # r) = map_option ((#) (rev acc)) (sample_from_json [] r)"
  by (cases r) simp_all

lemma sample_from_json_string:
  "sample_from_json acc (concat (map (\<lambda>c. [CHR ''c'', c]) s) @ r) = sample_from_json (rev s @ acc) r"
  by (induction s arbitrary: acc) simp_all

lemma sample_json_roundtrip: "sample_from_json [] (sample_to_json xs) = Some xs"
  by (induction xs) (simp_all add: sample_to_json_def sample_from_json_string sample_from_json_dot)

subsection \<open>The environment\<close>

definition tick :: "nat \<Rightarrow> nat \<times> nat" where
  "tick s = (s, s + 1)"

definition sample_env :: "nat db_env" where
  "sample_env = \<lparr>
     de_now = (\<lambda>s. (int s, s + 1)), de_uuid = (\<lambda>s. (word_of_nat s, s + 1)),
     de_fault = (\<lambda>s. (None, s)), de_constraint = (\<lambda>col. ''UNIQUE constraint failed: '' @ col),
     de_sum_overflow = ''integer overflow'', de_net = sample_net,
     de_b64_decode = (\<lambda>s. Inr (bytes_of s)),
     de_json_of_strings = (\<lambda>xs. Some (sample_to_json xs)), de_strings_of_json = sample_from_json []\<rparr>"

definition sample_crypto :: "nat crypto_lib" where
  "sample_crypto = \<lparr>
     cl_b64_decode = (\<lambda>s. Inr (bytes_of s)), cl_b64_encode = map (\<lambda>b. char_of (unat b)),
     cl_b64url_encode = map (\<lambda>b. char_of (unat b)), cl_hex_encode = map (\<lambda>b. char_of (unat b)),
     cl_sha256 = (\<lambda>bs. bs), cl_fill_bytes = (\<lambda>n s. (replicate n (word_of_nat s), s + 1)),
     cl_salt = (\<lambda>s. (''salt'', s + 1)),
     cl_argon2_hash = (\<lambda>bs salt. Inr (map (\<lambda>b. char_of (unat b)) bs)),
     cl_argon2_parse = (\<lambda>s. Inr s),
     cl_argon2_verify = (\<lambda>bs s. if s = map (\<lambda>b. char_of (unat b)) bs then Inr () else Inl ''mismatch''),
     cl_age_wrap = (\<lambda>k s. (Inr [], s)), cl_age_write = (\<lambda>k a bs s. (Inr (a @ bs), s)),
     cl_age_finish = (\<lambda>k a s. (Inr a, s)), cl_age_decryptor = (\<lambda>bs. Inr (Dec_Passphrase bs)),
     cl_age_decrypt = (\<lambda>k bs. Inr bs), cl_age_read = (\<lambda>bs. Inr bs)\<rparr>"

definition sample_wg_lib :: "nat wg_lib" where
  "sample_wg_lib = \<lparr>
     wl_key_try_from = (\<lambda>bs. if length bs = 32 then Inr bs else Inl ''length''),
     wl_public_key = rev, wl_key_generate = (\<lambda>s. (replicate 32 (word_of_nat s), s + 1)),
     wl_parse_socket = Some, wl_from_timestamp = (\<lambda>t. Some (sint t * 1000000000)),
     wl_open = (\<lambda>n s. (Inr (), s)), wl_create_interface = (\<lambda>n s. (Inr (), s)),
     wl_configure_interface = (\<lambda>n c s. (Inr (), s)),
     wl_configure_peer_routing = (\<lambda>n ps s. (Inr (), s)),
     wl_remove_interface = (\<lambda>n s. (Inr (), s)), wl_configure_peer = (\<lambda>n p s. (Inr (), s)),
     wl_remove_peer = (\<lambda>n k s. (Inr (), s)), wl_read_interface_data = (\<lambda>n s. (Inr [], s))\<rparr>"

lemma sample_env_fields [simp]:
  "de_net sample_env = sample_net" "de_json_of_strings sample_env xs = Some (sample_to_json xs)"
  "de_strings_of_json sample_env = sample_from_json []" "de_fault sample_env s = (None, s)"
  "de_now sample_env s = (int s, s + 1)" "de_uuid sample_env s = (word_of_nat s, s + 1)"
  by (simp_all only: sample_env_def db_env.simps)

lemma sample_json_law: "json_strings_law sample_env"
  by (simp add: json_strings_law_def sample_json_roundtrip)

lemma sample_text_laws: "text_laws sample_env"
  using sample_uuid_law sample_net_law sample_json_law by (simp only: text_laws_def sample_env_fields)

definition empty_db :: db where
  "empty_db = \<lparr>tb_users = [], tb_tokens = [], tb_bans = [], tb_ifaces = [], tb_peers = [],
     tb_audit = [], tb_audit_seq = 0, tb_traffic = [], tb_webhooks = [], tb_settings = []\<rparr>"

definition sample_world :: "nat world" where
  "sample_world = \<lparr>w_db = empty_db, w_settings = default_settings, w_fwd = [], w_os = 1\<rparr>"

subsection \<open>The server\<close>

definition sample_host :: "nat host_lib" where
  "sample_host = \<lparr>hl_run = (\<lambda>bin args s. (Inr True, s)), hl_read_file = (\<lambda>f s. (Inr ''0'', s)),
     hl_write_file = (\<lambda>f c s. (Inr (), s))\<rparr>"

definition sample_eth0 :: ifa_node where
  "sample_eth0 = \<lparr>ifa_name = Some (bytes_of ''eth0''), ifa_flags = 0x1043, ifa_addr = None,
     ifa_netmask = None\<rparr>"

definition sample_app :: "(nat, string) app_state" where
  "sample_app = \<lparr>
     app_env = sample_env, app_json = \<lparr>js_show = (\<lambda>s. s), js_parse = Inr\<rparr>,
     app_crypto = sample_crypto, app_seal_key = Seal_Key ''master'',
     app_utf8_error = (\<lambda>bs. ''invalid utf-8''), app_wg_lib = sample_wg_lib, app_dry_run = False,
     app_nat = \<lparr>na_dry_run = False, na_linux = True, na_host = sample_host\<rparr>,
     app_sysnet = \<lparr>sa_linux = True, sa_getifaddrs = (\<lambda>s. (Inr [sample_eth0], s)),
       sa_read_file = (\<lambda>f s. (Inl ''no such file'', s))\<rparr>\<rparr>"

definition sample_api_lib :: "nat api_lib" where
  "sample_api_lib = \<lparr>
     al_validate_create_iface = (\<lambda>r. None), al_validate_update_iface = (\<lambda>r. None),
     al_validate_create_peer = (\<lambda>r. None), al_validate_update_peer = (\<lambda>r. None),
     al_validate_create_token = (\<lambda>r. None), al_rfc3339 = (\<lambda>t. ''1970-01-01T00:00:00Z''),
     al_add_days = (\<lambda>t days. if sint days \<le> 100000 then Some (t + sint days * 86400000000000) else None),
     al_session_user = (\<lambda>s. (Some \<lparr>au_id = Ident 7, au_username = ''root'', au_role = Admin\<rparr>, s)),
     al_qr_svg = (\<lambda>bs. Inr ''svg'')\<rparr>"

definition sample_api :: "(nat, string) api" where
  "sample_api = \<lparr>api_app = sample_app, api_lib = sample_api_lib\<rparr>"

definition sample_json_make :: "string json_make" where
  "sample_json_make = \<lparr>jm_string = (\<lambda>s. [DQ] @ s @ [DQ]), jm_nat = dec,
     jm_bool = (\<lambda>b. if b then ''true'' else ''false''),
     jm_object = (\<lambda>kvs. ''{'' @ concat (map (\<lambda>(k, v). k @ '':'' @ v) kvs) @ ''}'')\<rparr>"

definition sample_totp :: "nat totp_lib" where
  "sample_totp = \<lparr>tl_generate_secret = (\<lambda>s. (Encoded ''secret'', s)), tl_show_secret = (\<lambda>k. ''secret''),
     tl_to_bytes = (\<lambda>k. Inr [1, 2, 3]), tl_new_error = (\<lambda>t. None), tl_get_url = (\<lambda>t. ''otpauth''),
     tl_get_qr_png = (\<lambda>t. Inr []), tl_check_current = (\<lambda>t given s. (Inr (given = ''123456''), s))\<rparr>"

definition sample_web_lib :: "(nat, string) web_lib" where
  "sample_web_lib = \<lparr>wb_session_fault = (\<lambda>s. (None, s)), wb_decode_error = ''invalid type'',
     wb_totp = sample_totp, wb_json = sample_json_make, wb_log_reload = (\<lambda>l s. (Inr (), s)),
     wb_database_path = ''wireforge.db'', wb_server_bind = ''0.0.0.0:8080'', wb_session_secure = True,
     wb_version = ''1'', wb_header_value_ok = (\<lambda>v. True), wb_hour_minute = (\<lambda>t. ''00:00'')\<rparr>"

definition sample_server :: "(nat, string) server" where
  "sample_server = \<lparr>sv_api = sample_api, sv_web = sample_web_lib\<rparr>"

lemma sample_server_fields [simp]:
  "sv_api sample_server = sample_api" "sv_web sample_server = sample_web_lib"
  by (simp_all only: sample_server_def server.simps)

definition sample_sched :: sched_lib where
  "sample_sched = \<lparr>
     sl_parse_schedule = (\<lambda>s. Inr \<lparr>sd_weekdays = [0, 1, 2, 3, 4], sd_from = ''f'', sd_to = ''t''\<rparr>),
     sl_parse_time = (\<lambda>s. Some (if s = ''f'' then Naive_Time 32400 else Naive_Time 61200)),
     sl_weekday_from_monday = (\<lambda>t. 1), sl_hour = (\<lambda>t. 10), sl_minute = (\<lambda>t. 0)\<rparr>"

lemma sample_app_fields [simp]:
  "api_app sample_api = sample_app" "app_env sample_app = sample_env"
  "app_crypto sample_app = sample_crypto" "api_lib sample_api = sample_api_lib"
  by (simp_all only: sample_api_def sample_app_def api.simps app_state.simps)

lemma sample_repos [simp]: "app_repos sample_app = sample_env"
  by (simp add: app_repos_def sample_env_def sample_crypto_def)

lemma sample_world_net: "net_inv sample_env sample_world" "net_view sample_env sample_world = ([], [])"
  using sample_text_laws
  by (simp_all add: net_inv_def net_view_def net_rows_ok_def net_of_def net_wf_def sample_world_def
      empty_db_def)

lemma empty_good: "net_good ([], [])"
  by (simp add: net_good_def net_wf_def addr_unique_def)

subsection \<open>A world with one interface, two peers, two users and two tokens\<close>

definition sample_key :: wg_public_key where
  "sample_key = Wg_Public_Key (replicate 32 (CHR ''k''))"

definition sample_new_iface :: new_iface where
  "sample_new_iface = \<lparr>ni_name = ''wg0'', ni_private_key = Wg_Private_Key (replicate 32 (CHR ''s'')),
     ni_public_key = sample_key, ni_listen_port = 51820, ni_endpoint = None,
     ni_gateway = Some ''eth0'', ni_ipv4_cidr = Some (Net_V4 8 29), ni_ipv6_cidr = None,
     ni_mtu = None, ni_dns = [''dns''], ni_on_up = None, ni_on_down = None\<rparr>"

definition sample_new_peer :: "ip_net list \<Rightarrow> new_peer" where
  "sample_new_peer ips = \<lparr>np_interface_id = Ident 1, np_name = ''laptop'', np_public_key = sample_key,
     np_allowed_ips = ips, np_primary_dns = None, np_secondary_dns = None, np_nat = True,
     np_endpoint = None, np_keepalive = Some 25, np_quota = None, np_expires_at = None,
     np_owner = None, np_private_key_sealed = None\<rparr>"

definition sample_iface :: iface where
  "sample_iface = new_iface_entity 1 0 sample_new_iface []"

definition sample_peer :: "uuid \<Rightarrow> ip_net list \<Rightarrow> peer" where
  "sample_peer u ips = new_peer_entity u 0 (sample_new_peer ips) None"

definition sample_user_row :: "uuid \<Rightarrow> string \<Rightarrow> role \<Rightarrow> user_row" where
  "sample_user_row u name r = \<lparr>uc_id = sample_show_uuid u, uc_username = name, uc_email = None,
     uc_password_hash = ''secret'', uc_role = role_as_str r, uc_totp_enabled = 0,
     uc_totp_secret = None, uc_oidc_subject = None, uc_created_at = 0, uc_updated_at = 0,
     uc_last_login_at = None\<rparr>"

definition sample_token_row :: "uuid \<Rightarrow> uuid \<Rightarrow> string \<Rightarrow> datetime option \<Rightarrow> token_row" where
  "sample_token_row u owner hash expires = \<lparr>tc_id = sample_show_uuid u,
     tc_user_id = sample_show_uuid owner, tc_name = ''ci'', tc_token_hash = hash, tc_scopes = None,
     tc_created_at = 0, tc_expires_at = expires, tc_revoked_at = None\<rparr>"

definition sample_db :: db where
  "sample_db = empty_db\<lparr>
     tb_ifaces := [new_iface_row sample_env 1 0 sample_new_iface []],
     tb_peers := [new_peer_row sample_env 2 0 (sample_new_peer [Net_V4 10 32]) None,
                  new_peer_row sample_env 3 0 (sample_new_peer [Net_V4 12 32]) None],
     tb_users := [sample_user_row 7 ''root'' Admin, sample_user_row 8 ''guest'' Viewer],
     tb_tokens := [sample_token_row 4 7 ''t-root'' None, sample_token_row 5 8 ''t-guest'' None]\<rparr>"

definition sample_net_world :: "nat world" where
  "sample_net_world = sample_world\<lparr>w_db := sample_db, w_os := 20\<rparr>"

lemma sample_key_valid: "key_valid sample_env sample_key"
  by (simp add: key_valid_def sample_env_def sample_key_def bytes_of_def)

lemma sample_rows_decode:
  "iface_into_domain sample_env (new_iface_row sample_env 1 0 sample_new_iface []) = Inr sample_iface"
  "peer_into_domain sample_env (new_peer_row sample_env u 0 (sample_new_peer ips) None) =
     Inr (sample_peer u ips)"
  using new_iface_decodes [OF sample_text_laws] new_peer_decodes [OF sample_text_laws] sample_key_valid
  by (simp_all add: sample_iface_def sample_peer_def sample_new_iface_def sample_new_peer_def)

lemma sample_iface_fields [simp]:
  "i_id sample_iface = Ident 1" "i_name sample_iface = ''wg0''" "i_gateway sample_iface = Some ''eth0''"
  "i_ipv4_cidr sample_iface = Some (Net_V4 8 29)" "i_on_up sample_iface = None"
  "i_status sample_iface = Status_Down" "i_public_key sample_iface = sample_key"
  by (simp_all add: sample_iface_def new_iface_entity_def sample_new_iface_def)

lemma sample_peer_fields [simp]:
  "p_id (sample_peer u ips) = Ident u" "p_interface_id (sample_peer u ips) = Ident 1"
  "p_allowed_ips (sample_peer u ips) = ips" "p_enabled (sample_peer u ips)"
  "p_public_key (sample_peer u ips) = sample_key" "p_quota (sample_peer u ips) = None"
  "p_schedule (sample_peer u ips) = None"
  by (simp_all add: sample_peer_def new_peer_entity_def sample_new_peer_def)

lemma sample_net_view:
  "net_view sample_env sample_net_world =
     ([sample_iface], [sample_peer 2 [Net_V4 10 32], sample_peer 3 [Net_V4 12 32]])"
  by (simp add: net_view_def net_of_def sample_net_world_def sample_db_def iface_of_def peer_of_def
      sample_rows_decode)

lemma sample_net_good:
  "net_good ([sample_iface], [sample_peer 2 [Net_V4 10 32], sample_peer 3 [Net_V4 12 32]])"
proof -
  have "validate_iface_name ''wg0'' = Inr ()" and "gateway_charset_ok ''eth0''"
    by code_simp+
  then show ?thesis
    by (simp add: net_good_def net_wf_def iface_safe_def addr_unique_def addrs_apart_def
        opt_gateway_ok_def)
qed

lemma sample_net_inv: "net_inv sample_env sample_net_world"
proof -
  have "iface_row_ok sample_env (new_iface_row sample_env 1 0 sample_new_iface [])"
    unfolding iface_row_ok_def sample_rows_decode by (simp add: show_id_def new_iface_row_def Let_def)
  moreover have "peer_row_ok sample_env (new_peer_row sample_env u 0 (sample_new_peer ips) None)" for u ips
    unfolding peer_row_ok_def sample_rows_decode
    by (simp add: show_id_def new_peer_row_def sample_new_peer_def)
  moreover have "net_of sample_env sample_db =
      ([sample_iface], [sample_peer 2 [Net_V4 10 32], sample_peer 3 [Net_V4 12 32]])"
    using sample_net_view by (simp add: net_view_def sample_net_world_def)
  ultimately show ?thesis
    using sample_text_laws sample_net_good
    by (simp add: net_inv_def net_rows_ok_def sample_net_world_def net_good_def)
      (simp add: sample_db_def)
qed

end
