(* ===== verification/Access_Properties.thy ===== *)
theory Access_Properties
  imports Sample Server_Steps
begin

section \<open>Properties of authentication and authorisation\<close>

text \<open>
  Who may call the REST API, what a caller may do, how tokens live and die, how failed logins
  lock an address out, and how users are registered.
\<close>

subsection \<open>Roles\<close>

fun mutating :: "api_request \<Rightarrow> bool" where
  "mutating (Ifaces_Create _) = True"
| "mutating (Ifaces_Update _ _) = True"
| "mutating (Ifaces_Delete _) = True"
| "mutating (Ifaces_Start _) = True"
| "mutating (Ifaces_Stop _) = True"
| "mutating (Peers_Create _) = True"
| "mutating (Peers_Update _ _) = True"
| "mutating (Peers_Set_Enabled _ _) = True"
| "mutating (Peers_Delete _) = True"
| "mutating _ = False"

lemma require_mutate_refused:
  "\<not> can_mutate (au_role u) \<Longrightarrow>
   require_mutate u w = (Inl (Api_Error ''insufficient role for this operation'' 403), w)"
  by (simp add: require_mutate_def api_forbidden_def error_response_def)

lemma dispatch_refused:
  assumes "\<not> can_mutate (au_role u)" and "mutating req"
  shows "api_dispatch A u req w = (Inl (Api_Error ''insufficient role for this operation'' 403), w)"
  using assms(2) require_mutate_refused [OF assms(1), of w]
  by (cases req)
    (simp_all add: api_dispatch_def io_map_def api_ifaces_create_def api_ifaces_update_def
      api_ifaces_delete_def api_ifaces_start_def api_ifaces_stop_def api_peers_create_def
      api_peers_update_def api_peers_set_enabled_def api_peers_delete_def)

lemma authenticate_frame:
  assumes "authenticate_request A bearer w = (r, w')"
  shows "w_db w' = w_db w" "w_settings w' = w_settings w" "w_fwd w' = w_fwd w"
proof -
  have keep: "keeps f (authenticate_request A bearer)" if "os_blind f" for f :: "'a world \<Rightarrow> 'c"
    unfolding authenticate_request_def Let_def sqlite_tokens_def sqlite_users_def token_repo.simps
      user_repo.simps tokens_find_active_by_hash_def users_find_by_id_def fetch_optional_def
    by (intro keeps_intros that)
  show "w_db w' = w_db w" "w_settings w' = w_settings w" "w_fwd w' = w_fwd w"
    by (rule keepsD2 [OF keep assms], rule os_blind_fields)+
qed

text \<open>C13: A caller whose role may not mutate (auditor, viewer) gets status 403 for every request
  that creates, updates, deletes, starts, stops or toggles an interface or a peer, before
  anything of the request is looked at; database, settings and NAT snapshots stay as they are.\<close>

theorem read_only_roles_cannot_mutate:
  assumes "authenticate_request A bearer w = (Inr u, w1)"
    and "\<not> can_mutate (au_role u)" and "mutating req"
  shows "api_call A bearer req w = (Inl (Api_Error ''insufficient role for this operation'' 403), w1) \<and>
     w_db w1 = w_db w \<and> w_settings w1 = w_settings w \<and> w_fwd w1 = w_fwd w"
  using authenticate_frame [OF assms(1)] dispatch_refused [OF assms(2,3), of A w1] assms(1)
  by (simp add: api_call_def)

subsection \<open>Bearer tokens\<close>

text \<open>The outcome of the authentication of a bearer token when no statement fails.\<close>

lemma bearer_outcome:
  assumes "acct_ok (app_repos (api_app A)) (w_db w)"
    and "uuid_text_law (de_net (app_repos (api_app A)))" and "db_quiet (app_repos (api_app A))"
  shows "fst (authenticate_request A (Some tok) w) =
    (case find (\<lambda>t. t_token_hash t = hash_api_token (os_crypto (app_crypto (api_app A))) tok \<and>
             t_revoked_at t = None) (tokens_of (app_repos (api_app A)) (w_db w)) of
       None \<Rightarrow> Inl api_unauthorized
     | Some t \<Rightarrow>
         if \<not> token_is_active t (fst (de_now (app_repos (api_app A)) (w_os w))) then Inl api_unauthorized
         else (case find (\<lambda>u. u_id u = t_user_id t) (users_of (app_repos (api_app A)) (w_db w)) of
             None \<Rightarrow> Inl api_unauthorized
           | Some u \<Rightarrow> Inr (auth_user_of u)))"
  using assms
  by (simp add: authenticate_request_def Let_def sqlite_tokens_def sqlite_users_def
      tokens_find_active_by_hash_def users_find_by_id_def fetch_optional_quiet find_token find_user
      io_bind_def io_map_err_def io_some_def on_os_def split: option.split prod.split)

lemma bearer_iff:
  assumes "acct_ok (app_repos (api_app A)) (w_db w)"
    and "uuid_text_law (de_net (app_repos (api_app A)))" and "db_quiet (app_repos (api_app A))"
  shows "fst (authenticate_request A (Some tok) w) = Inr u \<longleftrightarrow>
    (\<exists>t \<in> set (tokens_of (app_repos (api_app A)) (w_db w)).
     \<exists>x \<in> set (users_of (app_repos (api_app A)) (w_db w)).
       t_token_hash t = hash_api_token (os_crypto (app_crypto (api_app A))) tok \<and>
       t_revoked_at t = None \<and>
       (\<forall>e. t_expires_at t = Some e \<longrightarrow> fst (de_now (app_repos (api_app A)) (w_os w)) < e) \<and>
       u_id x = t_user_id t \<and> u = auth_user_of x)"
proof -
  let ?E = "app_repos (api_app A)"
  let ?h = "hash_api_token (os_crypto (app_crypto (api_app A))) tok"
  note token = find_unique [OF tokens_of_distinct [OF assms(1)], of ?h "\<lambda>t. t_revoked_at t = None"]
  note user = find_unique [OF users_of_distinct [OF assms(1)], of _ "\<lambda>_. True", simplified]
  let ?found = "find (\<lambda>t. t_token_hash t = ?h \<and> t_revoked_at t = None) (tokens_of ?E (w_db w))"
  let ?now = "fst (de_now ?E (w_os w))"
  let ?user = "\<lambda>t. find (\<lambda>u. u_id u = t_user_id t) (users_of ?E (w_db w))"
  show ?thesis
  proof
    assume "fst (authenticate_request A (Some tok) w) = Inr u"
    then obtain t x where t: "?found = Some t" and active: "token_is_active t ?now"
      and x: "?user t = Some x" and u: "u = auth_user_of x"
      unfolding bearer_outcome [OF assms] by (auto split: option.splits if_splits)
    show "\<exists>t \<in> set (tokens_of ?E (w_db w)). \<exists>x \<in> set (users_of ?E (w_db w)).
        t_token_hash t = ?h \<and> t_revoked_at t = None \<and>
        (\<forall>e. t_expires_at t = Some e \<longrightarrow> ?now < e) \<and> u_id x = t_user_id t \<and> u = auth_user_of x"
      using t [unfolded token] x [unfolded user] u active [unfolded token_is_active_def]
      by (auto split: option.splits)
  next
    assume "\<exists>t \<in> set (tokens_of ?E (w_db w)). \<exists>x \<in> set (users_of ?E (w_db w)).
        t_token_hash t = ?h \<and> t_revoked_at t = None \<and>
        (\<forall>e. t_expires_at t = Some e \<longrightarrow> ?now < e) \<and> u_id x = t_user_id t \<and> u = auth_user_of x"
    then obtain t x where t: "?found = Some t" and x: "?user t = Some x" and u: "u = auth_user_of x"
      and active: "token_is_active t ?now"
      unfolding token user token_is_active_def by (auto split: option.splits)
    show "fst (authenticate_request A (Some tok) w) = Inr u"
      unfolding bearer_outcome [OF assms] by (simp add: t x u active)
  qed
qed

text \<open>C5: A bearer token is accepted exactly when its hash is that of a stored token that is not
  revoked and whose expiry, if any, lies in the future; the caller is then the stored user that
  owns it, with that user's role. (For a database that answers: a statement that fails is a
  refusal, too.)\<close>

theorem bearer_accepted_iff:
  assumes "acct_ok (app_repos (api_app A)) (w_db w)"
    and "uuid_text_law (de_net (app_repos (api_app A)))" and "db_quiet (app_repos (api_app A))"
  shows "fst (authenticate_request A (Some tok) w) = Inr u \<longleftrightarrow>
    (\<exists>t \<in> set (tokens_of (app_repos (api_app A)) (w_db w)).
     \<exists>x \<in> set (users_of (app_repos (api_app A)) (w_db w)).
       t_token_hash t = hash_api_token (os_crypto (app_crypto (api_app A))) tok \<and>
       t_revoked_at t = None \<and>
       (\<forall>e. t_expires_at t = Some e \<longrightarrow> fst (de_now (app_repos (api_app A)) (w_os w)) < e) \<and>
       u_id x = t_user_id t \<and> u = auth_user_of x)"
  by (rule bearer_iff [OF assms])

lemma sample_acct_ok: "acct_ok sample_env sample_db"
proof -
  have "user_row_ok sample_env (sample_user_row u n r)" for u n r
    using new_user_row_ok [of sample_env] sample_uuid_law
    by (simp add: sample_user_row_def sample_net_def)
  moreover have "token_row_ok sample_env (sample_token_row u v h e)" for u v h e
    using new_token_row_ok [of sample_env u "Ident v"] sample_uuid_law
    by (simp add: sample_token_row_def sample_net_def show_id_def)
  ultimately show ?thesis
    by (simp add: acct_ok_def sample_db_def) (simp add: sample_user_row_def sample_token_row_def sample_show_uuid_def)
qed

lemma sample_quiet: "db_quiet sample_env"
  by (simp add: db_quiet_def)

lemma sample_uuid_parse [simp]: "parse_id sample_net (sample_show_uuid u) = Inr (Ident u)"
  using parse_id_show [OF sample_uuid_law, of "Ident u"] by (simp add: show_id_def sample_net_def)

definition sample_user :: "uuid \<Rightarrow> string \<Rightarrow> role \<Rightarrow> user" where
  "sample_user u name r = \<lparr>u_id = Ident u, u_username = name, u_email = None,
     u_password_hash = ''secret'', u_role = r, u_totp_enabled = False, u_totp_secret = None,
     u_oidc_subject = None, u_created_at = 0, u_updated_at = 0, u_last_login_at = None\<rparr>"

definition sample_token :: "uuid \<Rightarrow> uuid \<Rightarrow> string \<Rightarrow> datetime option \<Rightarrow> api_token" where
  "sample_token u owner hash expires = \<lparr>t_id = Ident u, t_user_id = Ident owner, t_name = ''ci'',
     t_token_hash = hash, t_scopes = [], t_created_at = 0, t_expires_at = expires,
     t_revoked_at = None\<rparr>"

lemma sample_accounts:
  "users_of sample_env sample_db = [sample_user 7 ''root'' Admin, sample_user 8 ''guest'' Viewer]"
  "tokens_of sample_env sample_db = [sample_token 4 7 ''t-root'' None, sample_token 5 8 ''t-guest'' None]"
  by (simp_all add: users_of_def tokens_of_def sample_db_def sample_user_row_def sample_token_row_def
      user_into_domain_def token_into_domain_def role_roundtrip strings_from_json_def Let_def
      sample_user_def sample_token_def)

lemma sample_hash: "hash_api_token (os_crypto sample_crypto) ''t-guest'' = ''t-guest''"
  by code_simp

lemma sample_guest:
  "fst (authenticate_request sample_api (Some ''t-guest'') sample_net_world) =
     Inr \<lparr>au_id = Ident 8, au_username = ''guest'', au_role = Viewer\<rparr>"
  using bearer_outcome [of sample_api sample_net_world "''t-guest''"] sample_acct_ok sample_quiet sample_uuid_law
  by (simp add: sample_hash sample_accounts sample_net_world_def)
    (simp add: sample_token_def token_is_active_def sample_user_def auth_user_of_def)

theorem bearer_accepted_iff_witness:
  "fst (authenticate_request sample_api (Some ''t-guest'') sample_net_world) =
     Inr (auth_user_of (sample_user 8 ''guest'' Viewer))"
proof -
  have "\<exists>t \<in> set (tokens_of sample_env (w_db sample_net_world)).
      \<exists>x \<in> set (users_of sample_env (w_db sample_net_world)).
       t_token_hash t = hash_api_token (os_crypto sample_crypto) ''t-guest'' \<and> t_revoked_at t = None \<and>
       (\<forall>e. t_expires_at t = Some e \<longrightarrow> fst (de_now sample_env (w_os sample_net_world)) < e) \<and>
       u_id x = t_user_id t \<and> auth_user_of (sample_user 8 ''guest'' Viewer) = auth_user_of x"
    by (simp add: sample_hash sample_net_world_def sample_accounts)
      (simp add: sample_token_def sample_user_def)
  then show ?thesis
    using bearer_accepted_iff [of sample_api sample_net_world "''t-guest''"] sample_acct_ok sample_quiet sample_uuid_law
    by (simp add: sample_net_world_def)
qed

theorem read_only_roles_cannot_mutate_witness:
  "fst (api_call sample_api (Some ''t-guest'') (Ifaces_Delete ''x'') sample_net_world) =
     Inl (Api_Error ''insufficient role for this operation'' 403)"
proof -
  obtain w1 where auth: "authenticate_request sample_api (Some ''t-guest'') sample_net_world =
      (Inr \<lparr>au_id = Ident 8, au_username = ''guest'', au_role = Viewer\<rparr>, w1)"
    using sample_guest by (metis prod.collapse)
  show ?thesis
    using read_only_roles_cannot_mutate [OF auth, of "Ifaces_Delete ''x''"] by (simp add: can_mutate_def)
qed

subsection \<open>Revocation\<close>

lemma bearer_refused:
  assumes "acct_ok (app_repos (api_app A)) (w_db w)"
    and "uuid_text_law (de_net (app_repos (api_app A)))"
    and "\<forall>t \<in> set (tokens_of (app_repos (api_app A)) (w_db w)).
      t_token_hash t = hash_api_token (os_crypto (app_crypto (api_app A))) tok \<longrightarrow> t_revoked_at t \<noteq> None"
  shows "fst (authenticate_request A (Some tok) w) = Inl api_unauthorized"
proof -
  let ?E = "app_repos (api_app A)"
  let ?h = "hash_api_token (os_crypto (app_crypto (api_app A))) tok"
  have none: "find (\<lambda>t. t_token_hash t = ?h \<and> t_revoked_at t = None) (tokens_of ?E (w_db w)) = None"
    using assms(3) by (auto simp: find_None_iff)
  let ?q = "\<lambda>d. find (\<lambda>r. tc_token_hash r = ?h \<and> tc_revoked_at r = None) (tb_tokens d)"
  obtain r w' where q: "db_query ?E ?q w = (r, w')"
    by (rule prod.exhaust)
  have found: "tr_find_active_by_hash (sqlite_tokens ?E) ?h w =
      (case r of Inl e \<Rightarrow> (Inl e, w') | Inr x \<Rightarrow> (Inr None, w'))"
  proof (cases r)
    case (Inl e)
    then show ?thesis
      using q by (simp add: sqlite_tokens_def tokens_find_active_by_hash_def fetch_optional_def)
  next
    case (Inr x)
    have "x = ?q (w_db w)"
      by (rule conjunct1 [OF db_query_ok [OF q [unfolded Inr]]])
    then have "opt_traverse (token_into_domain ?E) x = Inr None"
      using find_token [OF assms(1), of ?h] none by simp
    then show ?thesis
      using q Inr by (simp add: sqlite_tokens_def tokens_find_active_by_hash_def fetch_optional_def)
  qed
  show ?thesis
    unfolding authenticate_request_def Let_def option.case io_bind_def io_map_err_def found
    by (cases r) simp_all
qed

lemma revoke_outcome:
  assumes "tokens_revoke E i owner w = (Inr (), w')"
  shows "\<exists>now. tb_tokens (w_db w') = update_rows (revoke_matches E i owner)
      (\<lambda>r. r\<lparr>tc_revoked_at := Some now\<rparr>) (tb_tokens (w_db w))"
    and "\<exists>r \<in> set (tb_tokens (w_db w)). revoke_matches E i owner r"
    and "tb_users (w_db w') = tb_users (w_db w)"
proof -
  let ?set = "\<lambda>now (d :: db). d\<lparr>tb_tokens := update_rows (revoke_matches E i owner)
      (\<lambda>r. r\<lparr>tc_revoked_at := Some now\<rparr>) (tb_tokens d)\<rparr>"
  let ?hits = "\<lambda>(d :: db). length (filter (revoke_matches E i owner) (tb_tokens d))"
  obtain now w1 where now: "on_os (de_now E) w = (Inr now :: core_error + datetime, w1)"
    and rest: "io_bind (db_exec E (\<lambda>d. Inr (?hits d, ?set now d))) (\<lambda>affected.
        if affected = 0 then io_fail (Not_Found (''api token '' @ show_id (de_net E) i)) else io_ret ()) w1 =
        (Inr (), w')"
    using assms unfolding tokens_revoke_def by (rule io_bind_okE)
  obtain n w2 where ex: "db_exec E (\<lambda>d. Inr (?hits d, ?set now d)) w1 = (Inr n, w2)"
    and last: "(if n = 0 then io_fail (Not_Found (''api token '' @ show_id (de_net E) i)) else io_ret ()) w2 =
        (Inr (), w')"
    using rest by (rule io_bind_okE)
  have n: "n \<noteq> 0" and w2: "w2 = w'"
    using last by (auto split: if_splits)
  have w1: "w_db w1 = w_db w"
    using keepsD2 [OF on_os_keeps now] os_blind_fields(1) by blast
  have eq: "n = ?hits (w_db w)" "w_db w' = ?set now (w_db w)"
    using db_exec_ok [OF ex] unfolding w1 w2 by simp_all
  then show "\<exists>now. tb_tokens (w_db w') = update_rows (revoke_matches E i owner)
      (\<lambda>r. r\<lparr>tc_revoked_at := Some now\<rparr>) (tb_tokens (w_db w))"
    and "tb_users (w_db w') = tb_users (w_db w)" by auto
  have "filter (revoke_matches E i owner) (tb_tokens (w_db w)) \<noteq> []"
    using eq(1) n by auto
  then show "\<exists>r \<in> set (tb_tokens (w_db w)). revoke_matches E i owner r"
    by (auto simp: filter_empty_conv)
qed

lemma show_id_iff: "uuid_text_law L \<Longrightarrow> show_id L a = show_id L b \<longleftrightarrow> a = b"
  using show_id_inj by blast

lemma revoke_matches_iff:
  assumes acct: "acct_ok E d" and laws: "uuid_text_law (de_net E)" and r: "r \<in> set (tb_tokens d)"
    and t: "t = projr (token_into_domain E r)"
  shows "revoke_matches E i owner r \<longleftrightarrow> t_id t = i \<and> t_user_id t = owner \<and> t_revoked_at t = None"
proof -
  have "tc_revoked_at r = t_revoked_at t"
    using token_fields [OF token_row_okD(1) [OF acct r]] by (simp add: t)
  then show ?thesis
    using token_row_okD(2,3) [OF acct r] by (simp add: revoke_matches_def show_id_iff [OF laws] t)
qed

lemma revoked_row:
  assumes "token_into_domain E r = Inr t"
  shows "token_into_domain E (r\<lparr>tc_revoked_at := v\<rparr>) = Inr (t\<lparr>t_revoked_at := v\<rparr>)"
  using assms unfolding token_into_domain_def by (auto simp: res_bind_ok_iff Let_def)

lemma revoked_rows:
  assumes acct: "acct_ok E d" and laws: "uuid_text_law (de_net E)"
  shows "map (\<lambda>r. projr (token_into_domain E r))
      (update_rows (revoke_matches E i owner) (\<lambda>r. r\<lparr>tc_revoked_at := Some now\<rparr>) (tb_tokens d)) =
    map (\<lambda>t. if t_id t = i \<and> t_user_id t = owner \<and> t_revoked_at t = None
              then t\<lparr>t_revoked_at := Some now\<rparr> else t) (tokens_of E d)"
  unfolding update_rows_def tokens_of_def map_map
proof (rule map_cong [OF refl], unfold comp_def)
  fix r
  assume r: "r \<in> set (tb_tokens d)"
  show "projr (token_into_domain E
      (if revoke_matches E i owner r then r\<lparr>tc_revoked_at := Some now\<rparr> else r)) =
    (if t_id (projr (token_into_domain E r)) = i \<and> t_user_id (projr (token_into_domain E r)) = owner \<and>
        t_revoked_at (projr (token_into_domain E r)) = None
     then (projr (token_into_domain E r))\<lparr>t_revoked_at := Some now\<rparr> else projr (token_into_domain E r))"
    using revoke_matches_iff [OF acct laws r refl] revoked_row [OF token_row_okD(1) [OF acct r]]
    by (cases "revoke_matches E i owner r") simp_all
qed

text \<open>C17: Revoking a token succeeds only for a stored, not yet revoked token of the calling user.
  It then marks that token and no other, and from that moment on the token's text is refused in
  every world with these tables, whatever the clock says and whether or not statements fail.\<close>

theorem revoked_token_refused:
  assumes "acct_ok (app_repos (api_app A)) (w_db w)"
    and "uuid_text_law (de_net (app_repos (api_app A)))"
    and "tokens_revoke (app_repos (api_app A)) i owner w = (Inr (), w')"
    and "w_db w'' = w_db w'"
  shows "\<exists>t \<in> set (tokens_of (app_repos (api_app A)) (w_db w)).
     t_id t = i \<and> t_user_id t = owner \<and> t_revoked_at t = None \<and>
     (\<exists>now. tokens_of (app_repos (api_app A)) (w_db w') =
        map (\<lambda>t. if t_id t = i \<and> t_user_id t = owner \<and> t_revoked_at t = None
                  then t\<lparr>t_revoked_at := Some now\<rparr> else t) (tokens_of (app_repos (api_app A)) (w_db w))) \<and>
     (\<forall>tok. hash_api_token (os_crypto (app_crypto (api_app A))) tok = t_token_hash t \<longrightarrow>
        fst (authenticate_request A (Some tok) w'') = Inl api_unauthorized)"
proof -
  let ?E = "app_repos (api_app A)"
  obtain r where r: "r \<in> set (tb_tokens (w_db w))" "revoke_matches ?E i owner r"
    using revoke_outcome(2) [OF assms(3)] by blast
  let ?t = "projr (token_into_domain ?E r)"
  note ok = token_row_okD [OF assms(1) r(1)]
  have t: "?t \<in> set (tokens_of ?E (w_db w))"
    using r(1) by (simp add: tokens_of_def)
  have match: "t_id ?t = i" "t_user_id ?t = owner" "t_revoked_at ?t = None"
    using revoke_matches_iff [OF assms(1,2) r(1) refl] r(2) by blast+
  obtain now where rows: "tb_tokens (w_db w') = update_rows (revoke_matches ?E i owner)
      (\<lambda>r. r\<lparr>tc_revoked_at := Some now\<rparr>) (tb_tokens (w_db w))"
    using revoke_outcome(1) [OF assms(3)] by blast
  have after: "tokens_of ?E (w_db w') =
      map (\<lambda>t. if t_id t = i \<and> t_user_id t = owner \<and> t_revoked_at t = None
                then t\<lparr>t_revoked_at := Some now\<rparr> else t) (tokens_of ?E (w_db w))"
    unfolding tokens_of_def [of ?E "w_db w'"] rows by (rule revoked_rows [OF assms(1,2)])
  have "acct_ok ?E (w_db (snd (tokens_revoke ?E i owner w)))"
    using tokens_revoke_acct [of ?E i owner] assms(1) unfolding preserves_def by blast
  then have acct': "acct_ok ?E (w_db w')"
    by (simp add: assms(3))
  have hash: "t = ?t" if "t \<in> set (tokens_of ?E (w_db w))" "t_token_hash t = t_token_hash ?t" for t
    using that t tokens_of_distinct [OF assms(1)] by (simp add: distinct_map inj_on_def)
  have "fst (authenticate_request A (Some tok) w'') = Inl api_unauthorized"
    if tok: "hash_api_token (os_crypto (app_crypto (api_app A))) tok = t_token_hash ?t" for tok
  proof (rule bearer_refused [OF _ assms(2)], goal_cases)
    case 1
    show ?case using acct' assms(4) by simp
  next
    case 2
    show ?case
      unfolding assms(4) after tok using hash match by (auto split: if_splits)
  qed
  then show ?thesis
    using t match after by blast
qed

lemma sample_revoke:
  "\<exists>w'. tokens_revoke sample_env (Ident 5) (Ident 8) sample_net_world = (Inr (), w')"
proof -
  have "filter (revoke_matches sample_env (Ident 5) (Ident 8)) (tb_tokens sample_db) \<noteq> []"
    by (simp add: revoke_matches_def sample_db_def sample_token_row_def sample_net_def show_id_def)
  then show ?thesis
    by (simp add: tokens_revoke_def io_bind_def on_os_def db_exec_quiet [OF sample_quiet]
        sample_net_world_def)
qed

theorem revoked_token_refused_witness:
  "\<exists>w'. tokens_revoke sample_env (Ident 5) (Ident 8) sample_net_world = (Inr (), w') \<and>
     fst (authenticate_request sample_api (Some ''t-guest'') (w'\<lparr>w_os := 99\<rparr>)) = Inl api_unauthorized"
proof -
  obtain w' where run: "tokens_revoke sample_env (Ident 5) (Ident 8) sample_net_world = (Inr (), w')"
    using sample_revoke by blast
  have db: "w_db sample_net_world = sample_db"
    by (simp add: sample_net_world_def)
  obtain t where "t \<in> set (tokens_of sample_env sample_db)" "t_id t = Ident 5"
    and refused: "\<forall>tok. hash_api_token (os_crypto sample_crypto) tok = t_token_hash t \<longrightarrow>
        fst (authenticate_request sample_api (Some tok) (w'\<lparr>w_os := 99\<rparr>)) = Inl api_unauthorized"
    using revoked_token_refused [of sample_api sample_net_world "Ident 5" "Ident 8" w' "w'\<lparr>w_os := 99\<rparr>"]
      sample_acct_ok sample_uuid_law run
    by (auto simp: db)
  then have "t_token_hash t = ''t-guest''"
    by (auto simp: sample_accounts sample_token_def)
  then show ?thesis
    using run refused sample_hash by auto
qed

subsection \<open>New tokens\<close>

lemma token_created:
  fixes new :: new_api_token
  defines "row \<equiv> \<lambda>E u now. \<lparr>tc_id = nl_show_uuid (de_net E) u,
        tc_user_id = show_id (de_net E) (nt_user_id new), tc_name = nt_name new,
        tc_token_hash = nt_token_hash new, tc_scopes = Some (strings_to_json E (nt_scopes new)),
        tc_created_at = now, tc_expires_at = nt_expires_at new, tc_revoked_at = None\<rparr>"
  assumes "tokens_create E new w = (Inr t, w')"
  shows "\<exists>u now. tb_users (w_db w') = tb_users (w_db w) \<and>
      tb_tokens (w_db w') = tb_tokens (w_db w) @ [row E u now]"
proof -
  let ?out = "\<lambda>u now. \<lparr>t_id = Ident u, t_user_id = nt_user_id new, t_name = nt_name new,
         t_token_hash = nt_token_hash new, t_scopes = nt_scopes new, t_created_at = now,
         t_expires_at = nt_expires_at new, t_revoked_at = None\<rparr>"
  have op: "tokens_create E new = io_bind (on_os (de_uuid E)) (\<lambda>u. io_bind (on_os (de_now E)) (\<lambda>now.
      io_bind (db_exec E (insert_token E (row E u now))) (\<lambda>_. io_ret (?out u now))))"
    by (simp add: tokens_create_def row_def)
  obtain u w1 where u: "on_os (de_uuid E) w = (Inr u :: core_error + uuid, w1)" and
    r1: "io_bind (on_os (de_now E)) (\<lambda>now.
      io_bind (db_exec E (insert_token E (row E u now))) (\<lambda>_. io_ret (?out u now))) w1 = (Inr t, w')"
    using assms(2) unfolding op by (rule io_bind_okE)
  obtain now w2 where now: "on_os (de_now E) w1 = (Inr now :: core_error + datetime, w2)" and
    r2: "io_bind (db_exec E (insert_token E (row E u now))) (\<lambda>_. io_ret (?out u now)) w2 = (Inr t, w')"
    using r1 by (rule io_bind_okE)
  have dbs: "w_db w1 = w_db w" "w_db w2 = w_db w1"
    using keepsD2 [OF on_os_keeps u] keepsD2 [OF on_os_keeps now] os_blind_fields(1) by blast+
  have ex: "db_exec E (insert_token E (row E u now)) w2 = (Inr (), w')"
    using r2 by (simp add: io_bind_ok_iff)
  have "w_db w' = (w_db w)\<lparr>tb_tokens := tb_tokens (w_db w) @ [row E u now]\<rparr>"
    using db_exec_ok [OF ex] by (auto simp: insert_token_def constraint_failed_def dbs split: if_splits)
  then show ?thesis
    by (intro exI [of _ u] exI [of _ now]) simp
qed

text \<open>What a successful request for a new token stored.\<close>

lemma api_token_created:
  assumes "api_tokens_create A u req w = (Inr r, w')"
  shows "\<exists>tid now expires. tb_users (w_db w') = tb_users (w_db w) \<and>
     tb_tokens (w_db w') = tb_tokens (w_db w) @
       [\<lparr>tc_id = nl_show_uuid (de_net (app_repos (api_app A))) tid,
         tc_user_id = show_id (de_net (app_repos (api_app A))) (au_id u),
         tc_name = trim (ctr_name req),
         tc_token_hash = hash_api_token (os_crypto (app_crypto (api_app A))) (cd_token r),
         tc_scopes = Some (strings_to_json (app_repos (api_app A)) [''*'']),
         tc_created_at = now, tc_expires_at = expires, tc_revoked_at = None\<rparr>] \<and>
     (case ctr_expires_in_days req of
        None \<Rightarrow> expires = None
      | Some days \<Rightarrow> sint days > 0 \<and> expires \<noteq> None \<and>
          (\<exists>t0. expires = al_add_days (api_lib A) t0 days))"
proof -
  let ?E = "app_repos (api_app A)" and ?C = "os_crypto (app_crypto (api_app A))"
  obtain y w1 where valid: "check_valid (al_validate_create_token (api_lib A)) req w = (Inr y, w1)"
    and r1: "io_bind (token_expiry A (ctr_expires_in_days req)) (\<lambda>expires_at.
     io_bind (generate_api_token ?C) (\<lambda>(plaintext, token_hash).
     io_bind (core_io (tr_create (sqlite_tokens ?E)
        \<lparr>nt_user_id = au_id u, nt_name = trim (ctr_name req), nt_token_hash = token_hash,
         nt_scopes = [''*''], nt_expires_at = expires_at\<rparr>)) (\<lambda>t.
     io_ret \<lparr>cd_token = plaintext, cd_info = token_dto_from A t\<rparr>))) w1 = (Inr r, w')"
    using assms unfolding api_tokens_create_def by (rule io_bind_okE)
  obtain expires w2 where exp: "token_expiry A (ctr_expires_in_days req) w1 = (Inr expires, w2)"
    and r2: "io_bind (generate_api_token ?C) (\<lambda>(plaintext, token_hash).
     io_bind (core_io (tr_create (sqlite_tokens ?E)
        \<lparr>nt_user_id = au_id u, nt_name = trim (ctr_name req), nt_token_hash = token_hash,
         nt_scopes = [''*''], nt_expires_at = expires\<rparr>)) (\<lambda>t.
     io_ret \<lparr>cd_token = plaintext, cd_info = token_dto_from A t\<rparr>)) w2 = (Inr r, w')"
    using r1 by (rule io_bind_okE)
  obtain gen w3 where gen: "(generate_api_token ?C :: (_, api_fail, _) io) w2 = (Inr gen, w3)"
    and r3: "(case gen of (plaintext, token_hash) \<Rightarrow>
     io_bind (core_io (tr_create (sqlite_tokens ?E)
        \<lparr>nt_user_id = au_id u, nt_name = trim (ctr_name req), nt_token_hash = token_hash,
         nt_scopes = [''*''], nt_expires_at = expires\<rparr>)) (\<lambda>t.
     io_ret \<lparr>cd_token = plaintext, cd_info = token_dto_from A t\<rparr>)) w3 = (Inr r, w')"
    using r2 by (rule io_bind_okE)
  have hash: "snd gen = hash_api_token ?C (fst gen)"
    using gen by (auto simp: generate_api_token_def io_bind_ok_iff Let_def)
  obtain t where t: "tokens_create ?E
        \<lparr>nt_user_id = au_id u, nt_name = trim (ctr_name req), nt_token_hash = snd gen,
         nt_scopes = [''*''], nt_expires_at = expires\<rparr> w3 = (Inr t, w')" and r: "cd_token r = fst gen"
    using r3 by (auto simp: io_bind_ok_iff io_map_err_def sqlite_tokens_def split: prod.splits sum.splits)
  have dbs: "w_db w1 = w_db w" "w_db w2 = w_db w1" "w_db w3 = w_db w2"
    using valid keepsD2 [OF token_expiry_keeps exp] keepsD2 [OF crypto_keep(1) gen]
      os_blind_fields(1)
    by (auto simp: check_valid_def split: option.splits)
  have expiry: "case ctr_expires_in_days req of None \<Rightarrow> expires = None
      | Some days \<Rightarrow> sint days > 0 \<and> expires \<noteq> None \<and> (\<exists>t0. expires = al_add_days (api_lib A) t0 days)"
    using exp by (auto simp: token_expiry_def io_bind_ok_iff split: option.splits if_splits)
  show ?thesis
    using token_created [OF t] expiry unfolding dbs r hash by auto
qed

lemma api_tokens_create_acct:
  assumes "uuid_text_law (de_net (app_repos (api_app A)))"
  shows "keeps_acct (app_repos (api_app A)) (api_tokens_create A u req)"
  unfolding api_tokens_create_def sqlite_tokens_def token_repo.simps split_def
  by (intro preserves_bind preserves_map_err preserves_ret tokens_create_acct assms)
    (auto intro!: keeps_acct_db keeps_intros token_expiry_keeps simp: check_valid_def)


lemma sample_byte: "char_of (unat (word_of_nat (code c) :: u8)) = c"
  by (simp add: unat_of_nat code_def)

lemma sample_os_crypto:
  "cl_fill_bytes (os_crypto sample_crypto) n w =
     (replicate n (word_of_nat (w_os w)), w\<lparr>w_os := w_os w + 1\<rparr>)"
  "cl_b64url_encode (os_crypto sample_crypto) = map (\<lambda>b. char_of (unat b))"
  "hash_api_token (os_crypto sample_crypto) s = s"
  by (simp_all add: os_crypto_def sample_crypto_def os_step_def hash_api_token_def bytes_of_def
      comp_def sample_byte)

definition sample_text :: string where
  "sample_text = ''wf_'' @ replicate 32 (char_of (unat (word_of_nat 20 :: u8)))"

lemma sample_generate:
  "w_os w = 20 \<Longrightarrow> generate_api_token (os_crypto sample_crypto) w =
     (Inr (sample_text, sample_text), w\<lparr>w_os := 21\<rparr>)"
  by (simp add: generate_api_token_def io_bind_def sample_os_crypto io_rand_def API_TOKEN_PREFIX_def
      Let_def sample_text_def)

lemma sample_text_new: "sample_text \<noteq> ''t-root''" "sample_text \<noteq> ''t-guest''"
  by (simp_all add: sample_text_def)

lemma sample_uuid_new: "sample_show_uuid 21 \<notin> {sample_show_uuid 4, sample_show_uuid 5}"
  by (simp add: sample_show_uuid_def)

definition sample_guest_user :: auth_user where
  "sample_guest_user = \<lparr>au_id = Ident 8, au_username = ''guest'', au_role = Viewer\<rparr>"

lemma sample_new_token:
  "\<exists>r w'. api_tokens_create sample_api sample_guest_user
     \<lparr>ctr_name = ''ci'', ctr_expires_in_days = None\<rparr> sample_net_world = (Inr r, w')"
proof -
  have user: "show_id sample_net (au_id sample_guest_user) = sample_show_uuid 8"
    by (simp add: show_id_def sample_net_def sample_guest_user_def)
  have uuid: "nl_show_uuid sample_net = sample_show_uuid"
    by (simp add: sample_net_def)
  have lib: "al_validate_create_token sample_api_lib r = None" for r
    by (simp add: sample_api_lib_def)
  have os: "w_os sample_net_world = 20" and db: "w_db sample_net_world = sample_db"
    by (simp_all add: sample_net_world_def)
  have rows: "map tc_id (tb_tokens sample_db) = [sample_show_uuid 4, sample_show_uuid 5]"
    "map tc_token_hash (tb_tokens sample_db) = [''t-root'', ''t-guest'']"
    "map uc_id (tb_users sample_db) = [sample_show_uuid 7, sample_show_uuid 8]"
    by (simp_all add: sample_db_def sample_token_row_def sample_user_row_def)
  have sets: "tc_id ` set (tb_tokens sample_db) = {sample_show_uuid 4, sample_show_uuid 5}"
    "tc_token_hash ` set (tb_tokens sample_db) = {''t-root'', ''t-guest''}"
    "uc_id ` set (tb_users sample_db) = {sample_show_uuid 7, sample_show_uuid 8}"
    unfolding list.set_map [symmetric] rows by simp_all
  have check: "check_valid (al_validate_create_token sample_api_lib) r w = (Inr (), w)" for r and w :: "nat world"
    by (simp add: check_valid_def lib)
  have expiry: "token_expiry sample_api None w = (Inr None, w)" for w :: "nat world"
    by (simp add: token_expiry_def)
  let ?new = "\<lparr>nt_user_id = au_id sample_guest_user, nt_name = trim ''ci'', nt_token_hash = sample_text,
      nt_scopes = [''*''], nt_expires_at = None\<rparr>"
  have create: "\<exists>t w'. tokens_create sample_env ?new (sample_net_world\<lparr>w_os := 21\<rparr>) = (Inr t, w')"
    using sets sample_text_new sample_uuid_new
    by (simp add: tokens_create_def io_bind_def on_os_def db_exec_quiet [OF sample_quiet] insert_token_def
        user uuid db)
  then obtain t w' where t: "tokens_create sample_env ?new (sample_net_world\<lparr>w_os := 21\<rparr>) = (Inr t, w')"
    by blast
  show ?thesis
    by (simp add: api_tokens_create_def io_bind_def check expiry sample_generate [OF os]
        io_map_err_def sqlite_tokens_def t)
qed


end
