(* ===== verification/Config.thy ===== *)
theory Config
  imports App
begin

section \<open>Configuration files and the start of the server\<close>

text \<open>
  \<open>wireforge-bin/src/config.rs\<close>, the configuration of \<open>wireforge-cli/src/main.rs\<close>, \<open>open_pool\<close>
  and \<open>run_migrations\<close> of \<open>persistence/mod.rs\<close>, and the start of \<open>wireforge-bin/src/main.rs\<close> up to
  the live settings. The crate \<open>figment\<close> reads a file, reads the environment and merges two
  trees of values; these are parameters. What the derived deserialisers make of a merged tree
  is defined here: a field that is missing is an error unless it is optional or its type or
  attribute gives a default, and a value of another type is an error.
\<close>

subsection \<open>Trees of values\<close>

datatype cfg_val =
    Cfg_Str string
  | Cfg_Bool bool
  | Cfg_Num int
  | Cfg_Dict "(string \<times> cfg_val) list"

datatype cfg_error = Missing_Field string | Invalid_Type string | Provider_Error string

record 'w figment =
  fg_exists :: "string \<Rightarrow> 'w \<Rightarrow> bool \<times> 'w"
  fg_toml :: "string \<Rightarrow> ('w, string, cfg_val) io"
  fg_env :: "string \<Rightarrow> string \<Rightarrow> 'w \<Rightarrow> cfg_val \<times> 'w"
  fg_merge :: "cfg_val \<Rightarrow> cfg_val \<Rightarrow> cfg_val"

definition cfg_fields :: "cfg_val \<Rightarrow> cfg_error + (string \<times> cfg_val) list" where
  "cfg_fields v = (case v of Cfg_Dict kvs \<Rightarrow> Inr kvs | _ \<Rightarrow> Inl (Invalid_Type ''map''))"

definition as_str :: "cfg_val \<Rightarrow> cfg_error + string" where
  "as_str v = (case v of Cfg_Str s \<Rightarrow> Inr s | _ \<Rightarrow> Inl (Invalid_Type ''string''))"

definition as_bool :: "cfg_val \<Rightarrow> cfg_error + bool" where
  "as_bool v = (case v of Cfg_Bool b \<Rightarrow> Inr b | _ \<Rightarrow> Inl (Invalid_Type ''bool''))"

text \<open>An unsigned integer of a width: other values do not fit.\<close>

definition as_uint :: "nat \<Rightarrow> cfg_val \<Rightarrow> cfg_error + nat" where
  "as_uint width v = (case v of
     Cfg_Num n \<Rightarrow> if 0 \<le> n \<and> n < 2 ^ width then Inr (nat n) else Inl (Invalid_Type ''unsigned integer'')
   | _ \<Rightarrow> Inl (Invalid_Type ''unsigned integer''))"

definition as_u32 :: "cfg_val \<Rightarrow> cfg_error + u32" where
  "as_u32 v = res_bind (as_uint 32 v) (\<lambda>n. Inr (word_of_nat n))"

definition as_u64 :: "cfg_val \<Rightarrow> cfg_error + u64" where
  "as_u64 v = res_bind (as_uint 64 v) (\<lambda>n. Inr (word_of_nat n))"

text \<open>A required field, a field with a default, and an \<open>Option\<close>.\<close>

definition field :: "string \<Rightarrow> (cfg_val \<Rightarrow> cfg_error + 'a) \<Rightarrow> (string \<times> cfg_val) list \<Rightarrow> cfg_error + 'a" where
  "field k de kvs = (case map_of kvs k of None \<Rightarrow> Inl (Missing_Field k) | Some v \<Rightarrow> de v)"

definition field_or :: "'a \<Rightarrow> string \<Rightarrow> (cfg_val \<Rightarrow> cfg_error + 'a) \<Rightarrow> (string \<times> cfg_val) list \<Rightarrow> cfg_error + 'a" where
  "field_or d k de kvs = (case map_of kvs k of None \<Rightarrow> Inr d | Some v \<Rightarrow> de v)"

definition field_opt :: "string \<Rightarrow> (cfg_val \<Rightarrow> cfg_error + 'a) \<Rightarrow> (string \<times> cfg_val) list \<Rightarrow> cfg_error + 'a option" where
  "field_opt k de kvs = opt_traverse de (map_of kvs k)"

subsection \<open>The sections of the server's configuration\<close>

record oidc_config =
  oi_enabled :: bool
  oi_issuer_url :: "string option"
  oi_client_id :: "string option"
  oi_client_secret :: "string option"
  oi_redirect_url :: "string option"
  oi_role_claim_mapping :: "(string \<times> string) list"

record federation_config =
  fe_enabled :: bool
  fe_control_plane_url :: "string option"
  fe_node_token :: "string option"

record server_config =
  se_bind :: string
  se_session_secure :: bool

record security_config =
  sy_master_key :: string
  sy_login_max_attempts :: u32
  sy_login_lockout_secs :: u64
  sy_totp_issuer :: string

record app_config =
  cf_server :: server_config
  cf_database_path :: string
  cf_security :: security_config
  cf_wireguard_endpoint :: "string option"
  cf_log_level :: string
  cf_web_locale_default :: string
  cf_oidc :: oidc_config
  cf_federation :: federation_config

definition default_bind :: string where "default_bind = ''0.0.0.0:8080''"
definition default_db_path :: string where "default_db_path = ''./data/wireforge.sqlite''"
definition default_max_attempts :: u32 where "default_max_attempts = 5"
definition default_lockout_secs :: u64 where "default_lockout_secs = 300"
definition default_issuer :: string where "default_issuer = ''Wireforge''"
definition default_level :: string where "default_level = ''info''"
definition default_locale :: string where "default_locale = ''en''"

definition default_server_config :: server_config where
  "default_server_config = \<lparr>se_bind = default_bind, se_session_secure = False\<rparr>"

definition default_security_config :: security_config where
  "default_security_config = \<lparr>
     sy_master_key = ''CHANGE-ME-32-bytes-or-more-recommended'',
     sy_login_max_attempts = default_max_attempts, sy_login_lockout_secs = default_lockout_secs,
     sy_totp_issuer = default_issuer\<rparr>"

definition default_oidc_config :: oidc_config where
  "default_oidc_config = \<lparr>oi_enabled = False, oi_issuer_url = None, oi_client_id = None,
     oi_client_secret = None, oi_redirect_url = None, oi_role_claim_mapping = []\<rparr>"

definition default_federation_config :: federation_config where
  "default_federation_config = \<lparr>fe_enabled = False, fe_control_plane_url = None, fe_node_token = None\<rparr>"

definition de_server :: "cfg_val \<Rightarrow> cfg_error + server_config" where
  "de_server v =
     res_bind (cfg_fields v) (\<lambda>kvs.
     res_bind (field_or default_bind ''bind'' as_str kvs) (\<lambda>bind.
     res_bind (field_or False ''session_secure'' as_bool kvs) (\<lambda>secure.
     Inr \<lparr>se_bind = bind, se_session_secure = secure\<rparr>)))"

definition de_database :: "cfg_val \<Rightarrow> cfg_error + string" where
  "de_database v = res_bind (cfg_fields v) (field_or default_db_path ''path'' as_str)"

definition de_security :: "cfg_val \<Rightarrow> cfg_error + security_config" where
  "de_security v =
     res_bind (cfg_fields v) (\<lambda>kvs.
     res_bind (field ''master_key'' as_str kvs) (\<lambda>key.
     res_bind (field_or default_max_attempts ''login_max_attempts'' as_u32 kvs) (\<lambda>m.
     res_bind (field_or default_lockout_secs ''login_lockout_secs'' as_u64 kvs) (\<lambda>l.
     res_bind (field_or default_issuer ''totp_issuer'' as_str kvs) (\<lambda>issuer.
     Inr \<lparr>sy_master_key = key, sy_login_max_attempts = m, sy_login_lockout_secs = l,
          sy_totp_issuer = issuer\<rparr>)))))"

definition de_oidc :: "cfg_val \<Rightarrow> cfg_error + oidc_config" where
  "de_oidc v =
     res_bind (cfg_fields v) (\<lambda>kvs.
     res_bind (field_or False ''enabled'' as_bool kvs) (\<lambda>on.
     res_bind (field_opt ''issuer_url'' as_str kvs) (\<lambda>issuer.
     res_bind (field_opt ''client_id'' as_str kvs) (\<lambda>cid.
     res_bind (field_opt ''client_secret'' as_str kvs) (\<lambda>secret.
     res_bind (field_opt ''redirect_url'' as_str kvs) (\<lambda>redirect.
     res_bind (field_or [] ''role_claim_mapping'' (\<lambda>d. res_bind (cfg_fields d)
       (traverse (\<lambda>(k, x). res_bind (as_str x) (\<lambda>s. Inr (k, s))))) kvs) (\<lambda>mapping.
     Inr \<lparr>oi_enabled = on, oi_issuer_url = issuer, oi_client_id = cid, oi_client_secret = secret,
          oi_redirect_url = redirect, oi_role_claim_mapping = mapping\<rparr>)))))))"

definition de_federation :: "cfg_val \<Rightarrow> cfg_error + federation_config" where
  "de_federation v =
     res_bind (cfg_fields v) (\<lambda>kvs.
     res_bind (field_or False ''enabled'' as_bool kvs) (\<lambda>on.
     res_bind (field_opt ''control_plane_url'' as_str kvs) (\<lambda>url.
     res_bind (field_opt ''node_token'' as_str kvs) (\<lambda>token.
     Inr \<lparr>fe_enabled = on, fe_control_plane_url = url, fe_node_token = token\<rparr>))))"

definition de_app_config :: "cfg_val \<Rightarrow> cfg_error + app_config" where
  "de_app_config v =
     res_bind (cfg_fields v) (\<lambda>kvs.
     res_bind (field_or default_server_config ''server'' de_server kvs) (\<lambda>server.
     res_bind (field_or default_db_path ''database'' de_database kvs) (\<lambda>path.
     res_bind (field_or default_security_config ''security'' de_security kvs) (\<lambda>security.
     res_bind (field_or None ''wireguard'' (\<lambda>w. res_bind (cfg_fields w) (field_opt ''endpoint'' as_str)) kvs) (\<lambda>endpoint.
     res_bind (field_or default_level ''log'' (\<lambda>l. res_bind (cfg_fields l) (field_or default_level ''level'' as_str)) kvs) (\<lambda>level.
     res_bind (field_or default_locale ''web'' (\<lambda>w. res_bind (cfg_fields w) (field_or default_locale ''locale_default'' as_str)) kvs) (\<lambda>locale.
     res_bind (field_or default_oidc_config ''oidc'' de_oidc kvs) (\<lambda>oidc.
     res_bind (field_or default_federation_config ''federation'' de_federation kvs) (\<lambda>federation.
     Inr \<lparr>cf_server = server, cf_database_path = path, cf_security = security,
          cf_wireguard_endpoint = endpoint, cf_log_level = level, cf_web_locale_default = locale,
          cf_oidc = oidc, cf_federation = federation\<rparr>)))))))))"

text \<open>\<open>Figment::new()\<close> with the file merged in when it exists, then the environment.\<close>

definition merged_config :: "'w figment \<Rightarrow> string \<Rightarrow> ('w, cfg_error, cfg_val) io" where
  "merged_config F path =
     io_bind (io_rand (fg_exists F path)) (\<lambda>there.
     io_bind (if there
        then io_bind (io_map_err Provider_Error (fg_toml F path)) (\<lambda>t. io_ret (fg_merge F (Cfg_Dict []) t))
        else io_ret (Cfg_Dict [])) (\<lambda>fig.
     io_bind (io_rand (fg_env F ''WIREFORGE_'' ''__'')) (\<lambda>env.
     io_ret (fg_merge F fig env))))"

definition app_config_load :: "'w figment \<Rightarrow> string \<Rightarrow> ('w, cfg_error, app_config) io" where
  "app_config_load F path =
     io_bind (merged_config F path) (\<lambda>fig. io_lift (de_app_config fig))"

subsection \<open>The configuration of the command line tool\<close>

record cli_config =
  cc_database_path :: string
  cc_master_key :: string

definition de_cli_security :: "cfg_val \<Rightarrow> cfg_error + string" where
  "de_cli_security v = res_bind (cfg_fields v) (field ''master_key'' as_str)"

definition de_cli_config :: "cfg_val \<Rightarrow> cfg_error + cli_config" where
  "de_cli_config v =
     res_bind (cfg_fields v) (\<lambda>kvs.
     res_bind (field ''database'' de_database kvs) (\<lambda>path.
     res_bind (field ''security'' de_cli_security kvs) (\<lambda>key.
     Inr \<lparr>cc_database_path = path, cc_master_key = key\<rparr>)))"

definition cli_load_config :: "'w figment \<Rightarrow> string \<Rightarrow> ('w, cfg_error, cli_config) io" where
  "cli_load_config F path =
     io_bind (merged_config F path) (\<lambda>fig. io_lift (de_cli_config fig))"

subsection \<open>Opening the database\<close>

datatype journal_mode = Wal
datatype synchronous = Normal

record connect_options =
  co_url :: string
  co_journal_mode :: journal_mode
  co_synchronous :: synchronous
  co_foreign_keys :: bool
  co_busy_timeout_secs :: nat
  co_max_connections :: nat

record 'w pool_lib =
  pl_url_error :: "string \<Rightarrow> string option"
  pl_connect :: "connect_options \<Rightarrow> ('w, string, unit) io"
  pl_migrate :: "('w, string, unit) io"

definition open_pool :: "'w pool_lib \<Rightarrow> string \<Rightarrow> ('w, core_error, unit) io" where
  "open_pool L path =
     (let url = ''sqlite://'' @ path @ ''?mode=rwc'' in
      case pl_url_error L url of
        Some e \<Rightarrow> io_fail (Persistence (''sqlite opts: '' @ e))
      | None \<Rightarrow> io_map_err (\<lambda>e. Persistence (''sqlite connect: '' @ e)) (pl_connect L
          \<lparr>co_url = url, co_journal_mode = Wal, co_synchronous = Normal, co_foreign_keys = True,
           co_busy_timeout_secs = 5, co_max_connections = 16\<rparr>))"

definition run_migrations :: "'w pool_lib \<Rightarrow> ('w, core_error, unit) io" where
  "run_migrations L = io_map_err (\<lambda>e. Persistence (''migrate: '' @ e)) (pl_migrate L)"

subsection \<open>The start of the server\<close>

datatype boot_error = Boot_Config cfg_error | Boot_Core string core_error | Boot_Other string string

text \<open>\<open>EnvFilter::try_new\<close> and the handle of the reload layer. The closure that \<open>init_tracing\<close>
  returns is \<open>log_reload\<close>.\<close>

record 'os tracing_lib =
  tg_filter_error :: "string \<Rightarrow> string option"
  tg_init :: "string \<Rightarrow> 'os \<Rightarrow> 'os"
  tg_reload :: "string \<Rightarrow> ('os, string, unit) io"

definition init_filter :: "'os tracing_lib \<Rightarrow> string \<Rightarrow> string" where
  "init_filter T level = (case tg_filter_error T level of None \<Rightarrow> level | Some _ \<Rightarrow> ''info'')"

definition log_reload :: "'os tracing_lib \<Rightarrow> string \<Rightarrow> ('os, string, unit) io" where
  "log_reload T new_level = (case tg_filter_error T new_level of
     Some e \<Rightarrow> io_fail e
   | None \<Rightarrow> tg_reload T new_level)"

definition boot_config_of :: "app_config \<Rightarrow> boot_config" where
  "boot_config_of c = \<lparr>
     bo_locale_default = cf_web_locale_default c, bo_totp_issuer = sy_totp_issuer (cf_security c),
     bo_login_max_attempts = sy_login_max_attempts (cf_security c),
     bo_login_lockout_secs = sy_login_lockout_secs (cf_security c),
     bo_endpoint = cf_wireguard_endpoint c, bo_log_level = cf_log_level c\<rparr>"

text \<open>The environment variable that makes the WireGuard and NAT adapters only log.\<close>

definition dry_run_flag :: "string option \<Rightarrow> bool" where
  "dry_run_flag var = unwrap_or False (map_option
     (\<lambda>v. v = ''1'' \<or> to_ascii_lowercase v = to_ascii_lowercase ''true'') var)"

text \<open>The server up to the state it serves requests with: the configuration, the log filter, the
  database with its migrations, and the live settings. \<open>A\<close> holds what the configuration does not
  determine; the seal key comes from the master key, the flag of the adapters from the
  environment.\<close>

definition server_boot ::
    "'os world figment \<Rightarrow> 'os world pool_lib \<Rightarrow> 'os tracing_lib \<Rightarrow> ('os, 'j) app_state \<Rightarrow> string option \<Rightarrow> string \<Rightarrow>
     ('os world, boot_error, ('os, 'j) app_state \<times> app_config) io" where
  "server_boot F L T A dry_run_var path =
     io_bind (io_map_err Boot_Config (app_config_load F path)) (\<lambda>cfg.
     io_bind (\<lambda>w. (Inr (), w\<lparr>w_os := tg_init T (init_filter T (cf_log_level cfg)) (w_os w)\<rparr>)) (\<lambda>_.
     io_bind (io_map_err (Boot_Core ''open sqlite pool'') (open_pool L (cf_database_path cfg))) (\<lambda>_.
     io_bind (io_map_err (Boot_Core ''run migrations'') (run_migrations L)) (\<lambda>_.
     let A' = A\<lparr>app_seal_key := seal_key_from_passphrase (sy_master_key (cf_security cfg)),
                app_dry_run := dry_run_flag dry_run_var,
                app_nat := (app_nat A)\<lparr>na_dry_run := dry_run_flag dry_run_var\<rparr>\<rparr> in
     io_bind (io_map_err (Boot_Core ''load settings'')
       (boot_settings A' (log_reload T) (boot_config_of cfg))) (\<lambda>_.
     io_ret (A', cfg))))))"

end
