(* ===== verification/Cli.thy ===== *)
theory Cli
  imports Config
begin

section \<open>The command line tool and its encrypted backups\<close>

text \<open>
  \<open>wireforge-cli/src/main.rs\<close> and \<open>backup.rs\<close>. The tool works on the same database as the server
  and on files; its state is the world of the adapters with the files of the host (a map from
  paths to bytes) and the lines printed so far. A file operation first asks the host whether it
  fails; a write that fails may leave any bytes behind. What \<open>VACUUM INTO\<close> writes for a database
  is a parameter, as are the terminal, the temporary names and the argument parser.
\<close>

record console =
  cs_files :: "string \<rightharpoonup> u8 list"
  cs_out :: "string list"

type_synonym 'os tool = "'os world \<times> console"

datatype cli_error =
    Bail string
  | Core_Fail core_error
  | Os_Error string
  | Config_Fail cfg_error
  | With_Context string cli_error

record 'os cli_lib =
  ct_figment :: "'os tool figment"
  ct_pool :: "'os world pool_lib"
  ct_fault :: "string \<Rightarrow> string \<Rightarrow> 'os \<Rightarrow> string option \<times> 'os"
  ct_write_fault :: "string \<Rightarrow> 'os \<Rightarrow> (string \<times> u8 list option) option \<times> 'os"
  ct_make_parent :: "string \<Rightarrow> 'os \<Rightarrow> 'os"
  ct_temp_path :: "'os \<Rightarrow> (string + string) \<times> 'os"
  ct_image :: "db \<Rightarrow> u8 list"
  ct_checkpoint :: "'os \<Rightarrow> 'os"
  ct_prompt :: "string \<Rightarrow> 'os \<Rightarrow> (string + string) \<times> 'os"
  ct_stdin_line :: "'os \<Rightarrow> (string + string) \<times> 'os"
  ct_sample_config :: string
  ct_version :: string
  ct_rfc3339 :: "datetime \<Rightarrow> string"

definition tool_world :: "('os world, 'e, 'a) io \<Rightarrow> ('os tool, 'e, 'a) io" where
  "tool_world m = (\<lambda>(w, c). case m w of (r, w') \<Rightarrow> (r, (w', c)))"

text \<open>The question mark on a result of the core and on one of the host, and \<open>context\<close>.\<close>

abbreviation core_op :: "('os world, core_error, 'a) io \<Rightarrow> ('os tool, cli_error, 'a) io" where
  "core_op m \<equiv> io_map_err Core_Fail (tool_world m)"

abbreviation os_op :: "('os \<Rightarrow> (string + 'a) \<times> 'os) \<Rightarrow> ('os tool, cli_error, 'a) io" where
  "os_op f \<equiv> io_map_err Os_Error (tool_world (on_os_res f))"

abbreviation with_context :: "string \<Rightarrow> ('w, cli_error, 'a) io \<Rightarrow> ('w, cli_error, 'a) io" where
  "with_context msg m \<equiv> io_map_err (With_Context msg) m"

subsection \<open>Files\<close>

definition file_exists :: "string \<Rightarrow> 'os tool \<Rightarrow> bool \<times> 'os tool" where
  "file_exists p = (\<lambda>(w, c). (cs_files c p \<noteq> None, (w, c)))"

definition file_guard :: "'os cli_lib \<Rightarrow> string \<Rightarrow> string \<Rightarrow> ('os tool, cli_error, unit) io" where
  "file_guard L what p = io_bind (tool_world (on_os (ct_fault L what p))) (\<lambda>f.
     case f of None \<Rightarrow> io_ret () | Some e \<Rightarrow> io_fail (Os_Error e))"

definition read_file :: "'os cli_lib \<Rightarrow> string \<Rightarrow> ('os tool, cli_error, u8 list) io" where
  "read_file L p = io_bind (file_guard L ''read'' p) (\<lambda>_. \<lambda>(w, c).
     (case cs_files c p of None \<Rightarrow> Inl (Os_Error ''No such file or directory'') | Some bs \<Rightarrow> Inr bs, (w, c)))"

definition write_file :: "'os cli_lib \<Rightarrow> string \<Rightarrow> u8 list \<Rightarrow> ('os tool, cli_error, unit) io" where
  "write_file L p bs = io_bind (tool_world (on_os (ct_write_fault L p))) (\<lambda>f. \<lambda>(w, c).
     case f of
       None \<Rightarrow> (Inr (), (w, c\<lparr>cs_files := (cs_files c)(p \<mapsto> bs)\<rparr>))
     | Some (e, None) \<Rightarrow> (Inl (Os_Error e), (w, c))
     | Some (e, Some left) \<Rightarrow> (Inl (Os_Error e), (w, c\<lparr>cs_files := (cs_files c)(p \<mapsto> left)\<rparr>)))"

definition remove_file :: "'os cli_lib \<Rightarrow> string \<Rightarrow> ('os tool, cli_error, unit) io" where
  "remove_file L p = io_bind (file_guard L ''remove'' p) (\<lambda>_. \<lambda>(w, c).
     if cs_files c p = None then (Inl (Os_Error ''No such file or directory''), (w, c))
     else (Inr (), (w, c\<lparr>cs_files := (cs_files c)(p := None)\<rparr>)))"

definition rename_file :: "'os cli_lib \<Rightarrow> string \<Rightarrow> string \<Rightarrow> ('os tool, cli_error, unit) io" where
  "rename_file L p q = io_bind (file_guard L ''rename'' p) (\<lambda>_. \<lambda>(w, c).
     case cs_files c p of
       None \<Rightarrow> (Inl (Os_Error ''No such file or directory''), (w, c))
     | Some bs \<Rightarrow> (Inr (), (w, c\<lparr>cs_files := (cs_files c)(p := None, q \<mapsto> bs)\<rparr>)))"

definition println :: "string \<Rightarrow> ('os tool, cli_error, unit) io" where
  "println line = (\<lambda>(w, c). (Inr (), (w, c\<lparr>cs_out := cs_out c @ [line]\<rparr>)))"

text \<open>\<open>Path::with_extension\<close> on a host whose separator is the slash: the text up to the end of the
  file stem, a dot and the extension. \<open>path_tail\<close> drops trailing separators and dots from the
  reversed path; a path without a file name is not changed.\<close>

fun path_tail :: "string \<Rightarrow> string" where
  "path_tail (CHR ''/'' # r) = path_tail r"
| "path_tail (CHR ''.'' # CHR ''/'' # r) = path_tail r"
| "path_tail r = r"

definition with_extension :: "string \<Rightarrow> string \<Rightarrow> string" where
  "with_extension p ext =
     (let t = path_tail (rev p); name = takeWhile (\<lambda>c. c \<noteq> CHR ''/'') t;
          dir = dropWhile (\<lambda>c. c \<noteq> CHR ''/'') t;
          stem = (case dropWhile (\<lambda>c. c \<noteq> CHR ''.'') name of [] \<Rightarrow> name | [_] \<Rightarrow> name | _ # s \<Rightarrow> s)
      in if name = [] \<or> name = ''.'' \<or> name = ''..'' then p
         else rev dir @ rev stem @ ''.'' @ ext)"

subsection \<open>Backups\<close>

text \<open>\<open>replace\<close> of one quote by two, and how SQL reads the text between the quotes of a literal.\<close>

fun sql_quote :: "string \<Rightarrow> string" where
  "sql_quote [] = []"
| "sql_quote (c # s) = (if c = CHR 0x27 then c # c # sql_quote s else c # sql_quote s)"

fun sql_literal :: "string \<Rightarrow> string option" where
  "sql_literal [] = Some []"
| "sql_literal [c] = (if c = CHR 0x27 then None else Some [c])"
| "sql_literal (c # d # s) =
     (if c = CHR 0x27 then if d = CHR 0x27 then map_option ((#) c) (sql_literal s) else None
      else map_option ((#) c) (sql_literal (d # s)))"

definition vacuum_into :: "'os db_env \<Rightarrow> 'os cli_lib \<Rightarrow> string \<Rightarrow> ('os tool, cli_error, unit) io" where
  "vacuum_into E L target = io_bind (core_op (db_guard E)) (\<lambda>_. \<lambda>(w, c).
     case sql_literal target of
       None \<Rightarrow> (Inl (Core_Fail (Persistence ''syntax error'')), (w, c))
     | Some p \<Rightarrow>
         if cs_files c p \<noteq> None then (Inl (Core_Fail (Persistence ''output file already exists'')), (w, c))
         else (Inr (), (w, c\<lparr>cs_files := (cs_files c)(p \<mapsto> ct_image L (w_db w))\<rparr>)))"

text \<open>The temporary file exists only for its name: it is removed when it is dropped.\<close>

definition temp_path :: "'os cli_lib \<Rightarrow> ('os tool, cli_error, string) io" where
  "temp_path L = io_bind (os_op (ct_temp_path L)) (\<lambda>p. \<lambda>(w, c).
     (Inr p, (w, c\<lparr>cs_files := (cs_files c)(p := None)\<rparr>)))"

definition backup_create ::
    "'os db_env \<Rightarrow> 'os crypto_lib \<Rightarrow> 'os cli_lib \<Rightarrow> string \<Rightarrow> seal_key \<Rightarrow> ('os tool, cli_error, unit) io" where
  "backup_create E C L output key =
     io_bind (with_context ''temp file'' (temp_path L)) (\<lambda>tmp.
     io_ignore (remove_file L tmp)
     (io_bind (with_context ''vacuum into'' (vacuum_into E L (sql_quote tmp))) (\<lambda>_.
      io_bind (with_context ''read vacuum output'' (read_file L tmp)) (\<lambda>bytes.
      io_ignore (remove_file L tmp)
      (io_bind (with_context ''seal backup'' (core_op (seal (os_crypto C) bytes key))) (\<lambda>sealed.
       io_bind (tool_world (\<lambda>w. (Inr (), w\<lparr>w_os := ct_make_parent L output (w_os w)\<rparr>))) (\<lambda>_.
       with_context ''write backup'' (write_file L output sealed))))))))"

definition SQLITE_MAGIC :: "u8 list" where
  "SQLITE_MAGIC = bytes_of ''SQLite format 3''"

definition backup_restore ::
    "'os crypto_lib \<Rightarrow> 'os cli_lib \<Rightarrow> string \<Rightarrow> string \<Rightarrow> seal_key \<Rightarrow> ('os tool, cli_error, unit) io" where
  "backup_restore C L live_path input key =
     io_bind (with_context ''read backup'' (read_file L input)) (\<lambda>sealed.
     io_bind (with_context ''unseal backup (wrong master key?)'' (io_lift (map_error Core_Fail
       (unseal (os_crypto C) sealed key)))) (\<lambda>plain.
     if length plain < 16 \<or> take 15 plain \<noteq> SQLITE_MAGIC
     then io_fail (Bail ''backup does not look like a SQLite file'')
     else
       io_bind (tool_world (\<lambda>w. (Inr (), w\<lparr>w_os := ct_checkpoint L (w_os w)\<rparr>))) (\<lambda>_.
       let tmp = with_extension live_path ''restore.tmp'' in
       io_bind (with_context ''write restored db'' (write_file L tmp plain)) (\<lambda>_.
       io_bind (with_context ''rename restored db'' (rename_file L tmp live_path)) (\<lambda>_.
       io_ignore (remove_file L (live_path @ ''-wal''))
       (io_ignore (remove_file L (live_path @ ''-shm'')) (io_ret ())))))))"

subsection \<open>Commands\<close>

datatype user_cmd =
    User_List
  | User_Create (cu_username: string) (cu_role: string) (cu_from_stdin: bool)
  | User_Reset_Password string
  | User_Disable_Totp string

datatype backup_cmd = Backup_Create string | Backup_Restore string

datatype cmd =
    Cmd_Version
  | Cmd_Init string
  | Cmd_Migrate
  | Cmd_User user_cmd
  | Cmd_Peer_List
  | Cmd_Interface_List
  | Cmd_Audit u32
  | Cmd_Backup backup_cmd

text \<open>The format \<open>{:<n}\<close> pads to \<open>n\<close> characters; a continuation byte of UTF-8 is none.\<close>

definition char_count :: "string \<Rightarrow> nat" where
  "char_count s = length (filter (\<lambda>c. \<not> (0x80 \<le> code c \<and> code c < 0xC0)) s)"

definition pad_to :: "nat \<Rightarrow> string \<Rightarrow> string" where
  "pad_to n s = s @ replicate (n - char_count s) (CHR '' '')"

definition show_bool :: "bool \<Rightarrow> string" where
  "show_bool b = (if b then ''true'' else ''false'')"

definition user_line :: "user \<Rightarrow> string" where
  "user_line u = pad_to 24 (u_username u) @ ''  '' @ pad_to 10 (role_as_str (u_role u)) @ ''  '' @
     unwrap_or [] (u_email u) @ ''  totp='' @ show_bool (u_totp_enabled u)"

definition peer_line :: "net_lib \<Rightarrow> peer \<Rightarrow> string" where
  "peer_line N p = show_id N (p_id p) @ ''  '' @ pad_to 24 (p_name p) @ ''  iface='' @
     show_id N (p_interface_id p) @ ''  enabled='' @ show_bool (p_enabled p) @ ''  ips='' @
     join '','' (map (nl_show_net N) (p_allowed_ips p))"

definition iface_line :: "net_lib \<Rightarrow> iface \<Rightarrow> string" where
  "iface_line N i = show_id N (i_id i) @ ''  '' @ pad_to 10 (i_name i) @ ''  port='' @
     dec (unat (i_listen_port i)) @ ''  status='' @ status_as_str (i_status i)"

definition audit_line :: "'os cli_lib \<Rightarrow> net_lib \<Rightarrow> 'j audit_event \<Rightarrow> string" where
  "audit_line L N e = ct_rfc3339 L (ae_created_at e) @ ''  '' @
     pad_to 22 (action_as_str (ae_action e)) @ ''  actor='' @
     unwrap_or [] (map_option (show_id N) (ae_actor_user_id e)) @ ''  ip='' @
     unwrap_or [] (ae_actor_ip e) @ ''  res='' @ unwrap_or [] (ae_resource_type e) @ '':'' @
     unwrap_or [] (ae_resource_id e)"

definition read_password_stdin :: "'os cli_lib \<Rightarrow> ('os tool, cli_error, string) io" where
  "read_password_stdin L = io_bind (os_op (ct_stdin_line L)) (\<lambda>line. io_ret (trim_end line))"

definition cli_user_create ::
    "('os, 'j) app_state \<Rightarrow> 'os cli_lib \<Rightarrow> string \<Rightarrow> string \<Rightarrow> bool \<Rightarrow> ('os tool, cli_error, unit) io" where
  "cli_user_create A L username role_text from_stdin =
     io_bind (io_lift (map_error Bail (role_from_str role_text))) (\<lambda>ro.
     io_bind (if from_stdin then read_password_stdin L else os_op (ct_prompt L ''Password: '')) (\<lambda>password.
     if length password < 12 then io_fail (Bail ''password must be at least 12 characters'')
     else io_bind (core_op (create_user (auth_service A) username password None ro)) (\<lambda>u.
       println (''Created user '' @ u_username u @ '' (id='' @ show_id (de_net (app_env A)) (u_id u) @ '')''))))"

definition cli_find_user ::
    "('os, 'j) app_state \<Rightarrow> string \<Rightarrow> ('os tool, cli_error, user) io" where
  "cli_find_user A username =
     io_some (Bail ''user not found'') (core_op (ur_find_by_username (sqlite_users (app_repos A)) username))"

definition cli_reset_password ::
    "('os, 'j) app_state \<Rightarrow> 'os cli_lib \<Rightarrow> string \<Rightarrow> ('os tool, cli_error, unit) io" where
  "cli_reset_password A L username =
     io_bind (cli_find_user A username) (\<lambda>u.
     io_bind (os_op (ct_prompt L ''New password: '')) (\<lambda>password.
     if length password < 12 then io_fail (Bail ''password must be at least 12 characters'')
     else io_bind (core_op (hash_password (os_crypto (app_crypto A)) password)) (\<lambda>hash.
       io_bind (core_op (ur_update_password (sqlite_users (app_repos A)) (u_id u) hash)) (\<lambda>_.
       println (''Password updated for '' @ username @ ''.'')))))"

definition cli_disable_totp ::
    "('os, 'j) app_state \<Rightarrow> string \<Rightarrow> ('os tool, cli_error, unit) io" where
  "cli_disable_totp A username =
     io_bind (cli_find_user A username) (\<lambda>u.
     io_bind (core_op (ur_update_totp (sqlite_users (app_repos A)) (u_id u) False None)) (\<lambda>_.
     println (''TOTP disabled for '' @ username @ ''.'')))"

definition cli_user ::
    "('os, 'j) app_state \<Rightarrow> 'os cli_lib \<Rightarrow> user_cmd \<Rightarrow> ('os tool, cli_error, unit) io" where
  "cli_user A L c = (case c of
     User_List \<Rightarrow> io_bind (core_op (ur_list (sqlite_users (app_repos A)))) (\<lambda>us.
       io_for us (\<lambda>u. println (user_line u)))
   | User_Create name ro from_stdin \<Rightarrow> cli_user_create A L name ro from_stdin
   | User_Reset_Password name \<Rightarrow> cli_reset_password A L name
   | User_Disable_Totp name \<Rightarrow> cli_disable_totp A name)"

definition cli_init :: "'os cli_lib \<Rightarrow> string \<Rightarrow> ('os tool, cli_error, unit) io" where
  "cli_init L output =
     io_bind (io_rand (file_exists output)) (\<lambda>there.
     if there then io_fail (Bail (''config already exists at '' @ output))
     else io_bind (write_file L output (bytes_of (ct_sample_config L))) (\<lambda>_.
       println (''Wrote sample config to '' @ output)))"

text \<open>The commands that work on the open database.\<close>

definition cli_command ::
    "('os, 'j) app_state \<Rightarrow> 'os cli_lib \<Rightarrow> cli_config \<Rightarrow> cmd \<Rightarrow> ('os tool, cli_error, unit) io" where
  "cli_command A L cfg c =
     (let N = de_net (app_env A); key = seal_key_from_passphrase (cc_master_key cfg) in
      case c of
        Cmd_Migrate \<Rightarrow> io_bind (with_context ''migrate'' (core_op (run_migrations (ct_pool L))))
          (\<lambda>_. println ''Migrations applied.'')
      | Cmd_User u \<Rightarrow> cli_user A L u
      | Cmd_Peer_List \<Rightarrow> io_bind (core_op (pr_list_all (sqlite_peers (app_repos A)))) (\<lambda>ps.
          io_for ps (\<lambda>p. println (peer_line N p)))
      | Cmd_Interface_List \<Rightarrow> io_bind (core_op (ir_list (sqlite_ifaces (app_repos A)))) (\<lambda>is.
          io_for is (\<lambda>i. println (iface_line N i)))
      | Cmd_Audit limit \<Rightarrow> io_bind (core_op (ar_list (sqlite_audit (app_repos A) (app_json A)) limit)) (\<lambda>es.
          io_for es (\<lambda>e. println (audit_line L N e)))
      | Cmd_Backup (Backup_Create output) \<Rightarrow>
          io_bind (backup_create (app_repos A) (app_crypto A) L output key) (\<lambda>_.
          println (''Backup written to '' @ output))
      | Cmd_Backup (Backup_Restore input) \<Rightarrow>
          io_bind (backup_restore (app_crypto A) L (cc_database_path cfg) input key) (\<lambda>_.
          println (''Backup restored from '' @ input))
      | _ \<Rightarrow> io_fail (Bail ''unreachable''))"

definition cli_main ::
    "('os, 'j) app_state \<Rightarrow> 'os cli_lib \<Rightarrow> string \<Rightarrow> cmd \<Rightarrow> ('os tool, cli_error, unit) io" where
  "cli_main A L config c = (case c of
     Cmd_Version \<Rightarrow> println (''wireforge '' @ ct_version L)
   | Cmd_Init output \<Rightarrow> cli_init L output
   | _ \<Rightarrow>
       io_bind (with_context ''parse config'' (io_map_err Config_Fail
         (cli_load_config ((ct_figment L)\<lparr>fg_exists := file_exists\<rparr>) config))) (\<lambda>cfg.
       io_bind (with_context ''open sqlite pool'' (core_op (open_pool (ct_pool L) (cc_database_path cfg)))) (\<lambda>_.
       cli_command A L cfg c)))"

end
