(* ===== verification/Poller_Properties.thy ===== *)
theory Poller_Properties
  imports Server_Run Sample
begin

section \<open>What a pass of the poller enforces\<close>

text \<open>
  With a database that answers, polling an interface never fails, and it disables exactly the
  peers of that interface whose counters reach their quota. The operations it calls succeed
  there, so their triples hold with no error at all.
\<close>

subsection \<open>Statements that cannot fail\<close>

lemma find_answers:
  assumes "\<And>r. r \<in> set rows \<Longrightarrow> \<exists>x. into r = Inr x"
  shows "\<exists>x. opt_traverse into (find p rows) = Inr x"
proof (cases "find p rows")
  case (Some r)
  then show ?thesis using assms [of r] find_SomeD [OF Some] by auto
qed simp

lemma finds_answer:
  assumes "db_quiet E" and "net_is E v w"
  shows "\<exists>x. fst (peers_find_by_id E k w) = Inr x" "\<exists>x. fst (ifaces_find_by_id E i w) = Inr x"
proof -
  have rows: "net_rows_ok E (w_db w)"
    using assms(2) by (simp add: holds_def net_inv_def)
  show "\<exists>x. fst (peers_find_by_id E k w) = Inr x" "\<exists>x. fst (ifaces_find_by_id E i w) = Inr x"
    by (simp_all add: peers_find_by_id_def ifaces_find_by_id_def fetch_optional_quiet [OF assms(1)])
      (rule find_answers, use peer_row_okD(1) iface_row_okD(1) rows_okD [OF rows] in blast)+
qed

lemma list_answers:
  assumes "db_quiet E" and "net_is E v w"
  shows "\<exists>x. fst (peers_list_for_interface E i w) = Inr x"
proof -
  have rows: "net_rows_ok E (w_db w)"
    using assms(2) by (simp add: holds_def net_inv_def)
  have "set (sort_key pc_created_at (filter p (tb_peers (w_db w)))) \<subseteq> set (tb_peers (w_db w))" for p
    by auto
  from decode_peers [OF rows this] show ?thesis
    by (simp add: peers_list_for_interface_def fetch_all_def io_bind_def db_query_quiet [OF assms(1)])
qed

lemma update_answers:
  assumes "db_quiet E" and "net_is E (is, ps) w" and "p_interface_id q \<in> i_id ` set is"
  shows "\<exists>x. fst (peers_update E q w) = Inr x"
proof -
  have rows: "net_rows_ok E (w_db w)" and n: "net_of E (w_db w) = (is, ps)"
    using assms(2) by (simp_all add: holds_def net_inv_def net_view_def)
  obtain r where r: "r \<in> set (tb_ifaces (w_db w))" "i_id (iface_of E r) = p_interface_id q"
    using assms(3) net_of_parts [OF n] by auto
  then have "show_id (de_net E) (p_interface_id q) \<in> ic_id ` set (tb_ifaces (w_db w))"
    using iface_row_okD(2) [OF rows_okD(1) [OF rows r(1)]] by force
  then show ?thesis
    by (simp add: peers_update_def io_bind_def on_os_def db_exec_quiet [OF assms(1)] update_peer_rows_def
        Let_def split: prod.split)
qed

subsection \<open>The rule a pass enforces\<close>

definition exceeds :: "peer_stats \<Rightarrow> peer \<Rightarrow> bool" where
  "exceeds s p \<longleftrightarrow> ps_public_key s = p_public_key p \<and>
     (\<exists>quota. p_quota p = Some quota \<and> quota \<le> saturating_add (ps_rx_bytes s) (ps_tx_bytes s))"

definition polled :: "interface_id \<Rightarrow> peer_stats list \<Rightarrow> peer \<Rightarrow> peer" where
  "polled i stats p = p\<lparr>p_enabled :=
     p_enabled p \<and> \<not> (p_interface_id p = i \<and> (\<exists>s \<in> set stats. exceeds s p))\<rparr>"

text \<open>A peer but for its counter and the time of its last change.\<close>

definition poll_view :: "peer \<Rightarrow> peer" where
  "poll_view p = p\<lparr>p_used := 0, p_updated_at := 0\<rparr>"

definition disabled_at :: "peer_id \<Rightarrow> peer \<Rightarrow> peer" where
  "disabled_at k p = (if p_id p = k then p\<lparr>p_enabled := False\<rparr> else p)"

abbreviation stays_on :: "interface_id \<Rightarrow> peer_stats list \<Rightarrow> peer \<Rightarrow> bool" where
  "stays_on i stats p \<equiv> p_enabled p \<and> \<not> (p_interface_id p = i \<and> (\<exists>s \<in> set stats. exceeds s p))"

lemma poll_view_polled: "poll_view (polled i stats p) = (poll_view p)\<lparr>p_enabled := stays_on i stats p\<rparr>"
  by (cases p) (simp add: poll_view_def polled_def exceeds_def)

lemma disabled_at_flag:
  "disabled_at k ((poll_view p)\<lparr>p_enabled := b\<rparr>) = (poll_view p)\<lparr>p_enabled := b \<and> p_id p \<noteq> k\<rparr>"
  by (cases p) (simp add: disabled_at_def poll_view_def)

lemma flag_cong: "a = b \<Longrightarrow> p\<lparr>p_enabled := a\<rparr> = p\<lparr>p_enabled := b\<rparr>" for p :: peer
  by simp

lemma poll_view_used: "map poll_view (put_used k b ps) = map poll_view ps"
  by (simp add: put_used_def poll_view_def)

lemma poll_view_disabled:
  assumes "distinct (map p_id ps)" and "find (\<lambda>y. p_id y = k) ps = Some old"
  shows "map poll_view (put_peer (old\<lparr>p_enabled := False\<rparr>) now ps) = map (disabled_at k) (map poll_view ps)"
proof -
  have old: "old \<in> set ps" "p_id old = k"
    using find_SomeD [OF assms(2)] by simp_all
  have "y = old" if "y \<in> set ps" "p_id y = k" for y
    using that old assms(1) by (simp add: distinct_map inj_on_def)
  moreover have "poll_view (peer_over (old\<lparr>p_enabled := False\<rparr>) now old) = disabled_at k (poll_view old)"
    using old(2) by (cases old) (simp add: poll_view_def disabled_at_def peer_over_def)
  moreover have "disabled_at k (poll_view y) = poll_view y" if "p_id y \<noteq> k" for y
    using that by (simp add: disabled_at_def poll_view_def)
  ultimately show ?thesis
    by (auto simp: put_peer_def old(2))
qed

lemma disabled_polled:
  assumes "p_interface_id q = i" and "\<And>y. y \<in> set ps0 \<Longrightarrow> p_interface_id y = i \<Longrightarrow> p_public_key y = p_public_key q \<Longrightarrow> y = q"
    and "q \<in> set ps0" "distinct (map p_id ps0)" and "ps_public_key s = p_public_key q"
    and "quota_exceeded q (saturating_add (ps_rx_bytes s) (ps_tx_bytes s))"
  shows "map (disabled_at (p_id q)) (map (poll_view \<circ> polled i done) ps0) = map (poll_view \<circ> polled i (done @ [s])) ps0"
proof -
  have same: "y = q" if "y \<in> set ps0" "p_id y = p_id q" for y
    using that assms(3,4) by (simp add: distinct_map inj_on_def)
  have "exceeds s q"
    using assms(5,6) by (auto simp: exceeds_def quota_exceeded_def split: option.splits)
  moreover have "\<not> exceeds s y" if "y \<in> set ps0" "y \<noteq> q" "p_interface_id y = i" for y
    using assms(2,5) that by (auto simp: exceeds_def)
  ultimately have on: "(stays_on i done y \<and> p_id y \<noteq> p_id q) = stays_on i (done @ [s]) y" if "y \<in> set ps0" for y
    using same assms(1) that by (cases "y = q") auto
  then show ?thesis
    by (simp only: map_map comp_def poll_view_polled disabled_at_flag)
      (rule map_cong [OF refl], rule flag_cong, erule on)
qed

lemma not_exceeded_polled:
  assumes "\<And>y. y \<in> set ps0 \<Longrightarrow> p_interface_id y = i \<Longrightarrow> ps_public_key s = p_public_key y \<Longrightarrow>
     \<not> quota_exceeded y (saturating_add (ps_rx_bytes s) (ps_tx_bytes s))"
  shows "map (poll_view \<circ> polled i done) ps0 = map (poll_view \<circ> polled i (done @ [s])) ps0"
proof -
  have on: "stays_on i done y = stays_on i (done @ [s]) y" if "y \<in> set ps0" for y
    using assms [OF that] by (auto simp: exceeds_def quota_exceeded_def)
  then show ?thesis
    by (simp only: comp_def poll_view_polled) (rule map_cong [OF refl], rule flag_cong, erule on)
qed

subsection \<open>Polling with a database that answers\<close>

text \<open>The interface the pass is about, and the reading of the peers it starts from.\<close>

lemma app_poller_parts:
  "po_peers (app_poller A) = sqlite_peers (app_repos A)" "po_ifaces (app_poller A) = sqlite_ifaces (app_repos A)"
  "pr_find_by_id (sqlite_peers E) = peers_find_by_id E" "ir_find_by_id (sqlite_ifaces E) = ifaces_find_by_id E"
  "pr_update (sqlite_peers E) = peers_update E"
  "pr_list_for_interface (sqlite_peers E) = peers_list_for_interface E"
  by (simp_all add: app_poller_def sqlite_peers_def sqlite_ifaces_def)

lemma surely_some:
  assumes "surely P m (\<lambda>x w. Q w \<and> x = Some y)"
  shows "surely P (io_some e (io_map_err g m)) (\<lambda>x w. Q w \<and> x = y)"
  by (rule triple_some, rule triple_map_err, rule triple_conseq [OF assms]) auto

lemma surely_update:
  assumes quiet: "db_quiet E" and "old \<in> set ps"
    and "p_public_key x = p_public_key old" and "p_interface_id x \<in> i_id ` set is"
  shows "surely (net_is E (is, ps)) (peers_update E x) (\<lambda>_ w. \<exists>now. net_is E (is, put_peer x now ps) w)"
proof (rule tripleI, goal_cases)
  case (1 w u w')
  have "key_valid E (p_public_key x)"
    using sqlite_net.stored_keys [of E w] 1(1) assms(2,3) by (auto simp: holds_def)
  then show ?case by (rule triple_ok [OF peers_update_contract 1])
next
  case (2 w e w')
  from update_answers [OF quiet 2(1) assms(4)] show ?case using 2(2) by simp
qed

lemma surely_disable:
  assumes quiet: "db_quiet (app_repos A)" and old: "find (\<lambda>y. p_id y = k) ps = Some old"
    and wf: "net_wf (is, ps)"
  shows "surely (net_is (app_repos A) (is, ps)) (disable_peer (app_poller A) k)
    (\<lambda>_ w. \<exists>now. net_is (app_repos A) (is, put_peer (old\<lparr>p_enabled := False\<rparr>) now ps) w)"
proof -
  let ?E = "app_repos A" and ?x = "old\<lparr>p_enabled := False\<rparr>"
  have known: "p_interface_id old \<in> i_id ` set is" "old \<in> set ps"
    using wf find_SomeD [OF old] by (auto simp: net_wf_def)
  then obtain i where i: "find (\<lambda>y. i_id y = p_interface_id old) is = Some i"
    by (cases "find (\<lambda>y. i_id y = p_interface_id old) is") (auto dest: find_NoneD)
  have found: "surely (net_is ?E (is, ps)) (peers_find_by_id ?E k) (\<lambda>x w. net_is ?E (is, ps) w \<and> x = Some old)"
    unfolding old [symmetric] by (rule surelyI [OF peers_find_by_id_contract]) (rule finds_answer(1) [OF quiet])
  have ifound: "surely (net_is ?E (is, ps)) (ifaces_find_by_id ?E (p_interface_id old))
      (\<lambda>x w. net_is ?E (is, ps) w \<and> x = Some i)"
    unfolding i [symmetric] by (rule surelyI [OF ifaces_find_by_id_contract]) (rule finds_answer(2) [OF quiet])
  have updated: "surely (net_is ?E (is, ps)) (peers_update ?E ?x)
      (\<lambda>_ w. \<exists>now. net_is ?E (is, put_peer ?x now ps) w)"
    by (rule surely_update [OF quiet known(2)]) (simp_all add: known(1))
  show ?thesis
    unfolding disable_peer_def app_poller_parts Let_def
  proof (rule triple_bind_pure [OF surely_some [OF found]], hypsubst,
      rule triple_bind_pure [OF surely_some [OF ifound]], hypsubst,
      rule triple_bind, rule triple_map_err, rule updated, rule triple_ex)
    fix now
    show "surely (net_is ?E (is, put_peer ?x now ps)) (io_ignore (wg_remove_peer (po_wg (app_poller A)) i (p_public_key ?x)) (io_ret ()))
        (\<lambda>_ w. \<exists>now. net_is ?E (is, put_peer ?x now ps) w)"
      by (rule triple_ignore [OF app_poll.remove_peer], rule triple_ret) blast
  qed
qed

text \<open>The peers while the readings \<open>rest\<close> are still to be looked at.\<close>

definition polling :: "'os db_env \<Rightarrow> net \<Rightarrow> interface_id \<Rightarrow> peer_stats list \<Rightarrow> peer_stats list \<Rightarrow> 'os world \<Rightarrow> bool" where
  "polling E n i stats rest w \<longleftrightarrow> (\<exists>ps. net_is E (fst n, ps) w \<and>
     (\<exists>done. done @ rest = stats \<and> map poll_view ps = map (poll_view \<circ> polled i done) (snd n)))"

lemma poll_view_ids: "map p_id (map poll_view ps) = map p_id ps"
  by (simp add: poll_view_def)

lemma polled_ids:
  assumes "map poll_view ps = map (poll_view \<circ> polled i done) ps0"
  shows "map p_id ps = map p_id ps0"
  using arg_cong [OF assms, of "map p_id"] by (simp add: poll_view_def polled_def comp_def)

lemma by_pubkey_here:
  assumes "distinct (map p_public_key (filter (\<lambda>p. p_interface_id p = i) ps0))"
    and "mset listed = mset (filter (\<lambda>p. p_interface_id p = i) ps0)"
  shows "by_pubkey listed (public_str k) = Some q \<longleftrightarrow> q \<in> set ps0 \<and> p_interface_id q = i \<and> p_public_key q = k"
proof -
  have str: "public_str a = public_str b \<longleftrightarrow> a = b" for a b
    by (cases a; cases b) simp
  have "mset (map p_public_key listed) = mset (map p_public_key (filter (\<lambda>p. p_interface_id p = i) ps0))"
    using assms(2) by (simp only: mset_map)
  then have "distinct (map p_public_key listed)"
    using assms(1) mset_eq_imp_distinct_iff by blast
  then have dist: "distinct (map fst (rev (map (\<lambda>p. (public_str (p_public_key p), p)) listed)))"
    by (simp add: rev_map [symmetric] comp_def distinct_map inj_on_def str)
  have "set listed = set (filter (\<lambda>p. p_interface_id p = i) ps0)"
    using assms(2) by (rule mset_eq_setD)
  then show ?thesis
    unfolding by_pubkey_def map_of_eq_Some_iff [OF dist] by (auto simp: str)
qed

lemma stored_wf: "net_is (app_repos A) (is, ps) w \<Longrightarrow> net_wf (is, ps)"
  using sqlite_net.wf [of "app_repos A" w] by (simp add: holds_def)

lemma surely_over:
  assumes quiet: "db_quiet (app_repos A)" and q: "q \<in> set ps0"
    and view: "map poll_view ps = map (poll_view \<circ> polled i done) ps0"
    and next_view: "map (disabled_at (p_id q)) (map (poll_view \<circ> polled i done) ps0) =
      map (poll_view \<circ> polled i (done @ [s])) ps0"
  shows "surely (net_is (app_repos A) (is, ps)) (io_ignore (disable_peer (app_poller A) (p_id q)) (io_ret ()))
    (\<lambda>_ w. \<exists>ps'. net_is (app_repos A) (is, ps') w \<and> map poll_view ps' = map (poll_view \<circ> polled i (done @ [s])) ps0)"
proof (rule triple_known [OF stored_wf])
  assume wf: "net_wf (is, ps)"
  have "p_id q \<in> set (map p_id ps)"
    unfolding polled_ids [OF view] using q by simp
  then obtain old where old: "find (\<lambda>y. p_id y = p_id q) ps = Some old"
    by (cases "find (\<lambda>y. p_id y = p_id q) ps") (auto dest: find_NoneD)
  have "distinct (map p_id ps)"
    using wf by (simp add: net_wf_def)
  from poll_view_disabled [OF this old] have after: "map poll_view (put_peer (old\<lparr>p_enabled := False\<rparr>) now ps) =
      map (poll_view \<circ> polled i (done @ [s])) ps0" for now
    unfolding view next_view .
  let ?Q = "\<lambda>w. \<exists>ps'. net_is (app_repos A) (is, ps') w \<and> map poll_view ps' = map (poll_view \<circ> polled i (done @ [s])) ps0"
  have "triple (net_is (app_repos A) (is, ps)) (disable_peer (app_poller A) (p_id q)) (\<lambda>_. ?Q) (\<lambda>_. ?Q)"
    by (rule triple_conseq [OF surely_disable [OF quiet old wf]]) (use after in blast)+
  then show "surely (net_is (app_repos A) (is, ps)) (io_ignore (disable_peer (app_poller A) (p_id q)) (io_ret ())) (\<lambda>_. ?Q)"
    by (rule triple_ignore) (rule triple_ret)
qed

lemma pollingI:
  "net_is E (fst n, ps) w \<Longrightarrow> done @ s # rest = stats \<Longrightarrow>
   map poll_view ps = map (poll_view \<circ> polled i (done @ [s])) (snd n) \<Longrightarrow> polling E n i stats rest w"
  unfolding polling_def by (rule exI [of _ ps], intro conjI exI [of _ "done @ [s]"]) simp_all

lemma surely_stat:
  assumes quiet: "db_quiet (app_repos A)" and wf: "net_wf n"
    and keys: "distinct (map p_public_key (filter (\<lambda>p. p_interface_id p = i) (snd n)))"
    and listed: "mset listed = mset (filter (\<lambda>p. p_interface_id p = i) (snd n))"
  shows "surely (polling (app_repos A) n i stats (s # rest)) (poll_stat (app_poller A) listed s)
    (\<lambda>_. polling (app_repos A) n i stats rest)"
  unfolding polling_def [of _ n i stats "s # rest"]
proof (rule triple_ex, rule triple_pure, elim exE conjE)
  fix ps "done"
  assume stats: "done @ s # rest = stats"
    and ps: "map poll_view ps = map (poll_view \<circ> polled i done) (snd n)"
  let ?E = "app_repos A" and ?sum = "saturating_add (ps_rx_bytes s) (ps_tx_bytes s)"
  let ?next = "map (poll_view \<circ> polled i (done @ [s])) (snd n)"
  note here = by_pubkey_here [OF keys listed]
  have ids: "distinct (map p_id (snd n))"
    using wf by (simp add: net_wf_def)
  show "surely (net_is ?E (fst n, ps)) (poll_stat (app_poller A) listed s) (\<lambda>_. polling ?E n i stats rest)"
  proof (cases "by_pubkey listed (public_str (ps_public_key s))")
    case None
    have "map (poll_view \<circ> polled i done) (snd n) = ?next"
      by (rule not_exceeded_polled) (use None here [of "ps_public_key s"] in auto)
    from ps [unfolded this] show ?thesis
      unfolding poll_stat_def None option.case by (intro triple_ret pollingI [OF _ stats])
  next
    case (Some q)
    then have q: "q \<in> set (snd n)" "p_interface_id q = i" "ps_public_key s = p_public_key q"
      using here by simp_all
    have only: "y = q" if "y \<in> set (snd n)" "p_interface_id y = i" "p_public_key y = p_public_key q" for y
      using here [of "ps_public_key s" y] Some that q(3) by simp
    let ?used = "put_used (p_id q) ?sum ps"
    have used: "map poll_view x = map (poll_view \<circ> polled i done) (snd n)" if "x = ps \<or> x = ?used" for x
      using ps that poll_view_used [of "p_id q" ?sum ps] by (elim disjE) (simp_all only:)
    let ?B = "\<lambda>w. \<exists>x. net_is ?E (fst n, x) w \<and> (x = ps \<or> x = ?used)"
    have band: "triple (net_is ?E (fst n, ps)) (pr_record_bandwidth (po_peers (app_poller A)) (p_id q) ?sum) (\<lambda>_. ?B) (\<lambda>_. ?B)"
      by (rule triple_conseq [OF app_poll.peer_bandwidth]) blast+
    have rest: "surely ?B
        (if quota_exceeded q ?sum then io_ignore (disable_peer (app_poller A) (p_id q)) (io_ret ()) else io_ret ())
        (\<lambda>_. polling ?E n i stats rest)"
    proof (rule triple_ex, rule triple_pure, rule triple_if)
      fix x
      assume x: "x = ps \<or> x = ?used" and over: "quota_exceeded q ?sum"
      show "surely (net_is ?E (fst n, x)) (io_ignore (disable_peer (app_poller A) (p_id q)) (io_ret ()))
          (\<lambda>_. polling ?E n i stats rest)"
        by (rule triple_conseq [OF surely_over [OF quiet q(1) used [OF x] disabled_polled [OF q(2) only q(1) ids q(3) over]]])
          (assumption+, elim exE conjE, rule pollingI [OF _ stats], assumption+)
    next
      fix x
      assume x: "x = ps \<or> x = ?used" and over: "\<not> quota_exceeded q ?sum"
      have "map (poll_view \<circ> polled i done) (snd n) = ?next"
        by (rule not_exceeded_polled) (use only over q(3) in auto)
      from used [OF x, unfolded this]
      show "surely (net_is ?E (fst n, x)) (io_ret ()) (\<lambda>_. polling ?E n i stats rest)"
        by (intro triple_ret pollingI [OF _ stats])
    qed
    show ?thesis
      unfolding poll_stat_def Some option.case Let_def
      by (rule triple_ignore [OF app_poll.traffic_frame], rule triple_ignore [OF band rest])
  qed
qed

lemma surely_poll:
  assumes quiet: "db_quiet (app_repos A)" and at: "net_is (app_repos A) n w"
    and keys: "distinct (map p_public_key (filter (\<lambda>p. p_interface_id p = i_id i) (snd n)))"
    and up: "i_status i = Status_Up"
    and read: "wg_peer_stats (po_wg (app_poller A)) i w = (Inr stats, w1)"
  shows "\<exists>w'. poll_iface (app_poller A) i w = (Inr (), w') \<and> polling (app_repos A) n (i_id i) stats [] w'"
proof -
  let ?E = "app_repos A" and ?H = "app_poller A"
  have wf: "net_wf n"
    using stored_wf [of A "fst n" "snd n" w] at by simp
  have at1: "net_is ?E n w1"
    by (rule triple_ok [OF app_poll.stats at read])
  have start: "polling ?E n (i_id i) stats stats w" if "net_is ?E (fst n, snd n) w" for w
  proof -
    have "poll_view p = (poll_view \<circ> polled (i_id i) []) p" for p
      by (cases p) (simp add: polled_def)
    then have "map poll_view (snd n) = map (poll_view \<circ> polled (i_id i) []) (snd n)"
      by (intro map_cong refl)
    then show ?thesis
      unfolding polling_def using that by (intro exI [of _ "snd n"] conjI exI [of _ "[]"]) simp_all
  qed
  have sure: "surely (net_is ?E (fst n, snd n)) (peers_list_for_interface ?E (i_id i))
      (\<lambda>x w. net_is ?E (fst n, snd n) w \<and> mset x = mset (filter (\<lambda>y. p_interface_id y = i_id i) (snd n)))"
    by (rule surelyI [OF peers_list_for_interface_contract]) (rule list_answers [OF quiet])
  have listed: "surely (net_is ?E (fst n, snd n)) (any_io (pr_list_for_interface (po_peers ?H) (i_id i)))
      (\<lambda>x w. polling ?E n (i_id i) stats stats w \<and> mset x = mset (filter (\<lambda>y. p_interface_id y = i_id i) (snd n)))"
    unfolding app_poller_parts
    by (rule triple_map_err, rule triple_conseq [OF sure])
      (assumption, elim conjE, rule conjI, erule start, assumption+)
  let ?loop = "io_bind (any_io (pr_list_for_interface (po_peers ?H) (i_id i))) (\<lambda>peers. io_for stats (poll_stat ?H peers))"
  have loop: "surely (net_is ?E (fst n, snd n)) ?loop (\<lambda>_. polling ?E n (i_id i) stats [])"
    by (rule triple_bind_pure [OF listed], rule triple_for_inv, rule surely_stat [OF quiet wf keys])
  obtain r w' where run: "?loop w1 = (r, w')"
    by (rule prod.exhaust)
  have here: "net_is ?E (fst n, snd n) w1"
    using at1 by simp
  obtain u where r: "r = Inr u"
    using triple_err [OF loop here] run by (cases r) auto
  have "polling ?E n (i_id i) stats [] w'"
    by (rule triple_ok [OF loop here]) (simp only: run r)
  moreover have "poll_iface ?H i w = ?loop w1"
    unfolding poll_iface_def io_try_def up using read by simp
  ultimately show ?thesis
    using run r by simp
qed

text \<open>C6: Polling an interface that is up enforces the quotas: with a database that answers and
  the counters read from the kernel, the pass over the interface cannot fail, and afterwards
  exactly those peers are disabled that were before or that belong to the interface, have a
  quota, and have a reading of their key whose two counters together, saturating at the largest
  64-bit number, reach it. Nothing else of any peer changes but the counters and time stamps, and
  no interface changes.\<close>

theorem quota_enforced:
  assumes "db_quiet (app_repos A)" and "net_inv (app_repos A) w" and "net_view (app_repos A) w = (is, ps)"
    and "distinct (map p_public_key (filter (\<lambda>p. p_interface_id p = i_id i) ps))"
    and "i_status i = Status_Up"
    and "wg_peer_stats (po_wg (app_poller A)) i w = (Inr stats, w1)"
  shows "\<exists>w' ps'. poll_iface (app_poller A) i w = (Inr (), w') \<and>
    net_inv (app_repos A) w' \<and> net_view (app_repos A) w' = (is, ps') \<and>
    map poll_view ps' = map (\<lambda>p. poll_view (p\<lparr>p_enabled := p_enabled p \<and>
      \<not> (p_interface_id p = i_id i \<and> (\<exists>s \<in> set stats. ps_public_key s = p_public_key p \<and>
          (\<exists>quota. p_quota p = Some quota \<and> quota \<le> saturating_add (ps_rx_bytes s) (ps_tx_bytes s))))\<rparr>)) ps"
proof -
  have "net_is (app_repos A) (is, ps) w"
    using assms(2,3) by (simp add: holds_def)
  from surely_poll [OF assms(1) this _ assms(5,6)] assms(4)
  obtain w' where "poll_iface (app_poller A) i w = (Inr (), w')" "polling (app_repos A) (is, ps) (i_id i) stats [] w'"
    by auto
  then show ?thesis
    unfolding polling_def holds_def polled_def exceeds_def comp_def by auto
qed

lemma sample_quiet': "db_quiet sample_env"
  by (simp add: db_quiet_def)

text \<open>A world with one peer that has a quota, and a host that reports its traffic.\<close>

definition sample_quota_peer :: new_peer where
  "sample_quota_peer = (sample_new_peer [Net_V4 10 32])\<lparr>np_quota := Some 1000\<rparr>"

definition sample_quota_world :: "nat world" where
  "sample_quota_world = sample_world\<lparr>w_db := empty_db\<lparr>
     tb_ifaces := [new_iface_row sample_env 1 0 sample_new_iface []],
     tb_peers := [new_peer_row sample_env 2 0 sample_quota_peer None]\<rparr>\<rparr>"

definition sample_busy_app :: "(nat, string) app_state" where
  "sample_busy_app = sample_app\<lparr>app_wg_lib := sample_wg_lib\<lparr>wl_read_interface_data := (\<lambda>n s.
     (Inr [\<lparr>wh_public_key = bytes_of (public_str sample_key), wh_last_handshake = None,
       wh_rx_bytes = 600, wh_tx_bytes = 400, wh_endpoint = None\<rparr>], s))\<rparr>\<rparr>"

lemma sample_busy_repos [simp]: "app_repos sample_busy_app = sample_env"
  using sample_repos by (simp add: app_repos_def sample_busy_app_def)

lemma sample_quota_view:
  "net_inv sample_env sample_quota_world"
  "net_view sample_env sample_quota_world = ([sample_iface], [new_peer_entity 2 0 sample_quota_peer None])"
proof -
  have row: "peer_into_domain sample_env (new_peer_row sample_env 2 0 sample_quota_peer None) =
      Inr (new_peer_entity 2 0 sample_quota_peer None)"
    by (rule new_peer_decodes [OF sample_text_laws])
      (simp add: sample_quota_peer_def sample_new_peer_def sample_key_valid)
  show view: "net_view sample_env sample_quota_world = ([sample_iface], [new_peer_entity 2 0 sample_quota_peer None])"
    by (simp add: net_view_def net_of_def sample_quota_world_def iface_of_def peer_of_def sample_rows_decode row)
  have "iface_row_ok sample_env (new_iface_row sample_env 1 0 sample_new_iface [])"
    unfolding iface_row_ok_def sample_rows_decode by (simp add: show_id_def new_iface_row_def Let_def)
  moreover have "peer_row_ok sample_env (new_peer_row sample_env 2 0 sample_quota_peer None)"
    unfolding peer_row_ok_def row by (simp add: show_id_def new_peer_row_def new_peer_entity_def)
  moreover have "net_wf ([sample_iface], [new_peer_entity 2 0 sample_quota_peer None])"
    by (simp add: net_wf_def new_peer_entity_def sample_quota_peer_def sample_new_peer_def)
  ultimately show "net_inv sample_env sample_quota_world"
    using sample_text_laws view
    by (simp add: net_inv_def net_rows_ok_def net_view_def) (simp add: sample_quota_world_def)
qed

lemma byte_char: "char_of (unat (word_of_nat (code c) :: u8)) = c"
  using code_less_256 [of c] by (simp add: unat_of_nat)

lemma sample_reading:
  "wg_peer_stats (po_wg (app_poller sample_busy_app)) (sample_iface\<lparr>i_status := Status_Up\<rparr>) sample_quota_world =
     (Inr [\<lparr>ps_public_key = sample_key, ps_last_handshake = None, ps_rx_bytes = 600, ps_tx_bytes = 400,
       ps_endpoint = None\<rparr>], sample_quota_world)"
  by (simp add: app_poller_def defguard_port_def adapter_peer_stats_def app_wg_def sample_busy_app_def sample_app_def
      sample_wg_lib_def wgapi_open_def wg_call_def on_os_res_def io_bind_def io_map_err_def host_peer_stats_def
      handshake_time_def sample_crypto_def bytes_of_def key_from_base64_def sample_key_def KEY_LEN_def byte_char)

theorem quota_enforced_witness:
  "\<exists>w' ps'. poll_iface (app_poller sample_busy_app) (sample_iface\<lparr>i_status := Status_Up\<rparr>) sample_quota_world = (Inr (), w') \<and>
     net_view sample_env w' = ([sample_iface], ps') \<and> map p_enabled ps' = [False]"
proof -
  have keys: "distinct (map p_public_key (filter (\<lambda>p. p_interface_id p = i_id (sample_iface\<lparr>i_status := Status_Up\<rparr>))
      [new_peer_entity 2 0 sample_quota_peer None]))"
    by simp
  have total: "saturating_add 600 400 = 1000"
    by (simp add: saturating_add_def)
  have flag: "p_enabled (poll_view p) = p_enabled p" for p
    by (simp add: poll_view_def)
  obtain w' ps' where run: "poll_iface (app_poller sample_busy_app) (sample_iface\<lparr>i_status := Status_Up\<rparr>) sample_quota_world =
      (Inr (), w')" "net_view sample_env w' = ([sample_iface], ps')"
    and view: "map poll_view ps' = map poll_view [(new_peer_entity 2 0 sample_quota_peer None)\<lparr>p_enabled := False\<rparr>]"
    using quota_enforced [of sample_busy_app, unfolded sample_busy_repos, OF sample_quiet' sample_quota_view keys _ sample_reading]
    by (auto simp: total new_peer_entity_def sample_quota_peer_def sample_new_peer_def)
  have "map p_enabled ps' = [False]"
    using arg_cong [OF view, of "map p_enabled"] by (simp add: flag comp_def)
  with run show ?thesis
    by (intro exI conjI)
qed

end
