(* ===== verification/Devices.thy ===== *)
theory Devices
  imports Poller_Properties
begin

section \<open>The kernel's WireGuard devices and the stored configuration\<close>

text \<open>
  What starting, stopping and editing does to the devices of a host whose WireGuard library
  behaves as documented: an interface is created by \<open>create_interface\<close> only,
  \<open>configure_interface\<close> updates the configuration of an existing interface, \<open>configure_peer\<close>
  and \<open>remove_peer\<close> set and drop one peer of it, \<open>remove_interface\<close> takes it away. \<open>D s name\<close> is
  the device of a name in the state \<open>s\<close> of the host: for each public key its peer.
\<close>

type_synonym device = "u8 list \<Rightarrow> wg_peer option"

definition device_of :: "wg_peer list \<Rightarrow> device" where
  "device_of ps = map_of (map (\<lambda>p. (wp_public_key p, p)) ps)"

definition wgapi_law :: "'os wg_lib \<Rightarrow> ('os \<Rightarrow> string \<Rightarrow> device option) \<Rightarrow> bool" where
  "wgapi_law L D \<longleftrightarrow> (\<forall>n s.
     (\<exists>s'. wl_open L n s = (Inr (), s') \<and> D s' = D s) \<and>
     (\<forall>cfg s'. wl_configure_interface L n cfg s = (Inr (), s') \<longrightarrow>
        D s n \<noteq> None \<and> D s' = (D s)(n \<mapsto> device_of (wc_peers cfg))) \<and>
     (\<forall>ps. D (snd (wl_configure_peer_routing L n ps s)) = D s) \<and>
     (\<forall>s'. wl_remove_interface L n s = (Inr (), s') \<longrightarrow> D s' = (D s)(n := None)) \<and>
     (\<forall>d p. D s n = Some d \<longrightarrow> (\<exists>s'. wl_configure_peer L n p s = (Inr (), s') \<and>
        D s' = (D s)(n \<mapsto> d(wp_public_key p \<mapsto> p)))) \<and>
     (\<forall>d k. D s n = Some d \<longrightarrow> (\<exists>s'. wl_remove_peer L n k s = (Inr (), s') \<and>
        D s' = (D s)(n \<mapsto> d(k := None)))))"

text \<open>The clock, the database, the commands of NAT and hooks and the list of host interfaces
  leave the devices alone.\<close>

definition devices_apart :: "('os, 'j) app_state \<Rightarrow> ('os \<Rightarrow> string \<Rightarrow> device option) \<Rightarrow> bool" where
  "devices_apart A D \<longleftrightarrow> (\<forall>s.
     D (snd (de_now (app_env A) s)) = D s \<and> D (snd (de_fault (app_env A) s)) = D s \<and>
     (\<forall>bin args. D (snd (hl_run (na_host (app_nat A)) bin args s)) = D s) \<and>
     (\<forall>path. D (snd (hl_read_file (na_host (app_nat A)) path s)) = D s) \<and>
     (\<forall>path c. D (snd (hl_write_file (na_host (app_nat A)) path c s)) = D s) \<and>
     D (snd (sa_getifaddrs (app_sysnet A) s)) = D s \<and>
     (\<forall>path. D (snd (sa_read_file (app_sysnet A) path s)) = D s))"

abbreviation devices :: "('os \<Rightarrow> string \<Rightarrow> device option) \<Rightarrow> 'os world \<Rightarrow> string \<Rightarrow> device option" where
  "devices D \<equiv> \<lambda>w. D (w_os w)"

subsection \<open>What leaves the devices alone\<close>

lemma on_os_devices:
  "(\<And>s. D (snd (f s)) = D s) \<Longrightarrow> keeps (devices D) (on_os f)"
  "(\<And>s. D (snd (g s)) = D s) \<Longrightarrow> keeps (devices D) (on_os_res g)"
  by (simp_all add: keeps_def on_os_def on_os_res_def split_beta)

lemma db_devices:
  assumes "devices_apart A D"
  shows "keeps (devices D) (on_os (de_now (app_repos A)))"
    and "keeps (devices D) (db_query (app_repos A) q)" and "keeps (devices D) (db_exec (app_repos A) u)"
proof -
  have parts: "de_now (app_repos A) = de_now (app_env A)" "de_fault (app_repos A) = de_fault (app_env A)"
    by (simp_all add: app_repos_def)
  have guard: "keeps (devices D) (db_guard (app_repos A))"
    unfolding db_guard_def parts
    by (intro keeps_intros on_os_devices) (use assms in \<open>simp add: devices_apart_def\<close>)
  have reads: "keeps (devices D) (db_read q)" for q
    by (simp add: keeps_def db_read_def)
  have writes: "keeps (devices D) (db_write u)" for u
    by (simp add: keeps_def db_write_def split: sum.splits prod.splits)
  show "keeps (devices D) (on_os (de_now (app_repos A)))"
    unfolding parts by (rule on_os_devices) (use assms in \<open>simp add: devices_apart_def\<close>)
  show "keeps (devices D) (db_query (app_repos A) q)" and "keeps (devices D) (db_exec (app_repos A) u)"
    unfolding db_query_def db_exec_def by (intro keeps_bind guard reads writes)+
qed

lemma repos_devices:
  assumes "devices_apart A D"
  shows "keeps (devices D) (ifaces_find_by_id (app_repos A) i)"
    and "keeps (devices D) (ifaces_update (app_repos A) x)"
    and "keeps (devices D) (peers_find_by_id (app_repos A) k)"
    and "keeps (devices D) (peers_list_for_interface (app_repos A) i)"
    and "keeps (devices D) (peers_update (app_repos A) p)"
    and "keeps (devices D) (peers_delete (app_repos A) k)"
  unfolding ifaces_find_by_id_def ifaces_update_def peers_find_by_id_def peers_list_for_interface_def
    peers_update_def peers_delete_def fetch_optional_def fetch_all_def
  by (intro keeps_intros db_devices [OF assms])+

lemma nat_devices:
  assumes "devices_apart A D"
  shows "keeps (devices D) (adapter_nat_apply (app_nat A) i gw)"
    and "keeps (devices D) (adapter_nat_remove (app_nat A) i gw)"
    and "keeps (devices D) (adapter_run_hook (app_nat A) script)"
proof -
  have host: "keeps (devices D) (on_os_res (hl_run (na_host (app_nat A)) bin args))"
    "keeps (devices D) (on_os_res (hl_read_file (na_host (app_nat A)) path))"
    "keeps (devices D) (on_os_res (hl_write_file (na_host (app_nat A)) path c))" for bin args path c
    by (rule on_os_devices, use assms in \<open>simp add: devices_apart_def\<close>)+
  have fwd: "keeps (devices D) (fwd_insert n x)" "keeps (devices D) (fwd_remove n)" for n x
    by (simp_all add: keeps_def fwd_insert_def fwd_remove_def)
  show "keeps (devices D) (adapter_nat_apply (app_nat A) i gw)"
    and "keeps (devices D) (adapter_nat_remove (app_nat A) i gw)"
    and "keeps (devices D) (adapter_run_hook (app_nat A) script)"
    unfolding adapter_nat_apply_def adapter_nat_remove_def adapter_run_hook_def enable_forward_def
      read_forward_def write_forward_def apply_rules_def remove_rules_def apply_rule_def run_ipt_def Let_def
    by (intro keeps_intros host fwd)+
qed

lemma nics_devices:
  assumes "devices_apart A D"
  shows "keeps (devices D) (sysnet_list (app_sysnet A))"
proof -
  have host: "keeps (devices D) (on_os_res (sa_getifaddrs (app_sysnet A)))"
    "keeps (devices D) (on_os_res (sa_read_file (app_sysnet A) path))" for path
    by (rule on_os_devices, use assms in \<open>simp add: devices_apart_def\<close>)+
  have "keeps (devices D) (assemble (app_sysnet A) m)" for m
  proof (induction m)
    case Nil
    show ?case unfolding assemble.simps by (intro keeps_intros)
  next
    case (Cons entry m)
    show ?case
      by (cases entry) (simp only: assemble.simps read_operstate_def read_carrier_def read_sys_def;
        intro keeps_intros host Cons.IH)
  qed
  then show ?thesis
    unfolding sysnet_list_def collect_raw_def by (intro keeps_bind keeps_map_err keeps_ret host)
qed

subsection \<open>What the adapter does to a device\<close>

lemma open_device:
  assumes "wgapi_law (da_lib W) D"
  shows "surely (\<lambda>w. devices D w = g) (wgapi_open W n) (\<lambda>_ w. devices D w = g)"
proof (intro tripleI)
  fix w :: "'a world" and x w'
  assume "devices D w = g" "wgapi_open W n w = (Inr x, w')"
  moreover obtain s' where "wl_open (da_lib W) n (w_os w) = (Inr (), s')" "D s' = D (w_os w)"
    using assms unfolding wgapi_law_def by blast
  ultimately show "devices D w' = g"
    by (auto simp: wgapi_open_def wg_call_def io_map_err_ok_iff on_os_res_def)
next
  fix w :: "'a world" and e w'
  assume "wgapi_open W n w = (Inl e, w')"
  moreover obtain s' where "wl_open (da_lib W) n (w_os w) = (Inr (), s')"
    using assms unfolding wgapi_law_def by blast
  ultimately show False
    by (simp add: wgapi_open_def wg_call_def io_map_err_def on_os_res_def)
qed

text \<open>A call after the name was opened.\<close>

lemma call_device:
  assumes "wgapi_law (da_lib W) D"
    and "\<And>s x s'. D s = g \<Longrightarrow> f s = (Inr x, s') \<Longrightarrow> Q x (D s')"
    and "\<And>s e s'. D s = g \<Longrightarrow> f s = (Inl e, s') \<Longrightarrow> X (D s')"
  shows "triple (\<lambda>w. devices D w = g) (io_bind (wgapi_open W n) (\<lambda>_. wg_call t f))
    (\<lambda>x w. Q x (devices D w)) (\<lambda>_ w. X (devices D w))"
proof (rule triple_bind)
  show "triple (\<lambda>w. devices D w = g) (wgapi_open W n) (\<lambda>_ w. devices D w = g) (\<lambda>_ w. X (devices D w))"
    by (rule triple_conseq [OF open_device [OF assms(1)]]) simp_all
  show "triple (\<lambda>w. devices D w = g) (wg_call t f) (\<lambda>x w. Q x (devices D w)) (\<lambda>_ w. X (devices D w))"
    unfolding wg_call_def
    by (intro triple_map_err tripleI) (auto simp: on_os_res_def intro: assms(2,3) split: prod.splits)
qed

lemma up_device:
  assumes law: "wgapi_law (da_lib W) D" and "\<not> da_dry_run W"
  shows "triple (\<lambda>w. devices D w = g) (adapter_interface_up W i peers)
    (\<lambda>_ w. g (i_name i) \<noteq> None \<and> (\<exists>wps. traverse (to_wg_peer W) (filter p_enabled peers) = Inr wps \<and>
       devices D w = g(i_name i \<mapsto> device_of wps))) (\<lambda>_ _. True)"
  unfolding adapter_interface_up_def Let_def if_not_P [OF assms(2)]
proof (rule triple_bind [OF triple_lift [where Q = "\<lambda>_ w. devices D w = g"]], assumption, rule TrueI,
    rule triple_bind_pure [where Q = "\<lambda>w. devices D w = g" and
      b = "\<lambda>x. traverse (to_wg_peer W) (filter p_enabled peers) = Inr x", OF triple_lift], simp, rule TrueI,
    goal_cases)
  case (1 prv wps)
  have opened: "triple (\<lambda>w. devices D w = g) (wgapi_open W (i_name i)) (\<lambda>_ w. devices D w = g) (\<lambda>_ _. True)"
    by (rule triple_conseq [OF open_device [OF law]]) simp_all
  let ?after = "\<lambda>w. g (i_name i) \<noteq> None \<and> devices D w = g(i_name i \<mapsto> device_of wps)"
  let ?cfg = "\<lparr>wc_name = i_name i, wc_prvkey = private_str prv, wc_addresses = interface_addresses W i,
    wc_port = i_listen_port i, wc_peers = wps, wc_mtu = map_option ucast (i_mtu i)\<rparr>"
  have configure: "triple (\<lambda>w. devices D w = g) (wg_call t (wl_configure_interface (da_lib W) (i_name i) ?cfg))
      (\<lambda>_. ?after) (\<lambda>_ _. True)" for t
    unfolding wg_call_def
  proof (intro triple_map_err tripleI TrueI)
    fix w x w'
    assume w: "devices D w = g"
      and run: "on_os_res (wl_configure_interface (da_lib W) (i_name i) ?cfg) w = (Inr x, w')"
    then have "wl_configure_interface (da_lib W) (i_name i) ?cfg (w_os w) = (Inr (), w_os w')"
      by (auto simp: on_os_res_def split: prod.splits)
    with law have "D (w_os w) (i_name i) \<noteq> None \<and>
        devices D w' = (devices D w)(i_name i \<mapsto> device_of (wc_peers ?cfg))"
      unfolding wgapi_law_def by blast
    with w show "?after w'" by simp
  qed
  have routing: "triple ?after (wg_call t (wl_configure_peer_routing (da_lib W) (i_name i) wps))
      (\<lambda>_. ?after) (\<lambda>_ _. True)" for t
    unfolding wg_call_def
  proof (intro triple_map_err tripleI TrueI)
    fix w x w'
    assume w: "?after w" and "on_os_res (wl_configure_peer_routing (da_lib W) (i_name i) wps) w = (Inr x, w')"
    then have "w_os w' = snd (wl_configure_peer_routing (da_lib W) (i_name i) wps (w_os w))"
      by (auto simp: on_os_res_def split: prod.splits)
    with law have "devices D w' = devices D w"
      by (simp add: wgapi_law_def)
    with w show "?after w'" by simp
  qed
  show ?case
    unfolding wg_config.simps
    by (rule triple_bind [OF opened], rule triple_bind [OF configure], rule triple_conseq [OF routing]) (use 1 in auto)
qed

lemma down_device:
  assumes "wgapi_law (da_lib W) D" and "\<not> da_dry_run W"
  shows "triple (\<lambda>w. devices D w = g) (adapter_interface_down W i)
    (\<lambda>_ w. devices D w = g(i_name i := None)) (\<lambda>_ _. True)"
  unfolding adapter_interface_down_def if_not_P [OF assms(2)]
  by (rule call_device [OF assms(1), where X = "\<lambda>_. True"]) (use assms(1) in \<open>auto simp: wgapi_law_def\<close>)

text \<open>What the entry of a peer becomes when the peer is switched on or off.\<close>

definition entry_set :: "'os defguard \<Rightarrow> peer \<Rightarrow> bool \<Rightarrow> device \<Rightarrow> device" where
  "entry_set W p on d = (case to_wg_peer W p of
     Inl _ \<Rightarrow> d
   | Inr v \<Rightarrow> d(wp_public_key v := (if on then Some v else None)))"

lemma to_wg_peer_key:
  "to_wg_peer W p = Inr v \<Longrightarrow> decode_b64_key W (public_str (p_public_key p)) = Inr (wp_public_key v)"
  by (auto simp: to_wg_peer_def res_bind_ok_iff)

lemma to_wg_peer_fails:
  "to_wg_peer W p = Inl e \<Longrightarrow> decode_b64_key W (public_str (p_public_key p)) = Inl e"
  unfolding to_wg_peer_def by (cases "decode_b64_key W (public_str (p_public_key p))") simp_all

lemma apply_device:
  assumes law: "wgapi_law (da_lib W) D" and "\<not> da_dry_run W" and d: "g (i_name i) = Some d"
  shows "triple (\<lambda>w. devices D w = g) (adapter_apply_peer W i p)
    (\<lambda>_ w. devices D w = g(i_name i \<mapsto> entry_set W p True d))
    (\<lambda>_ w. devices D w = g(i_name i \<mapsto> entry_set W p True d))"
proof (cases "to_wg_peer W p")
  case (Inl e)
  have "g(i_name i \<mapsto> d) = g"
    using d by (simp add: fun_upd_idem)
  then show ?thesis
    using Inl by (simp add: adapter_apply_peer_def assms(2) entry_set_def triple_def)
next
  case (Inr v)
  have "\<exists>s'. wl_configure_peer (da_lib W) (i_name i) v s = (Inr (), s') \<and>
      D s' = g(i_name i \<mapsto> d(wp_public_key v \<mapsto> v))" if "D s = g" for s
    using law d that unfolding wgapi_law_def by blast
  then have "D s' = g(i_name i \<mapsto> entry_set W p True d)"
    if "D s = g" "wl_configure_peer (da_lib W) (i_name i) v s = (r, s')" for s r s'
    using that Inr by (fastforce simp: entry_set_def)
  then show ?thesis
    unfolding adapter_apply_peer_def if_not_P [OF assms(2)] Inr
    by (intro triple_bind [OF triple_lift [where Q = "\<lambda>x w. devices D w = g \<and> x = v"]])
      (auto intro!: triple_pure call_device [OF law])
qed

lemma remove_device:
  assumes law: "wgapi_law (da_lib W) D" and "\<not> da_dry_run W" and d: "g (i_name i) = Some d"
  shows "triple (\<lambda>w. devices D w = g) (adapter_remove_peer W i (p_public_key p))
    (\<lambda>_ w. devices D w = g(i_name i \<mapsto> entry_set W p False d))
    (\<lambda>_ w. devices D w = g(i_name i \<mapsto> entry_set W p False d))"
proof (cases "to_wg_peer W p")
  case (Inl e)
  have "g(i_name i \<mapsto> d) = g"
    using d by (simp add: fun_upd_idem)
  then show ?thesis
    using Inl to_wg_peer_fails [OF Inl] by (simp add: adapter_remove_peer_def assms(2) entry_set_def triple_def)
next
  case (Inr v)
  have "\<exists>s'. wl_remove_peer (da_lib W) (i_name i) (wp_public_key v) s = (Inr (), s') \<and>
      D s' = g(i_name i \<mapsto> d(wp_public_key v := None))" if "D s = g" for s
    using law d that unfolding wgapi_law_def by blast
  then have "D s' = g(i_name i \<mapsto> entry_set W p False d)"
    if "D s = g" "wl_remove_peer (da_lib W) (i_name i) (wp_public_key v) s = (r, s')" for s r s'
    using that Inr by (fastforce simp: entry_set_def)
  then show ?thesis
    unfolding adapter_remove_peer_def if_not_P [OF assms(2)] to_wg_peer_key [OF Inr]
    by (intro triple_bind [OF triple_lift [where Q = "\<lambda>x w. devices D w = g \<and> x = wp_public_key v"]])
      (auto intro!: triple_pure call_device [OF law])
qed

subsection \<open>A device that mirrors the configuration\<close>

text \<open>The device has exactly the enabled peers of the interface, each with its addresses,
  endpoint and keepalive.\<close>

definition gives :: "'os defguard \<Rightarrow> interface_id \<Rightarrow> peer \<Rightarrow> wg_peer \<Rightarrow> bool" where
  "gives W k p v \<longleftrightarrow> p_enabled p \<and> p_interface_id p = k \<and> to_wg_peer W p = Inr v"

definition mirrors :: "'os defguard \<Rightarrow> interface_id \<Rightarrow> peer list \<Rightarrow> device \<Rightarrow> bool" where
  "mirrors W k ps d \<longleftrightarrow>
     (\<forall>key v. d key = Some v \<longleftrightarrow> wp_public_key v = key \<and> (\<exists>p \<in> set ps. gives W k p v))"

text \<open>The peers of the interface have different keys.\<close>

definition keys_apart :: "'os defguard \<Rightarrow> interface_id \<Rightarrow> peer list \<Rightarrow> bool" where
  "keys_apart W k ps \<longleftrightarrow> inj_on (\<lambda>p. decode_b64_key W (public_str (p_public_key p)))
     {p \<in> set ps. p_interface_id p = k}"

lemma keys_apartD:
  assumes "keys_apart W k ps" and "p \<in> set ps" "q \<in> set ps" "p_interface_id p = k" "p_interface_id q = k"
    and "to_wg_peer W p = Inr v" "to_wg_peer W q = Inr v'" "wp_public_key v = wp_public_key v'"
  shows "p = q"
  using assms(1) unfolding keys_apart_def
  by (rule inj_onD) (use assms(2-) to_wg_peer_key [of W p v] to_wg_peer_key [of W q v'] in simp_all)

lemma mirrors_started:
  assumes "mset listed = mset (filter (\<lambda>p. p_interface_id p = k) ps)" and apart: "keys_apart W k ps"
    and "traverse (to_wg_peer W) (filter p_enabled listed) = Inr wps"
  shows "mirrors W k ps (device_of wps)"
proof -
  have "set listed = set (filter (\<lambda>p. p_interface_id p = k) ps)"
    using assms(1) by (rule mset_eq_setD)
  moreover have "Inr ` set wps = to_wg_peer W ` set (filter p_enabled listed)"
    using arg_cong [OF assms(3) [unfolded traverse_ok_iff], of set] by simp
  then have "v \<in> set wps \<longleftrightarrow> (\<exists>p \<in> set (filter p_enabled listed). to_wg_peer W p = Inr v)" for v
    by (force simp: image_iff)
  ultimately have wps: "v \<in> set wps \<longleftrightarrow> (\<exists>p \<in> set ps. gives W k p v)" for v
    by (auto simp: gives_def)
  show ?thesis
    unfolding mirrors_def device_of_def
  proof (intro allI iffI)
    fix key v
    assume "map_of (map (\<lambda>p. (wp_public_key p, p)) wps) key = Some v"
    from map_of_SomeD [OF this] show "wp_public_key v = key \<and> (\<exists>p \<in> set ps. gives W k p v)"
      using wps by auto
  next
    fix key v
    assume v: "wp_public_key v = key \<and> (\<exists>p \<in> set ps. gives W k p v)"
    then have "(key, v) \<in> set (map (\<lambda>p. (wp_public_key p, p)) wps)"
      using wps by auto
    from weak_map_of_SomeI [OF this] obtain v' where
      v': "map_of (map (\<lambda>p. (wp_public_key p, p)) wps) key = Some v'" by blast
    from map_of_SomeD [OF v'] have "wp_public_key v' = key \<and> (\<exists>p \<in> set ps. gives W k p v')"
      using wps by auto
    with v have "v' = v"
      using keys_apartD [OF apart] unfolding gives_def by (metis sum.inject(2))
    with v' show "map_of (map (\<lambda>p. (wp_public_key p, p)) wps) key = Some v" by simp
  qed
qed

lemma mirrors_entry:
  assumes m: "mirrors W k ps d" and apart: "keys_apart W k ps" and old: "old \<in> set ps" "p_interface_id old = k"
    and ps': "\<And>v. (\<exists>p \<in> set ps'. gives W k p v) \<longleftrightarrow>
      (\<exists>p \<in> set ps. p \<noteq> old \<and> gives W k p v) \<or> on \<and> to_wg_peer W old = Inr v"
  shows "mirrors W k ps' (entry_set W old on d)"
proof (cases "to_wg_peer W old")
  case (Inl e)
  then have "p \<noteq> old" if "gives W k p v" for p v
    using that by (auto simp: gives_def)
  then show ?thesis
    using m Inl unfolding mirrors_def ps' by (auto simp: entry_set_def)
next
  case (Inr u)
  let ?other = "\<lambda>v. \<exists>p \<in> set ps. p \<noteq> old \<and> gives W k p v"
  have other: "wp_public_key v \<noteq> wp_public_key u" if v: "?other v" for v
  proof
    assume "wp_public_key v = wp_public_key u"
    moreover obtain p where p: "p \<in> set ps" "p \<noteq> old" "p_interface_id p = k" "to_wg_peer W p = Inr v"
      using v by (auto simp: gives_def)
    ultimately show False
      using keys_apartD [OF apart p(1) old(1) p(3) old(2) p(4) Inr] by simp
  qed
  have was: "(\<exists>p \<in> set ps. gives W k p v) \<longleftrightarrow> ?other v" if "v \<noteq> u" for v
  proof -
    have "\<not> gives W k old v"
      using Inr that by (simp add: gives_def)
    then show ?thesis by metis
  qed
  show ?thesis
    unfolding mirrors_def
  proof (intro allI)
    fix key v
    have d: "d key = Some v \<longleftrightarrow> wp_public_key v = key \<and> (\<exists>p \<in> set ps. gives W k p v)"
      using m by (simp add: mirrors_def)
    show "entry_set W old on d key = Some v \<longleftrightarrow> wp_public_key v = key \<and> (\<exists>p \<in> set ps'. gives W k p v)"
    proof (cases "key = wp_public_key u")
      case True
      then have "wp_public_key v = key \<Longrightarrow> \<not> ?other v"
        using other by blast
      with True show ?thesis
        unfolding ps' by (cases on) (auto simp: entry_set_def Inr)
    next
      case False
      then have "wp_public_key v = key \<Longrightarrow> v \<noteq> u"
        by blast
      with d was have "d key = Some v \<longleftrightarrow> wp_public_key v = key \<and> ?other v"
        by blast
      moreover have "entry_set W old on d key = d key"
        using False by (simp add: entry_set_def Inr)
      moreover have "wp_public_key v = key \<Longrightarrow> to_wg_peer W old \<noteq> Inr v"
        using False Inr by auto
      ultimately show ?thesis
        unfolding ps' by metis
    qed
  qed
qed

lemma to_wg_peer_over:
  "to_wg_peer W (peer_over (old\<lparr>p_enabled := on\<rparr>) now old) = to_wg_peer W old"
  by (simp add: to_wg_peer_def peer_over_def)

lemma bex_put_peer:
  "(\<exists>p \<in> set (put_peer x now ps). P p) \<longleftrightarrow>
     (\<exists>p \<in> set ps. p_id p \<noteq> p_id x \<and> P p) \<or> (\<exists>old \<in> set ps. p_id old = p_id x \<and> P (peer_over x now old))"
  by (auto simp: put_peer_def)

lemma mirrors_flag:
  assumes "mirrors W k ps d" "keys_apart W k ps" "old \<in> set ps" "p_interface_id old = k"
    and ids: "distinct (map p_id ps)"
  shows "mirrors W k (put_peer (old\<lparr>p_enabled := on\<rparr>) now ps) (entry_set W old on d)"
    and "mirrors W k (filter (\<lambda>p. p_id p \<noteq> p_id old) ps) (entry_set W old False d)"
proof -
  have same: "p = old" if "p \<in> set ps" "p_id p = p_id old" for p
    using that assms(3) ids by (simp add: distinct_map inj_on_def)
  let ?x = "old\<lparr>p_enabled := on\<rparr>"
  have "p_id p = p_id old \<longleftrightarrow> p = old" if "p \<in> set ps" for p
    using same [OF that] by blast
  then have "(\<exists>p \<in> set ps. p_id p \<noteq> p_id old \<and> gives W k p v) \<longleftrightarrow> (\<exists>p \<in> set ps. p \<noteq> old \<and> gives W k p v)"
    for v by (intro bex_cong [OF refl]) simp
  moreover have "(\<exists>y \<in> set ps. p_id y = p_id old \<and> gives W k (peer_over ?x now y) v) \<longleftrightarrow>
      gives W k (peer_over ?x now old) v" for v
    using same assms(3) by metis
  ultimately have "(\<exists>p \<in> set (put_peer ?x now ps). gives W k p v) \<longleftrightarrow>
      (\<exists>p \<in> set ps. p \<noteq> old \<and> gives W k p v) \<or> gives W k (peer_over ?x now old) v" for v
    by (simp add: bex_put_peer)
  moreover have "gives W k (peer_over ?x now old) v \<longleftrightarrow> on \<and> to_wg_peer W old = Inr v" for v
    using assms(4) by (simp add: gives_def to_wg_peer_over)
  ultimately show "mirrors W k (put_peer ?x now ps) (entry_set W old on d)"
    by (intro mirrors_entry [OF assms(1-4)]) simp
  show "mirrors W k (filter (\<lambda>p. p_id p \<noteq> p_id old) ps) (entry_set W old False d)"
  proof (rule mirrors_entry [OF assms(1-4)])
    fix v
    show "(\<exists>p \<in> set (filter (\<lambda>p. p_id p \<noteq> p_id old) ps). gives W k p v) \<longleftrightarrow>
        (\<exists>p \<in> set ps. p \<noteq> old \<and> gives W k p v) \<or> False \<and> to_wg_peer W old = Inr v"
      using same by (simp add: Bex_def) metis
  qed
qed

subsection \<open>Starting and stopping an interface\<close>

lemma service_parts:
  "is_ifaces (interface_service A) = sqlite_ifaces (app_repos A)"
  "is_peers (interface_service A) = sqlite_peers (app_repos A)"
  "is_wg (interface_service A) = defguard_port (app_wg A)"
  "is_nat (interface_service A) = iptables_port (app_nat A)"
  "is_sysnet (interface_service A) = getifaddrs_port (app_sysnet A)"
  "pe_ifaces (peer_service A) = sqlite_ifaces (app_repos A)"
  "pe_peers (peer_service A) = sqlite_peers (app_repos A)"
  "pe_wg (peer_service A) = defguard_port (app_wg A)"
  "da_lib (app_wg A) = app_wg_lib A" "da_dry_run (app_wg A) = app_dry_run A"
  by (simp_all add: interface_service_def peer_service_def app_wg_def)

lemma port_parts:
  "ir_find_by_id (sqlite_ifaces E) = ifaces_find_by_id E" "ir_update (sqlite_ifaces E) = ifaces_update E"
  "pr_find_by_id (sqlite_peers E) = peers_find_by_id E" "pr_update (sqlite_peers E) = peers_update E"
  "pr_list_for_interface (sqlite_peers E) = peers_list_for_interface E"
  "pr_delete (sqlite_peers E) = peers_delete E"
  "wg_interface_up (defguard_port W) = adapter_interface_up W"
  "wg_interface_down (defguard_port W) = adapter_interface_down W"
  "wg_apply_peer (defguard_port W) = adapter_apply_peer W"
  "wg_remove_peer (defguard_port W) = adapter_remove_peer W"
  "nat_apply (iptables_port N) = adapter_nat_apply N" "nat_remove (iptables_port N) = adapter_nat_remove N"
  "nat_run_hook (iptables_port N) = adapter_run_hook N" "sn_list (getifaddrs_port Y) = sysnet_list Y"
  by (simp_all add: sqlite_ifaces_def sqlite_peers_def defguard_port_def iptables_port_def getifaddrs_port_def)

text \<open>The configuration and the devices of a world.\<close>

abbreviation net_dev where
  "net_dev A D v g \<equiv> \<lambda>w. net_is (app_repos A) v w \<and> devices D w = g"

lemma start_reads:
  assumes "devices_apart A D"
  shows "triple (net_dev A D (is, ps) g) (iface_get (interface_service A) k)
      (\<lambda>x w. net_dev A D (is, ps) g w \<and> find (\<lambda>y. i_id y = k) is = Some x \<and> key_valid (app_repos A) (i_public_key x))
      (\<lambda>_. net_dev A D (is, ps) g)"
    and "triple (net_dev A D (is, ps) g) (pr_list_for_interface (is_peers (interface_service A)) k)
      (\<lambda>x w. net_dev A D (is, ps) g w \<and> mset x = mset (filter (\<lambda>y. p_interface_id y = k) ps))
      (\<lambda>_. net_dev A D (is, ps) g)"
    and "triple (net_dev A D (is, ps) g) (validate_gateway (interface_service A) gw)
      (\<lambda>_. net_dev A D (is, ps) g) (\<lambda>_. net_dev A D (is, ps) g)"
proof -
  have "keeps (devices D) (iface_get (interface_service A) k)"
    unfolding iface_get_def service_parts port_parts by (intro keeps_some repos_devices [OF assms])
  from triple_also [OF app_ifaces.get_ok this] show "triple (net_dev A D (is, ps) g) (iface_get (interface_service A) k)
      (\<lambda>x w. net_dev A D (is, ps) g w \<and> find (\<lambda>y. i_id y = k) is = Some x \<and> key_valid (app_repos A) (i_public_key x))
      (\<lambda>_. net_dev A D (is, ps) g)"
    by (rule triple_conseq) blast+
  have "keeps (devices D) (pr_list_for_interface (is_peers (interface_service A)) k)"
    unfolding service_parts port_parts by (rule repos_devices [OF assms])
  from triple_also [OF app_ifaces.peer_list_for this]
  show "triple (net_dev A D (is, ps) g) (pr_list_for_interface (is_peers (interface_service A)) k)
      (\<lambda>x w. net_dev A D (is, ps) g w \<and> mset x = mset (filter (\<lambda>y. p_interface_id y = k) ps))
      (\<lambda>_. net_dev A D (is, ps) g)"
    by (rule triple_conseq) blast+
  have "keeps (devices D) (validate_gateway (interface_service A) gw)"
    unfolding validate_gateway_def service_parts port_parts
    by (intro keeps_if keeps_fail keeps_ret keeps_bind nics_devices [OF assms])
  from triple_also [OF app_ifaces.gateway_ok this]
  show "triple (net_dev A D (is, ps) g) (validate_gateway (interface_service A) gw)
      (\<lambda>_. net_dev A D (is, ps) g) (\<lambda>_. net_dev A D (is, ps) g)"
    by (rule triple_conseq) blast+
qed

lemma nat_frames:
  assumes "devices_apart A D"
  shows "triple (net_dev A D v g) (nat_apply (is_nat (interface_service A)) i gw) (\<lambda>_. net_dev A D v g) (\<lambda>_. net_dev A D v g)"
    and "triple (net_dev A D v g) (nat_remove (is_nat (interface_service A)) i gw) (\<lambda>_. net_dev A D v g) (\<lambda>_. net_dev A D v g)"
    and "triple (net_dev A D v g) (nat_run_hook (is_nat (interface_service A)) s) (\<lambda>_. net_dev A D v g) (\<lambda>_. net_dev A D v g)"
proof -
  note devs = nat_devices [OF assms, folded port_parts, folded service_parts]
  show "triple (net_dev A D v g) (nat_apply (is_nat (interface_service A)) i gw) (\<lambda>_. net_dev A D v g) (\<lambda>_. net_dev A D v g)"
    by (rule triple_also [OF _ devs(1)], unfold service_parts, rule app_nat_frame.nat_apply)
  show "triple (net_dev A D v g) (nat_remove (is_nat (interface_service A)) i gw) (\<lambda>_. net_dev A D v g) (\<lambda>_. net_dev A D v g)"
    by (rule triple_also [OF _ devs(2)], unfold service_parts, rule app_nat_frame.nat_remove)
  show "triple (net_dev A D v g) (nat_run_hook (is_nat (interface_service A)) s) (\<lambda>_. net_dev A D v g) (\<lambda>_. net_dev A D v g)"
    by (rule triple_also [OF _ devs(3)], unfold service_parts, rule app_nat_frame.nat_hook)
qed

lemma status_write:
  assumes "devices_apart A D" and "find (\<lambda>y. i_id y = k) is = Some old" and "key_valid (app_repos A) (i_public_key old)"
  shows "triple (net_dev A D (is, ps) g) (io_bind (ir_update (is_ifaces (interface_service A)) (old\<lparr>i_status := s\<rparr>))
       (\<lambda>_. io_ret (old\<lparr>i_status := s\<rparr>)))
     (\<lambda>x w. iface_wrote (net_inv (app_repos A)) (net_view (app_repos A)) k (with_status s) (is, ps) x w \<and>
        devices D w = g \<and> x = old\<lparr>i_status := s\<rparr>) (\<lambda>_. net_is (app_repos A) (is, ps))"
proof -
  have "keeps (devices D) (io_bind (ir_update (is_ifaces (interface_service A)) (old\<lparr>i_status := s\<rparr>))
       (\<lambda>_. io_ret (old\<lparr>i_status := s\<rparr>)))"
    unfolding service_parts port_parts by (intro keeps_bind keeps_ret repos_devices [OF assms(1)])
  note both = triple_also [OF app_ifaces.write_status_ok [OF assms(2,3), where ps = ps] this, where v = g]
  have ret: "triple (\<lambda>_. True) (io_bind (ir_update (is_ifaces (interface_service A)) (old\<lparr>i_status := s\<rparr>))
       (\<lambda>_. io_ret (old\<lparr>i_status := s\<rparr>))) (\<lambda>x _. x = old\<lparr>i_status := s\<rparr>) (\<lambda>_ _. True)"
    by (rule tripleI) (auto simp: io_bind_ok_iff)
  show ?thesis
    by (rule triple_conseq [OF triple_conj [OF both ret]]) simp_all
qed

lemma start_devices:
  assumes law: "wgapi_law (app_wg_lib A) D" and apart: "devices_apart A D" and wet: "\<not> app_dry_run A"
  shows "triple (net_dev A D (is, ps) g) (iface_start (interface_service A) k)
    (\<lambda>x w. iface_wrote (net_inv (app_repos A)) (net_view (app_repos A)) k (with_status Status_Up) (is, ps) x w \<and>
       g (i_name x) \<noteq> None \<and> (\<exists>d. (keys_apart (app_wg A) k ps \<longrightarrow> mirrors (app_wg A) k ps d) \<and> devices D w = g(i_name x \<mapsto> d)))
    (\<lambda>_. net_is (app_repos A) (is, ps))"
  unfolding iface_start_def Let_def
proof (rule triple_bind_weak [OF start_reads(1) [OF apart]], erule conjunct1, elim conjE,
    rule triple_bind_weak [OF start_reads(2) [OF apart]], erule conjunct1, goal_cases)
  case (1 i listed)
  have i: "i_id i = k"
    using find_SomeD [OF 1(1)] by simp
  let ?M = "\<lambda>d. keys_apart (app_wg A) k ps \<longrightarrow> mirrors (app_wg A) k ps d"
  let ?now = "\<lambda>d. net_dev A D (is, ps) (g(i_name i \<mapsto> d))"
  have "\<not> da_dry_run (app_wg A)" "wgapi_law (da_lib (app_wg A)) D"
    using wet law by (simp_all add: service_parts)
  note device = up_device [OF this(2,1)]
  have up: "triple (net_dev A D (is, ps) g) (wg_interface_up (is_wg (interface_service A)) i listed)
      (\<lambda>_ w. \<exists>d. (?now d w \<and> g (i_name i) \<noteq> None) \<and> ?M d) (\<lambda>_. net_is (app_repos A) (is, ps))"
    unfolding service_parts
    by (rule triple_conseq [OF triple_conj [OF app_wg_frame.up device [folded port_parts]]])
      (use mirrors_started [OF 1(3) [unfolded i]] in blast)+
  show ?case
  proof (rule triple_bind [OF up], rule triple_ex, rule triple_pure, rule triple_pure)
    fix d
    assume d: "?M d" and had: "g (i_name i) \<noteq> None"
    have nat: "triple (?now d) (io_bind (validate_gateway (interface_service A) gw)
        (\<lambda>_. nat_apply (is_nat (interface_service A)) i gw)) (\<lambda>_. ?now d) (\<lambda>_. ?now d)" for gw
      by (rule triple_bind [OF start_reads(3) [OF apart]], rule nat_frames(1) [OF apart])
    have down: "triple (?now d) (wg_interface_down (is_wg (interface_service A)) i)
        (\<lambda>_. net_is (app_repos A) (is, ps)) (\<lambda>_. net_is (app_repos A) (is, ps))"
      unfolding service_parts by (rule triple_pre [OF app_wg_frame.down]) simp
    show "triple (?now d) (opt_ignore (i_on_up i) (nat_run_hook (is_nat (interface_service A))) (
        io_bind (case i_gateway i of None \<Rightarrow> io_ret ()
          | Some gw \<Rightarrow> io_try (io_bind (validate_gateway (interface_service A) gw)
               (\<lambda>_. nat_apply (is_nat (interface_service A)) i gw))
             (\<lambda>r. case r of Inl e \<Rightarrow> io_ignore (wg_interface_down (is_wg (interface_service A)) i) (io_fail e)
                | Inr _ \<Rightarrow> io_ret ()))
        (\<lambda>_. io_bind (ir_update (is_ifaces (interface_service A)) (i\<lparr>i_status := Status_Up\<rparr>))
           (\<lambda>_. io_ret (i\<lparr>i_status := Status_Up\<rparr>)))))
      (\<lambda>x w. iface_wrote (net_inv (app_repos A)) (net_view (app_repos A)) k (with_status Status_Up) (is, ps) x w \<and>
         g (i_name x) \<noteq> None \<and> (\<exists>d. ?M d \<and> devices D w = g(i_name x \<mapsto> d)))
      (\<lambda>_. net_is (app_repos A) (is, ps))"
    proof (rule triple_opt_ignore [OF nat_frames(3) [OF apart]], rule triple_bind [where Q = "\<lambda>_. ?now d"], goal_cases)
      case 1
      have "triple (?now d) (io_try (io_bind (validate_gateway (interface_service A) gw)
               (\<lambda>_. nat_apply (is_nat (interface_service A)) i gw))
             (\<lambda>r. case r of Inl e \<Rightarrow> io_ignore (wg_interface_down (is_wg (interface_service A)) i) (io_fail e)
                | Inr _ \<Rightarrow> io_ret ()))
        (\<lambda>_. ?now d) (\<lambda>_. net_is (app_repos A) (is, ps))" for gw
        by (rule triple_try [OF nat], rule triple_sum, rule triple_ignore [OF down], rule triple_fail, assumption,
            rule triple_ret, assumption)
      then show ?case
        by (cases "i_gateway i") (simp_all only: option.case triple_ret)
    next
      case 2
      show ?case
        by (rule triple_conseq [OF status_write [OF apart 1(1,2)]]) (use d had in auto)
    qed
  qed
qed

lemma stop_devices:
  assumes law: "wgapi_law (app_wg_lib A) D" and apart: "devices_apart A D" and wet: "\<not> app_dry_run A"
  shows "triple (net_dev A D (is, ps) g) (iface_stop (interface_service A) k)
    (\<lambda>x w. iface_wrote (net_inv (app_repos A)) (net_view (app_repos A)) k (with_status Status_Down) (is, ps) x w \<and>
       devices D w = g(i_name x := None))
    (\<lambda>_. net_is (app_repos A) (is, ps))"
  unfolding iface_stop_def Let_def
proof (rule triple_bind_weak [OF start_reads(1) [OF apart]], erule conjunct1, elim conjE,
    rule triple_opt_ignore [OF nat_frames(2) [OF apart]], rule triple_opt_ignore [OF nat_frames(3) [OF apart]],
    goal_cases)
  case (1 i)
  have "\<not> da_dry_run (app_wg A)" "wgapi_law (da_lib (app_wg A)) D"
    using wet law by (simp_all add: service_parts)
  note device = down_device [OF this(2,1)]
  have down: "triple (net_dev A D (is, ps) g) (wg_interface_down (is_wg (interface_service A)) i)
      (\<lambda>_. net_dev A D (is, ps) (g(i_name i := None))) (\<lambda>_. net_is (app_repos A) (is, ps))"
    unfolding service_parts
    by (rule triple_conseq [OF triple_conj [OF app_wg_frame.down device [folded port_parts]]]) blast+
  show ?case
    by (rule triple_bind [OF down], rule triple_conseq [OF status_write [OF apart 1]]) auto
qed


subsection \<open>Peers that are switched and deleted\<close>

lemma peer_reads:
  assumes quiet: "db_quiet (app_repos A)" and apart: "devices_apart A D"
  shows "find (\<lambda>y. p_id y = k) ps = Some old \<Longrightarrow> surely (net_dev A D (is, ps) g) (peer_get (peer_service A) k)
      (\<lambda>x w. net_dev A D (is, ps) g w \<and> x = old)"
    and "find (\<lambda>y. i_id y = j) is = Some i \<Longrightarrow>
      surely (net_dev A D (is, ps) g) (io_some e (ir_find_by_id (pe_ifaces (peer_service A)) j))
      (\<lambda>x w. net_dev A D (is, ps) g w \<and> x = i)"
proof -
  let ?E = "app_repos A"
  assume old: "find (\<lambda>y. p_id y = k) ps = Some old"
  have "surely (net_is ?E (is, ps)) (peers_find_by_id ?E k) (\<lambda>x w. net_is ?E (is, ps) w \<and> x = Some old)"
    unfolding old [symmetric] by (rule surelyI [OF peers_find_by_id_contract]) (rule finds_answer(1) [OF quiet])
  note found = triple_also [OF this repos_devices(3) [OF apart], where v = g]
  show "surely (net_dev A D (is, ps) g) (peer_get (peer_service A) k) (\<lambda>x w. net_dev A D (is, ps) g w \<and> x = old)"
    unfolding peer_get_def service_parts port_parts by (rule triple_some, rule triple_conseq [OF found]) auto
next
  let ?E = "app_repos A"
  assume i: "find (\<lambda>y. i_id y = j) is = Some i"
  have "surely (net_is ?E (is, ps)) (ifaces_find_by_id ?E j) (\<lambda>x w. net_is ?E (is, ps) w \<and> x = Some i)"
    unfolding i [symmetric] by (rule surelyI [OF ifaces_find_by_id_contract]) (rule finds_answer(2) [OF quiet])
  note found = triple_also [OF this repos_devices(1) [OF apart], where v = g]
  show "surely (net_dev A D (is, ps) g) (io_some e (ir_find_by_id (pe_ifaces (peer_service A)) j))
      (\<lambda>x w. net_dev A D (is, ps) g w \<and> x = i)"
    unfolding service_parts port_parts by (rule triple_some, rule triple_conseq [OF found]) auto
qed

lemma peer_writes:
  assumes quiet: "db_quiet (app_repos A)" and apart: "devices_apart A D"
  shows "old \<in> set ps \<Longrightarrow> p_interface_id old \<in> i_id ` set is \<Longrightarrow>
      surely (net_dev A D (is, ps) g) (pr_update (pe_peers (peer_service A)) (old\<lparr>p_enabled := on\<rparr>))
      (\<lambda>_ w. \<exists>now. net_dev A D (is, put_peer (old\<lparr>p_enabled := on\<rparr>) now ps) g w)"
    and "surely (net_dev A D (is, ps) g) (pr_delete (pe_peers (peer_service A)) k)
      (\<lambda>_. net_dev A D (is, filter (\<lambda>p. p_id p \<noteq> k) ps) g)"
proof -
  let ?E = "app_repos A" and ?x = "old\<lparr>p_enabled := on\<rparr>"
  assume "old \<in> set ps" "p_interface_id old \<in> i_id ` set is"
  then have "surely (net_is ?E (is, ps)) (peers_update ?E ?x) (\<lambda>_ w. \<exists>now. net_is ?E (is, put_peer ?x now ps) w)"
    by (intro surely_update [OF quiet]) simp_all
  from triple_also [OF this repos_devices(5) [OF apart]]
  show "surely (net_dev A D (is, ps) g) (pr_update (pe_peers (peer_service A)) ?x)
      (\<lambda>_ w. \<exists>now. net_dev A D (is, put_peer ?x now ps) g w)"
    unfolding service_parts port_parts by (rule triple_conseq) auto
next
  let ?E = "app_repos A"
  have "\<exists>x. fst (peers_delete ?E k w) = Inr x" for w
    by (simp add: peers_delete_def db_exec_quiet [OF quiet])
  then have "surely (net_is ?E (is, ps)) (peers_delete ?E k) (\<lambda>_. net_is ?E (is, filter (\<lambda>p. p_id p \<noteq> k) ps))"
    by (intro surelyI [OF peers_delete_contract])
  from triple_also [OF this repos_devices(6) [OF apart]]
  show "surely (net_dev A D (is, ps) g) (pr_delete (pe_peers (peer_service A)) k)
      (\<lambda>_. net_dev A D (is, filter (\<lambda>p. p_id p \<noteq> k) ps) g)"
    unfolding service_parts port_parts by (rule triple_conseq) auto
qed

lemma push_devices:
  assumes law: "wgapi_law (app_wg_lib A) D" and wet: "\<not> app_dry_run A" and d: "g (i_name i) = Some d"
  shows "triple (net_dev A D v g) (wg_apply_peer (pe_wg (peer_service A)) i p)
      (\<lambda>_. net_dev A D v (g(i_name i \<mapsto> entry_set (app_wg A) p True d)))
      (\<lambda>_. net_dev A D v (g(i_name i \<mapsto> entry_set (app_wg A) p True d)))"
    and "triple (net_dev A D v g) (wg_remove_peer (pe_wg (peer_service A)) i (p_public_key p))
      (\<lambda>_. net_dev A D v (g(i_name i \<mapsto> entry_set (app_wg A) p False d)))
      (\<lambda>_. net_dev A D v (g(i_name i \<mapsto> entry_set (app_wg A) p False d)))"
proof -
  have "wgapi_law (da_lib (app_wg A)) D" "\<not> da_dry_run (app_wg A)"
    using law wet by (simp_all add: service_parts)
  note both = apply_device [where g = g and i = i and d = d, OF this d, folded port_parts]
    remove_device [where g = g and i = i and d = d, OF this d, folded port_parts]
  show "triple (net_dev A D v g) (wg_apply_peer (pe_wg (peer_service A)) i p)
      (\<lambda>_. net_dev A D v (g(i_name i \<mapsto> entry_set (app_wg A) p True d)))
      (\<lambda>_. net_dev A D v (g(i_name i \<mapsto> entry_set (app_wg A) p True d)))"
    unfolding service_parts by (rule triple_conj [OF app_wg_frame.apply_peer both(1)])
  show "triple (net_dev A D v g) (wg_remove_peer (pe_wg (peer_service A)) i (p_public_key p))
      (\<lambda>_. net_dev A D v (g(i_name i \<mapsto> entry_set (app_wg A) p False d)))
      (\<lambda>_. net_dev A D v (g(i_name i \<mapsto> entry_set (app_wg A) p False d)))"
    unfolding service_parts by (rule triple_conj [OF app_wg_frame.remove_peer both(2)])
qed

lemma entry_set_flag [simp]: "entry_set W (p\<lparr>p_enabled := b\<rparr>) on d = entry_set W p on d"
  by (simp add: entry_set_def to_wg_peer_def)

lemma toggle_devices:
  assumes law: "wgapi_law (app_wg_lib A) D" and apart: "devices_apart A D" and wet: "\<not> app_dry_run A"
    and quiet: "db_quiet (app_repos A)" and d: "g (i_name i) = Some d"
    and old: "find (\<lambda>y. p_id y = k) ps = Some old" and i: "find (\<lambda>y. i_id y = p_interface_id old) is = Some i"
  shows "surely (net_dev A D (is, ps) g) (peer_set_enabled (peer_service A) k on)
    (\<lambda>x w. \<exists>now. net_dev A D (is, put_peer (old\<lparr>p_enabled := on\<rparr>) now ps)
       (g(i_name i \<mapsto> entry_set (app_wg A) old on d)) w \<and> x = old\<lparr>p_enabled := on\<rparr>)"
proof -
  have known: "old \<in> set ps" "p_interface_id old \<in> i_id ` set is"
    using find_SomeD [OF old] find_SomeD [OF i] by force+
  let ?x = "old\<lparr>p_enabled := on\<rparr>"
  have i': "find (\<lambda>y. i_id y = p_interface_id ?x) is = Some i"
    using i by simp
  note push = push_devices [where g = g and d = d and i = i and p = ?x, OF law wet d, unfolded entry_set_flag]
  show ?thesis
    unfolding peer_set_enabled_def Let_def
  proof (rule triple_bind_pure [OF peer_reads(1) [OF quiet apart old]], hypsubst,
      rule triple_bind [OF peer_writes(1) [OF quiet apart known]], rule triple_ex,
      rule triple_bind_pure [OF peer_reads(2) [OF quiet apart i']], hypsubst, unfold push_peer_def, rule triple_if)
    fix now
    show "surely (net_dev A D (is, put_peer ?x now ps) g) (io_ignore (wg_apply_peer (pe_wg (peer_service A)) i ?x) (io_ret ?x))
        (\<lambda>x w. \<exists>now. net_dev A D (is, put_peer ?x now ps) (g(i_name i \<mapsto> entry_set (app_wg A) old on d)) w \<and> x = ?x)"
      if on
      by (rule triple_ignore [OF push(1)], rule triple_ret) (use that in auto)
    show "surely (net_dev A D (is, put_peer ?x now ps) g)
        (io_ignore (wg_remove_peer (pe_wg (peer_service A)) i (p_public_key ?x)) (io_ret ?x))
        (\<lambda>x w. \<exists>now. net_dev A D (is, put_peer ?x now ps) (g(i_name i \<mapsto> entry_set (app_wg A) old on d)) w \<and> x = ?x)"
      if "\<not> on"
      by (rule triple_ignore [OF push(2)], rule triple_ret) (use that in auto)
  qed
qed

lemma delete_devices:
  assumes law: "wgapi_law (app_wg_lib A) D" and apart: "devices_apart A D" and wet: "\<not> app_dry_run A"
    and quiet: "db_quiet (app_repos A)" and d: "g (i_name i) = Some d"
    and old: "find (\<lambda>y. p_id y = k) ps = Some old" and i: "find (\<lambda>y. i_id y = p_interface_id old) is = Some i"
  shows "surely (net_dev A D (is, ps) g) (peer_delete (peer_service A) k)
    (\<lambda>_. net_dev A D (is, filter (\<lambda>p. p_id p \<noteq> k) ps) (g(i_name i \<mapsto> entry_set (app_wg A) old False d)))"
  unfolding peer_delete_def
  by (rule triple_bind_pure [OF peer_reads(1) [OF quiet apart old]], hypsubst,
      rule triple_bind_pure [OF peer_reads(2) [OF quiet apart i]], hypsubst,
      rule triple_ignore [OF push_devices(2) [where g = g and d = d and i = i, OF law wet d]], rule peer_writes(2) [OF quiet apart])

end
