(* ===== verification/Device_Properties.thy ===== *)
theory Device_Properties
  imports Devices
begin

section \<open>Starting, stopping and editing on the host\<close>

text \<open>
  What the device of an interface looks like after a start, a stop and the changes of its peers,
  on a host whose WireGuard library behaves as documented (\<open>wgapi_law\<close>), and a sample host that
  is nothing but its devices.
\<close>

subsection \<open>A host that is nothing but its devices\<close>

type_synonym dev_host = "string \<Rightarrow> device option"

text \<open>Calls on a device that is not there fail.\<close>

definition on_device :: "string \<Rightarrow> (device \<Rightarrow> device option) \<Rightarrow> dev_host \<Rightarrow> (string + unit) \<times> dev_host" where
  "on_device n f s = (case s n of None \<Rightarrow> (Inl ''no such device'', s) | Some d \<Rightarrow> (Inr (), s(n := f d)))"

definition dev_wg_lib :: "dev_host wg_lib" where
  "dev_wg_lib = \<lparr>
     wl_key_try_from = (\<lambda>bs. if length bs = 32 then Inr bs else Inl ''length''),
     wl_public_key = rev, wl_key_generate = (\<lambda>s. (replicate 32 7, s)),
     wl_parse_socket = Some, wl_from_timestamp = (\<lambda>t. None),
     wl_open = (\<lambda>n s. (Inr (), s)), wl_create_interface = (\<lambda>n s. (Inr (), s(n \<mapsto> device_of []))),
     wl_configure_interface = (\<lambda>n c. on_device n (\<lambda>_. Some (device_of (wc_peers c)))),
     wl_configure_peer_routing = (\<lambda>n ps s. (Inr (), s)),
     wl_remove_interface = (\<lambda>n. on_device n (\<lambda>_. None)),
     wl_configure_peer = (\<lambda>n p. on_device n (\<lambda>d. Some (d(wp_public_key p \<mapsto> p)))),
     wl_remove_peer = (\<lambda>n k. on_device n (\<lambda>d. Some (d(k := None)))),
     wl_read_interface_data = (\<lambda>n s. (Inr [], s))\<rparr>"

lemma dev_wgapi_law: "wgapi_law dev_wg_lib (\<lambda>s. s)"
  by (auto simp: wgapi_law_def dev_wg_lib_def on_device_def split: option.splits)

definition dev_env :: "dev_host db_env" where
  "dev_env = \<lparr>
     de_now = (\<lambda>s. (0, s)), de_uuid = (\<lambda>s. (0, s)), de_fault = (\<lambda>s. (None, s)),
     de_constraint = (\<lambda>col. col), de_sum_overflow = ''integer overflow'', de_net = sample_net,
     de_b64_decode = (\<lambda>s. Inr (bytes_of s)),
     de_json_of_strings = (\<lambda>xs. Some (sample_to_json xs)), de_strings_of_json = sample_from_json []\<rparr>"

definition dev_crypto :: "dev_host crypto_lib" where
  "dev_crypto = \<lparr>
     cl_b64_decode = (\<lambda>s. Inr (bytes_of s)), cl_b64_encode = map (\<lambda>b. char_of (unat b)),
     cl_b64url_encode = map (\<lambda>b. char_of (unat b)), cl_hex_encode = map (\<lambda>b. char_of (unat b)),
     cl_sha256 = (\<lambda>bs. bs), cl_fill_bytes = (\<lambda>n s. (replicate n 7, s)), cl_salt = (\<lambda>s. (''salt'', s)),
     cl_argon2_hash = (\<lambda>bs salt. Inr salt), cl_argon2_parse = Inr, cl_argon2_verify = (\<lambda>bs s. Inr ()),
     cl_age_wrap = (\<lambda>k s. (Inr [], s)), cl_age_write = (\<lambda>k a bs s. (Inr (a @ bs), s)),
     cl_age_finish = (\<lambda>k a s. (Inr a, s)), cl_age_decryptor = (\<lambda>bs. Inr (Dec_Passphrase bs)),
     cl_age_decrypt = (\<lambda>k bs. Inr bs), cl_age_read = (\<lambda>bs. Inr bs)\<rparr>"

definition dev_app :: "(dev_host, string) app_state" where
  "dev_app = \<lparr>
     app_env = dev_env, app_json = \<lparr>js_show = (\<lambda>s. s), js_parse = Inr\<rparr>,
     app_crypto = dev_crypto, app_seal_key = Seal_Key ''master'',
     app_utf8_error = (\<lambda>bs. ''invalid utf-8''), app_wg_lib = dev_wg_lib, app_dry_run = False,
     app_nat = \<lparr>na_dry_run = False, na_linux = True, na_host =
       \<lparr>hl_run = (\<lambda>bin args s. (Inr True, s)), hl_read_file = (\<lambda>f s. (Inr ''0'', s)),
        hl_write_file = (\<lambda>f c s. (Inr (), s))\<rparr>\<rparr>,
     app_sysnet = \<lparr>sa_linux = True, sa_getifaddrs = (\<lambda>s. (Inr [], s)), sa_read_file = (\<lambda>f s. (Inl [], s))\<rparr>\<rparr>"

lemma dev_apart: "devices_apart dev_app (\<lambda>s. s)"
  by (simp add: devices_apart_def dev_app_def dev_env_def)

lemma dev_app_fields [simp]:
  "app_wg_lib dev_app = dev_wg_lib" "\<not> app_dry_run dev_app" "app_repos dev_app = dev_env"
  by (simp_all add: dev_app_def app_repos_def dev_env_def dev_crypto_def)

lemma dev_text_laws: "text_laws dev_env"
  using sample_uuid_law sample_net_law
  by (simp add: text_laws_def dev_env_def json_strings_law_def sample_json_roundtrip)

lemma dev_quiet: "db_quiet dev_env"
  by (simp add: db_quiet_def dev_env_def)

text \<open>One interface with a readable private key and no gateway, and one enabled peer.\<close>

abbreviation dev_new_iface :: new_iface where
  "dev_new_iface \<equiv> sample_new_iface\<lparr>ni_gateway := None\<rparr>"

abbreviation dev_sealed :: "u8 list" where
  "dev_sealed \<equiv> replicate 32 0x6B"

definition dev_iface :: iface where
  "dev_iface = new_iface_entity 1 0 dev_new_iface dev_sealed"

definition dev_peer :: peer where
  "dev_peer = sample_peer 2 [Net_V4 10 32]"

definition dev_db :: db where
  "dev_db = empty_db\<lparr>
     tb_ifaces := [new_iface_row dev_env 1 0 dev_new_iface dev_sealed],
     tb_peers := [new_peer_row dev_env 2 0 (sample_new_peer [Net_V4 10 32]) None]\<rparr>"

definition dev_world :: "dev_host \<Rightarrow> dev_host world" where
  "dev_world s = \<lparr>w_db = dev_db, w_settings = default_settings, w_fwd = [], w_os = s\<rparr>"

lemma dev_entities [simp]:
  "i_id dev_iface = Ident 1" "i_name dev_iface = ''wg0''" "p_id dev_peer = Ident 2"
  "p_interface_id dev_peer = Ident 1" "p_enabled dev_peer" "p_public_key dev_peer = sample_key"
  by (simp_all add: dev_iface_def dev_peer_def new_iface_entity_def sample_new_iface_def)

lemma dev_net_is: "net_is dev_env ([dev_iface], [dev_peer]) (dev_world s)"
proof -
  have key: "key_valid dev_env sample_key"
    by (simp add: key_valid_def dev_env_def sample_key_def bytes_of_def)
  have rows: "iface_into_domain dev_env (new_iface_row dev_env 1 0 dev_new_iface dev_sealed) = Inr dev_iface"
    "peer_into_domain dev_env (new_peer_row dev_env 2 0 (sample_new_peer [Net_V4 10 32]) None) = Inr dev_peer"
    using new_iface_decodes [OF dev_text_laws] new_peer_decodes [OF dev_text_laws] key
    by (simp_all add: dev_iface_def dev_peer_def sample_peer_def sample_new_iface_def sample_new_peer_def)
  have "iface_row_ok dev_env (new_iface_row dev_env 1 0 dev_new_iface dev_sealed)"
    unfolding iface_row_ok_def rows by (simp add: show_id_def new_iface_row_def Let_def)
  moreover have "peer_row_ok dev_env (new_peer_row dev_env 2 0 (sample_new_peer [Net_V4 10 32]) None)"
    unfolding peer_row_ok_def rows by (simp add: show_id_def new_peer_row_def sample_new_peer_def)
  moreover have view: "net_of dev_env dev_db = ([dev_iface], [dev_peer])"
    by (simp add: net_of_def dev_db_def iface_of_def peer_of_def rows)
  moreover have "net_wf ([dev_iface], [dev_peer])"
    by (simp add: net_wf_def)
  moreover have "tb_ifaces dev_db = [new_iface_row dev_env 1 0 dev_new_iface dev_sealed]"
    "tb_peers dev_db = [new_peer_row dev_env 2 0 (sample_new_peer [Net_V4 10 32]) None]"
    by (simp_all add: dev_db_def)
  ultimately show ?thesis
    by (simp add: holds_def net_inv_def net_view_def net_rows_ok_def dev_text_laws dev_world_def)
qed

lemma dev_keys: "keys_apart (app_wg dev_app) k [dev_peer]"
  by (auto simp: keys_apart_def inj_on_def)

definition dev_up :: dev_host where
  "dev_up = (\<lambda>n. if n = ''wg0'' then Some (device_of []) else None)"

lemma returned: "\<not> isl (fst r) \<Longrightarrow> \<exists>x w'. r = (Inr x, w')"
  by (cases r; cases "fst r") auto

lemma dev_runs:
  "\<not> isl (fst (iface_start (interface_service dev_app) (Ident 1) (dev_world dev_up)))"
  "\<not> isl (fst (iface_stop (interface_service dev_app) (Ident 1) (dev_world dev_up)))"
  by code_simp+

subsection \<open>Properties\<close>

text \<open>C8: The device of an interface after a start. On a host whose WireGuard library behaves as
  documented, a start that succeeds found the device of the interface on the host, persists the
  status \<open>up\<close> on exactly that interface, leaves every other device alone and gives the
  interface's own device exactly its enabled peers, when these have different keys. A start that
  fails (no device, a key that cannot be read, gateway check, NAT) leaves the stored configuration
  as it was.\<close>

theorem start_mirrors_configuration:
  assumes "wgapi_law (app_wg_lib A) D" and "devices_apart A D" and "\<not> app_dry_run A"
    and "net_is (app_repos A) (is, ps) w"
  shows "case iface_start (interface_service A) k w of
     (Inl e, w') \<Rightarrow> net_is (app_repos A) (is, ps) w'
   | (Inr x, w') \<Rightarrow> D (w_os w) (i_name x) \<noteq> None \<and>
       (\<exists>now old. find (\<lambda>y. i_id y = k) is = Some old \<and> x = old\<lparr>i_status := Status_Up\<rparr> \<and>
          net_is (app_repos A) (put_iface x now is, ps) w') \<and>
       (\<exists>d. D (w_os w') = (D (w_os w))(i_name x \<mapsto> d) \<and>
          (keys_apart (app_wg A) k ps \<longrightarrow> mirrors (app_wg A) k ps d))"
proof -
  have "net_dev A D (is, ps) (D (w_os w)) w"
    using assms(4) by simp
  from triple_at [OF start_devices [OF assms(1-3), where k = k] this] show ?thesis
    by (auto simp: iface_wrote_def with_status_def split: prod.splits sum.splits)
qed

theorem start_mirrors_configuration_witness:
  "\<exists>x w' d. iface_start (interface_service dev_app) (Ident 1) (dev_world dev_up) = (Inr x, w') \<and>
     i_status x = Status_Up \<and> w_os w' = dev_up(i_name x \<mapsto> d) \<and> mirrors (app_wg dev_app) (Ident 1) [dev_peer] d"
proof -
  obtain x w' where run: "iface_start (interface_service dev_app) (Ident 1) (dev_world dev_up) = (Inr x, w')"
    using returned [OF dev_runs(1)] by blast
  have "net_is (app_repos dev_app) ([dev_iface], [dev_peer]) (dev_world dev_up)"
    using dev_net_is by simp
  from start_mirrors_configuration [OF _ dev_apart _ this, of "Ident 1"] run dev_keys [of "Ident 1"] show ?thesis
    by (auto simp: dev_wgapi_law dev_world_def)
qed

lemma find_put_iface_name:
  "find (\<lambda>y. i_id y = k) is = Some old \<Longrightarrow> find (\<lambda>y. i_id y = k) (put_iface x now is) = Some y \<Longrightarrow>
   i_name y = i_name old"
  by (induction "is") (auto simp: put_iface_def split: if_splits)

text \<open>C10: An interface that was stopped cannot be started again. On a host whose WireGuard library
  behaves as documented, a stop that succeeds persists the status \<open>down\<close> and removes the device of
  the interface, and no other; since a start only configures the device and nothing but the
  creation of an interface makes one, the next start fails.\<close>

theorem stopped_interface_cannot_start:
  assumes "wgapi_law (app_wg_lib A) D" and "devices_apart A D" and "\<not> app_dry_run A"
    and "net_is (app_repos A) (is, ps) w"
  shows "case iface_stop (interface_service A) k w of
     (Inl e, w') \<Rightarrow> net_is (app_repos A) (is, ps) w'
   | (Inr x, w') \<Rightarrow> D (w_os w') = (D (w_os w))(i_name x := None) \<and>
       (\<exists>now old. find (\<lambda>y. i_id y = k) is = Some old \<and> x = old\<lparr>i_status := Status_Down\<rparr> \<and>
          net_is (app_repos A) (put_iface x now is, ps) w') \<and>
       (\<exists>e. fst (iface_start (interface_service A) k w') = Inl e)"
proof (cases "iface_stop (interface_service A) k w")
  case (Pair r w')
  have "net_dev A D (is, ps) (D (w_os w)) w"
    using assms(4) by simp
  note run = triple_at [OF stop_devices [OF assms(1-3), where k = k] this]
  show ?thesis
  proof (cases r)
    case (Inl e)
    with Pair run show ?thesis by simp
  next
    case (Inr x)
    obtain now old where old: "find (\<lambda>y. i_id y = k) is = Some old" "x = old\<lparr>i_status := Status_Down\<rparr>"
      and stored: "net_is (app_repos A) (put_iface x now is, ps) w'"
      and gone: "D (w_os w') = (D (w_os w))(i_name x := None)"
      using run Pair Inr by (auto simp: iface_wrote_def with_status_def)
    have name: "i_name y = i_name x" if "find (\<lambda>y. i_id y = k) (put_iface x now is) = Some y" for y
      using find_put_iface_name [OF old(1) that] old(2) by simp
    have "net_dev A D (put_iface x now is, ps) (D (w_os w')) w'"
      using stored by simp
    note again = triple_at [OF start_devices [OF assms(1-3), where k = k] this]
    have "\<exists>e. fst (iface_start (interface_service A) k w') = Inl e"
    proof (cases "fst (iface_start (interface_service A) k w')")
      case (Inr y)
      then have "\<exists>old'. find (\<lambda>y. i_id y = k) (put_iface x now is) = Some old' \<and> i_name y = i_name old'"
        and "D (w_os w') (i_name y) \<noteq> None"
        using again by (auto simp: split_beta iface_wrote_def with_status_def)
      then have "D (w_os w') (i_name x) \<noteq> None"
        using name by metis
      then show ?thesis using gone by simp
    qed simp
    with old stored gone show ?thesis
      unfolding Pair Inr prod.case sum.case by blast
  qed
qed

theorem stopped_interface_cannot_start_witness:
  "\<exists>x w' e. iface_stop (interface_service dev_app) (Ident 1) (dev_world dev_up) = (Inr x, w') \<and>
     w_os w' ''wg0'' = None \<and> fst (iface_start (interface_service dev_app) (Ident 1) w') = Inl e"
proof -
  obtain x w' where run: "iface_stop (interface_service dev_app) (Ident 1) (dev_world dev_up) = (Inr x, w')"
    using returned [OF dev_runs(2)] by blast
  have "net_is (app_repos dev_app) ([dev_iface], [dev_peer]) (dev_world dev_up)"
    using dev_net_is by simp
  from stopped_interface_cannot_start [OF _ dev_apart _ this, of "Ident 1"] run show ?thesis
    by (auto simp: dev_wgapi_law dev_world_def split: if_splits)
qed

text \<open>C9: Switching a peer on or off and deleting it reach the device. With a database that answers and
  a WireGuard library that behaves as documented, both operations succeed for a stored peer; when
  the device of its interface mirrored the stored peers before (the enabled ones, each with its
  addresses, endpoint and keepalive, and no other) and the peers of the interface have different
  keys, it mirrors them again afterwards, and no other device has changed.\<close>

theorem peer_changes_reach_device:
  assumes law: "wgapi_law (app_wg_lib A) D" "devices_apart A D" "\<not> app_dry_run A" and quiet: "db_quiet (app_repos A)"
    and at: "net_is (app_repos A) (is, ps) w" and old: "old \<in> set ps" and i: "i \<in> set is" "i_id i = p_interface_id old"
    and keys: "keys_apart (app_wg A) (i_id i) ps"
    and d: "D (w_os w) (i_name i) = Some d" "mirrors (app_wg A) (i_id i) ps d"
  shows "\<exists>w1 w2 now d1 d2.
    peer_set_enabled (peer_service A) (p_id old) on w = (Inr (old\<lparr>p_enabled := on\<rparr>), w1) \<and>
    net_is (app_repos A) (is, put_peer (old\<lparr>p_enabled := on\<rparr>) now ps) w1 \<and>
    D (w_os w1) = (D (w_os w))(i_name i \<mapsto> d1) \<and>
    mirrors (app_wg A) (i_id i) (put_peer (old\<lparr>p_enabled := on\<rparr>) now ps) d1 \<and>
    peer_delete (peer_service A) (p_id old) w = (Inr (), w2) \<and>
    net_is (app_repos A) (is, filter (\<lambda>p. p_id p \<noteq> p_id old) ps) w2 \<and>
    D (w_os w2) = (D (w_os w))(i_name i \<mapsto> d2) \<and>
    mirrors (app_wg A) (i_id i) (filter (\<lambda>p. p_id p \<noteq> p_id old) ps) d2"
proof -
  have wf: "distinct (map i_id is)" "distinct (map p_id ps)"
    using stored_wf [OF at] by (simp_all add: net_wf_def)
  have found: "find (\<lambda>y. p_id y = p_id old) ps = Some old" "find (\<lambda>y. i_id y = p_interface_id old) is = Some i"
    using find_by_key [OF wf(2) old] find_by_key [OF wf(1) i(1)] i(2) by simp_all
  have w: "net_dev A D (is, ps) (D (w_os w)) w"
    using at by simp
  obtain w1 now where w1: "peer_set_enabled (peer_service A) (p_id old) on w = (Inr (old\<lparr>p_enabled := on\<rparr>), w1)"
    "net_is (app_repos A) (is, put_peer (old\<lparr>p_enabled := on\<rparr>) now ps) w1"
    "D (w_os w1) = (D (w_os w))(i_name i \<mapsto> entry_set (app_wg A) old on d)"
    using triple_returns [OF toggle_devices [where g = "D (w_os w)" and d = d and i = i, OF law quiet d(1) found] w] by blast
  obtain w2 where w2: "peer_delete (peer_service A) (p_id old) w = (Inr (), w2)"
    "net_is (app_repos A) (is, filter (\<lambda>p. p_id p \<noteq> p_id old) ps) w2"
    "D (w_os w2) = (D (w_os w))(i_name i \<mapsto> entry_set (app_wg A) old False d)"
    using triple_returns [OF delete_devices [where g = "D (w_os w)" and d = d and i = i, OF law quiet d(1) found] w] by auto
  note mirrored = mirrors_flag [OF d(2) keys old i(2) [symmetric] wf(2)]
  show ?thesis
    using w1 w2 mirrored by blast
qed

theorem peer_changes_reach_device_witness:
  "\<exists>d w1. d \<noteq> (\<lambda>_. None) \<and> peer_set_enabled (peer_service dev_app) (Ident 2) False
       (dev_world [''wg0'' \<mapsto> d]) = (Inr (dev_peer\<lparr>p_enabled := False\<rparr>), w1) \<and>
     w_os w1 ''wg0'' = Some (\<lambda>_. None)"
proof -
  let ?W = "app_wg dev_app"
  have "\<not> isl (to_wg_peer ?W dev_peer)" by code_simp
  then obtain v where v: "to_wg_peer ?W dev_peer = Inr v"
    by (cases "to_wg_peer ?W dev_peer") auto
  let ?d = "device_of [v]" and ?s = "[''wg0'' \<mapsto> device_of [v]]"
  have mirrored: "mirrors ?W (i_id dev_iface) [dev_peer] ?d"
    by (rule mirrors_started [where listed = "[dev_peer]"]) (simp_all add: v dev_keys)
  have "net_is (app_repos dev_app) ([dev_iface], [dev_peer]) (dev_world ?s)"
    using dev_net_is by simp
  from peer_changes_reach_device [OF _ dev_apart _ _ this _ _ _ dev_keys _ mirrored, of dev_peer False]
  obtain w1 now d1 where run: "peer_set_enabled (peer_service dev_app) (Ident 2) False (dev_world ?s) =
      (Inr (dev_peer\<lparr>p_enabled := False\<rparr>), w1)" "w_os w1 = ?s(''wg0'' \<mapsto> d1)"
    and after: "mirrors ?W (Ident 1) (put_peer (dev_peer\<lparr>p_enabled := False\<rparr>) now [dev_peer]) d1"
    by (auto simp: dev_wgapi_law dev_quiet dev_world_def)
  have "d1 key \<noteq> Some u" for key u
    using after by (simp add: mirrors_def gives_def put_peer_def peer_over_def)
  then have "d1 = (\<lambda>_. None)"
    by (intro ext) (metis not_Some_eq)
  moreover have "?d (wp_public_key v) = Some v"
    by (simp add: device_of_def)
  then have "?d \<noteq> (\<lambda>_. None)"
    by auto
  ultimately show ?thesis
    using run by (intro exI [of _ ?d] exI [of _ w1]) simp
qed

end
