(* ===== verification/Events.thy ===== *)
theory Events
  imports App
begin

section \<open>Webhooks and the event socket\<close>

text \<open>
  \<open>wireforge-web/src/webhook_dispatcher.rs\<close> and \<open>routes/ws.rs\<close>. Serialisation, HMAC-SHA256 and
  the HTTP client are parameters. The task that \<open>fire_and_forget\<close> spawns is an operation on the
  world whose value is the list of requests it posted; the answers are only logged.
\<close>

record hook_request =
  hq_url :: string
  hq_headers :: "(string \<times> string) list"
  hq_body :: "u8 list"

record ('os, 'p) hook_lib =
  hk_rfc3339 :: "datetime \<Rightarrow> string"
  hk_to_vec :: "string \<Rightarrow> string \<Rightarrow> 'p \<Rightarrow> string + u8 list"
  hk_client_error :: "'os \<Rightarrow> bool \<times> 'os"
  hk_hmac :: "u8 list \<Rightarrow> u8 list \<Rightarrow> u8 list option"
  hk_send :: "hook_request \<Rightarrow> 'os \<Rightarrow> (string + u16) \<times> 'os"

definition hook_wants :: "string \<Rightarrow> webhook \<Rightarrow> bool" where
  "hook_wants event h \<longleftrightarrow> list_ex (\<lambda>e. e = event \<or> e = ''*'') (h_events h)"

definition hook_request_for :: "('os, 'p) hook_lib \<Rightarrow> string \<Rightarrow> u8 list \<Rightarrow> webhook \<Rightarrow> hook_request" where
  "hook_request_for L event body h = \<lparr>
     hq_url = h_url h,
     hq_headers = [(''content-type'', ''application/json''), (''x-wireforge-event'', event)] @
       (case h_secret h of
          None \<Rightarrow> []
        | Some secret \<Rightarrow> (case hk_hmac L (bytes_of secret) body of
            None \<Rightarrow> []
          | Some sig \<Rightarrow> [(''x-wireforge-signature'', ''sha256='' @ concat (map hex2 sig))])),
     hq_body = body\<rparr>"

fun post_all ::
    "('os, 'p) hook_lib \<Rightarrow> string \<Rightarrow> u8 list \<Rightarrow> webhook list \<Rightarrow> ('os world, 'e, hook_request list) io" where
  "post_all L event body [] = io_ret []"
| "post_all L event body (h # hs) =
     (if \<not> hook_wants event h then post_all L event body hs
      else let q = hook_request_for L event body h in
        io_ignore (on_os_res (hk_send L q))
          (io_bind (post_all L event body hs) (\<lambda>qs. io_ret (q # qs))))"

datatype task_end = Task_Done "hook_request list" | Task_Panic

definition fire_and_forget ::
    "'os db_env \<Rightarrow> ('os, 'p) hook_lib \<Rightarrow> string \<Rightarrow> 'p \<Rightarrow> ('os world, 'e, task_end) io" where
  "fire_and_forget E L event payload =
     io_try (wr_list_enabled (sqlite_webhooks E)) (\<lambda>r.
     case r of
       Inl _ \<Rightarrow> io_ret (Task_Done [])
     | Inr hooks \<Rightarrow>
         if hooks = [] then io_ret (Task_Done [])
         else
           io_bind (on_os (de_now E)) (\<lambda>now.
           case hk_to_vec L event (hk_rfc3339 L now) payload of
             Inl _ \<Rightarrow> io_ret (Task_Done [])
           | Inr body \<Rightarrow>
               io_bind (on_os (hk_client_error L)) (\<lambda>broken.
               if broken then io_ret Task_Panic
               else io_bind (post_all L event body hooks) (\<lambda>qs. io_ret (Task_Done qs)))))"

text \<open>What wakes the loop of a socket: the timer, whose ping is sent or not, or a message.\<close>

datatype socket_event = Tick (sent: bool) | Close_Message | End_Of_Stream | Receive_Error | Other_Message

datatype socket_state = Socket_Open nat | Socket_Closed nat

text \<open>The loop, with the number of heartbeats sent so far.\<close>

fun handle_socket :: "nat \<Rightarrow> socket_event list \<Rightarrow> socket_state" where
  "handle_socket n [] = Socket_Open n"
| "handle_socket n (Tick ok # es) = (if ok then handle_socket (n + 1) es else Socket_Closed n)"
| "handle_socket n (Close_Message # es) = Socket_Closed n"
| "handle_socket n (End_Of_Stream # es) = Socket_Closed n"
| "handle_socket n (Receive_Error # es) = Socket_Closed n"
| "handle_socket n (Other_Message # es) = handle_socket n es"

end
