(* ===== verification/Session_Frames.thy ===== *)
theory Session_Frames
  imports Server_Run
begin

section \<open>What handlers do to the session\<close>

text \<open>
  Frame lemmas of the web handlers: an operation on the world leaves the session alone, and only
  login, the two-factor challenge, logout and the first set-up write the entries of the session
  that hold its user and the user whose second factor is pending.
\<close>

abbreviation login_entries :: "'os visit \<Rightarrow> session_value option \<times> session_value option" where
  "login_entries v \<equiv> (snd v SESSION_USER_KEY, snd v PENDING_USER_KEY)"

lemma session_keys: "PENDING_USER_KEY \<noteq> SESSION_USER_KEY" "TOTP_PENDING_KEY \<noteq> SESSION_USER_KEY"
    "FLASH_KEY \<noteq> SESSION_USER_KEY" "FLASH_KEY \<noteq> PENDING_USER_KEY"
    "TOTP_PENDING_KEY \<noteq> PENDING_USER_KEY"
  by (simp_all add: PENDING_USER_KEY_def TOTP_PENDING_KEY_def FLASH_KEY_def SESSION_USER_KEY_def)

named_theorems session_intros \<open>operations that keep an observation of the session\<close>

lemma session_in_world [session_intros]: "keeps (\<lambda>v. g (snd v)) (in_world m)"
  by (simp add: keeps_def in_world_def split: prod.split)

lemma session_guard_keeps [session_intros]: "keeps (\<lambda>v. g (snd v)) (session_guard S)"
  unfolding session_guard_def by (intro keeps_intros session_in_world)

lemma session_insert_keeps [session_intros]:
  "(\<And>s. g (s(k \<mapsto> x)) = g s) \<Longrightarrow> keeps (\<lambda>v. g (snd v)) (session_insert S k x)"
  unfolding session_insert_def by (intro keeps_intros session_guard_keeps) (simp add: keeps_def)

lemma session_get_keeps [session_intros]: "keeps (\<lambda>v. g (snd v)) (session_get S k get)"
  unfolding session_get_def by (intro keeps_intros session_guard_keeps) (simp add: keeps_def)

lemma session_remove_keeps [session_intros]:
  "(\<And>s. g (s(k := None)) = g s) \<Longrightarrow> keeps (\<lambda>v. g (snd v)) (session_remove S k get)"
  unfolding session_remove_def by (intro keeps_intros session_guard_keeps) (simp add: keeps_def)

text \<open>What neither the database nor the session notices.\<close>

lemma start_in_world:
  assumes "keeps w_db m"
  shows "keeps (\<lambda>v. (w_db (fst v), snd v)) (in_world m)"
  using keepsD2 [OF assms] by (auto simp: keeps_def in_world_def split: prod.split)

lemma start_session_get: "keeps (\<lambda>v. (w_db (fst v), snd v)) (session_get S k get)"
proof -
  have "keeps (\<lambda>v. (w_db (fst v), snd v)) (session_guard S)"
    unfolding session_guard_def by (intro keeps_intros start_in_world os_blind_fields)
  then show ?thesis
    unfolding session_get_def by (intro keeps_bind) (auto simp: keeps_def)
qed

lemma keeps_opt [session_intros]: "keeps f (io_opt e x)"
  unfolding io_opt_def by (intro keeps_intros)

lemma keeps_collect [session_intros]: "(\<And>x. keeps f (body x)) \<Longrightarrow> keeps f (io_collect xs body)"
  by (induction xs) (auto intro!: keeps_intros simp del: io_apply)

lemma keeps_core_error [session_intros]:
  assumes "\<And>s. keeps f (k1 s)" "\<And>s. keeps f (k2 s)" "\<And>s. keeps f (k3 s)" "\<And>s. keeps f (k4 s)"
    "keeps f k5" "keeps f k6" "keeps f k7" "keeps f k8" "\<And>s. keeps f (k9 s)" "\<And>s. keeps f (k10 s)"
    "\<And>s. keeps f (k11 s)" "\<And>s. keeps f (k12 s)" "\<And>s. keeps f (k13 s)"
  shows "keeps f (case_core_error k1 k2 k3 k4 k5 k6 k7 k8 k9 k10 k11 k12 k13 e)"
  by (cases e) (simp_all add: assms)

lemma session_helpers [session_intros]:
  "keeps (\<lambda>v. g (snd v)) (web_audit S who ip action rt rid meta)"
  "keeps (\<lambda>v. g (snd v)) web_settings" "keeps (\<lambda>v. g (snd v)) (web_require_mutate u)"
  "keeps (\<lambda>v. g (snd v)) (current_user S)" "keeps (\<lambda>v. g (snd v)) (read_session_user S)"
  "keeps (\<lambda>v. g (snd v)) (gateways S)" "keeps (\<lambda>v. g (snd v)) (sys_snapshot S)"
  "keeps (\<lambda>v. g (snd v)) (web_peer_conf S i p)"
  unfolding web_audit_def web_settings_def web_require_mutate_def current_user_def
    read_session_user_def gateways_def sys_snapshot_def web_peer_conf_def Let_def
  by (intro keeps_intros session_intros)+

lemma flash_keeps [session_intros]:
  "keeps login_entries (set_flash S f)" "keeps login_entries (take_flash S)"
  unfolding set_flash_def take_flash_def Let_def
  by (intro keeps_intros session_intros; simp add: session_keys session_keys [symmetric])+

lemma web_forms_session [session_intros]:
  "keeps (\<lambda>v. g (snd v)) (form_error_new S u f msg)"
  "keeps (\<lambda>v. g (snd v)) (form_error_edit S u i f msg)"
  "keeps (\<lambda>v. g (snd v)) (form_error S u pf msg)"
  "keeps (\<lambda>v. g (snd v)) (edit_form_error S u k ef msg)"
  unfolding form_error_new_def form_error_edit_def form_error_def edit_form_error_def Let_def
  by (intro keeps_intros session_intros)+

lemma profile_session:
  "keeps login_entries (web_profile S u)" "keeps login_entries (web_totp_setup_page S u)"
  "keeps login_entries (web_totp_confirm S u given)" "keeps login_entries (web_totp_disable S u)"
  unfolding web_profile_def web_totp_setup_page_def web_totp_confirm_def web_totp_enable_def
    web_totp_disable_def
  by (intro keeps_intros session_intros; simp add: session_keys session_keys [symmetric])+

lemma iface_pages_session:
  "keeps login_entries (web_ifaces_list S u)" "keeps login_entries (web_ifaces_new_page S u)"
  "keeps login_entries (web_ifaces_edit_page S u raw)" "keeps login_entries (web_ifaces_create S u f)"
  "keeps login_entries (web_ifaces_edit S u raw f)" "keeps login_entries (web_ifaces_start S u raw)"
  "keeps login_entries (web_ifaces_stop S u raw)" "keeps login_entries (web_ifaces_delete S u raw)"
  unfolding web_ifaces_list_def web_ifaces_new_page_def web_ifaces_edit_page_def web_ifaces_create_def
    web_ifaces_edit_def web_ifaces_start_def web_ifaces_stop_def web_ifaces_delete_def Let_def
  by (intro keeps_intros session_intros)+

lemma keeps_list [session_intros]:
  "keeps f m \<Longrightarrow> (\<And>x xs. keeps f (k x xs)) \<Longrightarrow> keeps f (case ys of [] \<Rightarrow> m | x # xs \<Rightarrow> k x xs)"
  by (cases ys) auto

lemma peer_pages_session:
  "keeps login_entries (web_peers_list S u)" "keeps login_entries (web_peers_new_page S u)"
  "keeps login_entries (web_peers_edit_page S u raw)" "keeps login_entries (web_peers_create S u pf)"
  "keeps login_entries (web_peers_edit S u raw ef)" "keeps login_entries (web_peers_toggle S u raw)"
  "keeps login_entries (web_peers_delete S u raw)" "keeps login_entries (web_peers_download S raw)"
  "keeps login_entries (web_peers_qr S raw)"
  unfolding web_peers_list_def web_peers_new_page_def web_peers_edit_page_def web_peers_create_def
    web_peers_edit_def web_peers_toggle_def web_peers_delete_def web_peers_download_def
    web_peers_qr_def web_peer_and_conf_def web_peer_created_def Let_def
  by (intro keeps_intros session_intros)+

lemma system_pages_session:
  "keeps login_entries (web_settings_page S u)" "keeps login_entries (web_settings_save S u sf)"
  "keeps login_entries (web_audit_page S u)" "keeps login_entries (web_metrics S)"
  "keeps login_entries (readyz S)" "keeps login_entries healthz"
  "keeps login_entries (web_system_page S u)" "keeps login_entries (web_dashboard S u)"
  "keeps login_entries (web_login_page S)" "keeps login_entries (web_setup_page S)"
  unfolding web_settings_page_def web_settings_save_def web_audit_page_def web_metrics_def readyz_def
    healthz_def web_system_page_def web_dashboard_def build_traffic_snapshot_def
    web_login_page_def web_setup_page_def
  by (intro keeps_intros session_intros)+

text \<open>The requests that may change who is logged in.\<close>

fun login_request :: "web_request \<Rightarrow> bool" where
  "login_request (Post_Login _) = True"
| "login_request (Post_Totp _) = True"
| "login_request (Post_Setup _) = True"
| "login_request Post_Logout = True"
| "login_request _ = False"

lemma other_requests_session:
  assumes "\<not> login_request req"
  shows "keeps login_entries (web_dispatch S ip req)"
proof -
  have routes: "keeps login_entries (web_user_route S u r)" for u r
    unfolding web_user_route_def
    by (cases r; simp only: web_request.case)
      (intro keeps_fail profile_session iface_pages_session peer_pages_session system_pages_session)+
  show ?thesis
    using assms unfolding web_dispatch_def
    by (cases req; simp only: web_request.case login_request.simps simp_thms)
      (intro keeps_bind session_helpers system_pages_session routes)+
qed

end
