(* ===== verification/Login_Properties.thy ===== *)
theory Login_Properties
  imports Sample Session_Frames
begin

section \<open>Properties of logins, lockouts and sessions\<close>

text \<open>
  When an address is locked out, what a login needs, how a session gets its user, and that the
  first set-up happens once.
\<close>

subsection \<open>Failed logins\<close>

text \<open>The row that the next failure of an address leaves.\<close>

definition next_ban :: "string \<Rightarrow> u32 \<Rightarrow> u64 \<Rightarrow> datetime \<Rightarrow> ban_row option \<Rightarrow> ban_row" where
  "next_ban ip m l now b = (case ban_next b now m l of (n, until) \<Rightarrow>
     \<lparr>bc_ip = ip, bc_banned_until = until, bc_attempt_count = n, bc_updated_at = now\<rparr>)"

abbreviation ban_of :: "string \<Rightarrow> db \<Rightarrow> ban_row option" where
  "ban_of ip d \<equiv> find (\<lambda>r. bc_ip r = ip) (tb_bans d)"

abbreviation reading :: "'os db_env \<Rightarrow> 'os world \<Rightarrow> datetime" where
  "reading E w \<equiv> fst (de_now E (w_os w))"

lemma find_upsert_ban:
  "find (\<lambda>r. bc_ip r = ip) (upsert_ban x rows) =
     (if ip = bc_ip x then Some x else find (\<lambda>r. bc_ip r = ip) rows)"
proof -
  let ?f = "\<lambda>q :: ban_row. q\<lparr>bc_banned_until := bc_banned_until x,
      bc_attempt_count := bc_attempt_count x, bc_updated_at := bc_updated_at x\<rparr>"
  have same: "?f q = x" if "bc_ip q = bc_ip x" for q
    using that by (cases q; cases x) simp
  have other: "find (\<lambda>r. bc_ip r = ip) (update_rows (\<lambda>q. bc_ip q = bc_ip x) ?f rows) =
      find (\<lambda>r. bc_ip r = ip) rows" if "ip \<noteq> bc_ip x"
    using that by (induction rows) (auto simp: update_rows_def)
  have own: "find (\<lambda>r. bc_ip r = bc_ip x) (update_rows (\<lambda>q. bc_ip q = bc_ip x) ?f rows) = Some x"
    if "bc_ip x \<in> set (map bc_ip rows)"
    using that by (induction rows) (auto simp: update_rows_def same)
  have app: "find P (xs @ [y]) = (case find P xs of None \<Rightarrow> if P y then Some y else None | Some z \<Rightarrow> Some z)"
    for P :: "ban_row \<Rightarrow> bool" and xs y
    by (induction xs) auto
  have absent: "find (\<lambda>r. bc_ip r = bc_ip x) rows = None" if "bc_ip x \<notin> set (map bc_ip rows)"
    using that by (simp add: find_None_iff) (metis imageI)
  show ?thesis
    using other own absent by (auto simp: upsert_ban_def app split: option.split)
qed

lemma failure_effect:
  assumes "db_quiet E"
  shows "bans_record_failure E ip m l w =
     (Inr (ban_into_domain (next_ban ip m l (reading E w) (ban_of ip (w_db w)))),
      w\<lparr>w_os := snd (de_now E (w_os w)),
        w_db := (w_db w)\<lparr>tb_bans := upsert_ban (next_ban ip m l (reading E w) (ban_of ip (w_db w)))
          (tb_bans (w_db w))\<rparr>\<rparr>)"
  using assms
  by (simp add: bans_record_failure_def io_bind_def on_os_def db_query_quiet db_exec_quiet
      db_guard_def db_quiet_def next_ban_def ban_into_domain_def split: prod.split)

definition clock_law :: "'os db_env \<Rightarrow> bool" where
  "clock_law E \<longleftrightarrow> (\<forall>s. fst (de_now E s) \<le> fst (de_now E (snd (de_now E s))))"

text \<open>The world after \<open>n\<close> failures in a row of one address.\<close>

abbreviation fail_times :: "'os db_env \<Rightarrow> string \<Rightarrow> u32 \<Rightarrow> u64 \<Rightarrow> nat \<Rightarrow> 'os world \<Rightarrow> 'os world" where
  "fail_times E ip m l n w \<equiv> ((\<lambda>w. snd (bans_record_failure E ip m l w)) ^^ n) w"

lemma fail_times_ban:
  assumes "db_quiet E"
  shows "ban_of ip (w_db (fail_times E ip m l (Suc n) w)) =
    Some (next_ban ip m l (reading E (fail_times E ip m l n w)) (ban_of ip (w_db (fail_times E ip m l n w))))"
  by (simp add: failure_effect [OF assms] find_upsert_ban) (simp add: next_ban_def split: prod.split)

lemma fail_times_clock:
  assumes "db_quiet E" and "clock_law E"
  shows "reading E (fail_times E ip m l n w) \<le> reading E (fail_times E ip m l (Suc n) w)"
  using assms(2) by (simp add: failure_effect [OF assms(1)] clock_law_def)

text \<open>Two failures are needed even when the limit is one: the first only makes the row.\<close>

abbreviation threshold :: "u32 \<Rightarrow> nat" where
  "threshold m \<equiv> max 2 (unat m)"

lemma small_count:
  assumes "n < 2 ^ 32"
  shows "unat (ucast (word_of_nat n :: i64) :: u32) = n"
  using assms by (simp add: unsigned_ucast_eq unat_of_nat take_bit_nat_eq_self)

lemma below_threshold:
  assumes E: "db_quiet E" "clock_law E" and none: "ban_of ip (w_db w) = None"
  shows "n < threshold m \<Longrightarrow> 0 < n \<Longrightarrow>
    \<exists>b. ban_of ip (w_db (fail_times E ip m l n w)) = Some b \<and> bc_attempt_count b = word_of_nat n \<and>
      bc_banned_until b \<le> reading E (fail_times E ip m l n w)"
proof (induction n)
  case (Suc n)
  let ?w = "fail_times E ip m l n w"
  have clock: "reading E ?w \<le> reading E (fail_times E ip m l (Suc n) w)"
    by (rule fail_times_clock [OF E])
  have limit: "threshold m < 2 ^ 32"
    using unsigned_less [of m] by simp
  show ?case
  proof (cases "n = 0")
    case True
    then show ?thesis
      using clock by (simp add: fail_times_ban [OF E(1)] none next_ban_def ban_next_def del: funpow.simps)
  next
    case False
    then have "0 < n" by simp
    then obtain b where b: "ban_of ip (w_db ?w) = Some b" "bc_attempt_count b = word_of_nat n"
        "bc_banned_until b \<le> reading E ?w"
      using Suc.IH [OF Suc_lessD [OF Suc.prems(1)]] by blast
    have "unat (ucast (bc_attempt_count b + 1) :: u32) = Suc n"
      using small_count [of "Suc n"] Suc.prems limit b(2) by (simp add: add.commute)
    then have "\<not> m \<le> ucast (bc_attempt_count b + 1)"
      using Suc.prems False by (simp add: word_le_nat_alt)
    then show ?thesis
      using b clock by (simp add: fail_times_ban [OF E(1)] next_ban_def ban_next_def Let_def add.commute del: funpow.simps)
  qed
qed simp

lemma at_threshold:
  assumes E: "db_quiet E" "clock_law E" and none: "ban_of ip (w_db w) = None"
  shows "ban_of ip (w_db (fail_times E ip m l (threshold m) w)) =
    Some \<lparr>bc_ip = ip, bc_banned_until =
        reading E (fail_times E ip m l (threshold m - 1) w) + lockout_ns l,
      bc_attempt_count = 0, bc_updated_at = reading E (fail_times E ip m l (threshold m - 1) w)\<rparr>"
proof -
  define n where "n = threshold m - 1"
  have n: "threshold m = Suc n" "0 < n" "n < threshold m"
    unfolding n_def by auto
  obtain b where b: "ban_of ip (w_db (fail_times E ip m l n w)) = Some b"
      "bc_attempt_count b = word_of_nat n"
      "bc_banned_until b \<le> reading E (fail_times E ip m l n w)"
    using below_threshold [OF E none n(3,2)] by blast
  have "unat m < 2 ^ 32"
    using unsigned_less [of m] by simp
  then have "Suc n < 2 ^ 32"
    using n(1) by (simp add: max_def split: if_splits)
  then have "unat (ucast (bc_attempt_count b + 1) :: u32) = Suc n"
    using small_count [of "Suc n"] b(2) by (simp add: add.commute)
  then have "m \<le> ucast (bc_attempt_count b + 1)"
    using n(1) by (simp add: word_le_nat_alt)
  then show ?thesis
    unfolding n_def [symmetric] n(1)
    using b by (simp add: fail_times_ban [OF E(1)] next_ban_def ban_next_def Let_def del: funpow.simps)
qed


lemma sample_quiet_clock: "db_quiet sample_env" "clock_law sample_env"
  by (simp_all add: db_quiet_def clock_law_def)


subsection \<open>Where the user of a session comes from\<close>

text \<open>The stored user of a name, and that a password is that user's.\<close>

definition password_ok ::
    "('os, 'j) server \<Rightarrow> db \<Rightarrow> string \<Rightarrow> string \<Rightarrow> user \<Rightarrow> bool" where
  "password_ok S d name pw x \<longleftrightarrow>
     (\<exists>row. find (\<lambda>r. uc_username r = name) (tb_users d) = Some row \<and>
        user_into_domain (sv_repos S) row = Inr x \<and>
        verify_password (os_crypto (app_crypto (sv_app S))) pw (u_password_hash x) = Inr True)"

text \<open>That a one-time code is right, now, for the user whose password was given in this session.\<close>

definition second_factor_ok ::
    "('os, 'j) server \<Rightarrow> db \<Rightarrow> session \<Rightarrow> string \<Rightarrow> user \<Rightarrow> bool" where
  "second_factor_ok S d s given x \<longleftrightarrow>
     (\<exists>p k row blob bytes secret issuer w1 w2.
        s PENDING_USER_KEY = Some (Sv_Pending p) \<and> parse_id (sv_net S) (pu_user_id p) = Inr k \<and>
        find (\<lambda>r. uc_id r = show_id (sv_net S) (k :: user_id)) (tb_users d) = Some row \<and>
        user_into_domain (sv_repos S) row = Inr x \<and> u_totp_secret x = Some blob \<and>
        unseal (os_crypto (app_crypto (sv_app S))) blob (app_seal_key (sv_app S)) = Inr bytes \<and>
        from_utf8 bytes = Some secret \<and>
        (verify_totp (sv_totp S) secret (trim given) issuer (u_username x) :: ('os world, web_error, bool) io) w1 =
          (Inr True, w2))"

text \<open>What a session's user rests on.\<close>

definition login_evidence ::
    "('os, 'j) server \<Rightarrow> db \<Rightarrow> session \<Rightarrow> web_request \<Rightarrow> auth_user \<Rightarrow> bool" where
  "login_evidence S d s req u \<longleftrightarrow>
     (case req of
        Post_Login f \<Rightarrow> \<exists>x. password_ok S d (lf_username f) (lf_password f) x \<and>
          \<not> u_totp_enabled x \<and> u = auth_user_of x
      | Post_Totp given \<Rightarrow> \<exists>x. second_factor_ok S d s given x \<and> u = auth_user_of x
      | Post_Setup f \<Rightarrow> (word_of_nat (length (tb_users d)) :: u64) = 0 \<and>
          au_role u = Admin \<and> au_username u = su_username f
      | _ \<Rightarrow> False)"

definition pending_evidence ::
    "('os, 'j) server \<Rightarrow> db \<Rightarrow> web_request \<Rightarrow> pending_user \<Rightarrow> bool" where
  "pending_evidence S d req p \<longleftrightarrow>
     (\<exists>f x. req = Post_Login f \<and> password_ok S d (lf_username f) (lf_password f) x \<and>
        u_totp_enabled x \<and> pu_user_id p = show_id (sv_net S) (u_id x))"

text \<open>The two entries of a session after a request.\<close>

definition entries_ok ::
    "('os, 'j) server \<Rightarrow> db \<Rightarrow> session \<Rightarrow> web_request \<Rightarrow> session_value option \<times> session_value option \<Rightarrow> bool" where
  "entries_ok S d s req e \<longleftrightarrow>
     (fst e = s SESSION_USER_KEY \<or> fst e = None \<or>
        (\<exists>u. fst e = Some (Sv_User u) \<and> login_evidence S d s req u)) \<and>
     (snd e = s PENDING_USER_KEY \<or> snd e = None \<or>
        (\<exists>p. snd e = Some (Sv_Pending p) \<and> pending_evidence S d req p))"

lemma entries_same: "entries_ok S d s req (s SESSION_USER_KEY, s PENDING_USER_KEY)"
  by (simp add: entries_ok_def)

lemma authenticated_password_ok:
  assumes "authenticate_password (auth_service (sv_app S)) name pw w = (Inr x, w')"
  shows "password_ok S (w_db w) name pw x"
proof -
  let ?E = "sv_repos S"
  obtain w1 where u: "users_find_by_username ?E name w = (Inr (Some x), w1)"
    and ok: "verify_password (os_crypto (app_crypto (sv_app S))) pw (u_password_hash x) = Inr True"
    using assms
    by (auto simp: authenticate_password_def auth_service_def sqlite_users_def io_bind_ok_iff io_some_ok_iff
        split: if_splits)
  then have "opt_traverse (user_into_domain ?E) (find (\<lambda>r. uc_username r = name) (tb_users (w_db w))) = Inr (Some x)"
    by (auto simp: users_find_by_username_def fetch_optional_def io_bind_ok_iff dest: db_query_ok)
  then show ?thesis
    using ok by (cases "find (\<lambda>r. uc_username r = name) (tb_users (w_db w))")
      (auto simp: password_ok_def split: sum.splits)
qed

lemma guard_session: "session_guard S v = (r, v') \<Longrightarrow> snd v' = snd v"
  using keepsD2 [OF session_guard_keeps [of "\<lambda>s. s"]] .

lemma session_insert_result:
  assumes "session_insert S k x v = (r, v')"
  shows "snd v' = snd v \<or> snd v' = (snd v)(k \<mapsto> x)"
proof -
  obtain g v1 where g: "session_guard S v = (g, v1)"
    by (rule prod.exhaust)
  then show ?thesis
    using assms guard_session [OF g] by (cases g; cases v1) (auto simp: session_insert_def)
qed

lemma session_remove_result:
  assumes "session_remove S k get v = (r, v')"
  shows "snd v' = snd v \<or> snd v' = (snd v)(k := None)"
proof -
  obtain g v1 where g: "session_guard S v = (g, v1)"
    by (rule prod.exhaust)
  then show ?thesis
    using assms guard_session [OF g] by (cases g; cases v1) (auto simp: session_remove_def)
qed

text \<open>Triples about the two entries of the session.\<close>

abbreviation has_entries :: "(session_value option \<times> session_value option \<Rightarrow> bool) \<Rightarrow> 'os visit \<Rightarrow> bool" where
  "has_entries P \<equiv> \<lambda>v. P (login_entries v)"

lemma entries_keep: "keeps login_entries m \<Longrightarrow> triple (has_entries P) m (\<lambda>_. has_entries P) (\<lambda>_. has_entries P)"
  by (rule triple_keeps)

lemma entries_ignore:
  "triple (has_entries P) m (\<lambda>_. has_entries Q) (\<lambda>_. has_entries Q) \<Longrightarrow>
   triple (has_entries Q) k R X \<Longrightarrow> triple (has_entries P) (io_ignore m k) R X"
  by (rule triple_ignore)

lemma store_entries:
  assumes "\<And>e. P e \<Longrightarrow> Q (Some (Sv_User u), snd e)" and "\<And>e. P e \<Longrightarrow> Q e"
  shows "triple (has_entries P) (auth_user_store S u) (\<lambda>_. has_entries Q) (\<lambda>_. has_entries Q)"
proof -
  have "has_entries Q v'" if "has_entries P v" "session_insert S SESSION_USER_KEY (Sv_User u) v = (r, v')"
    for v v' :: "'a visit" and r
    using session_insert_result [OF that(2)] that(1) assms(1) [of "login_entries v"] assms(2) [of "login_entries v"]
    by (auto simp: session_keys)
  then show ?thesis
    unfolding auth_user_store_def by (intro triple_map_err) (blast intro: tripleI)
qed

lemma pending_entries:
  assumes "\<And>e. P e \<Longrightarrow> Q (fst e, Some x)" and "\<And>e. P e \<Longrightarrow> Q e"
  shows "triple (has_entries P) (session_insert S PENDING_USER_KEY x) (\<lambda>_. has_entries Q) (\<lambda>_. has_entries Q)"
proof (rule tripleI, goal_cases)
  case (1 v r v')
  then show ?case
    using session_insert_result [OF 1(2)] assms(1) [of "login_entries v"] assms(2) [of "login_entries v"]
    by (auto simp: session_keys [symmetric])
next
  case (2 v r v')
  then show ?case
    using session_insert_result [OF 2(2)] assms(1) [of "login_entries v"] assms(2) [of "login_entries v"]
    by (auto simp: session_keys [symmetric])
qed

lemma unpend_entries:
  assumes "\<And>e. P e \<Longrightarrow> P (fst e, None)"
  shows "triple (has_entries P) (session_remove S PENDING_USER_KEY get) (\<lambda>_. has_entries P) (\<lambda>_. has_entries P)"
proof (rule tripleI, goal_cases)
  case (1 v r v')
  then show ?case
    using session_remove_result [OF 1(2)] assms [of "login_entries v"] by (auto simp: session_keys [symmetric])
next
  case (2 v r v')
  then show ?case
    using session_remove_result [OF 2(2)] assms [of "login_entries v"] by (auto simp: session_keys [symmetric])
qed

lemma entries_keep_weak:
  "keeps login_entries m \<Longrightarrow> (\<And>e. P e \<Longrightarrow> Q e) \<Longrightarrow>
   triple (has_entries P) m (\<lambda>_. has_entries P) (\<lambda>_. has_entries Q)"
  by (rule triple_conseq [OF entries_keep [where P = P]]) auto

text \<open>The end of every successful login.\<close>

lemma session_established:
  assumes m: "keeps login_entries m"
    and user: "\<And>e. P e \<Longrightarrow> Q (Some (Sv_User u), snd e)" and same: "\<And>e. P e \<Longrightarrow> Q e"
  shows "triple (has_entries P)
     (io_bind m (\<lambda>_. io_bind (auth_user_store S u) (\<lambda>_.
        io_bind (web_audit S who ip action rt rid meta) (\<lambda>_. io_ret reply))))
     (\<lambda>_. has_entries Q) (\<lambda>_. has_entries Q)"
proof (rule triple_bind [OF entries_keep_weak [OF m, where P = P and Q = Q]], erule same)
  show "triple (has_entries P) (io_bind (auth_user_store S u) (\<lambda>_.
        io_bind (web_audit S who ip action rt rid meta) (\<lambda>_. io_ret reply)))
     (\<lambda>_. has_entries Q) (\<lambda>_. has_entries Q)"
    by (rule triple_bind [OF store_entries [where P = P and Q = Q]], erule user, erule same,
        rule triple_bind [OF entries_keep], rule session_helpers, rule triple_ret, assumption)
qed

abbreviation start_entries :: "session \<Rightarrow> session_value option \<times> session_value option \<Rightarrow> bool" where
  "start_entries s \<equiv> \<lambda>e. e = (s SESSION_USER_KEY, s PENDING_USER_KEY)"

lemma login_ok_entries:
  assumes x: "password_ok S d (lf_username f) (lf_password f) x"
  shows "triple (has_entries (start_entries s)) (web_login_ok S ip x)
     (\<lambda>_. has_entries (entries_ok S d s (Post_Login f))) (\<lambda>_. has_entries (entries_ok S d s (Post_Login f)))"
    (is "triple (has_entries ?P) _ (\<lambda>_. has_entries ?Q) (\<lambda>_. has_entries ?Q)")
proof (cases "u_totp_enabled x")
  case True
  have Q: "?Q (s SESSION_USER_KEY, Some (Sv_Pending \<lparr>pu_user_id = show_id (sv_net S) (u_id x), pu_username = u_username x\<rparr>))"
    using x True by (auto simp: entries_ok_def pending_evidence_def)
  show ?thesis
    unfolding web_login_ok_def if_P [OF True]
    by (rule entries_ignore [OF entries_keep [where P = ?P]], rule session_in_world,
        rule entries_ignore [OF pending_entries [where P = ?P and Q = ?Q]],
        simp add: Q, simp add: entries_same, rule triple_ret, assumption)
next
  case False
  have Q: "?Q (Some (Sv_User (auth_user_of x)), s PENDING_USER_KEY)"
    using x False by (auto simp: entries_ok_def login_evidence_def)
  show ?thesis
    unfolding web_login_ok_def if_not_P [OF False]
    by (rule entries_ignore [OF entries_keep [where P = ?P]], rule session_in_world,
        rule session_established, rule session_in_world) (auto simp: Q entries_same)
qed

text \<open>A triple about what an operation on the world returns, with the session as it was.\<close>

lemma world_result:
  assumes "\<And>w x w'. w_db w = d \<Longrightarrow> m w = (Inr x, w') \<Longrightarrow> b x" and "keeps w_db m"
  shows "triple (\<lambda>v. w_db (fst v) = d \<and> start_entries s (login_entries v)) (in_world m)
     (\<lambda>x v. (w_db (fst v) = d \<and> start_entries s (login_entries v)) \<and> b x)
     (\<lambda>_ v. w_db (fst v) = d \<and> start_entries s (login_entries v))"
proof (rule tripleI, goal_cases)
  case (1 v x v')
  then obtain w' where "m (fst v) = (Inr x, w')" "v' = (w', snd v)"
    by (auto simp: in_world_def split: prod.splits)
  then show ?case
    using 1 assms(1) keepsD2 [OF assms(2)] by fastforce
next
  case (2 v e v')
  then obtain w' where "m (fst v) = (Inl e, w')" "v' = (w', snd v)"
    by (auto simp: in_world_def split: prod.splits)
  then show ?case
    using 2 keepsD2 [OF assms(2)] by fastforce
qed

lemma fresh_good: "start_entries s e \<Longrightarrow> entries_ok S d s req e"
  by (simp add: entries_same)

lemma login_failed_entries: "keeps login_entries (web_login_failed S ip name)"
  unfolding web_login_failed_def by (intro keeps_intros session_intros)

lemma auth_service_keeps: "keeps w_db (authenticate_password (auth_service A) name pw)"
  unfolding authenticate_password_def auth_service_def auth_svc.simps
  by (intro keeps_intros reads_keep os_blind_fields)

lemma banned_start:
  "keeps (\<lambda>v. (w_db (fst v), snd v)) (web_banned S ip)"
  unfolding web_banned_def by (intro keeps_intros start_in_world reads_keep os_blind_fields)

lemma login_entries_ok:
  "triple (\<lambda>v. w_db (fst v) = d \<and> start_entries s (login_entries v)) (web_login_submit S ip f)
     (\<lambda>_. has_entries (entries_ok S d s (Post_Login f))) (\<lambda>_. has_entries (entries_ok S d s (Post_Login f)))"
    (is "triple ?P _ (\<lambda>_. ?Q) (\<lambda>_. ?Q)")
  unfolding web_login_submit_def
proof (rule triple_bind [where Q = "\<lambda>_. ?P"], goal_cases)
  case 1
  show ?case
    by (rule triple_conseq [OF triple_keeps [OF banned_start,
        where P = "\<lambda>(x, t). x = d \<and> start_entries s (t SESSION_USER_KEY, t PENDING_USER_KEY)"]])
      (auto simp: entries_same)
next
  case (2 banned)
  have good: "triple ?P m (\<lambda>_. ?Q) (\<lambda>_. ?Q)" if "keeps login_entries m"
    for m :: "('a visit, web_error, web_reply) io"
    by (rule triple_conseq [OF entries_keep [OF that, where P = "entries_ok S d s (Post_Login f)"]])
      (auto simp: entries_same)
  have auth: "triple ?P (in_world (authenticate_password (auth_service (sv_app S)) (lf_username f) (lf_password f)))
     (\<lambda>x v. ?P v \<and> password_ok S d (lf_username f) (lf_password f) x) (\<lambda>_. ?P)"
    by (rule world_result [OF _ auth_service_keeps]) (use authenticated_password_ok in blast)
  show ?case
  proof (cases banned)
    case True
    show ?thesis
      unfolding if_P [OF True] by (rule good) (intro keeps_intros session_intros)
  next
    case False
    show ?thesis
      unfolding if_not_P [OF False]
    proof (rule triple_try [where Q = "\<lambda>r v. ?P v \<and> (\<forall>x. r = Inr x \<longrightarrow> password_ok S d (lf_username f) (lf_password f) x)"],
        goal_cases)
      case 1
      show ?case
        by (rule triple_conseq [OF auth]) auto
    next
      case (2 r)
      show ?case
      proof (cases r)
        case (Inr x)
        have "triple (\<lambda>v. ?P v \<and> password_ok S d (lf_username f) (lf_password f) x) (web_login_ok S ip x) (\<lambda>_. ?Q) (\<lambda>_. ?Q)"
          by (rule triple_pure, rule triple_pre [OF login_ok_entries]) auto
        then show ?thesis
          unfolding Inr by (auto elim: triple_pre)
      next
        case (Inl e)
        show ?thesis
          unfolding Inl sum.case
          by (rule triple_pre [OF good], intro session_intros keeps_fail login_failed_entries) blast
      qed
    qed
  qed
qed

text \<open>The start of a request, and facts learnt while nothing has been written yet.\<close>

abbreviation at_start :: "db \<Rightarrow> session \<Rightarrow> 'os visit \<Rightarrow> bool" where
  "at_start d s \<equiv> \<lambda>v. w_db (fst v) = d \<and> start_entries s (login_entries v)"

lemma learn_lift: "triple (at_start d s) (io_lift r) (\<lambda>x v. at_start d s v \<and> r = Inr x) (\<lambda>_. at_start d s)"
  by (rule triple_lift) auto

lemma learn_opt: "triple (at_start d s) (io_opt e r) (\<lambda>x v. at_start d s v \<and> r = Some x) (\<lambda>_. at_start d s)"
  by (cases r) (auto simp: io_opt_def intro!: triple_ret triple_fail simp del: io_apply)

lemma learn_settings: "triple (at_start d s) web_settings (\<lambda>x v. at_start d s v \<and> True) (\<lambda>_. at_start d s)"
  by (auto simp: triple_def web_settings_def settings_snapshot_now_def settings_snapshot_def in_world_def)

lemma learn_user:
  fixes S :: "('os, 'j) server"
  shows "triple (at_start d s) (io_some e (web_core (ur_find_by_id (sv_users S) i)))
     (\<lambda>x v. at_start d s v \<and> (\<exists>row. find (\<lambda>r. uc_id r = show_id (sv_net S) i) (tb_users d) = Some row \<and>
        user_into_domain (sv_repos S) row = Inr x)) (\<lambda>_. at_start d s)"
proof (rule triple_some)
  let ?found = "\<lambda>y. case y of None \<Rightarrow> True | Some x \<Rightarrow>
    \<exists>row. find (\<lambda>r. uc_id r = show_id (sv_net S) i) (tb_users d) = Some row \<and> user_into_domain (sv_repos S) row = Inr x"
  have "?found y" if w: "w_db w = d"
      and run: "io_map_err Web_Core (ur_find_by_id (sv_users S) i) w = (Inr y, w')" for w y and w' :: "'os world"
  proof -
    have "users_find_by_id (sv_repos S) i w = (Inr y, w')"
      using run by (auto simp: io_map_err_def sqlite_users_def split: prod.splits sum.splits)
    then have "opt_traverse (user_into_domain (sv_repos S))
        (find (\<lambda>r. uc_id r = show_id (sv_net S) i) (tb_users d)) = Inr y"
      using w by (auto simp: users_find_by_id_def fetch_optional_def io_bind_ok_iff sv_net_def dest: db_query_ok)
    then show ?thesis
      by (cases "find (\<lambda>r. uc_id r = show_id (sv_net S) i) (tb_users d)") (auto split: sum.splits)
  qed
  then have "triple (at_start d s) (web_core (ur_find_by_id (sv_users S) i))
      (\<lambda>y v. at_start d s v \<and> ?found y) (\<lambda>_. at_start d s)"
    by (intro world_result keeps_intros reads_keep os_blind_fields) blast
  then show "triple (at_start d s) (web_core (ur_find_by_id (sv_users S) i))
      (\<lambda>y v. case y of None \<Rightarrow> at_start d s v | Some x \<Rightarrow> at_start d s v \<and>
        (\<exists>row. find (\<lambda>r. uc_id r = show_id (sv_net S) i) (tb_users d) = Some row \<and>
          user_into_domain (sv_repos S) row = Inr x)) (\<lambda>_. at_start d s)"
    by (rule triple_conseq) (auto split: option.splits)
qed

lemma start_good: "at_start d s v \<Longrightarrow> entries_ok S d s req (login_entries v)"
  by (simp add: entries_same)

lemma start_keeps_good:
  assumes "keeps login_entries m"
  shows "triple (at_start d s) m (\<lambda>_. has_entries (entries_ok S d s req)) (\<lambda>_. has_entries (entries_ok S d s req))"
  by (rule triple_conseq [OF entries_keep [OF assms, where P = "entries_ok S d s req"]])
    (auto simp: entries_same)

lemma learn_verify:
  "triple (at_start d s) (in_world (verify_totp (sv_totp S) secret c issuer account :: ('os world, web_error, bool) io))
     (\<lambda>x v. at_start d s v \<and> (x \<longrightarrow> (\<exists>w1 w2.
        (verify_totp (sv_totp S) secret c issuer account :: ('os world, web_error, bool) io) w1 = (Inr True, w2))))
     (\<lambda>_. at_start d s)"
proof (rule world_result [OF _ crypto_keep(4) [OF os_blind_fields(1)]], goal_cases)
  case (1 w x w')
  show ?case
  proof (intro impI exI)
    assume x
    then show "(verify_totp (sv_totp S) secret c issuer account :: ('os world, web_error, bool) io) w = (Inr True, w')"
      using 1(2) by simp
  qed
qed

lemma totp_session_entries:
  assumes "second_factor_ok S d s given x"
  shows "triple (at_start d s) (web_totp_session S ip x)
     (\<lambda>_. has_entries (entries_ok S d s (Post_Totp given))) (\<lambda>_. has_entries (entries_ok S d s (Post_Totp given)))"
    (is "triple _ _ (\<lambda>_. has_entries ?Q) (\<lambda>_. has_entries ?Q)")
proof -
  let ?P = "\<lambda>e. fst e = s SESSION_USER_KEY \<and> (snd e = s PENDING_USER_KEY \<or> snd e = None)"
  have "triple (has_entries ?P) (web_totp_session S ip x) (\<lambda>_. has_entries ?Q) (\<lambda>_. has_entries ?Q)"
    unfolding web_totp_session_def
    by (rule entries_ignore [OF unpend_entries [where P = ?P]], simp,
        rule session_established, rule session_in_world)
      (use assms in \<open>auto simp: entries_ok_def login_evidence_def\<close>)
  then show ?thesis
    by (rule triple_pre) auto
qed

lemma totp_check_entries:
  assumes p: "s PENDING_USER_KEY = Some (Sv_Pending p)"
  shows "triple (at_start d s) (web_totp_check S ip given p)
     (\<lambda>_. has_entries (entries_ok S d s (Post_Totp given))) (\<lambda>_. has_entries (entries_ok S d s (Post_Totp given)))"
    (is "triple _ _ (\<lambda>_. ?Q) (\<lambda>_. ?Q)")
  unfolding web_totp_check_def
proof (rule triple_bind_weak [OF learn_lift], rule start_good, assumption,
    rule triple_bind_weak [OF learn_user], rule start_good, assumption,
    rule triple_bind_weak [OF learn_opt], rule start_good, assumption,
    rule triple_bind_weak [OF learn_lift], rule start_good, assumption,
    rule triple_bind_weak [OF learn_opt], rule start_good, assumption,
    rule triple_bind_weak [OF learn_settings], rule start_good, assumption,
    rule triple_bind_weak [OF learn_verify], rule start_good, assumption, goal_cases)
  case (1 k x blob bytes secret st good)
  show ?case
  proof (cases good)
    case True
    then have "second_factor_ok S d s given x"
      using 1 p unfolding second_factor_ok_def by auto
    from totp_session_entries [OF this] show ?thesis
      using True by (simp only: not_True_eq_False if_False)
  next
    case False
    have "keeps login_entries (io_bind (web_audit S (Some (u_id x)) (Some ip) User_Login_Failed (Some ''user'')
         (Some (show_id (sv_net S) (u_id x))) (Some (jobj S [(''reason'', jstr S ''totp_invalid'')]))) (\<lambda>_.
       io_ret (Page (Totp_Challenge_Page (Some ''Invalid code'')))))"
      by (intro keeps_intros session_intros)
    from start_keeps_good [OF this] show ?thesis
      using False by (simp only: not_False_eq_True if_True)
  qed
qed

lemma totp_entries_ok:
  "triple (at_start d s) (web_totp_submit S ip given)
     (\<lambda>_. has_entries (entries_ok S d s (Post_Totp given))) (\<lambda>_. has_entries (entries_ok S d s (Post_Totp given)))"
  unfolding web_totp_submit_def
proof (rule triple_try [where Q = "\<lambda>r v. at_start d s v \<and>
    (\<forall>p. r = Inr (Some p) \<longrightarrow> s PENDING_USER_KEY = Some (Sv_Pending p))"], goal_cases)
  case 1
  have decode: "x = Sv_Pending p" if "as_pending x = Some p" for x p
    using that by (cases x) auto
  have same: "at_start d s v'" if start: "at_start d s v" and run: "session_get S PENDING_USER_KEY as_pending v = (r, v')"
    for v v' :: "'a visit" and r
    using keepsD2 [OF start_session_get run] start by simp
  have got: "s PENDING_USER_KEY = Some (Sv_Pending p)"
    if start: "at_start d s v"
      and run: "session_get S PENDING_USER_KEY as_pending v = (Inr (Some p), v')" for v v' :: "'a visit" and p
  proof -
    obtain v1 where v1: "session_guard S v = (Inr (), v1)" and
        "decode_value S as_pending (snd v1 PENDING_USER_KEY) = Inr (Some p)"
      using run by (auto simp: session_get_def io_bind_ok_iff split: prod.splits)
    then have "snd v1 PENDING_USER_KEY = Some (Sv_Pending p)"
      by (auto simp: decode_value_def decode split: option.splits)
    then show ?thesis
      using guard_session [OF v1] start by simp
  qed
  show ?case
    by (rule tripleI) (use same got in blast)+
next
  case (2 r)
  show ?case
  proof (cases "\<exists>p. r = Inr (Some p)")
    case True
    then obtain p where r: "r = Inr (Some p)" by blast
    have "triple (\<lambda>v. at_start d s v \<and> s PENDING_USER_KEY = Some (Sv_Pending p)) (web_totp_check S ip given p)
       (\<lambda>_. has_entries (entries_ok S d s (Post_Totp given))) (\<lambda>_. has_entries (entries_ok S d s (Post_Totp given)))"
      by (rule triple_pure, rule totp_check_entries)
    then show ?thesis
      unfolding r sum.case option.case by (rule triple_pre) blast
  next
    case False
    then have r: "(case r of Inr (Some p) \<Rightarrow> web_totp_check S ip given p | _ \<Rightarrow> io_ret (Redirect_To ''/login'')) =
        io_ret (Redirect_To ''/login'')"
      by (auto split: sum.split option.split)
    show ?thesis
      unfolding r by (rule triple_pre [OF start_keeps_good [OF keeps_ret]]) blast
  qed
qed

lemma learn_count:
  "triple (at_start d s) (web_core (ur_count (sv_users S)))
     (\<lambda>n v. at_start d s v \<and> n = word_of_nat (length (tb_users d))) (\<lambda>_. at_start d s)"
proof (intro world_result keeps_intros reads_keep os_blind_fields)
  fix w n and w' :: "'a world"
  assume "w_db w = d" "io_map_err Web_Core (ur_count (sv_users S)) w = (Inr n, w')"
  then show "n = word_of_nat (length (tb_users d))"
    by (auto simp: io_map_err_def sqlite_users_def users_count_def dest: db_query_ok split: prod.splits sum.splits)
qed

text \<open>The end of a login whose user has just been found or made.\<close>

lemma session_stored:
  assumes user: "\<And>e. P e \<Longrightarrow> Q (Some (Sv_User u), snd e)" and same: "\<And>e. P e \<Longrightarrow> Q e"
  shows "triple (has_entries P)
     (io_bind (auth_user_store S u) (\<lambda>_.
        io_bind (web_audit S who ip action rt rid meta) (\<lambda>_. io_ret reply)))
     (\<lambda>_. has_entries Q) (\<lambda>_. has_entries Q)"
  by (rule triple_bind [OF store_entries [where P = P and Q = Q]], erule user, erule same,
      rule triple_bind [OF entries_keep], rule session_helpers, rule triple_ret, assumption)

lemma registered_name:
  assumes "register_initial_admin (auth_service A) name pw email w = (Inr x, w')"
  shows "u_username x = name"
  using assms
  by (auto simp: register_initial_admin_def auth_service_def sqlite_users_def users_create_def
      io_bind_ok_iff split: if_splits)

lemma learn_registered:
  fixes S :: "('os, 'j) server"
  shows "triple (at_start d s) (web_core (register_initial_admin (auth_service (sv_app S)) name pw email))
     (\<lambda>x v. start_entries s (login_entries v) \<and> u_username x = name) (\<lambda>_. has_entries (start_entries s))"
proof (rule tripleI, goal_cases)
  case (1 v x v')
  then obtain w' where "register_initial_admin (auth_service (sv_app S)) name pw email (fst v) = (Inr x, w')"
      "snd v' = snd v"
    by (auto simp: in_world_def io_map_err_def split: prod.splits sum.splits)
  then show ?case
    using 1(1) registered_name by auto
next
  case (2 v e v')
  then show ?case
    by (auto simp: in_world_def split: prod.splits)
qed

lemma setup_entries_ok:
  "triple (at_start d s) (web_setup_submit S ip f)
     (\<lambda>_. has_entries (entries_ok S d s (Post_Setup f))) (\<lambda>_. has_entries (entries_ok S d s (Post_Setup f)))"
    (is "triple _ _ (\<lambda>_. ?Q) (\<lambda>_. ?Q)")
  unfolding web_setup_submit_def
proof (rule triple_bind_weak [OF learn_count], rule start_good, assumption, goal_cases)
  case (1 n)
  have none: "(word_of_nat (length (tb_users d)) :: u64) = 0" if "\<not> 0 < n"
    using that 1 by (simp add: word_gt_0)
  have stay: "triple (at_start d s) (io_ret x) (\<lambda>_. ?Q) (\<lambda>_. ?Q)" for x
    by (rule start_keeps_good [OF keeps_ret])
  have made: "triple (has_entries (start_entries s)) (io_bind (auth_user_store S u) (\<lambda>_.
      io_bind (web_audit S who ip action rt rid meta) (\<lambda>_. io_ret reply))) (\<lambda>_. ?Q) (\<lambda>_. ?Q)"
    if "\<not> 0 < n" and "au_role u = Admin" and "au_username u = su_username f" for u who ip action rt rid meta reply
    by (rule session_stored)
      (use none [OF that(1)] that(2,3) in \<open>auto simp: entries_ok_def login_evidence_def\<close>)
  show ?case
    by (intro triple_if stay triple_bind_weak [OF learn_registered] made) (simp_all add: entries_same)
qed

lemma logout_entries_ok:
  "triple (at_start d s) (web_logout S)
     (\<lambda>_. has_entries (entries_ok S d s Post_Logout)) (\<lambda>_. has_entries (entries_ok S d s Post_Logout))"
    (is "triple _ _ (\<lambda>_. has_entries ?Q) (\<lambda>_. has_entries ?Q)")
proof -
  have clear: "triple (has_entries ?Q) (auth_user_clear S) (\<lambda>_. has_entries ?Q) (\<lambda>_. has_entries ?Q)"
  proof -
    have "has_entries ?Q v'" if "has_entries ?Q v" and "session_remove S SESSION_USER_KEY as_user v = (r, v')"
      for v v' :: "'a visit" and r
      using session_remove_result [OF that(2)] that(1) by (auto simp: entries_ok_def session_keys)
    then have "triple (has_entries ?Q) (session_remove S SESSION_USER_KEY as_user)
        (\<lambda>_. has_entries ?Q) (\<lambda>_. has_entries ?Q)"
      by (intro tripleI) blast+
    then show ?thesis
      unfolding auth_user_clear_def by (intro triple_bind triple_map_err triple_ret)
  qed
  have "triple (has_entries ?Q) (web_logout S) (\<lambda>_. has_entries ?Q) (\<lambda>_. has_entries ?Q)"
    unfolding web_logout_def
    by (rule triple_bind [OF entries_keep], intro session_intros,
        rule triple_bind [OF entries_keep], intro keeps_intros session_intros,
        rule triple_bind [OF clear], rule entries_ignore [OF unpend_entries triple_ret])
      (auto simp: entries_ok_def)
  then show ?thesis
    by (rule triple_pre) (simp add: entries_same)
qed

lemma io_try_session:
  assumes "triple (at_start d s) m (\<lambda>_. has_entries Q) (\<lambda>_. has_entries Q)"
  shows "triple (at_start d s) (io_try m (\<lambda>r. io_ret (f r))) (\<lambda>_. has_entries Q) (\<lambda>_. has_entries Q)"
  by (rule triple_try [OF assms triple_ret])

lemma web_call_entries:
  "triple (at_start d s) (web_call S ip req)
     (\<lambda>_. has_entries (entries_ok S d s req)) (\<lambda>_. has_entries (entries_ok S d s req))"
  unfolding web_call_def
proof (rule io_try_session)
  show "triple (at_start d s) (web_dispatch S ip req)
     (\<lambda>_. has_entries (entries_ok S d s req)) (\<lambda>_. has_entries (entries_ok S d s req))"
  proof (cases "login_request req")
    case True
    then show ?thesis
      using login_entries_ok totp_entries_ok setup_entries_ok logout_entries_ok
      by (cases req) (auto simp: web_dispatch_def)
  next
    case False
    then show ?thesis
      by (intro start_keeps_good other_requests_session)
  qed
qed

lemma web_call_returns: "\<exists>x. fst (web_call S ip req v) = Inr x"
  by (simp add: web_call_def io_try_def io_ret_def split: prod.split sum.split)

lemma session_after:
  assumes "web_call S ip req (w, s) = (r, (w', s'))"
  shows "entries_ok S (w_db w) s req (s' SESSION_USER_KEY, s' PENDING_USER_KEY)"
proof -
  obtain x where r: "r = Inr x"
    using web_call_returns [of S ip req "(w, s)"] assms by auto
  show ?thesis
    using triple_ok [OF web_call_entries [of "w_db w" s S ip req] _ assms [unfolded r]] by simp
qed

lemma evidence_iff:
  "login_evidence S d s req u \<longleftrightarrow>
     (\<exists>f x. req = Post_Login f \<and> password_ok S d (lf_username f) (lf_password f) x \<and>
        \<not> u_totp_enabled x \<and> u = auth_user_of x) \<or>
     (\<exists>given x. req = Post_Totp given \<and> second_factor_ok S d s given x \<and> u = auth_user_of x) \<or>
     (\<exists>f. req = Post_Setup f \<and> (word_of_nat (length (tb_users d)) :: u64) = 0 \<and>
        au_role u = Admin \<and> au_username u = su_username f)"
  by (cases req) (auto simp: login_evidence_def)

text \<open>C3: Nobody becomes the user of a browser session except through one of three requests. After any
  web request the session's user is the one it was, or none, or: the request is a login with the
  name and password of a stored user without second factor, and the session holds that user with
  the stored role; or it is a challenge answered with a code that verifies against the sealed
  secret of the stored user whose password had been accepted in this same session; or it is the
  first set-up, on a table without users, and the session holds the new administrator. A user
  awaits the second factor only after a login with the right password of a user who has one.\<close>

theorem session_user_origin:
  assumes "web_call S ip req (w, s) = (r, (w', s'))"
  shows "(s' SESSION_USER_KEY = s SESSION_USER_KEY \<or> s' SESSION_USER_KEY = None \<or>
      (\<exists>u. s' SESSION_USER_KEY = Some (Sv_User u) \<and>
        ((\<exists>f x. req = Post_Login f \<and> password_ok S (w_db w) (lf_username f) (lf_password f) x \<and>
            \<not> u_totp_enabled x \<and> u = auth_user_of x) \<or>
         (\<exists>given x. req = Post_Totp given \<and> second_factor_ok S (w_db w) s given x \<and> u = auth_user_of x) \<or>
         (\<exists>f. req = Post_Setup f \<and> (word_of_nat (length (tb_users (w_db w))) :: u64) = 0 \<and>
            au_role u = Admin \<and> au_username u = su_username f)))) \<and>
     (s' PENDING_USER_KEY = s PENDING_USER_KEY \<or> s' PENDING_USER_KEY = None \<or>
      (\<exists>p f x. s' PENDING_USER_KEY = Some (Sv_Pending p) \<and> req = Post_Login f \<and>
         password_ok S (w_db w) (lf_username f) (lf_password f) x \<and> u_totp_enabled x \<and>
         pu_user_id p = show_id (sv_net S) (u_id x)))"
  using session_after [OF assms] by (simp add: entries_ok_def pending_evidence_def evidence_iff)

text \<open>A login of the sample server, run step by step.\<close>

abbreviation sample_login :: web_request where
  "sample_login \<equiv> Post_Login \<lparr>lf_username = ''root'', lf_password = ''secret''\<rparr>"

lemma sample_login_run:
  "snd (snd (web_call sample_server ''10.0.0.9'' sample_login (sample_net_world, Map.empty)))
     SESSION_USER_KEY = Some (Sv_User \<lparr>au_id = Ident 7, au_username = ''root'', au_role = Admin\<rparr>)"
  by code_simp

theorem session_user_origin_witness:
  "\<exists>x. password_ok sample_server sample_db ''root'' ''secret'' x \<and> u_role x = Admin"
proof -
  obtain r w' s' where run: "web_call sample_server ''10.0.0.9'' sample_login (sample_net_world, Map.empty) =
      (r, (w', s'))"
    by (metis prod.exhaust)
  then have "s' SESSION_USER_KEY = Some (Sv_User \<lparr>au_id = Ident 7, au_username = ''root'', au_role = Admin\<rparr>)"
    using sample_login_run by simp
  then show ?thesis
    using session_user_origin [OF run] by (auto simp: sample_net_world_def auth_user_of_def)
qed

end
