(* ===== verification/Nat_Properties.thy ===== *)
theory Nat_Properties
  imports Sample
begin

section \<open>The firewall as the NAT adapter leaves it\<close>

text \<open>
  What switching NAT on and off does to a host whose \<open>iptables\<close> and forwarding switches behave as
  documented: \<open>-C\<close> tests for a rule, \<open>-I\<close> puts one in front, \<open>-D\<close> takes the first one out, and a
  switch reads back what was written to it. \<open>R s bin\<close> is the list of rules that the program
  \<open>bin\<close> manages, \<open>F s path\<close> the value of a switch.
\<close>

definition runs_law ::
    "'os host_lib \<Rightarrow> ('os \<Rightarrow> string \<Rightarrow> rule list) \<Rightarrow> ('os \<Rightarrow> string \<Rightarrow> bool) \<Rightarrow> string \<Rightarrow> rule \<Rightarrow> bool" where
  "runs_law H R F bin r \<longleftrightarrow> (\<forall>s.
     (\<exists>s'. hl_run H bin (argv r ''-C'') s = (Inr (r \<in> set (R s bin)), s') \<and> R s' = R s \<and> F s' = F s) \<and>
     (\<exists>s'. hl_run H bin (argv r ''-I'') s = (Inr True, s') \<and> R s' = (R s)(bin := r # R s bin) \<and> F s' = F s) \<and>
     (\<exists>s'. hl_run H bin (argv r ''-D'') s = (Inr (r \<in> set (R s bin)), s') \<and>
        R s' = (R s)(bin := remove1 r (R s bin)) \<and> F s' = F s))"

definition iptables_law ::
    "'os host_lib \<Rightarrow> ('os \<Rightarrow> string \<Rightarrow> rule list) \<Rightarrow> ('os \<Rightarrow> string \<Rightarrow> bool) \<Rightarrow> bool" where
  "iptables_law H R F \<longleftrightarrow>
     (\<forall>bin \<in> {''iptables'', ''ip6tables''}. \<forall>wg gw. \<forall>r \<in> set (nat_rules wg gw). runs_law H R F bin r) \<and>
     (\<forall>path \<in> {V4_FORWARD, V6_FORWARD}. \<forall>s.
        (\<exists>content s'. hl_read_file H path s = (Inr content, s') \<and> (trim content = ''1'') = F s path \<and>
           R s' = R s \<and> F s' = F s) \<and>
        (\<forall>on. \<exists>s'. hl_write_file H path ((if on then ''1'' else ''0'') @ [NL]) s = (Inr (), s') \<and>
           R s' = R s \<and> F s' = (F s)(path := on)))"

text \<open>What is observed of a world: rules, switches, snapshots.\<close>

definition nat_view ::
    "('os \<Rightarrow> string \<Rightarrow> rule list) \<Rightarrow> ('os \<Rightarrow> string \<Rightarrow> bool) \<Rightarrow> 'os world \<Rightarrow>
     (string \<Rightarrow> rule list) \<times> (string \<Rightarrow> bool) \<times> (string \<times> fwd_snapshot) list" where
  "nat_view R F w = (R (w_os w), F (w_os w), w_fwd w)"

text \<open>From a world with the first observation an operation returns in one with the second.\<close>

abbreviation goes where
  "goes R F v m v' \<equiv> surely (\<lambda>w. nat_view R F w = v) m (\<lambda>_ w. nat_view R F w = v')"

lemma goesI:
  assumes "\<And>w. nat_view R F w = v \<Longrightarrow> \<exists>w'. m w = (Inr (), w') \<and> nat_view R F w' = v'"
  shows "goes R F v m v'"
  by (rule tripleI) (use assms in fastforce)+

lemma goes_ret: "goes R F v (io_ret x) v"
  by (rule triple_ret)

lemma goes_when: "(b \<Longrightarrow> goes R F v m v') \<Longrightarrow> goes R F v (io_when b m) (if b then v' else v)"
  by (rule triple_when) auto

lemma rule_goes:
  assumes "runs_law (na_host A) R F bin r"
  shows "goes R F (t, f, k) (apply_rule A bin r) (t(bin := List.insert r (t bin)), f, k)"
    and "goes R F (t, f, k) (io_ignore (run_ipt A bin (argv r ''-D'')) (io_ret ())) (t(bin := remove1 r (t bin)), f, k)"
proof -
  show "goes R F (t, f, k) (apply_rule A bin r) (t(bin := List.insert r (t bin)), f, k)"
  proof (rule goesI)
    fix w assume w: "nat_view R F w = (t, f, k)"
    obtain s1 where check: "hl_run (na_host A) bin (argv r ''-C'') (w_os w) = (Inr (r \<in> set (t bin)), s1)"
      "R s1 = t" "F s1 = f"
      using assms w by (fastforce simp: runs_law_def nat_view_def)
    obtain s2 where insert: "hl_run (na_host A) bin (argv r ''-I'') s1 = (Inr True, s2)"
      "R s2 = t(bin := r # t bin)" "F s2 = f"
      using assms check(2,3) by (fastforce simp: runs_law_def)
    show "\<exists>w'. apply_rule A bin r w = (Inr (), w') \<and> nat_view R F w' = (t(bin := List.insert r (t bin)), f, k)"
      using w check insert
      by (cases "r \<in> set (t bin)")
        (auto simp: apply_rule_def run_ipt_def on_os_res_def io_bind_def io_map_err_def nat_view_def fun_upd_idem)
  qed
  show "goes R F (t, f, k) (io_ignore (run_ipt A bin (argv r ''-D'')) (io_ret ())) (t(bin := remove1 r (t bin)), f, k)"
  proof (rule goesI)
    fix w assume w: "nat_view R F w = (t, f, k)"
    obtain s1 where "hl_run (na_host A) bin (argv r ''-D'') (w_os w) = (Inr (r \<in> set (t bin)), s1)"
      "R s1 = t(bin := remove1 r (t bin))" "F s1 = f"
      using assms w by (fastforce simp: runs_law_def nat_view_def)
    then show "\<exists>w'. io_ignore (run_ipt A bin (argv r ''-D'')) (io_ret ()) w = (Inr (), w') \<and>
        nat_view R F w' = (t(bin := remove1 r (t bin)), f, k)"
      using w by (auto simp: run_ipt_def on_os_res_def io_map_err_def nat_view_def)
  qed
qed

lemma rules_go:
  assumes "\<forall>r \<in> set rs. runs_law (na_host A) R F bin r"
  shows "goes R F (t, f, k) (apply_rules A bin rs) (t(bin := fold List.insert rs (t bin)), f, k)"
    and "goes R F (t, f, k) (remove_rules A bin rs) (t(bin := fold remove1 rs (t bin)), f, k)"
  unfolding apply_rules_def remove_rules_def using assms
proof (induction rs arbitrary: t)
  case Nil
  { case 1 show ?case by (simp add: triple_def)
  next case 2 show ?case by (simp add: triple_def) }
next
  case (Cons r rs)
  { case 1
    show ?case
      using triple_bind [OF rule_goes(1) [of A R F bin r t f k] Cons.IH(1) [of "t(bin := List.insert r (t bin))"]] 1
      by (simp add: fun_upd_def cong: if_cong)
  next case 2
    show ?case
      using triple_bind [OF rule_goes(2) [of A R F bin r t f k] Cons.IH(2) [of "t(bin := remove1 r (t bin))"]] 2
      by (simp add: fun_upd_def cong: if_cong del: io_ignore_apply io_apply) }
qed

subsection \<open>Switches\<close>

lemma write_goes:
  assumes "iptables_law (na_host A) R F" and "path \<in> {V4_FORWARD, V6_FORWARD}"
  shows "goes R F (t, f, k) (write_forward A path on) (t, f(path := on), k)"
proof (rule goesI)
  fix w assume w: "nat_view R F w = (t, f, k)"
  obtain s' where "hl_write_file (na_host A) path ((if on then ''1'' else ''0'') @ [NL]) (w_os w) = (Inr (), s')"
    "R s' = t" "F s' = f(path := on)"
    using assms w unfolding iptables_law_def nat_view_def by blast
  then show "\<exists>w'. write_forward A path on w = (Inr (), w') \<and> nat_view R F w' = (t, f(path := on), k)"
    using w by (simp add: write_forward_def on_os_res_def io_map_err_def nat_view_def)
qed

lemma read_goes:
  assumes "iptables_law (na_host A) R F" and "path \<in> {V4_FORWARD, V6_FORWARD}"
  shows "triple (\<lambda>w. nat_view R F w = (t, f, k)) (read_forward A path)
    (\<lambda>x w. nat_view R F w = (t, f, k) \<and> x = f path) (\<lambda>_ _. False)"
proof -
  have "\<exists>w'. read_forward A path w = (Inr (f path), w') \<and> nat_view R F w' = (t, f, k)"
    if w: "nat_view R F w = (t, f, k)" for w
  proof -
    obtain content s' where "hl_read_file (na_host A) path (w_os w) = (Inr content, s')"
      "(trim content = ''1'') = f path" "R s' = t" "F s' = f"
      using assms w unfolding iptables_law_def nat_view_def by blast
    then show ?thesis
      using w by (simp add: read_forward_def on_os_res_def io_try_def nat_view_def)
  qed
  then show ?thesis
    by (intro tripleI) fastforce+
qed

lemma enable_goes:
  assumes "iptables_law (na_host A) R F" and "path \<in> {V4_FORWARD, V6_FORWARD}"
  shows "triple (\<lambda>w. nat_view R F w = (t, f, k)) (enable_forward A path)
    (\<lambda>x w. nat_view R F w = (t, f(path := True), k) \<and> x = f path) (\<lambda>_ _. False)"
  unfolding enable_forward_def
proof (rule triple_bind_pure [OF read_goes [OF assms]], hypsubst, rule triple_bind)
  show "goes R F (t, f, k) (io_when (\<not> f path) (write_forward A path True)) (t, f(path := True), k)"
    by (rule triple_when, rule write_goes [OF assms]) (simp add: fun_upd_idem)
  show "triple (\<lambda>w. nat_view R F w = (t, f(path := True), k)) (io_ret (f path))
      (\<lambda>x w. nat_view R F w = (t, f(path := True), k) \<and> x = f path) (\<lambda>_ _. False)" for u
    by (rule triple_ret) simp
qed

lemma snapshot_goes:
  "goes R F (t, f, k) (fwd_insert n x) (t, f, hm_insert n x k)"
  "triple (\<lambda>w. nat_view R F w = (t, f, k)) (fwd_remove n)
     (\<lambda>x w. nat_view R F w = (t, f, filter (\<lambda>kv. fst kv \<noteq> n) k) \<and> x = map_of k n) (\<lambda>_ _. False)"
  by (simp_all add: triple_def fwd_insert_def fwd_remove_def nat_view_def)

subsection \<open>Applying and removing\<close>

text \<open>The programs an interface needs, and the switches it turns on.\<close>

abbreviation nat_bins :: "iface \<Rightarrow> string set" where
  "nat_bins i \<equiv> (if i_ipv6_cidr i \<noteq> None then {''iptables'', ''ip6tables''} else {''iptables''})"

abbreviation nat_paths :: "iface \<Rightarrow> string set" where
  "nat_paths i \<equiv> (if i_ipv6_cidr i \<noteq> None then {V4_FORWARD, V6_FORWARD} else {V4_FORWARD})"

definition with_rules :: "iface \<Rightarrow> string \<Rightarrow> (string \<Rightarrow> rule list) \<Rightarrow> string \<Rightarrow> rule list" where
  "with_rules i gw t = (\<lambda>bin. if bin \<in> nat_bins i then fold List.insert (nat_rules (i_name i) gw) (t bin) else t bin)"

definition without_rules :: "iface \<Rightarrow> string \<Rightarrow> (string \<Rightarrow> rule list) \<Rightarrow> string \<Rightarrow> rule list" where
  "without_rules i gw t = (\<lambda>bin. if bin \<in> nat_bins i then fold remove1 (nat_rules (i_name i) gw) (t bin) else t bin)"

definition switched_on :: "iface \<Rightarrow> (string \<Rightarrow> bool) \<Rightarrow> string \<Rightarrow> bool" where
  "switched_on i f = (\<lambda>path. path \<in> nat_paths i \<or> f path)"

definition snapshot_of :: "iface \<Rightarrow> (string \<Rightarrow> bool) \<Rightarrow> fwd_snapshot" where
  "snapshot_of i f = \<lparr>v4_was_on = f V4_FORWARD, v6_was_on = i_ipv6_cidr i = None \<or> f V6_FORWARD\<rparr>"

definition restored :: "iface \<Rightarrow> fwd_snapshot \<Rightarrow> (string \<Rightarrow> bool) \<Rightarrow> string \<Rightarrow> bool" where
  "restored i x f = (\<lambda>path.
     if path = V4_FORWARD \<and> \<not> v4_was_on x \<or> path = V6_FORWARD \<and> i_ipv6_cidr i \<noteq> None \<and> \<not> v6_was_on x
     then False else f path)"

lemma paths_differ [simp]: "V4_FORWARD \<noteq> V6_FORWARD" "V6_FORWARD \<noteq> V4_FORWARD"
  by (simp_all add: V4_FORWARD_def V6_FORWARD_def)

lemma apply_goes:
  assumes law: "iptables_law (na_host A) R F" and "\<not> nat_skip A"
  shows "goes R F (t, f, k) (adapter_nat_apply A i gw)
    (with_rules i gw t, switched_on i f, hm_insert (i_name i) (snapshot_of i f) k)"
proof -
  let ?rules = "nat_rules (i_name i) gw" and ?six = "i_ipv6_cidr i \<noteq> None"
  let ?f4 = "f(V4_FORWARD := True)" and ?k = "hm_insert (i_name i) (snapshot_of i f) k"
  have runs: "\<forall>r \<in> set ?rules. runs_law (na_host A) R F ''iptables'' r"
    "\<forall>r \<in> set ?rules. runs_law (na_host A) R F ''ip6tables'' r"
    using law by (simp_all add: iptables_law_def)
  have six: "triple (\<lambda>w. nat_view R F w = (t, ?f4, k)) (if ?six then enable_forward A V6_FORWARD else io_ret True)
      (\<lambda>x w. nat_view R F w = (t, switched_on i f, k) \<and>
         \<lparr>v4_was_on = f V4_FORWARD, v6_was_on = x\<rparr> = snapshot_of i f) (\<lambda>_ _. False)"
  proof (rule triple_if)
    assume ?six
    then have "?f4(V6_FORWARD := True) = switched_on i f"
      by (auto simp: switched_on_def fun_eq_iff)
    with \<open>?six\<close> show "triple (\<lambda>w. nat_view R F w = (t, ?f4, k)) (enable_forward A V6_FORWARD)
      (\<lambda>x w. nat_view R F w = (t, switched_on i f, k) \<and>
         \<lparr>v4_was_on = f V4_FORWARD, v6_was_on = x\<rparr> = snapshot_of i f) (\<lambda>_ _. False)"
      by (intro triple_conseq [OF enable_goes [OF law, of V6_FORWARD t ?f4 k]]) (auto simp: snapshot_of_def)
  next
    assume "\<not> ?six"
    then have "?f4 = switched_on i f" "\<lparr>v4_was_on = f V4_FORWARD, v6_was_on = True\<rparr> = snapshot_of i f"
      by (auto simp: switched_on_def snapshot_of_def fun_eq_iff)
    then show "triple (\<lambda>w. nat_view R F w = (t, ?f4, k)) (io_ret True)
      (\<lambda>x w. nat_view R F w = (t, switched_on i f, k) \<and>
         \<lparr>v4_was_on = f V4_FORWARD, v6_was_on = x\<rparr> = snapshot_of i f) (\<lambda>_ _. False)"
      by (intro triple_ret) simp
  qed
  let ?t4 = "t(''iptables'' := fold List.insert ?rules (t ''iptables''))"
  have last: "goes R F (?t4, f', k') (io_when ?six (apply_rules A ''ip6tables'' ?rules)) (with_rules i gw t, f', k')" for f' k'
  proof (rule triple_when)
    assume ?six
    then have "?t4(''ip6tables'' := fold List.insert ?rules (?t4 ''ip6tables'')) = with_rules i gw t"
      by (auto simp: with_rules_def fun_eq_iff)
    then show "goes R F (?t4, f', k') (apply_rules A ''ip6tables'' ?rules) (with_rules i gw t, f', k')"
      using rules_go(1) [OF runs(2), of ?t4 f' k'] by simp
  next
    fix w assume "\<not> ?six" "nat_view R F w = (?t4, f', k')"
    moreover from this(1) have "?t4 = with_rules i gw t"
      by (auto simp: with_rules_def fun_eq_iff)
    ultimately show "nat_view R F w = (with_rules i gw t, f', k')"
      by simp
  qed
  show ?thesis
    unfolding adapter_nat_apply_def Let_def if_not_P [OF assms(2)]
  proof (rule triple_bind_pure [OF enable_goes [OF law]], simp, hypsubst, rule triple_bind_pure [OF six])
    fix v6
    assume snap: "\<lparr>v4_was_on = f V4_FORWARD, v6_was_on = v6\<rparr> = snapshot_of i f"
    show "goes R F (t, switched_on i f, k)
        (io_bind (fwd_insert (i_name i) \<lparr>v4_was_on = f V4_FORWARD, v6_was_on = v6\<rparr>) (\<lambda>_.
         io_bind (apply_rules A ''iptables'' ?rules) (\<lambda>_. io_when ?six (apply_rules A ''ip6tables'' ?rules))))
        (with_rules i gw t, switched_on i f, ?k)"
      unfolding snap
      by (rule triple_bind [OF snapshot_goes(1)], rule triple_bind [OF rules_go(1) [OF runs(1)]], rule last)
  qed
qed

lemma triple_best_effort: "goes R F v m v' \<Longrightarrow> goes R F v (io_ignore m (io_ret ())) v'"
  by (rule triple_ignore [where Q = "\<lambda>w. nat_view R F w = v'"], erule triple_conseq, assumption+, erule FalseE)
    (rule triple_ret)

lemma remove_goes:
  assumes law: "iptables_law (na_host A) R F" and "\<not> nat_skip A"
  shows "goes R F (t, f, k) (adapter_nat_remove A i gw)
    (without_rules i gw t,
     case map_of k (i_name i) of None \<Rightarrow> f | Some x \<Rightarrow> restored i x f,
     filter (\<lambda>kv. fst kv \<noteq> i_name i) k)"
proof -
  let ?rules = "nat_rules (i_name i) gw" and ?six = "i_ipv6_cidr i \<noteq> None"
  let ?k = "filter (\<lambda>kv. fst kv \<noteq> i_name i) k"
  have runs: "\<forall>r \<in> set ?rules. runs_law (na_host A) R F ''iptables'' r"
    "\<forall>r \<in> set ?rules. runs_law (na_host A) R F ''ip6tables'' r"
    using law by (simp_all add: iptables_law_def)
  let ?t4 = "t(''iptables'' := fold remove1 ?rules (t ''iptables''))"
  have six: "goes R F (?t4, f, k) (io_when ?six (remove_rules A ''ip6tables'' ?rules)) (without_rules i gw t, f, k)"
  proof (rule triple_when)
    assume ?six
    then have "?t4(''ip6tables'' := fold remove1 ?rules (?t4 ''ip6tables'')) = without_rules i gw t"
      by (auto simp: without_rules_def fun_eq_iff)
    then show "goes R F (?t4, f, k) (remove_rules A ''ip6tables'' ?rules) (without_rules i gw t, f, k)"
      using rules_go(2) [OF runs(2), of ?t4 f k] by simp
  next
    fix w assume "\<not> ?six" "nat_view R F w = (?t4, f, k)"
    moreover from this(1) have "?t4 = without_rules i gw t"
      by (auto simp: without_rules_def fun_eq_iff)
    ultimately show "nat_view R F w = (without_rules i gw t, f, k)"
      by simp
  qed
  have four: "goes R F (t', f', ?k) (io_when b (io_ignore (write_forward A path False) (io_ret ())))
      (t', if b then f'(path := False) else f', ?k)" if "path \<in> {V4_FORWARD, V6_FORWARD}" for t' f' b path
    using goes_when [OF triple_best_effort [OF write_goes [OF law that]], where b = b] by (cases b) simp_all
  have put_back: "goes R F (t', f, ?k)
      (io_bind (io_when (\<not> v4_was_on x) (io_ignore (write_forward A V4_FORWARD False) (io_ret ()))) (\<lambda>_.
       io_when (?six \<and> \<not> v6_was_on x) (io_ignore (write_forward A V6_FORWARD False) (io_ret ()))))
      (t', restored i x f, ?k)" for t' x
  proof (rule triple_bind, rule four, simp)
    let ?f4 = "if \<not> v4_was_on x then f(V4_FORWARD := False) else f"
    have "(if ?six \<and> \<not> v6_was_on x then ?f4(V6_FORWARD := False) else ?f4) = restored i x f"
      by (auto simp: restored_def fun_eq_iff)
    then show "goes R F (t', ?f4, ?k) (io_when (?six \<and> \<not> v6_was_on x) (io_ignore (write_forward A V6_FORWARD False) (io_ret ())))
        (t', restored i x f, ?k)"
      using four [of V6_FORWARD t' ?f4 "?six \<and> \<not> v6_was_on x"] by simp
  qed
  show ?thesis
    unfolding adapter_nat_remove_def Let_def if_not_P [OF assms(2)]
  proof (rule triple_bind [OF rules_go(2) [OF runs(1)]], rule triple_bind [OF six],
      rule triple_bind_pure [OF snapshot_goes(2)], hypsubst)
    show "goes R F (without_rules i gw t, f, ?k)
        (case map_of k (i_name i) of None \<Rightarrow> io_ret ()
         | Some snap \<Rightarrow>
            io_bind (io_when (\<not> v4_was_on snap) (io_ignore (write_forward A V4_FORWARD False) (io_ret ()))) (\<lambda>_.
            io_when (?six \<and> \<not> v6_was_on snap) (io_ignore (write_forward A V6_FORWARD False) (io_ret ()))))
        (without_rules i gw t, case map_of k (i_name i) of None \<Rightarrow> f | Some x \<Rightarrow> restored i x f, ?k)"
      using goes_ret [of R F "(without_rules i gw t, f, ?k)" "()"] put_back
      by (cases "map_of k (i_name i)") (simp_all only: option.case)
  qed
qed

subsection \<open>On and off again\<close>

lemma fold_insert_remove:
  "r \<notin> set rs \<Longrightarrow> remove1 r (fold List.insert rs xs) = fold List.insert rs (remove1 r xs)"
  by (induction rs arbitrary: xs) (auto simp: List.insert_def)

lemma remove_inserted: "distinct rs \<Longrightarrow> fold remove1 rs (fold List.insert rs xs) = fold remove1 rs xs"
proof (induction rs arbitrary: xs)
  case (Cons r rs)
  then have "remove1 r (fold List.insert rs (List.insert r xs)) = fold List.insert rs (remove1 r xs)"
    by (cases "r \<in> set xs") (simp_all add: fold_insert_remove remove1_idem)
  then show ?case
    using Cons by simp
qed simp

lemma nat_rules_distinct: "distinct (nat_rules wg gw)"
  by (simp add: nat_rules_def)

lemma without_with: "without_rules i gw (with_rules i gw t) = without_rules i gw t"
  by (simp add: without_rules_def with_rules_def fun_eq_iff remove_inserted [OF nat_rules_distinct])

lemma restored_switches: "restored i (snapshot_of i f) (switched_on i f) = f"
  by (auto simp: restored_def snapshot_of_def switched_on_def fun_eq_iff split: if_splits)

text \<open>C7: On a host whose \<open>iptables\<close> and forwarding switches behave as documented, switching NAT
  on for an interface succeeds and leaves every rule of the interface in place and forwarding
  on, for IPv6 only where the interface has an IPv6 network; switching it off afterwards
  succeeds, puts the switches back as they were, forgets the snapshot, and takes out of each
  table one copy of each rule that was there before and nothing else: tables without these
  rules are as they were.\<close>

theorem nat_on_off:
  assumes "iptables_law (na_host A) R F" and "\<not> nat_skip A"
  shows "\<exists>w1 w2. adapter_nat_apply A i gw w = (Inr (), w1) \<and> adapter_nat_remove A i gw w1 = (Inr (), w2) \<and>
    (\<forall>bin \<in> nat_bins i. set (R (w_os w1) bin) = set (R (w_os w) bin) \<union> set (nat_rules (i_name i) gw)) \<and>
    (\<forall>path. F (w_os w1) path \<longleftrightarrow> path \<in> nat_paths i \<or> F (w_os w) path) \<and>
    F (w_os w2) = F (w_os w) \<and> w_fwd w2 = filter (\<lambda>kv. fst kv \<noteq> i_name i) (w_fwd w) \<and>
    (\<forall>bin. R (w_os w2) bin =
       (if bin \<in> nat_bins i then fold remove1 (nat_rules (i_name i) gw) (R (w_os w) bin) else R (w_os w) bin))"
proof -
  obtain t f k where v: "nat_view R F w = (t, f, k)"
    by (rule prod_cases3)
  let ?v1 = "(with_rules i gw t, switched_on i f, hm_insert (i_name i) (snapshot_of i f) k)"
  obtain u1 w1 where on: "adapter_nat_apply A i gw w = (Inr u1, w1)" "nat_view R F w1 = ?v1"
    using triple_returns [OF apply_goes [OF assms] v] by blast
  obtain u2 w2 where off: "adapter_nat_remove A i gw w1 = (Inr u2, w2)"
    "nat_view R F w2 = (without_rules i gw t, f, filter (\<lambda>kv. fst kv \<noteq> i_name i) k)"
    using triple_returns [OF remove_goes [OF assms, of _ _ _ i gw] on(2)]
    by (auto simp: hm_insert_def without_with restored_switches filter_filter)
  have "set (fold List.insert rs xs) = set xs \<union> set rs" for rs and xs :: "rule list"
    by (induction rs arbitrary: xs) auto
  then have rules: "set (with_rules i gw t bin) = set (t bin) \<union> set (nat_rules (i_name i) gw)" if "bin \<in> nat_bins i" for bin
    using that by (simp only: with_rules_def if_True)
  show ?thesis
    using v on off rules
    by (intro exI [of _ w1] exI [of _ w2]) (auto simp: nat_view_def without_rules_def switched_on_def split: if_splits)
qed

text \<open>Switching NAT on a second time forgets that forwarding was off before the first time.\<close>

lemma nat_reapplied_stays_on:
  assumes "iptables_law (na_host A) R F" and "\<not> nat_skip A"
  shows "\<exists>w1 w2 w3. adapter_nat_apply A i gw w = (Inr (), w1) \<and> adapter_nat_apply A i gw w1 = (Inr (), w2) \<and>
    adapter_nat_remove A i gw w2 = (Inr (), w3) \<and> F (w_os w3) V4_FORWARD"
proof -
  obtain t f k where v: "nat_view R F w = (t, f, k)"
    by (rule prod_cases3)
  obtain u1 w1 where on: "adapter_nat_apply A i gw w = (Inr u1, w1)"
    "nat_view R F w1 = (with_rules i gw t, switched_on i f, hm_insert (i_name i) (snapshot_of i f) k)"
    using triple_returns [OF apply_goes [OF assms] v] by blast
  obtain u2 w2 where again: "adapter_nat_apply A i gw w1 = (Inr u2, w2)" "nat_view R F w2 =
      (with_rules i gw (with_rules i gw t), switched_on i (switched_on i f),
       hm_insert (i_name i) (snapshot_of i (switched_on i f)) (hm_insert (i_name i) (snapshot_of i f) k))"
    using triple_returns [OF apply_goes [OF assms] on(2)] by blast
  obtain u3 w3 where off: "adapter_nat_remove A i gw w2 = (Inr u3, w3)"
    "snd (nat_view R F w3) = (restored i (snapshot_of i (switched_on i f)) (switched_on i (switched_on i f)),
      filter (\<lambda>kv. fst kv \<noteq> i_name i) k)"
    using triple_returns [OF remove_goes [OF assms, of _ _ _ i gw] again(2)] by (auto simp: hm_insert_def filter_filter)
  then have "F (w_os w3) = switched_on i f"
    by (simp add: nat_view_def restored_switches)
  then have "F (w_os w3) V4_FORWARD"
    by (simp add: switched_on_def)
  then show ?thesis
    using on(1) again(1) off(1) by auto
qed

text \<open>A host that is nothing but its tables and switches.\<close>

type_synonym fw_host = "(string \<Rightarrow> rule list) \<times> (string \<Rightarrow> bool)"

definition sample_decode :: "string list \<Rightarrow> string \<times> rule" where
  "sample_decode args = (case args of
     [] \<Rightarrow> ([], \<lparr>r_table = None, r_body = []\<rparr>)
   | a # body \<Rightarrow>
       if a = ''-t'' then (hd (tl body), \<lparr>r_table = Some (hd body), r_body = tl (tl body)\<rparr>)
       else (a, \<lparr>r_table = None, r_body = body\<rparr>))"

definition sample_run :: "string \<Rightarrow> string list \<Rightarrow> fw_host \<Rightarrow> (string + bool) \<times> fw_host" where
  "sample_run bin args h = (case (sample_decode args, h) of ((act, r), (t, f)) \<Rightarrow>
     if act = ''-C'' then (Inr (r \<in> set (t bin)), h)
     else if act = ''-I'' then (Inr True, (t(bin := r # t bin), f))
     else (Inr (r \<in> set (t bin)), (t(bin := remove1 r (t bin)), f)))"

definition sample_firewall :: "fw_host host_lib" where
  "sample_firewall = \<lparr>hl_run = sample_run,
     hl_read_file = (\<lambda>path h. (Inr (if snd h path then ''1'' else ''0''), h)),
     hl_write_file = (\<lambda>path content h. (Inr (), (fst h, (snd h)(path := (content = ''1'' @ [NL])))))\<rparr>"

definition sample_nat :: "fw_host nat_adapter" where
  "sample_nat = \<lparr>na_dry_run = False, na_linux = True, na_host = sample_firewall\<rparr>"

definition sample_fw_world :: "fw_host world" where
  "sample_fw_world = \<lparr>w_db = empty_db, w_settings = default_settings, w_fwd = [], w_os = (\<lambda>_. [], \<lambda>_. False)\<rparr>"

lemma sample_iptables_law: "iptables_law sample_firewall fst snd"
proof -
  have decode: "sample_decode (argv r act) = (act, r)" if "act \<noteq> ''-t''" for r act
    using that by (cases "r_table r") (simp_all add: sample_decode_def argv_def)
  have "trim ''1'' = ''1''" "trim ''0'' \<noteq> ''1''"
    by code_simp+
  then show ?thesis
    by (auto simp: iptables_law_def runs_law_def sample_firewall_def sample_run_def decode)
qed

theorem nat_on_off_witness:
  "\<exists>w1 w2. adapter_nat_apply sample_nat sample_iface ''eth0'' sample_fw_world = (Inr (), w1) \<and>
     adapter_nat_remove sample_nat sample_iface ''eth0'' w1 = (Inr (), w2) \<and>
     set (fst (w_os w1) ''iptables'') = set (nat_rules ''wg0'' ''eth0'') \<and> snd (w_os w1) V4_FORWARD \<and>
     \<not> snd (w_os w2) V4_FORWARD"
proof -
  have law: "iptables_law (na_host sample_nat) fst snd" "\<not> nat_skip sample_nat"
    using sample_iptables_law by (simp_all add: sample_nat_def nat_skip_def)
  have "i_ipv6_cidr sample_iface = None"
    by (simp add: sample_iface_def new_iface_entity_def sample_new_iface_def)
  then show ?thesis
    using nat_on_off [OF law, of sample_iface "''eth0''" sample_fw_world]
    by (auto simp: sample_fw_world_def)
qed

end
