(* ===== verification/Network_Properties.thy ===== *)
theory Network_Properties
  imports Sample
begin

section \<open>Properties of interfaces and peers\<close>

text \<open>
  The properties of the stored network configuration, over the running program: what every
  reachable world satisfies, and what single requests do.
\<close>

subsection \<open>All runs\<close>

text \<open>C1: However the server is used (any sequence of requests to the REST API and to the web
  interface with any credentials, sessions and bodies, poller passes, scheduler passes and
  changes of the host), the stored configuration stays decodable and well-formed, every stored
  interface name and gateway keeps to the allowed characters, and no two peers of one interface
  ever hold the same address.\<close>

theorem reachable_net_good:
  assumes "app_run S L w w'"
    and "alloc_laws (de_net (sv_repos S))"
    and "net_inv (sv_repos S) w"
    and "net_good (net_view (sv_repos S) w)"
  shows "net_inv (sv_repos S) w' \<and> net_good (net_view (sv_repos S) w')"
proof -
  have "net_stepping (sv_repos S) (net_view (sv_repos S) w) w'"
    using net_run.run_preserves [OF assms(1), of "net_view (sv_repos S) w"] assms
    by (simp add: stepping_def)
  then show ?thesis
    using net_steps_good assms(4) unfolding stepping_def by blast
qed

theorem reachable_net_good_witness:
  "net_good (net_view sample_env
     (fst (snd (web_call sample_server ''10.0.0.1'' (Post_Peers_Toggle ''x'')
       (snd (poll_once (app_poller sample_app) sample_world), Map.empty)))))"
proof -
  have "app_run sample_server sample_sched sample_world
      (fst (snd (web_call sample_server ''10.0.0.1'' (Post_Peers_Toggle ''x'')
        (snd (poll_once (app_poller (sv_app sample_server)) sample_world), Map.empty))))"
    by (rule rtranclp.rtrancl_into_rtrancl [OF r_into_rtranclp [where r = "app_step sample_server sample_sched", OF Poll] Web])
  from reachable_net_good [OF this] show ?thesis
    by (simp add: sample_alloc_laws sample_world_net empty_good)
qed



subsection \<open>Peers\<close>

lemma pe_net_service: "pe_net (peer_service A) = de_net (app_env A)"
  by (simp add: peer_service_def)


definition sample_create_peer :: create_peer_input where
  "sample_create_peer = \<lparr>cp_interface_id = Ident 1, cp_name = ''phone'', cp_allowed_ips = None,
     cp_primary_dns = None, cp_secondary_dns = None, cp_nat = True, cp_keepalive = None,
     cp_owner = None, cp_public_key = replicate 32 (CHR ''z''), cp_private_key = []\<rparr>"

lemma sample_net_is:
  "net_is sample_env ([sample_iface], [sample_peer 2 [Net_V4 10 32], sample_peer 3 [Net_V4 12 32]])
     sample_net_world"
  using sample_net_inv sample_net_view by (simp add: holds_def)


text \<open>C28: Updating a peer writes over exactly that peer, and only after the checks: the name is
  not blank, the target interface exists, and none of the requested addresses is held by another
  peer of the target interface (also when the peer moves there). A failed update changes
  nothing.\<close>

theorem peer_update_spec:
  assumes "net_is (app_repos A) (is, ps) w"
  shows "case peer_update (peer_service A) k inp w of
     (Inl e, w') \<Rightarrow> net_is (app_repos A) (is, ps) w'
   | (Inr x, w') \<Rightarrow> \<exists>now old. net_is (app_repos A) (is, put_peer x now ps) w' \<and>
       find (\<lambda>y. p_id y = k) ps = Some old \<and> peer_updated (de_net (app_env A)) inp (is, ps) old x"
  using triple_at [OF app_peers.update_ok assms] unfolding pe_net_service .

definition sample_update_peer :: update_peer_input where
  "sample_update_peer = \<lparr>up_name = ''phone'', up_interface_id = Ident 1,
     up_allowed_ips = [Net_V4 11 32], up_primary_dns = None, up_secondary_dns = None, up_nat = False,
     up_keepalive = None, up_enabled = False, up_public_key = [], up_private_key = []\<rparr>"

theorem peer_update_spec_witness:
  "case peer_update (peer_service sample_app) (Ident 2) sample_update_peer sample_net_world of
     (Inl e, w') \<Rightarrow> net_is sample_env ([sample_iface],
        [sample_peer 2 [Net_V4 10 32], sample_peer 3 [Net_V4 12 32]]) w'
   | (Inr x, w') \<Rightarrow> \<exists>now old. net_is sample_env ([sample_iface],
          put_peer x now [sample_peer 2 [Net_V4 10 32], sample_peer 3 [Net_V4 12 32]]) w' \<and>
       find (\<lambda>y. p_id y = Ident 2) [sample_peer 2 [Net_V4 10 32], sample_peer 3 [Net_V4 12 32]] = Some old \<and>
       peer_updated sample_net sample_update_peer
         ([sample_iface], [sample_peer 2 [Net_V4 10 32], sample_peer 3 [Net_V4 12 32]]) old x"
  using peer_update_spec [of sample_app, unfolded sample_repos, OF sample_net_is, of "Ident 2" sample_update_peer]
  unfolding sample_app_fields sample_env_fields .

text \<open>C32: Switching a peer on or off changes its \<open>enabled\<close> flag and nothing else of the
  configuration. An error means either that nothing was changed or, when the failure came after
  the write, that the flag was persisted all the same.\<close>

theorem peer_toggle_spec:
  assumes "net_is (app_repos A) (is, ps) w"
  shows "case peer_set_enabled (peer_service A) k on w of
     (Inl e, w') \<Rightarrow> net_is (app_repos A) (is, ps) w' \<or>
       (\<exists>now old. find (\<lambda>y. p_id y = k) ps = Some old \<and>
          net_is (app_repos A) (is, put_peer (old\<lparr>p_enabled := on\<rparr>) now ps) w')
   | (Inr x, w') \<Rightarrow> \<exists>now old. find (\<lambda>y. p_id y = k) ps = Some old \<and> x = old\<lparr>p_enabled := on\<rparr> \<and>
       net_is (app_repos A) (is, put_peer x now ps) w'"
proof (cases "peer_set_enabled (peer_service A) k on w")
  case (Pair r w')
  show ?thesis
  proof (cases r)
    case (Inl e)
    then show ?thesis
      using triple_err [OF app_peers.set_enabled_ok assms Pair [unfolded Inl]]
      by (auto simp: Pair peer_flagged_def)
  next
    case (Inr x)
    then show ?thesis
      using triple_ok [OF app_peers.set_enabled_ok assms Pair [unfolded Inr]]
      by (auto simp: Pair peer_flagged_def)
  qed
qed

theorem peer_toggle_spec_witness:
  "case peer_set_enabled (peer_service sample_app) (Ident 9) False sample_net_world of
     (Inl e, w') \<Rightarrow> net_is sample_env ([sample_iface],
        [sample_peer 2 [Net_V4 10 32], sample_peer 3 [Net_V4 12 32]]) w'
   | (Inr x, w') \<Rightarrow> False"
  using peer_toggle_spec [of sample_app, unfolded sample_repos, OF sample_net_is, of "Ident 9" False]
  by (auto split: prod.splits sum.splits)

text \<open>Deleting a peer removes exactly the peer with that identifier, which was stored; the
  attempt to remove it from the kernel does not matter. A failed deletion changes nothing.\<close>

theorem peer_deletion:
  assumes "net_is (app_repos A) (is, ps) w"
  shows "case peer_delete (peer_service A) k w of
     (Inl e, w') \<Rightarrow> net_is (app_repos A) (is, ps) w'
   | (Inr u, w') \<Rightarrow> net_is (app_repos A) (is, filter (\<lambda>p. p_id p \<noteq> k) ps) w' \<and>
       find (\<lambda>y. p_id y = k) ps \<noteq> None"
  using triple_at [OF app_peers.delete_ok assms] .

theorem peer_deletion_witness:
  "case peer_delete (peer_service sample_app) (Ident 2) sample_net_world of
     (Inl e, w') \<Rightarrow> net_is sample_env ([sample_iface],
        [sample_peer 2 [Net_V4 10 32], sample_peer 3 [Net_V4 12 32]]) w'
   | (Inr u, w') \<Rightarrow> net_is sample_env ([sample_iface], [sample_peer 3 [Net_V4 12 32]]) w'"
  using peer_deletion [of sample_app, unfolded sample_repos, OF sample_net_is, of "Ident 2"]
  by (auto split: prod.splits sum.splits)

lemma find_first:
  "find P xs = Some a \<Longrightarrow> \<exists>pre post. xs = pre @ a # post \<and> (\<forall>b \<in> set pre. \<not> P b)"
proof (induction xs)
  case (Cons x xs)
  show ?case
  proof (cases "P x")
    case True
    then have "x # xs = [] @ a # xs" using Cons.prems by simp
    then show ?thesis by fastforce
  next
    case False
    then obtain pre post where "xs = pre @ a # post" "\<forall>b \<in> set pre. \<not> P b"
      using Cons by auto
    then have "x # xs = (x # pre) @ a # post" "\<forall>b \<in> set (x # pre). \<not> P b"
      using False by simp_all
    then show ?thesis by blast
  qed
qed simp

lemma choose_auto:
  assumes "alloc_laws L" and "i_ipv4_cidr i = Some c"
    and "choose_allowed_ips L i None existing = Inr ips"
  shows "\<exists>a. next_free_ipv4 L c existing = Some a \<and> ips = [host_net a]"
proof (cases "next_free_ipv4 L c existing")
  case None
  then show ?thesis using assms(2,3) by (simp add: choose_allowed_ips_def)
next
  case (Some a)
  then show ?thesis
    using assms(2,3) nl_new_host(1) [OF assms(1) next_free_fresh(1) [OF Some]]
    by (simp add: choose_allowed_ips_def)
qed

text \<open>C16: An automatically allocated address is the first host of the interface's network, after
  the reserved first one, that is not the network address of an address of an existing peer; it
  is given as a single-host network that no existing peer holds.\<close>

theorem allocation_first_free:
  assumes "alloc_laws L" and "i_ipv4_cidr i = Some c"
    and "choose_allowed_ips L i None existing = Inr ips"
  shows "\<exists>pre a post. drop 1 (nl_hosts L c) = pre @ a # post \<and> ips = [host_net a] \<and>
     (\<forall>b \<in> set pre. \<exists>p \<in> set existing. b \<in> nl_network L ` set (p_allowed_ips p)) \<and>
     (\<forall>p \<in> set existing. a \<notin> nl_network L ` set (p_allowed_ips p) \<and> host_net a \<notin> set (p_allowed_ips p))"
proof -
  obtain a where a: "next_free_ipv4 L c existing = Some a" and ips: "ips = [host_net a]"
    using choose_auto [OF assms] by blast
  let ?used = "set (concat (map (\<lambda>p. map (nl_network L) (p_allowed_ips p)) existing))"
  obtain pre post where split: "drop 1 (nl_hosts L c) = pre @ a # post"
    and before: "\<forall>b \<in> set pre. b \<in> ?used"
    using find_first [OF a [unfolded next_free_ipv4_def Let_def]] by auto
  have "?used = (\<Union>p \<in> set existing. nl_network L ` set (p_allowed_ips p))"
    by simp
  then have taken: "\<forall>b \<in> set pre. \<exists>p \<in> set existing. b \<in> nl_network L ` set (p_allowed_ips p)"
    using before by simp
  have free: "a \<notin> nl_network L ` set (p_allowed_ips p) \<and> host_net a \<notin> set (p_allowed_ips p)"
    if p: "p \<in> set existing" for p
    using next_free_fresh(2) [OF a p] choose_allowed_ips_apart [OF assms(1,3) p] by (auto simp: ips)
  show ?thesis
    using split ips taken free by blast
qed

lemma sample_choice:
  "choose_allowed_ips sample_net sample_iface None [sample_peer 2 [Net_V4 10 32], sample_peer 3 [Net_V4 12 32]] =
     Inr [Net_V4 11 32]"
proof -
  have "drop 1 (sample_hosts (Net_V4 8 29)) = [Ip_V4 10, Ip_V4 11, Ip_V4 12, Ip_V4 13, Ip_V4 14]"
    by code_simp
  then have "next_free_ipv4 sample_net (Net_V4 8 29) [sample_peer 2 [Net_V4 10 32], sample_peer 3 [Net_V4 12 32]] =
      Some (Ip_V4 11)"
    by (simp add: next_free_ipv4_def sample_net_def sample_network_def)
  then show ?thesis
    by (simp add: choose_allowed_ips_def sample_net_def sample_new_def max_prefix_def)
qed

theorem allocation_first_free_witness:
  "\<exists>pre a post. drop 1 (sample_hosts (Net_V4 8 29)) = pre @ a # post \<and> [Net_V4 11 32] = [host_net a] \<and>
     (\<forall>b \<in> set pre. \<exists>p \<in> set [sample_peer 2 [Net_V4 10 32], sample_peer 3 [Net_V4 12 32]].
        b \<in> sample_network ` set (p_allowed_ips p))"
proof -
  have "nl_hosts sample_net = sample_hosts" "nl_network sample_net = sample_network"
    by (simp_all add: sample_net_def)
  then show ?thesis
    using allocation_first_free [OF sample_alloc_laws _ sample_choice, of "Net_V4 8 29"]
    by (simp del: One_nat_def set_simps) blast
qed

text \<open>C27: Automatic allocation reports an exhausted pool exactly when every host of the
  interface's network after the reserved first one is the network address of an address of an
  existing peer.\<close>

theorem pool_exhausted_iff:
  assumes "alloc_laws L" and "i_ipv4_cidr i = Some c"
  shows "choose_allowed_ips L i None existing = Inl (Ip_Pool_Exhausted (nl_show_net L c)) \<longleftrightarrow>
     (\<forall>a \<in> set (drop 1 (nl_hosts L c)). \<exists>p \<in> set existing. a \<in> nl_network L ` set (p_allowed_ips p))"
proof -
  let ?used = "concat (map (\<lambda>p. map (nl_network L) (p_allowed_ips p)) existing)"
  have "choose_allowed_ips L i None existing = Inl (Ip_Pool_Exhausted (nl_show_net L c)) \<longleftrightarrow>
      next_free_ipv4 L c existing = None"
    using assms(2) nl_new_host(1) [OF assms(1) next_free_fresh(1)]
    by (auto simp: choose_allowed_ips_def split: option.splits sum.splits)
  also have "\<dots> \<longleftrightarrow> (\<forall>a \<in> set (drop 1 (nl_hosts L c)). a \<in> set ?used)"
    unfolding next_free_ipv4_def Let_def find_None_iff by blast
  finally show ?thesis by simp
qed

theorem pool_exhausted_iff_witness:
  "choose_allowed_ips sample_net (sample_iface\<lparr>i_ipv4_cidr := Some (Net_V4 8 30)\<rparr>) None
       [sample_peer 2 [Net_V4 10 32]] = Inl (Ip_Pool_Exhausted (nl_show_net sample_net (Net_V4 8 30)))"
proof -
  have hosts: "drop 1 (nl_hosts sample_net (Net_V4 8 30)) = [Ip_V4 10]"
    by code_simp
  have "nl_network sample_net (Net_V4 10 32) = Ip_V4 10"
    by (simp add: sample_net_def sample_network_def)
  then show ?thesis
    using pool_exhausted_iff [OF sample_alloc_laws, of "sample_iface\<lparr>i_ipv4_cidr := Some (Net_V4 8 30)\<rparr>"
        "Net_V4 8 30" "[sample_peer 2 [Net_V4 10 32]]"]
    by (simp only: hosts) simp
qed

subsection \<open>Interfaces\<close>

text \<open>C30: Creating an interface appends exactly one stopped interface with the requested fields,
  and only when its name is 1 to 15 allowed characters that no stored interface has and its
  gateway, if any, passes the character check; otherwise nothing is changed.\<close>

theorem iface_creation:
  assumes "net_is (app_repos A) (is, ps) w"
  shows "case iface_create (interface_service A) inp w of
     (Inl e, w') \<Rightarrow> net_is (app_repos A) (is, ps) w'
   | (Inr x, w') \<Rightarrow> net_is (app_repos A) (is @ [x], ps) w' \<and> iface_created inp is x"
  using triple_at [OF app_ifaces.create_ok assms] .

definition sample_create_iface :: create_iface_input where
  "sample_create_iface = \<lparr>ci_name = ''wg1'', ci_listen_port = 51821, ci_endpoint = None,
     ci_gateway = Some ''eth0'', ci_ipv4_cidr = None, ci_ipv6_cidr = None, ci_mtu = None, ci_dns = [],
     ci_on_up = None, ci_on_down = None, ci_private_key = []\<rparr>"

theorem iface_creation_witness:
  "case iface_create (interface_service sample_app) sample_create_iface sample_net_world of
     (Inl e, w') \<Rightarrow> net_is sample_env ([sample_iface], [sample_peer 2 [Net_V4 10 32], sample_peer 3 [Net_V4 12 32]]) w'
   | (Inr x, w') \<Rightarrow> net_is sample_env ([sample_iface, x], [sample_peer 2 [Net_V4 10 32], sample_peer 3 [Net_V4 12 32]]) w' \<and>
       iface_created sample_create_iface [sample_iface] x"
  using iface_creation [of sample_app, unfolded sample_repos, OF sample_net_is, of sample_create_iface]
  unfolding append.simps .

text \<open>Starting an interface, when it succeeds, persists the status \<open>up\<close> on exactly that
  interface and returns it so; when any step fails (lookup, WireGuard, gateway check, NAT) no
  interface or peer of the configuration has changed.\<close>

theorem iface_start_spec:
  assumes "net_is (app_repos A) (is, ps) w"
  shows "case iface_start (interface_service A) k w of
     (Inl e, w') \<Rightarrow> net_is (app_repos A) (is, ps) w'
   | (Inr x, w') \<Rightarrow> \<exists>now old. find (\<lambda>y. i_id y = k) is = Some old \<and> x = old\<lparr>i_status := Status_Up\<rparr> \<and>
       net_is (app_repos A) (put_iface x now is, ps) w'"
  using triple_at [OF app_ifaces.start_ok [where k = k] assms]
  by (auto simp: iface_wrote_def with_status_def split: prod.splits sum.splits)

theorem iface_start_spec_witness:
  "case iface_start (interface_service sample_app) (Ident 1) sample_net_world of
     (Inl e, w') \<Rightarrow> net_is sample_env ([sample_iface], [sample_peer 2 [Net_V4 10 32], sample_peer 3 [Net_V4 12 32]]) w'
   | (Inr x, w') \<Rightarrow> x = sample_iface\<lparr>i_status := Status_Up\<rparr> \<and>
       (\<exists>now. net_is sample_env (put_iface x now [sample_iface], [sample_peer 2 [Net_V4 10 32], sample_peer 3 [Net_V4 12 32]]) w')"
  using iface_start_spec [of sample_app, unfolded sample_repos, OF sample_net_is, of "Ident 1"]
  by (auto split: prod.splits sum.splits)

text \<open>Stopping an interface, when it succeeds, persists the status \<open>down\<close> on exactly that
  interface, whether or not the NAT rules and the hook could be undone; when it fails nothing
  of the configuration has changed.\<close>

theorem iface_stop_spec:
  assumes "net_is (app_repos A) (is, ps) w"
  shows "case iface_stop (interface_service A) k w of
     (Inl e, w') \<Rightarrow> net_is (app_repos A) (is, ps) w'
   | (Inr x, w') \<Rightarrow> \<exists>now old. find (\<lambda>y. i_id y = k) is = Some old \<and> x = old\<lparr>i_status := Status_Down\<rparr> \<and>
       net_is (app_repos A) (put_iface x now is, ps) w'"
  using triple_at [OF app_ifaces.stop_ok [where k = k] assms]
  by (auto simp: iface_wrote_def with_status_def split: prod.splits sum.splits)

theorem iface_stop_spec_witness:
  "case iface_stop (interface_service sample_app) (Ident 1) sample_net_world of
     (Inl e, w') \<Rightarrow> net_is sample_env ([sample_iface], [sample_peer 2 [Net_V4 10 32], sample_peer 3 [Net_V4 12 32]]) w'
   | (Inr x, w') \<Rightarrow> x = sample_iface\<lparr>i_status := Status_Down\<rparr> \<and>
       (\<exists>now. net_is sample_env (put_iface x now [sample_iface], [sample_peer 2 [Net_V4 10 32], sample_peer 3 [Net_V4 12 32]]) w')"
  using iface_stop_spec [of sample_app, unfolded sample_repos, OF sample_net_is, of "Ident 1"]
  by (auto split: prod.splits sum.splits)

text \<open>C29: Updating an interface writes over exactly that interface, keeps its name, identifier
  and status, and accepts a gateway only if it passes the character check. An error means that
  nothing was written or that the checked values were written all the same (the peers could not
  be listed afterwards).\<close>

theorem iface_update_spec:
  assumes "net_is (app_repos A) (is, ps) w"
  shows "case iface_update (interface_service A) k inp w of
     (Inl e, w') \<Rightarrow> net_is (app_repos A) (is, ps) w' \<or>
       (\<exists>x now old. find (\<lambda>y. i_id y = k) is = Some old \<and> iface_updated inp old x \<and>
          net_is (app_repos A) (put_iface x now is, ps) w')
   | (Inr x, w') \<Rightarrow> \<exists>now old. find (\<lambda>y. i_id y = k) is = Some old \<and> iface_updated inp old x \<and>
       net_is (app_repos A) (put_iface x now is, ps) w'"
  using triple_at [OF app_ifaces.update_ok [where k = k and inp = inp] assms] unfolding iface_wrote_def
  by (auto split: prod.splits sum.splits)

definition sample_update_iface :: "string option \<Rightarrow> update_iface_input" where
  "sample_update_iface gw = \<lparr>ui_listen_port = 1, ui_endpoint = None, ui_gateway = gw,
     ui_ipv4_cidr = None, ui_ipv6_cidr = None, ui_mtu = None, ui_dns = [], ui_on_up = None,
     ui_on_down = None, ui_private_key = []\<rparr>"

theorem iface_update_spec_witness:
  "case iface_update (interface_service sample_app) (Ident 1) (sample_update_iface (Some ''a;b'')) sample_net_world of
     (Inl e, w') \<Rightarrow> net_is sample_env ([sample_iface], [sample_peer 2 [Net_V4 10 32], sample_peer 3 [Net_V4 12 32]]) w'
   | (Inr x, w') \<Rightarrow> False"
proof -
  have "\<not> gateway_charset_ok ''a;b''" by code_simp
  then have "\<not> iface_updated (sample_update_iface (Some ''a;b'')) old x" for old x
    by (simp add: iface_updated_def opt_gateway_ok_def sample_update_iface_def)
  then show ?thesis
    using iface_update_spec [of sample_app, unfolded sample_repos, OF sample_net_is, of "Ident 1" "sample_update_iface (Some ''a;b'')"]
    by (auto split: prod.splits sum.splits)
qed



subsection \<open>Background passes\<close>


lemma sample_schedule_runs:
  "\<exists>w'. schedule_once (app_scheduler sample_app sample_sched) sample_net_world = (Inr (), w')"
  by (simp add: schedule_once_def app_scheduler_def io_bind_def io_map_err_def on_os_def
      sqlite_peers_def peers_list_all_def fetch_all_def db_query_def db_guard_def db_read_def
      sample_net_world_def sample_world_def sample_db_def sample_rows_decode schedule_peer_def
      split: prod.split)


end
