(* ===== verification/Session_Runs.thy ===== *)
theory Session_Runs
  imports Login_Properties Access_Properties
begin

section \<open>The accounts, the audit trail and the sessions over whole runs\<close>

text \<open>
  The invariants of the transition system of \<open>Server_Run\<close> on its account and audit tables, and
  a browser session followed over any number of its own requests and steps of everybody else.
\<close>

subsection \<open>Accounts and audit trail\<close>

text \<open>C14: In every world the server can reach from one with consistent accounts, the accounts are
  consistent: every user and token row decodes to an entity with the identifiers it is stored
  under, user identifiers, user names, token identifiers and token hashes are unique, and
  every token belongs to a stored user.\<close>

theorem reachable_accounts:
  assumes "app_run S L w w'" and "uuid_text_law (de_net (sv_repos S))"
    and "acct_ok (sv_repos S) (w_db w)"
  shows "(\<forall>r \<in> set (tb_users (w_db w')). \<exists>x. user_into_domain (sv_repos S) r = Inr x \<and>
        show_id (de_net (sv_repos S)) (u_id x) = uc_id r) \<and>
     (\<forall>r \<in> set (tb_tokens (w_db w')). \<exists>t. token_into_domain (sv_repos S) r = Inr t \<and>
        show_id (de_net (sv_repos S)) (t_id t) = tc_id r \<and>
        (\<exists>owner \<in> set (tb_users (w_db w')). uc_id owner = show_id (de_net (sv_repos S)) (t_user_id t))) \<and>
     distinct (map uc_id (tb_users (w_db w'))) \<and> distinct (map uc_username (tb_users (w_db w'))) \<and>
     distinct (map tc_id (tb_tokens (w_db w'))) \<and> distinct (map tc_token_hash (tb_tokens (w_db w')))"
proof -
  have ok: "acct_ok (sv_repos S) (w_db w')"
    using acct_run.run_preserves [OF assms(1)] assms(2,3) by blast
  have owner: "\<exists>owner \<in> set (tb_users (w_db w')). uc_id owner = tc_user_id r"
    if "r \<in> set (tb_tokens (w_db w'))" for r
    using ok that unfolding acct_ok_def by force
  show ?thesis
    using ok owner by (fastforce simp: acct_ok_def user_row_ok_def token_row_ok_def)
qed

text \<open>C22: No request and no background pass rewrites or removes an audit entry: the trail of a later
  world starts with the trail of the earlier one, entry by entry.\<close>

theorem audit_append_only:
  assumes "app_run S L w w'"
  shows "prefix (tb_audit (w_db w)) (tb_audit (w_db w'))"
  using audit_run.run_preserves [OF assms] by blast

text \<open>C21: The running server never deletes an account and never changes an account's identifier, user
  name, password hash or role: the list of these of a later world starts with the list of the
  earlier one; accounts are only added.\<close>

theorem accounts_immutable:
  assumes "app_run S L w w'"
  shows "\<exists>new. map (\<lambda>r. (uc_id r, uc_username r, uc_password_hash r, uc_role r)) (tb_users (w_db w')) =
     map (\<lambda>r. (uc_id r, uc_username r, uc_password_hash r, uc_role r)) (tb_users (w_db w)) @ new"
proof -
  have core: "user_core = (\<lambda>r. (uc_id r, uc_username r, uc_password_hash r, uc_role r))"
    by (simp add: fun_eq_iff user_core_def)
  show ?thesis
    using core_run.run_preserves [OF assms, of "map user_core (tb_users (w_db w))"]
    by (auto simp: prefix_def core)
qed

subsection \<open>The user of a session is a stored user\<close>

definition stored_user :: "('os, 'j) server \<Rightarrow> (string \<times> string \<times> string \<times> string) list \<Rightarrow> auth_user \<Rightarrow> bool" where
  "stored_user S cores u \<longleftrightarrow> (\<exists>(i, name, hash, ro) \<in> set cores.
     parse_id (sv_net S) i = Inr (au_id u) \<and> name = au_username u \<and> role_from_str ro = Inr (au_role u))"

abbreviation cores_of :: "db \<Rightarrow> (string \<times> string \<times> string \<times> string) list" where
  "cores_of d \<equiv> map user_core (tb_users d)"

definition user_entry_ok :: "('os, 'j) server \<Rightarrow> db \<Rightarrow> session_value option \<Rightarrow> bool" where
  "user_entry_ok S d e \<longleftrightarrow> (\<forall>u. e = Some (Sv_User u) \<longrightarrow> stored_user S (cores_of d) u)"

lemma stored_later: "stored_user S cores u \<Longrightarrow> prefix cores cores' \<Longrightarrow> stored_user S cores' u"
  by (auto simp: stored_user_def prefix_def)

lemma entry_later:
  "user_entry_ok S d e \<Longrightarrow> prefix (cores_of d) (cores_of d') \<Longrightarrow> user_entry_ok S d' e"
  by (auto simp: user_entry_ok_def intro: stored_later)

lemma stored_userI:
  assumes "r \<in> set (tb_users d)" and "parse_id (sv_net S) (uc_id r) = Inr (au_id u)"
    and "uc_username r = au_username u" and "role_from_str (uc_role r) = Inr (au_role u)"
  shows "stored_user S (cores_of d) u"
proof -
  have "user_core r \<in> set (cores_of d)"
    using assms(1) by simp
  then show ?thesis
    unfolding stored_user_def by (rule bexI [rotated]) (simp add: user_core_def assms(2-4))
qed

lemma decoded_stored:
  assumes "find p (tb_users d) = Some row" and "user_into_domain (sv_repos S) row = Inr x"
  shows "stored_user S (cores_of d) (auth_user_of x)"
proof -
  have "row \<in> set (tb_users d)"
    using assms(1) by (auto simp: find_Some_iff)
  then show ?thesis
    using assms(2)
    by (intro stored_userI)
      (auto simp: user_into_domain_def res_bind_ok_iff map_error_ok_iff sv_net_def auth_user_of_def)
qed

text \<open>Where a session's user comes from, other than the first set-up, is a row of the table.\<close>

lemma evidence_stored:
  assumes "login_evidence S d s req u" and "\<not> (\<exists>f. req = Post_Setup f)"
  shows "stored_user S (cores_of d) u"
  using assms by (auto simp: evidence_iff password_ok_def second_factor_ok_def intro: decoded_stored)

text \<open>The first set-up stores the account before it stores the session's user.\<close>

lemma registered_stored:
  assumes "register_initial_admin (auth_service (sv_app S)) name pw email w = (Inr x, w')"
    and "uuid_text_law (sv_net S)"
  shows "stored_user S (cores_of (w_db w')) \<lparr>au_id = u_id x, au_username = u_username x, au_role = Admin\<rparr>"
proof -
  obtain u now h r w1 where x: "u_id x = Ident u" "u_username x = name"
    and ex: "db_exec (sv_repos S) (insert_user (sv_repos S) r) w1 = (Inr (), w')"
    and r: "uc_id r = nl_show_uuid (sv_net S) u" "uc_username r = name" "uc_role r = role_as_str Admin"
    using assms(1)
    by (auto simp: register_initial_admin_def auth_service_def sqlite_users_def users_create_def sv_net_def
        io_bind_ok_iff split: if_splits)
  have row: "r \<in> set (tb_users (w_db w'))"
    using db_exec_ok [OF ex]
    by (auto simp: insert_user_def constraint_failed_def split: if_splits
        dest!: arg_cong [where f = "\<lambda>d. set (tb_users d)", THEN sym])
  have key: "parse_id (sv_net S) (nl_show_uuid (sv_net S) u) = Inr (Ident u)"
    using parse_id_show [OF assms(2), of "Ident u"] by (simp add: show_id_def)
  show ?thesis
    by (rule stored_userI [OF row]) (simp_all add: x r key role_roundtrip)
qed

text \<open>A triple about the user entry, relative to the table as it is then.\<close>

abbreviation entry_good :: "('os, 'j) server \<Rightarrow> session \<Rightarrow> 'os visit \<Rightarrow> bool" where
  "entry_good S s \<equiv> \<lambda>v. snd v SESSION_USER_KEY = s SESSION_USER_KEY \<or>
     user_entry_ok S (w_db (fst v)) (snd v SESSION_USER_KEY)"

lemma audit_cores: "keeps (\<lambda>v. g (cores_of (w_db (fst v))) (snd v)) (web_audit S who ip action rt rid meta)"
proof -
  have "keeps (\<lambda>w. cores_of (w_db w)) (ar_record (sqlite_audit E J) who ip action rt rid meta)" for E J
    unfolding sqlite_audit_def audit_repo.simps audit_record_def
    by (intro keeps_intros db_exec_keeps_part)
      (auto simp: insert_audit_def constraint_failed_def split: if_splits)
  from keepsD2 [OF this] show ?thesis
    unfolding web_audit_def
    by (fastforce simp: keeps_def io_ignore_def in_world_def split: prod.split)
qed

lemma insert_db:
  assumes "session_insert S k x v = (r, v')"
  shows "w_db (fst v') = w_db (fst v)"
proof -
  have guard: "keeps (\<lambda>v. w_db (fst v)) (session_guard S)"
    unfolding session_guard_def by (intro keeps_intros) (auto simp: keeps_def in_world_def on_os_def split: prod.split)
  have "keeps (\<lambda>v. w_db (fst v)) (session_insert S k x)"
    unfolding session_insert_def by (rule keeps_bind [OF guard]) (auto simp: keeps_def)
  then show ?thesis
    by (rule keepsD2 [where m = "session_insert S k x"]) (rule assms)
qed

lemma store_stored:
  "triple (\<lambda>v. entry_good S s v \<and> stored_user S (cores_of (w_db (fst v))) u) (auth_user_store S u)
     (\<lambda>_. entry_good S s) (\<lambda>_. entry_good S s)"
proof -
  have "entry_good S s v'" if start: "entry_good S s v \<and> stored_user S (cores_of (w_db (fst v))) u"
      and run: "session_insert S SESSION_USER_KEY (Sv_User u) v = (r, v')"
    for v v' :: "'a visit" and r
    using session_insert_result [OF run] insert_db [OF run] start by (auto simp: user_entry_ok_def)
  then have "triple (\<lambda>v. entry_good S s v \<and> stored_user S (cores_of (w_db (fst v))) u)
      (session_insert S SESSION_USER_KEY (Sv_User u)) (\<lambda>_. entry_good S s) (\<lambda>_. entry_good S s)"
    by (intro tripleI) blast+
  then show ?thesis
    unfolding auth_user_store_def by (rule triple_map_err)
qed

lemma good_keeps:
  assumes "keeps (\<lambda>v. (cores_of (w_db (fst v)), snd v)) m"
  shows "triple (entry_good S s) m (\<lambda>_. entry_good S s) (\<lambda>_. entry_good S s)"
  using triple_keeps [OF assms, of "\<lambda>(c, t). t SESSION_USER_KEY = s SESSION_USER_KEY \<or>
     (\<forall>u. t SESSION_USER_KEY = Some (Sv_User u) \<longrightarrow> stored_user S c u)"]
  by (simp add: user_entry_ok_def)

lemma setup_stored:
  fixes S :: "('os, 'j) server"
  assumes law: "uuid_text_law (sv_net S)"
  shows "triple (\<lambda>v. snd v = s) (web_setup_submit S ip f) (\<lambda>_. entry_good S s) (\<lambda>_. entry_good S s)"
proof -
  let ?me = "\<lambda>x. \<lparr>au_id = u_id x, au_username = u_username x, au_role = Admin\<rparr>"
  have count: "triple (\<lambda>v. snd v = s) (web_core m) (\<lambda>_ v. snd v = s) (\<lambda>_. entry_good S s)"
    for m :: "('os world, core_error, 'x) io"
    by (rule tripleI) (auto simp: in_world_def split: prod.splits)
  have register: "triple (\<lambda>v. snd v = s)
      (web_core (register_initial_admin (auth_service (sv_app S)) name pw email))
      (\<lambda>x v. entry_good S s v \<and> stored_user S (cores_of (w_db (fst v))) (?me x)) (\<lambda>_. entry_good S s)"
    for name pw email
  proof (rule tripleI, goal_cases)
    case (1 v x v')
    then obtain w' where "register_initial_admin (auth_service (sv_app S)) name pw email (fst v) = (Inr x, w')"
        "v' = (w', snd v)"
      by (auto simp: in_world_def io_map_err_def split: prod.splits sum.splits)
    then show ?case
      using 1(1) registered_stored [OF _ law] by auto
  next
    case (2 v e v')
    then show ?case
      by (auto simp: in_world_def split: prod.splits)
  qed
  have audit: "triple (entry_good S s) (web_audit S who ip' action rt rid meta)
      (\<lambda>_. entry_good S s) (\<lambda>_. entry_good S s)" for who ip' action rt rid meta
    by (rule good_keeps, rule audit_cores)
  show ?thesis
    unfolding web_setup_submit_def
    by (rule triple_bind [OF count], intro triple_if triple_ret)
      (simp_all add: triple_bind [OF register] triple_bind [OF store_stored] triple_bind [OF audit] triple_ret
        del: io_apply)
qed

subsection \<open>Sessions over whole runs\<close>

text \<open>A browser session and the world: a request of this session, or a step of anybody else.\<close>

inductive visit_step ::
    "('os, 'j) server \<Rightarrow> sched_lib \<Rightarrow> 'os visit \<Rightarrow> 'os visit \<Rightarrow> bool"
  for S :: "('os, 'j) server" and L :: sched_lib where
  Own: "visit_step S L v (snd (web_call S ip req v))"
| Other: "app_step S L w w' \<Longrightarrow> visit_step S L (w, s) (w', s)"

abbreviation session_ok :: "('os, 'j) server \<Rightarrow> 'os visit \<Rightarrow> bool" where
  "session_ok S v \<equiv> user_entry_ok S (w_db (fst v)) (snd v SESSION_USER_KEY)"

lemma own_request_ok:
  assumes law: "uuid_text_law (sv_net S)" and ok: "session_ok S (w, s)"
    and run: "web_call S ip req (w, s) = (r, (w', s'))"
  shows "session_ok S (w', s')"
proof -
  have grow: "prefix (cores_of (w_db w)) (cores_of (w_db w'))"
    using preservesD [OF core_run.web_call_preserves, of "cores_of (w_db w)" "(w, s)" S ip req] run by simp
  have same: ?thesis if "s' SESSION_USER_KEY = s SESSION_USER_KEY"
    using entry_later [OF ok [simplified] grow] that by simp
  show ?thesis
  proof (cases "\<exists>f. req = Post_Setup f")
    case True
    then obtain f where f: "req = Post_Setup f" by blast
    obtain q v' where call: "web_setup_submit S ip f (w, s) = (q, v')"
      by (rule prod.exhaust)
    have v': "v' = (w', s')"
      using run call by (simp add: web_call_def f web_dispatch_def io_try_def split: sum.splits)
    have "entry_good S s v'"
      using triple_ok [OF setup_stored [OF law], of "(w, s)"] triple_err [OF setup_stored [OF law], of "(w, s)"] call
      by (cases q) auto
    then show ?thesis
      using same v' by auto
  next
    case False
    show ?thesis
    proof -
      consider "s' SESSION_USER_KEY = s SESSION_USER_KEY" | "s' SESSION_USER_KEY = None" |
        u where "s' SESSION_USER_KEY = Some (Sv_User u)" "login_evidence S (w_db w) s req u"
        using session_after [OF run] unfolding entries_ok_def by auto
      then show ?thesis
      proof cases
        case 3
        then show ?thesis
          using stored_later [OF evidence_stored [OF 3(2) False] grow] by (simp add: user_entry_ok_def)
      qed (use same in \<open>simp_all add: user_entry_ok_def\<close>)
    qed
  qed
qed

lemma visit_ok:
  assumes "(visit_step S L)\<^sup>*\<^sup>* v v'" and "uuid_text_law (sv_net S)" and "session_ok S v"
  shows "session_ok S v'"
  using assms(1,3)
proof (induction rule: rtranclp_induct)
  case (step v1 v2)
  from step.hyps(2) show ?case
  proof cases
    case (Own ip req)
    obtain r w' s' where "web_call S ip req (fst v1, snd v1) = (r, (w', s'))"
      by (metis prod.exhaust)
    then show ?thesis
      using own_request_ok [OF assms(2), of "fst v1" "snd v1"] step Own by simp
  next
    case (Other w w' s)
    then show ?thesis
      using entry_later step core_run.step_preserves [OF Other(3), of "cores_of (w_db w)"] by simp
  qed
qed

text \<open>C12: Whatever a browser does with its session, in any number of requests interleaved with those of
  other clients, with background passes and with changes of the host: when the session has a
  user, the table has an account with that identifier, that name and that role. A session's
  role is never higher than the stored one.\<close>

theorem session_user_stored:
  assumes "(visit_step S L)\<^sup>*\<^sup>* (w, Map.empty) (w', s')" and "uuid_text_law (sv_net S)"
    and "s' SESSION_USER_KEY = Some (Sv_User u)"
  shows "\<exists>r \<in> set (tb_users (w_db w')). parse_id (sv_net S) (uc_id r) = Inr (au_id u) \<and>
     uc_username r = au_username u \<and> role_from_str (uc_role r) = Inr (au_role u)"
proof -
  have "stored_user S (cores_of (w_db w')) u"
    using visit_ok [OF assms(1,2)] assms(3) by (simp add: user_entry_ok_def)
  then show ?thesis
    by (auto simp: stored_user_def user_core_def)
qed

theorem session_user_stored_witness:
  "\<exists>r \<in> set (tb_users (w_db (fst (snd (web_call sample_server ''10.0.0.9'' sample_login (sample_net_world, Map.empty)))))).
     uc_username r = ''root'' \<and> role_from_str (uc_role r) = Inr Admin"
proof -
  let ?v = "snd (web_call sample_server ''10.0.0.9'' sample_login (sample_net_world, Map.empty))"
  have "(visit_step sample_server sample_sched)\<^sup>*\<^sup>* (sample_net_world, Map.empty) (fst ?v, snd ?v)"
    unfolding prod.collapse by (rule r_into_rtranclp, rule Own)
  from session_user_stored [OF this _ sample_login_run] show ?thesis
    using sample_uuid_law by (auto simp: sv_net_def)
qed

subsection \<open>Witnesses\<close>

abbreviation sample_after_login :: "nat world" where
  "sample_after_login \<equiv> fst (snd (web_call sample_server ''10.0.0.9'' sample_login (sample_net_world, Map.empty)))"

lemma sample_run: "app_run sample_server sample_sched sample_net_world sample_after_login"
  by (rule r_into_rtranclp, rule Web)

theorem reachable_accounts_witness:
  "distinct (map uc_username (tb_users (w_db sample_after_login)))"
  using reachable_accounts [OF sample_run] sample_uuid_law sample_acct_ok
  by (simp add: sample_net_world_def)

theorem audit_append_only_witness:
  "prefix (tb_audit (w_db sample_net_world)) (tb_audit (w_db sample_after_login))"
  by (rule audit_append_only [OF sample_run])

theorem accounts_immutable_witness:
  "\<exists>new. map (\<lambda>r. (uc_id r, uc_username r, uc_password_hash r, uc_role r)) (tb_users (w_db sample_after_login)) =
     map (\<lambda>r. (uc_id r, uc_username r, uc_password_hash r, uc_role r)) (tb_users sample_db) @ new"
  using accounts_immutable [OF sample_run] by (simp add: sample_net_world_def)

end
