(* ===== verification/Settings_Properties.thy ===== *)
theory Settings_Properties
  imports Session_Runs "HOL-Library.Multiset"
begin

section \<open>Properties of the runtime settings\<close>

text \<open>
  The overlay of persisted overrides, field by field: which key sets which field, that the order of
  the overrides does not matter, and that what the settings form stores is what the server loads
  again.
\<close>

subsection \<open>Overrides field by field\<close>

lemma override_fields:
  "rs_locale_default (apply_override (k, raw) s) =
     (if k = ''locale_default'' then strip_quotes raw else rs_locale_default s)"
  "rs_totp_issuer (apply_override (k, raw) s) =
     (if k = ''totp_issuer'' then strip_quotes raw else rs_totp_issuer s)"
  "rs_login_max_attempts (apply_override (k, raw) s) =
     (if k = ''login_max_attempts'' then unwrap_or (rs_login_max_attempts s) (parse_u32 raw) else rs_login_max_attempts s)"
  "rs_login_lockout_secs (apply_override (k, raw) s) =
     (if k = ''login_lockout_secs'' then unwrap_or (rs_login_lockout_secs s) (parse_u64 raw) else rs_login_lockout_secs s)"
  "rs_session_timeout_hours (apply_override (k, raw) s) =
     (if k = ''session_timeout_hours'' then unwrap_or (rs_session_timeout_hours s) (parse_u32 raw) else rs_session_timeout_hours s)"
  "rs_endpoint (apply_override (k, raw) s) =
     (if k = ''endpoint'' then (if strip_quotes raw = [] then None else Some (strip_quotes raw)) else rs_endpoint s)"
  "rs_traffic_poller_interval_secs (apply_override (k, raw) s) =
     (if k = ''traffic_poller_interval_secs'' then unwrap_or (rs_traffic_poller_interval_secs s) (parse_u64 raw)
      else rs_traffic_poller_interval_secs s)"
  "rs_traffic_enabled (apply_override (k, raw) s) =
     (if k = ''traffic_enabled'' then unwrap_or (rs_traffic_enabled s) (parse_bool raw) else rs_traffic_enabled s)"
  "rs_backup_retention_days (apply_override (k, raw) s) =
     (if k = ''backup_retention_days'' then unwrap_or (rs_backup_retention_days s) (parse_u32 raw) else rs_backup_retention_days s)"
  "rs_log_level (apply_override (k, raw) s) =
     (if k = ''log_level'' then strip_quotes raw else rs_log_level s)"
  by (simp_all add: apply_override_def Let_def split: option.split)

text \<open>The value of one field after all overrides is decided by the override of its key alone.\<close>

definition sets_field :: "(runtime_settings \<Rightarrow> 'a) \<Rightarrow> string \<Rightarrow> (string \<Rightarrow> 'a \<Rightarrow> 'a) \<Rightarrow> bool" where
  "sets_field g key upd \<longleftrightarrow>
     (\<forall>k raw s. g (apply_override (k, raw) s) = (if k = key then upd raw (g s) else g s))"

lemma sets_fieldD: "sets_field g key upd \<Longrightarrow> g (apply_override kv s) = (if fst kv = key then upd (snd kv) (g s) else g s)"
  by (cases kv) (simp add: sets_field_def)

lemma field_after:
  assumes "sets_field g key upd" and "distinct (map fst kvs)"
  shows "g (apply_overrides kvs s) = (case map_of kvs key of None \<Rightarrow> g s | Some raw \<Rightarrow> upd raw (g s))"
proof -
  have other: "g (fold apply_override kvs s) = g s" if "key \<notin> fst ` set kvs" for kvs s
    using that by (induction kvs arbitrary: s) (auto simp: sets_fieldD [OF assms(1)])
  show ?thesis
    using assms(2) unfolding apply_overrides_def
  proof (induction kvs arbitrary: s)
    case (Cons kv kvs)
    show ?case
    proof (cases "fst kv = key")
      case True
      then show ?thesis
        using Cons.prems by (cases kv) (simp add: other sets_fieldD [OF assms(1)])
    next
      case False
      then show ?thesis
        using Cons by (cases kv) (simp add: sets_fieldD [OF assms(1)] split: option.split)
    qed
  qed simp
qed

lemma all_fields:
  "sets_field rs_locale_default ''locale_default'' (\<lambda>raw _. strip_quotes raw)"
  "sets_field rs_totp_issuer ''totp_issuer'' (\<lambda>raw _. strip_quotes raw)"
  "sets_field rs_login_max_attempts ''login_max_attempts'' (\<lambda>raw d. unwrap_or d (parse_u32 raw))"
  "sets_field rs_login_lockout_secs ''login_lockout_secs'' (\<lambda>raw d. unwrap_or d (parse_u64 raw))"
  "sets_field rs_session_timeout_hours ''session_timeout_hours'' (\<lambda>raw d. unwrap_or d (parse_u32 raw))"
  "sets_field rs_endpoint ''endpoint'' (\<lambda>raw _. if strip_quotes raw = [] then None else Some (strip_quotes raw))"
  "sets_field rs_traffic_poller_interval_secs ''traffic_poller_interval_secs'' (\<lambda>raw d. unwrap_or d (parse_u64 raw))"
  "sets_field rs_traffic_enabled ''traffic_enabled'' (\<lambda>raw d. unwrap_or d (parse_bool raw))"
  "sets_field rs_backup_retention_days ''backup_retention_days'' (\<lambda>raw d. unwrap_or d (parse_u32 raw))"
  "sets_field rs_log_level ''log_level'' (\<lambda>raw _. strip_quotes raw)"
  unfolding sets_field_def override_fields by simp_all

lemmas fields_after = all_fields [THEN field_after]

lemma same_overrides:
  assumes "distinct (map fst kvs)" and "distinct (map fst kvs')" and "map_of kvs = map_of kvs'"
  shows "apply_overrides kvs s = apply_overrides kvs' s"
  by (rule runtime_settings.equality) (simp_all add: fields_after assms)

text \<open>The order in which persisted overrides are applied does not matter (the source iterates over a
  hash map): two lists of overrides with the same entries and one entry per key give the same settings
  over every baseline, and each field is the baseline's unless its own key is overridden.\<close>

theorem overrides_order_irrelevant:
  assumes "distinct (map fst kvs)" and "mset kvs = mset kvs'"
  shows "apply_overrides kvs s = apply_overrides kvs' s"
proof -
  have keys: "mset (map fst kvs) = mset (map fst kvs')"
    using assms(2) by simp
  have "distinct (map fst kvs')"
    using assms(1) mset_eq_imp_distinct_iff [OF keys] by simp
  moreover have "map_of kvs = map_of kvs'"
    using assms(1) calculation mset_eq_setD [OF assms(2)] by (intro map_of_eqI) (auto simp: map_of_eq_Some_iff)
  ultimately show ?thesis
    by (rule same_overrides [OF assms(1)])
qed

theorem overrides_order_irrelevant_witness:
  "apply_overrides [(''log_level'', ''debug''), (''endpoint'', ''vpn'')] default_settings =
   apply_overrides [(''endpoint'', ''vpn''), (''log_level'', ''debug'')] default_settings"
  by (rule overrides_order_irrelevant) simp_all

subsection \<open>What the form stores is what the server loads\<close>

text \<open>JSON text: a number in decimal, \<open>true\<close> or \<open>false\<close>, and a string between quotes that is copied when
  it holds no character that must be escaped (a quote, a backslash, a control character).\<close>

definition plain_text :: "string \<Rightarrow> bool" where
  "plain_text s \<longleftrightarrow> (\<forall>c \<in> set s. c \<noteq> DQ \<and> c \<noteq> CHR 0x5C \<and> 32 \<le> code c)"

definition json_text_law :: "('os, 'j) server \<Rightarrow> bool" where
  "json_text_law S \<longleftrightarrow>
     (\<forall>n. js_show (app_json (sv_app S)) (jnat S n) = dec n) \<and>
     (\<forall>b. js_show (app_json (sv_app S)) (jbool S b) = (if b then ''true'' else ''false'')) \<and>
     (\<forall>s. plain_text s \<longrightarrow> js_show (app_json (sv_app S)) (jstr S s) = [DQ] @ s @ [DQ])"

text \<open>The settings a valid form describes.\<close>

definition settings_of_form :: "settings_form \<Rightarrow> runtime_settings" where
  "settings_of_form f = \<lparr>
     rs_locale_default = sg_locale_default f, rs_totp_issuer = trim (sg_totp_issuer f),
     rs_login_max_attempts = sg_login_max_attempts f, rs_login_lockout_secs = sg_login_lockout_secs f,
     rs_session_timeout_hours = sg_session_timeout_hours f,
     rs_endpoint = (if trim (sg_endpoint f) = [] then None else Some (trim (sg_endpoint f))),
     rs_traffic_poller_interval_secs = sg_traffic_poller_interval_secs f,
     rs_traffic_enabled = sg_traffic_enabled f,
     rs_backup_retention_days = sg_backup_retention_days f, rs_log_level = sg_log_level f\<rparr>"

lemma strip_quoted: "strip_quotes ([DQ] @ s @ [DQ]) = s"
proof -
  have "trim ([DQ] @ s @ [DQ]) = [DQ] @ s @ [DQ]"
    by (rule trim_id) (simp_all add: code_def)
  then show ?thesis
    by (simp add: strip_quotes_def Let_def)
qed

lemma parse_shown:
  "parse_u32 (dec (unat n)) = Some n" "parse_u64 (dec (unat m)) = Some m"
  "parse_bool (if b then ''true'' else ''false'') = Some b"
proof -
  have "unat n < 2 ^ 32"
    using unsigned_less [of n] by simp
  moreover have "unat m < 2 ^ 64"
    using unsigned_less [of m] by simp
  ultimately show "parse_u32 (dec (unat n)) = Some n" "parse_u64 (dec (unat m)) = Some m"
    by (simp_all add: parse_u32_def parse_u64_def parse_uint_dec)
  show "parse_bool (if b then ''true'' else ''false'') = Some b"
    by (simp add: parse_bool_def)
qed

text \<open>The texts of the ten entries.\<close>

definition raw_entries :: "('os, 'j) server \<Rightarrow> settings_form \<Rightarrow> (string \<times> string) list" where
  "raw_entries S f = map (\<lambda>(k, v). (k, js_show (app_json (sv_app S)) v)) (settings_entries S f)"

lemma plain_names:
  assumes "validate_settings f = None"
  shows "plain_text (sg_locale_default f)" "plain_text (sg_log_level f)"
  using assms
  by (auto simp: validate_settings_def LOCALES_def LOG_LEVELS_def plain_text_def code_def split: if_splits)

lemma loaded_entries:
  assumes law: "json_text_law S" and ok: "validate_settings f = None"
    and plain: "plain_text (trim (sg_totp_issuer f))" "plain_text (trim (sg_endpoint f))"
    and kvs: "distinct (map fst kvs)" "\<And>k v. (k, v) \<in> set (raw_entries S f) \<Longrightarrow> map_of kvs k = Some v"
  shows "apply_overrides kvs s = settings_of_form f"
proof -
  let ?J = "js_show (app_json (sv_app S))"
  have shown: "?J (jnat S n) = dec n" "?J (jbool S b) = (if b then ''true'' else ''false'')"
      "plain_text t \<Longrightarrow> ?J (jstr S t) = [DQ] @ t @ [DQ]" for n b t
    using law by (simp_all add: json_text_law_def)
  have empty: "plain_text []"
    by (simp add: plain_text_def)
  note entry = kvs(2) [unfolded raw_entries_def settings_entries_def]
  have at:
    "map_of kvs ''locale_default'' = Some ([DQ] @ sg_locale_default f @ [DQ])"
    "map_of kvs ''totp_issuer'' = Some ([DQ] @ trim (sg_totp_issuer f) @ [DQ])"
    "map_of kvs ''login_max_attempts'' = Some (dec (unat (sg_login_max_attempts f)))"
    "map_of kvs ''login_lockout_secs'' = Some (dec (unat (sg_login_lockout_secs f)))"
    "map_of kvs ''session_timeout_hours'' = Some (dec (unat (sg_session_timeout_hours f)))"
    "map_of kvs ''endpoint'' = Some ([DQ] @ trim (sg_endpoint f) @ [DQ])"
    "map_of kvs ''traffic_poller_interval_secs'' = Some (dec (unat (sg_traffic_poller_interval_secs f)))"
    "map_of kvs ''traffic_enabled'' = Some (if sg_traffic_enabled f then ''true'' else ''false'')"
    "map_of kvs ''backup_retention_days'' = Some (dec (unat (sg_backup_retention_days f)))"
    "map_of kvs ''log_level'' = Some ([DQ] @ sg_log_level f @ [DQ])"
    by (rule entry, simp add: shown [symmetric] plain plain_names [OF ok] empty del: append.simps)+
  show ?thesis
    by (rule runtime_settings.equality,
        simp_all only: fields_after [OF kvs(1)] at option.case strip_quoted parse_shown unwrap_or.simps
          settings_of_form_def runtime_settings.simps, simp)
qed

text \<open>The stored overrides after a save.\<close>

definition persisted :: "db \<Rightarrow> (string \<times> string) list" where
  "persisted d = map (\<lambda>r. (sc_key r, sc_value r)) (tb_settings d)"

abbreviation setting_kv :: "setting_row \<Rightarrow> string \<times> string" where
  "setting_kv \<equiv> \<lambda>r. (sc_key r, sc_value r)"

lemma rows_updated:
  fixes r :: setting_row
  defines "f \<equiv> \<lambda>q. q\<lparr>sc_value := sc_value r, sc_updated_by := sc_updated_by r, sc_updated_at := sc_updated_at r\<rparr>"
  shows "map sc_key (update_rows (\<lambda>q. sc_key q = sc_key r) f rows) = map sc_key rows"
    and "map_of (map setting_kv (update_rows (\<lambda>q. sc_key q = sc_key r) f rows)) k =
      (if k = sc_key r \<and> k \<in> sc_key ` set rows then Some (sc_value r) else map_of (map setting_kv rows) k)"
  by (induction rows) (auto simp: update_rows_def f_def)

lemma row_added:
  "sc_key r \<notin> sc_key ` set rows \<Longrightarrow> map_of (map setting_kv (rows @ [r])) k =
     (if k = sc_key r then Some (sc_value r) else map_of (map setting_kv rows) k)"
  by (induction rows) auto

lemma upsert_persisted:
  assumes "upsert_setting E r d = Inr (x, d')" and "distinct (map fst (persisted d))"
  shows "distinct (map fst (persisted d')) \<and> map_of (persisted d') = (map_of (persisted d))(sc_key r \<mapsto> sc_value r)"
proof -
  have keys: "map fst (persisted d) = map sc_key (tb_settings d)" for d
    by (simp add: persisted_def comp_def)
  show ?thesis
  proof (cases "sc_key r \<in> sc_key ` set (tb_settings d)")
    case True
    then have d': "tb_settings d' = update_rows (\<lambda>q. sc_key q = sc_key r)
        (\<lambda>q. q\<lparr>sc_value := sc_value r, sc_updated_by := sc_updated_by r, sc_updated_at := sc_updated_at r\<rparr>) (tb_settings d)"
      using assms(1) by (auto simp: upsert_setting_def constraint_failed_def split: if_splits)
    show ?thesis
      using assms(2) True unfolding keys d' rows_updated(1)
      by (simp add: fun_eq_iff persisted_def d' rows_updated(2))
  next
    case False
    then have d': "tb_settings d' = tb_settings d @ [r]"
      using assms(1) by (auto simp: upsert_setting_def constraint_failed_def split: if_splits)
    have "map_of (persisted d') = (map_of (persisted d))(sc_key r \<mapsto> sc_value r)"
      by (simp add: fun_eq_iff persisted_def d' row_added [OF False] del: map_append)
    moreover have "distinct (map fst (persisted d'))"
      using assms(2) False unfolding keys d' by simp
    ultimately show ?thesis by blast
  qed
qed

lemma settings_upsert_result:
  assumes "settings_upsert E k v who w = (Inr x, w')" and "distinct (map fst (persisted (w_db w)))"
  shows "distinct (map fst (persisted (w_db w')))"
    and "map_of (persisted (w_db w')) = (map_of (persisted (w_db w)))(k \<mapsto> v)"
proof -
  obtain now w1 r where now: "on_os (de_now E) w = (Inr now :: core_error + datetime, w1)"
    and ex: "db_exec E (upsert_setting E r) w1 = (Inr x, w')" and r: "sc_key r = k" "sc_value r = v"
    using assms(1) unfolding settings_upsert_def io_bind_ok_iff by (elim exE conjE) (rule that, assumption, assumption, simp_all)
  have "w_db w1 = w_db w"
    by (rule keepsD2 [OF on_os_keeps [OF os_blind_fields(1)] now])
  then have "upsert_setting E r (w_db w) = Inr (x, w_db w')"
    using db_exec_ok [OF ex] by simp
  from upsert_persisted [OF this assms(2)] r
  show "distinct (map fst (persisted (w_db w')))"
    and "map_of (persisted (w_db w')) = (map_of (persisted (w_db w)))(k \<mapsto> v)" by simp_all
qed

lemma hm_insert_map: "map_of (hm_insert k v m) = (map_of m)(k \<mapsto> v)"
proof -
  have "map_of (filter (\<lambda>kv. fst kv \<noteq> k) m) j = (if j = k then None else map_of m j)" for j
    by (induction m) auto
  then show ?thesis
    by (auto simp: hm_insert_def fun_eq_iff)
qed

lemma hm_insert_distinct: "distinct (map fst m) \<Longrightarrow> distinct (map fst (hm_insert k v m))"
  by (auto simp: hm_insert_def distinct_map_filter)

lemma upsert_all_result:
  assumes "upsert_all (sqlite_settings E) show_json who kvs ov w = (Inr ov', w')"
    and "distinct (map fst (persisted (w_db w)))" and "distinct (map fst ov)" and "distinct (map fst kvs)"
  shows "distinct (map fst (persisted (w_db w'))) \<and> distinct (map fst ov') \<and>
     map_of (persisted (w_db w')) = map_of (persisted (w_db w)) ++ map_of (map (\<lambda>(k, v). (k, show_json v)) kvs) \<and>
     map_of ov' = map_of ov ++ map_of (map (\<lambda>(k, v). (k, show_json v)) kvs)"
  using assms
proof (induction kvs arbitrary: ov w)
  case (Cons kv kvs)
  obtain k v where kv: "kv = (k, v)" by (rule prod.exhaust)
  obtain u w1 where up: "settings_upsert E k (show_json v) who w = (Inr u, w1)"
    and rest: "upsert_all (sqlite_settings E) show_json who kvs (hm_insert k (show_json v) ov) w1 = (Inr ov', w')"
    using Cons.prems(1) by (auto simp: kv Let_def io_bind_ok_iff sqlite_settings_def)
  note one = settings_upsert_result [OF up Cons.prems(2)]
  have fresh: "k \<notin> dom (map_of (map (\<lambda>(k, v). (k, show_json v)) kvs))"
    using Cons.prems(4) by (auto simp: kv dom_map_of_conv_image_fst image_image split_beta)
  have shift: "(M(k \<mapsto> x)) ++ N = M ++ (N(k \<mapsto> x))" if "k \<notin> dom N" for M N :: "string \<rightharpoonup> string" and x
    using that by (auto simp: fun_eq_iff map_add_def dom_def split: option.split)
  have step: "map_of (map (\<lambda>(k, v). (k, show_json v)) (kv # kvs)) =
      (map_of (map (\<lambda>(k, v). (k, show_json v)) kvs))(k \<mapsto> show_json v)"
    by (simp add: kv)
  have "distinct (map fst kvs)"
    using Cons.prems(4) by simp
  from Cons.IH [OF rest one(1) hm_insert_distinct [OF Cons.prems(3)] this]
  show ?case
    unfolding step one(2) hm_insert_map shift [OF fresh] .
qed simp

lemma settings_keys: "distinct (map fst (settings_entries S f))"
  by (simp add: settings_entries_def)

text \<open>What comes after the save leaves the settings alone.\<close>

abbreviation settings_view :: "'os visit \<Rightarrow> setting_row list \<times> runtime_settings" where
  "settings_view \<equiv> \<lambda>v. (tb_settings (w_db (fst v)), w_settings (fst v))"

lemma keeps_view_world:
  assumes "keeps (\<lambda>w. (tb_settings (w_db w), w_settings w)) m"
  shows "keeps settings_view (in_world m)"
  using keepsD2 [OF assms] by (auto simp: keeps_def in_world_def split: prod.split)

lemma after_save:
  "keeps settings_view (in_world (on_os_res g))" "keeps settings_view (web_audit S who ip action rt rid meta)"
  "keeps settings_view (set_flash S fl)"
proof -
  have exec: "keeps (\<lambda>w. (tb_settings (w_db w), w_settings w)) (db_exec E (insert_audit E r))" for E r
  proof -
    have "keeps (\<lambda>w. tb_settings (w_db w)) (db_exec E (insert_audit E r))"
      by (rule db_exec_keeps_part) (auto simp: insert_audit_def constraint_failed_def split: if_splits)
    moreover have "keeps w_settings (db_exec E (insert_audit E r))"
      by (rule db_exec_keeps)
    ultimately show ?thesis by (simp add: keeps_def)
  qed
  have blind: "os_blind (\<lambda>w. (tb_settings (w_db w), w_settings w))"
    by (simp add: os_blind_def)
  show "keeps settings_view (in_world (on_os_res g))"
    by (intro keeps_view_world keeps_intros blind)
  show "keeps settings_view (web_audit S who ip action rt rid meta)"
    unfolding web_audit_def sqlite_audit_def audit_repo.simps audit_record_def
    by (intro keeps_intros keeps_view_world exec blind)
  show "keeps settings_view (set_flash S fl)"
    unfolding set_flash_def session_insert_def session_guard_def
    by (intro keeps_intros keeps_view_world blind) (simp add: keeps_def)
qed

lemma save_steps:
  assumes "web_settings_save S u f (w, s) = (Inr (Redirect_To r), (w', s'))"
  shows "validate_settings f = None" and "\<exists>w1. settings_set_many (sqlite_settings (sv_repos S)) world_settings_cell
      (js_show (app_json (sv_app S))) (settings_entries S f) (Some (au_id u)) w = (Inr (), w1) \<and>
      settings_view (w', s') = settings_view (w1, s)"
proof -
  show ok: "validate_settings f = None"
    using assms by (auto simp: web_settings_save_def split: if_splits option.splits)
  let ?set = "settings_set_many (sqlite_settings (sv_repos S)) world_settings_cell
      (js_show (app_json (sv_app S))) (settings_entries S f) (Some (au_id u))"
  let ?rest = "io_ignore (in_world (on_os_res (wb_log_reload (sv_web S) (sg_log_level f))))
          (io_bind (web_audit S (Some (au_id u)) None Settings_Updated (Some ''settings'') None
            (Some (jobj S [(''login_max_attempts'', jnat S (unat (sg_login_max_attempts f))),
                           (''traffic_enabled'', jbool S (sg_traffic_enabled f)),
                           (''log_level'', jstr S (sg_log_level f)),
                           (''locale_default'', jstr S (sg_locale_default f))]))) (\<lambda>_.
           io_bind (set_flash S (flash_success (''Settings saved '' @ EM_DASH @ '' changes apply immediately.''))) (\<lambda>_.
           io_ret (Redirect_To ''/settings''))))"
  have "io_bind (web_core ?set) (\<lambda>_. ?rest) (w, s) = (Inr (Redirect_To r), (w', s'))"
    using assms ok by (auto simp: web_settings_save_def split: if_splits)
  then obtain x v1 where set: "web_core ?set (w, s) = (Inr x, v1)"
    and rest: "?rest v1 = (Inr (Redirect_To r) :: web_error + web_reply, (w', s'))"
    by (rule io_bind_okE)
  have "keeps settings_view ?rest"
    by (intro keeps_intros after_save)
  from keepsD2 [OF this rest] set
  show "\<exists>w1. ?set w = (Inr (), w1) \<and> settings_view (w', s') = settings_view (w1, s)"
    by (auto simp: in_world_def io_map_err_def split: prod.splits sum.splits)
qed


definition sample_settings_form :: settings_form where
  "sample_settings_form = \<lparr>sg_locale_default = ''tr'', sg_totp_issuer = '' Forge '', sg_login_max_attempts = 3,
     sg_login_lockout_secs = 600, sg_session_timeout_hours = 8, sg_endpoint = ''vpn.example.org'',
     sg_traffic_poller_interval_secs = 60, sg_traffic_enabled = False, sg_backup_retention_days = 7,
     sg_log_level = ''debug''\<rparr>"

abbreviation sample_admin :: auth_user where
  "sample_admin \<equiv> \<lparr>au_id = Ident 7, au_username = ''root'', au_role = Admin\<rparr>"

lemma upsert_quiet:
  assumes "db_quiet E" and "show_id (de_net E) who \<in> uc_id ` set (tb_users (w_db w))"
  shows "\<exists>w'. settings_upsert E k v (Some who) w = (Inr (), w') \<and> tb_users (w_db w') = tb_users (w_db w)"
  using assms(2)
  by (auto simp: settings_upsert_def io_bind_def on_os_def db_exec_quiet [OF assms(1)] upsert_setting_def
      split: prod.split)

lemma upsert_all_quiet:
  assumes "db_quiet E" and "show_id (de_net E) who \<in> uc_id ` set (tb_users (w_db w))"
  shows "\<exists>ov' w'. upsert_all (sqlite_settings E) show_json (Some who) kvs ov w = (Inr ov', w')"
  using assms(2)
proof (induction kvs arbitrary: ov w)
  case (Cons kv kvs)
  obtain k v where kv: "kv = (k, v)" by (rule prod.exhaust)
  obtain w1 where "settings_upsert E k (show_json v) (Some who) w = (Inr (), w1)" "tb_users (w_db w1) = tb_users (w_db w)"
    using upsert_quiet [OF assms(1) Cons.prems] by blast
  then show ?case
    using Cons.IH [of w1] Cons.prems by (simp add: kv sqlite_settings_def Let_def)
qed simp

lemma sample_save:
  "\<exists>v. web_settings_save sample_server sample_admin sample_settings_form (sample_net_world, Map.empty) =
     (Inr (Redirect_To ''/settings''), v)"
proof -
  have valid: "validate_settings sample_settings_form = None"
    by code_simp
  have "show_id (de_net sample_env) (Ident 7) \<in> uc_id ` set (tb_users (w_db sample_net_world))"
    by (simp add: sample_net_world_def sample_db_def sample_user_row_def show_id_def sample_net_def)
  from upsert_all_quiet [OF sample_quiet this]
  obtain ov w1 where all: "upsert_all (sqlite_settings sample_env) (js_show (app_json sample_app)) (Some (Ident 7))
      (settings_entries sample_server sample_settings_form) [] sample_net_world = (Inr ov, w1)"
    by blast
  show ?thesis
    using all valid
    by (simp add: web_settings_save_def can_manage_settings_def settings_set_many_def io_bind_def cell_apply_def
        in_world_def io_map_err_def web_audit_def set_flash_def)
qed

lemma sample_json_text: "json_text_law sample_server"
  by (simp add: json_text_law_def jnat_def jbool_def jstr_def sample_web_lib_def sample_json_make_def
      sample_app_def)


end
