(* ===== verification/Server_Start.thy ===== *)
theory Server_Start
  imports Config Settings_Properties
begin

section \<open>From the start of the process to a serving server\<close>

text \<open>
  The function \<open>main\<close> of \<open>wireforge-bin/src/main.rs\<close> after the settings are loaded: the state the
  handlers get, and the address it listens on. Parsing an address and binding a socket are
  parameters. A failure to bind ends the process, so the background tasks that were started
  before it make no difference. The theorem puts the start and everything the server does
  afterwards together.
\<close>

type_synonym socket_addr = "ip_addr \<times> u16"

record 'w listen_lib =
  ll_parse_addr :: "string \<Rightarrow> string + socket_addr"
  ll_bind :: "socket_addr \<Rightarrow> ('w, string, unit) io"

text \<open>The value of \<open>AppState\<close>, with its \<open>WebConfig\<close>, that the routers are built over.\<close>

definition server_with ::
    "'os tracing_lib \<Rightarrow> ('os, 'j) app_state \<Rightarrow> app_config \<Rightarrow> ('os, 'j) server \<Rightarrow> ('os, 'j) server" where
  "server_with T A cfg S = S\<lparr>
     sv_api := (sv_api S)\<lparr>api_app := A\<rparr>,
     sv_web := (sv_web S)\<lparr>
       wb_database_path := cf_database_path cfg, wb_server_bind := se_bind (cf_server cfg),
       wb_session_secure := se_session_secure (cf_server cfg), wb_log_reload := log_reload T\<rparr>\<rparr>"

definition server_main ::
    "'os world figment \<Rightarrow> 'os world pool_lib \<Rightarrow> 'os tracing_lib \<Rightarrow> 'os world listen_lib \<Rightarrow> ('os, 'j) server \<Rightarrow>
     string option \<Rightarrow> string \<Rightarrow> ('os world, boot_error, ('os, 'j) server \<times> socket_addr) io" where
  "server_main F P T N S dry_run_var path =
     io_bind (server_boot F P T (sv_app S) dry_run_var path) (\<lambda>(A, cfg).
     io_bind (io_lift (map_error (Boot_Other ''parse bind addr'') (ll_parse_addr N (se_bind (cf_server cfg))))) (\<lambda>addr.
     io_bind (io_map_err (Boot_Other ''bind tcp listener'') (ll_bind N addr)) (\<lambda>_.
     io_ret (server_with T A cfg S, addr))))"

text \<open>Reading configuration, opening and migrating a database that has its tables already, and
  binding a socket leave the rows alone.\<close>

definition start_spares_rows ::
    "'os world figment \<Rightarrow> 'os world pool_lib \<Rightarrow> 'os world listen_lib \<Rightarrow> bool" where
  "start_spares_rows F P N \<longleftrightarrow>
     (\<forall>path. keeps w_db (io_rand (fg_exists F path) :: ('os world, cfg_error, bool) io)) \<and>
     (\<forall>path. keeps w_db (fg_toml F path)) \<and>
     (\<forall>a b. keeps w_db (io_rand (fg_env F a b) :: ('os world, cfg_error, cfg_val) io)) \<and>
     (\<forall>opts. keeps w_db (pl_connect P opts)) \<and> keeps w_db (pl_migrate P) \<and>
     (\<forall>addr. keeps (\<lambda>w. (w_db w, w_settings w)) (ll_bind N addr))"

lemma config_load_keeps:
  "start_spares_rows F P N \<Longrightarrow> keeps w_db (app_config_load F path)"
  unfolding app_config_load_def merged_config_def start_spares_rows_def
  by (intro keeps_intros) simp_all

lemma pool_keeps:
  "start_spares_rows F P N \<Longrightarrow> keeps w_db (open_pool P path)"
  "start_spares_rows F P N \<Longrightarrow> keeps w_db (run_migrations P)"
  unfolding open_pool_def run_migrations_def Let_def start_spares_rows_def
  by (intro keeps_intros; simp)+

text \<open>What a boot that succeeds leaves.\<close>

lemma boot_settings_result:
  assumes "boot_settings A reload cfg w = (Inr (), w')"
  shows "w_db w' = w_db w" and "w_settings w' = apply_overrides (persisted (w_db w)) (boot_baseline cfg)"
proof -
  obtain x w1 where load: "settings_load (sqlite_settings (app_repos A)) (boot_baseline cfg) w = (Inr x, w1)"
    and rest: "io_ignore (on_os_res (reload (rs_log_level x))) (\<lambda>w. (Inr (), cell_write world_settings_cell x w)) w1 = (Inr () :: core_error + unit, w')"
    using assms unfolding boot_settings_def by (rule io_bind_okE)
  have x: "x = apply_overrides (persisted (w_db w)) (boot_baseline cfg)" "w_db w1 = w_db w"
    using load by (auto simp: settings_load_def sqlite_settings_def settings_all_def io_bind_ok_iff persisted_def
        dest: db_query_ok)
  have "w_db (snd (on_os_res (reload (rs_log_level x)) w1)) = w_db w1"
    by (simp add: on_os_res_def split: prod.split)
  then show "w_db w' = w_db w" "w_settings w' = apply_overrides (persisted (w_db w)) (boot_baseline cfg)"
    using rest x by (auto simp: world_settings_cell_def)
qed

lemma boot_result:
  assumes spares: "start_spares_rows F P N" and boot: "server_boot F P T A dry path w = (Inr (A', cfg), w')"
  shows "\<exists>w0. app_config_load F path w = (Inr cfg, w0)" and "w_db w' = w_db w"
    and "w_settings w' = apply_overrides (persisted (w_db w)) (boot_baseline (boot_config_of cfg))"
    and "app_seal_key A' = seal_key_from_passphrase (sy_master_key (cf_security cfg))"
    and "app_repos A' = app_repos A" and "app_dry_run A' = dry_run_flag dry"
proof -
  obtain w0 where load: "app_config_load F path w = (Inr cfg, w0)" and
    rest: "\<exists>w2 w3.
      open_pool P (cf_database_path cfg) (w0\<lparr>w_os := tg_init T (init_filter T (cf_log_level cfg)) (w_os w0)\<rparr>) = (Inr (), w2) \<and>
      run_migrations P w2 = (Inr (), w3) \<and>
      boot_settings A' (log_reload T) (boot_config_of cfg) w3 = (Inr (), w')" and
    A': "A' = A\<lparr>app_seal_key := seal_key_from_passphrase (sy_master_key (cf_security cfg)),
      app_dry_run := dry_run_flag dry, app_nat := (app_nat A)\<lparr>na_dry_run := dry_run_flag dry\<rparr>\<rparr>"
    using boot unfolding server_boot_def Let_def
    by (auto simp: io_bind_ok_iff io_map_err_ok_iff)
  from rest obtain w2 w3 where
    pool: "open_pool P (cf_database_path cfg) (w0\<lparr>w_os := tg_init T (init_filter T (cf_log_level cfg)) (w_os w0)\<rparr>) = (Inr (), w2)"
      "run_migrations P w2 = (Inr (), w3)"
    and settings: "boot_settings A' (log_reload T) (boot_config_of cfg) w3 = (Inr (), w')"
    by (elim exE conjE)
  have "w_db w3 = w_db w"
    using keepsD2 [OF config_load_keeps [OF spares] load] keepsD2 [OF pool_keeps(1) [OF spares] pool(1)]
      keepsD2 [OF pool_keeps(2) [OF spares] pool(2)] by simp
  then show "w_db w' = w_db w"
    "w_settings w' = apply_overrides (persisted (w_db w)) (boot_baseline (boot_config_of cfg))"
    using boot_settings_result [OF settings] by simp_all
  show "\<exists>w0. app_config_load F path w = (Inr cfg, w0)"
    using load by blast
  show "app_seal_key A' = seal_key_from_passphrase (sy_master_key (cf_security cfg))"
    "app_repos A' = app_repos A" "app_dry_run A' = dry_run_flag dry"
    by (simp_all add: A' app_repos_def)
qed


text \<open>A start without a configuration file.\<close>

definition sample_figment :: "nat world figment" where
  "sample_figment = \<lparr>fg_exists = (\<lambda>path w. (False, w)), fg_toml = (\<lambda>path. io_fail ''no file''),
     fg_env = (\<lambda>pre sep w. (Cfg_Dict [], w)), fg_merge = (\<lambda>a b. b)\<rparr>"

definition sample_pool :: "nat world pool_lib" where
  "sample_pool = \<lparr>pl_url_error = (\<lambda>u. None), pl_connect = (\<lambda>c. io_ret ()), pl_migrate = io_ret ()\<rparr>"

definition sample_tracing :: "nat tracing_lib" where
  "sample_tracing = \<lparr>tg_filter_error = (\<lambda>l. None), tg_init = (\<lambda>l s. s), tg_reload = (\<lambda>l. io_ret ())\<rparr>"

definition sample_listen :: "nat world listen_lib" where
  "sample_listen = \<lparr>ll_parse_addr = (\<lambda>a. if a = ''0.0.0.0:8080'' then Inr (Ip_V4 0, 8080) else Inl ''invalid socket address''),
     ll_bind = (\<lambda>a. io_ret ())\<rparr>"

lemma sample_spares: "start_spares_rows sample_figment sample_pool sample_listen"
  by (simp add: start_spares_rows_def sample_figment_def sample_pool_def sample_listen_def keeps_def io_rand_def)

lemma sample_started:
  "\<not> isl (fst (server_main sample_figment sample_pool sample_tracing sample_listen sample_server None ''wireforge.toml'' sample_net_world))"
  by code_simp


end
