(* ===== verification/Web_Streams.thy ===== *)
theory Web_Streams
  imports Web_System
begin

section \<open>Event streams and translation\<close>

text \<open>
  The server-sent events of \<open>routes/system.rs\<close> and \<open>routes/dashboard.rs\<close> and the translation of
  \<open>i18n.rs\<close>. A stream sleeps and then sends one event, for ever; what is modelled is the event of
  one tick. The crate \<open>fluent\<close> is a parameter: it parses the two message files, which are read at
  build time, and formats a message.
\<close>

datatype sse_event = Sse_Data string | Sse_Comment string

record ('os, 'j) stream_lib =
  st_json_system :: "sys_interface list \<Rightarrow> string option"
  st_json_traffic :: "traffic_page \<Rightarrow> string option"

definition json_event :: "string option \<Rightarrow> sse_event" where
  "json_event r = (case r of Some json \<Rightarrow> Sse_Data json | None \<Rightarrow> Sse_Comment ''serialize error'')"

definition system_event ::
    "('os, 'j) stream_lib \<Rightarrow> ('os, 'j) server \<Rightarrow> ('os visit, 'e, sse_event) io" where
  "system_event L S = io_bind (sys_snapshot S) (\<lambda>xs. io_ret (json_event (st_json_system L xs)))"

definition traffic_event ::
    "('os, 'j) stream_lib \<Rightarrow> ('os, 'j) server \<Rightarrow> ('os visit, 'e, sse_event) io" where
  "traffic_event L S = io_try (build_traffic_snapshot S) (\<lambda>r. io_ret (case r of
     Inl _ \<Rightarrow> Sse_Comment ''snapshot error''
   | Inr snap \<Rightarrow> json_event (st_json_traffic L snap)))"

text \<open>Who may open a stream: the extractor refuses a session without a user.\<close>

definition open_stream :: "('os, 'j) server \<Rightarrow> ('os visit, web_error, unit) io" where
  "open_stream S = io_bind (current_user S) (\<lambda>_. io_ret ())"

subsection \<open>Translation\<close>

record 'a fluent_lib =
  fu_en_source :: string
  fu_tr_source :: string
  fu_parses :: "string \<Rightarrow> bool"
  fu_langid_ok :: "string \<Rightarrow> bool"
  fu_format :: "string \<Rightarrow> string \<Rightarrow> string \<Rightarrow> 'a option \<Rightarrow> string option"

definition source_for :: "'a fluent_lib \<Rightarrow> string \<Rightarrow> string" where
  "source_for F locale = (if locale = ''tr'' then fu_tr_source F else fu_en_source F)"

text \<open>A bundle is its language and its source; a source that does not parse panics (\<open>None\<close>).\<close>

definition build_bundle :: "'a fluent_lib \<Rightarrow> string \<Rightarrow> (string \<times> string) option" where
  "build_bundle F locale =
     (let lang = (if fu_langid_ok F locale then locale else ''en''); src = source_for F locale
      in if fu_parses F src then Some (lang, src) else None)"

definition t_args :: "'a fluent_lib \<Rightarrow> string \<Rightarrow> string \<Rightarrow> 'a option \<Rightarrow> string option" where
  "t_args F given key args =
     (let locale = (if given \<in> set SUPPORTED_LOCALES then given else DEFAULT_LOCALE)
      in case build_bundle F locale of
           None \<Rightarrow> None
         | Some (lang, src) \<Rightarrow> (case fu_format F lang src key args of
             Some out \<Rightarrow> Some out
           | None \<Rightarrow>
               if locale \<noteq> DEFAULT_LOCALE then
                 (case build_bundle F DEFAULT_LOCALE of
                    None \<Rightarrow> None
                  | Some (l, s) \<Rightarrow> (case fu_format F l s key args of
                      Some out \<Rightarrow> Some out | None \<Rightarrow> Some key))
               else Some key))"

definition t_key :: "'a fluent_lib \<Rightarrow> string \<Rightarrow> string \<Rightarrow> string option" where
  "t_key F locale key = t_args F locale key None"

end
