(* ===== verification/Text_Properties.thy ===== *)
theory Text_Properties
  imports Web_Streams Sample Complex_Main "HOL-Library.While_Combinator"
begin

section \<open>What the texts the program writes mean\<close>

text \<open>
  A reader of \<open>wg-quick\<close> files gets back from a rendered client configuration exactly the
  fields it was rendered from, when no text in it has a line end; a peer name that has one adds
  lines of its own. The sizes on the dashboard are in the right unit and rounded to a tenth, and the
  loop that chooses the unit ends, a
  file name offered for download cannot leave its header, and the negotiated locale is the first
  supported one of the header. The reader of configuration files and the other specifications
  of this theory are written here; nothing of the program corresponds to them.
\<close>

subsection \<open>Lines\<close>

definition one_line :: "string \<Rightarrow> bool" where
  "one_line s \<longleftrightarrow> NL \<notin> set s \<and> CHR 0x0D \<notin> set s"

lemma one_line_simps [simp]:
  "one_line []" "one_line (a @ b) \<longleftrightarrow> one_line a \<and> one_line b"
  "one_line (c # s) \<longleftrightarrow> c \<noteq> NL \<and> c \<noteq> CHR 0x0D \<and> one_line s"
  by (auto simp: one_line_def)

lemma one_line_dec [simp]: "one_line (dec n)"
  using dec_digits [of n] by (auto simp: one_line_def list_all_iff is_digit_def code_def)

lemma one_line_replicate [simp]: "one_line (replicate n c) \<longleftrightarrow> n = 0 \<or> c \<noteq> NL \<and> c \<noteq> CHR 0x0D"
  by (auto simp: one_line_def)

lemma one_line_join: "one_line sep \<Longrightarrow> \<forall>x\<in>set xs. one_line x \<Longrightarrow> one_line (join sep xs)"
  by (induction sep xs rule: join.induct) auto

lemma strip_cr_one_line: "one_line l \<Longrightarrow> strip_cr l = l"
  by (auto simp: strip_cr_def one_line_def dest: last_in_set)

lemma split_on_append: "split_on d (l @ d # s) = butlast (split_on d l) @ last (split_on d l) # split_on d s"
  by (induction l) (auto split: list.split)

lemma split_on_line: "d \<notin> set l \<Longrightarrow> split_on d (l @ d # s) = l # split_on d s"
  by (induction l) auto

lemma split_on_single: "d \<notin> set l \<Longrightarrow> split_on d l = [l]"
  by (induction l) auto

lemma split_on_unlines: "\<forall>l\<in>set ls. one_line l \<Longrightarrow> split_on NL (unlines ls) = ls @ [[]]"
  by (induction ls) (auto simp: unlines_def one_line_def split_on_line)

lemma lines_of_unlines: "\<forall>l\<in>set ls. one_line l \<Longrightarrow> lines_of (unlines ls) = ls"
  by (simp add: lines_of_def split_on_unlines strip_cr_one_line cong: map_cong)

subsection \<open>A reader of configuration files\<close>

text \<open>The assignment on a line: the key stands before the first \<open>=\<close> between blanks.\<close>

fun split_assign :: "string \<Rightarrow> (string \<times> string) option" where
  "split_assign [] = None"
| "split_assign (c # s) =
     (if starts_with '' = '' (c # s) then Some ([], drop 2 s)
      else map_option (\<lambda>(k, v). (c # k, v)) (split_assign s))"

fun parse_lines :: "string \<Rightarrow> string list \<Rightarrow> (string \<times> string \<times> string) list" where
  "parse_lines sec [] = []"
| "parse_lines sec (l # ls) =
     (if l = [] \<or> hd l = CHR ''#'' then parse_lines sec ls
      else if hd l = CHR ''['' then parse_lines l ls
      else case split_assign l of
        None \<Rightarrow> parse_lines sec ls
      | Some (k, v) \<Rightarrow> (sec, k, v) # parse_lines sec ls)"

definition read_conf :: "string \<Rightarrow> (string \<times> string \<times> string) list" where
  "read_conf text = parse_lines [] (lines_of text)"

lemma parse_lines_opt [simp]:
  "parse_lines sec (opt_line f v @ ls) =
     (case v of None \<Rightarrow> parse_lines sec ls | Some x \<Rightarrow> parse_lines sec (f x # ls))"
  by (simp add: opt_line_def split: option.split)

text \<open>The entries a configuration is meant to have.\<close>

definition conf_entries :: "net_lib \<Rightarrow> iface \<Rightarrow> peer \<Rightarrow> string \<Rightarrow> string \<Rightarrow> (string \<times> string \<times> string) list" where
  "conf_entries L i p server_endpoint private_key =
     map (Pair ''[Interface]'')
       ([(''PrivateKey'', private_key), (''Address'', join '', '' (map (nl_show_net L) (p_allowed_ips p)))] @
        (if conf_dns i p = [] then [] else [(''DNS'', join '', '' (conf_dns i p))]) @
        (case i_mtu i of None \<Rightarrow> [] | Some m \<Rightarrow> [(''MTU'', dec (unat m))])) @
     map (Pair ''[Peer]'')
       ([(''PublicKey'', public_str (i_public_key i)), (''AllowedIPs'', client_allowed_ips L i p),
         (''Endpoint'', conf_endpoint server_endpoint i)] @
        (case p_keepalive p of None \<Rightarrow> [] | Some k \<Rightarrow> [(''PersistentKeepalive'', dec (unat k))]))"

lemma parse_conf_lines:
  "parse_lines sec (conf_lines L i p server_endpoint private_key) =
     conf_entries L i p server_endpoint private_key"
  by (simp add: conf_lines_def conf_entries_def opt_line_def split: option.split)

definition texts_one_line :: "net_lib \<Rightarrow> iface \<Rightarrow> peer \<Rightarrow> bool" where
  "texts_one_line L i p \<longleftrightarrow>
     one_line (p_name p) \<and> one_line (i_name i) \<and> one_line (public_str (i_public_key i)) \<and>
     (\<forall>n. one_line (nl_show_net L n)) \<and> list_all one_line (conf_dns i p)"

lemma conf_lines_one_line:
  assumes "texts_one_line L i p" and "one_line server_endpoint" and "one_line private_key"
  shows "\<forall>l\<in>set (conf_lines L i p server_endpoint private_key). one_line l"
proof -
  have "one_line (client_allowed_ips L i p)"
    unfolding client_allowed_ips_def Let_def FULL_TUNNEL_def
    using assms(1) by (auto simp: texts_one_line_def intro!: one_line_join split: option.splits)
  then show ?thesis
    using assms
    by (auto simp: conf_lines_def texts_one_line_def opt_line_def conf_endpoint_def list_all_iff
        intro!: one_line_join split: option.splits)
qed


abbreviation sample_conf_peer :: peer where
  "sample_conf_peer \<equiv> (sample_peer 2 [Net_V4 3 32])\<lparr>p_private_key_sealed := Some (bytes_of ''key'')\<rparr>"

lemma sample_show_net_one_line: "one_line (nl_show_net sample_net n)"
  by (cases n) (simp_all add: sample_net_def sample_show_net_def one_line_def)


text \<open>A line end in the name of a peer is written as it is: every line inside the name becomes
  a line of the client configuration, so a name can add settings to the file.\<close>

theorem peer_name_injects_lines:
  assumes "render_peer_conf C L utf8_error i p server_endpoint k = Inr conf"
    and "p_name p = a @ [NL] @ l @ [NL] @ b" and "one_line l"
  shows "l \<in> set (lines_of conf)"
proof -
  obtain private_key where "conf = unlines (conf_lines L i p server_endpoint private_key)"
    using assms(1) by (auto simp: render_peer_conf_def res_bind_ok_iff)
  then have "conf = (''[Interface]'' @ NL # ''# '' @ a) @ NL # l @ NL #
      (b @ '' ('' @ i_name i @ '')'' @ NL # unlines (drop 2 (conf_lines L i p server_endpoint private_key)))"
    by (simp add: conf_lines_def unlines_def assms(2))
  then obtain x y where conf: "conf = x @ NL # l @ NL # y" ..
  have "split_on NL conf = butlast (split_on NL x) @ last (split_on NL x) # l # split_on NL y"
    using assms(3) unfolding conf by (simp add: split_on_append split_on_single one_line_def)
  then have "l \<in> set (butlast (split_on NL conf))"
    by (simp add: butlast_append)
  then show ?thesis
    using strip_cr_one_line [OF assms(3)] by (force simp: lines_of_def Let_def)
qed

theorem peer_name_injects_lines_witness:
  "\<exists>conf. render_peer_conf sample_crypto sample_net (\<lambda>_. []) sample_iface
       (sample_conf_peer\<lparr>p_name := ''a'' @ [NL] @ ''PostUp = id'' @ [NL] @ ''b''\<rparr>)
       ''vpn.example.org'' (Seal_Key ''master'') = Inr conf \<and> ''PostUp = id'' \<in> set (lines_of conf)"
proof -
  let ?p = "sample_conf_peer\<lparr>p_name := ''a'' @ [NL] @ ''PostUp = id'' @ [NL] @ ''b''\<rparr>"
  have "conf_private_key sample_crypto (Seal_Key ''master'') (\<lambda>_. []) ?p = Inr ''key''"
    by code_simp
  then obtain conf where run: "render_peer_conf sample_crypto sample_net (\<lambda>_. []) sample_iface ?p
      ''vpn.example.org'' (Seal_Key ''master'') = Inr conf"
    by (simp add: render_peer_conf_def)
  then show ?thesis
    using peer_name_injects_lines [OF run, of "''a''" "''PostUp = id''" "''b''"] by simp
qed

subsection \<open>Sizes\<close>

lemma round_div_error:
  assumes "0 < d"
  shows "2 * \<bar>int n - int (round_div n d) * int d\<bar> \<le> int d"
proof -
  have "int n = int (n div d) * int d + int (n mod d)" "n mod d < d"
    using assms by (simp_all flip: of_nat_mult of_nat_add)
  then show ?thesis
    by (auto simp: round_div_def Let_def algebra_simps)
qed

lemma unit_index_spec:
  "idx \<le> 5 \<Longrightarrow> idx \<le> unit_index v idx \<and> unit_index v idx \<le> 5 \<and>
     (idx < unit_index v idx \<longrightarrow> 1024 ^ unit_index v idx \<le> v) \<and>
     (unit_index v idx < 5 \<longrightarrow> v < 1024 ^ Suc (unit_index v idx))"
proof (induction v idx rule: unit_index.induct)
  case (1 v idx)
  show ?case
  proof (cases "v \<ge> 1024 * 1024 ^ idx \<and> idx < length UNITS - 1")
    case True
    moreover have "Suc idx \<le> 5"
      using True by (simp add: UNITS_def)
    ultimately have "Suc idx \<le> unit_index v (Suc idx) \<and> unit_index v (Suc idx) \<le> 5 \<and>
        (Suc idx < unit_index v (Suc idx) \<longrightarrow> 1024 ^ unit_index v (Suc idx) \<le> v) \<and>
        (unit_index v (Suc idx) < 5 \<longrightarrow> v < 1024 ^ Suc (unit_index v (Suc idx)))"
      using 1 by simp
    moreover have "unit_index v idx = unit_index v (Suc idx)"
      using True by (subst unit_index.simps) simp
    ultimately show ?thesis
      using True by (cases "unit_index v (Suc idx) = Suc idx") auto
  next
    case False
    then show ?thesis
      using 1(2) by (subst (1 2 3 4 5 6) unit_index.simps) (auto simp: UNITS_def)
  qed
qed

text \<open>The loop of \<open>human_bytes\<close> as it is written, over the exact values of its variable: a division by
  1024 only changes the exponent of a floating-point number, so it does not round.\<close>

definition unit_loop :: "rat \<Rightarrow> (rat \<times> nat) option" where
  "unit_loop n = while_option
     (\<lambda>(v, idx). v \<ge> 1024 \<and> idx < length UNITS - 1) (\<lambda>(v, idx). (v / 1024, idx + 1)) (n, 0)"

lemma unit_loop_from:
  "while_option (\<lambda>(v, idx). v \<ge> 1024 \<and> idx < length UNITS - 1) (\<lambda>(v, idx). (v / 1024, idx + 1))
     (of_nat n / 1024 ^ idx :: rat, idx) = Some (of_nat n / 1024 ^ unit_index n idx, unit_index n idx)"
proof (induction n idx rule: unit_index.induct)
  case (1 n idx)
  have "(1024 :: rat) \<le> of_nat n / 1024 ^ idx \<longleftrightarrow> 1024 * 1024 ^ idx \<le> (of_nat n :: rat)"
    by (simp add: le_divide_eq)
  also have "\<dots> \<longleftrightarrow> 1024 * 1024 ^ idx \<le> n"
    by (metis (no_types, lifting) of_nat_le_iff of_nat_mult of_nat_numeral of_nat_power)
  finally have "1024 \<le> (of_nat n / 1024 ^ idx :: rat) \<longleftrightarrow> 1024 * 1024 ^ idx \<le> n" .
  then show ?case
    using 1 by (subst while_option_unfold, subst (1 2) unit_index.simps) (simp add: divide_divide_eq_left mult.commute)
qed

text \<open>C39: The loop that chooses the unit of a size ends for every 64-bit number, after at most five
  rounds: it stops at a value below 1024 or at the last unit, the value it returns is the size
  divided by 1024 once per round, and the text of the size has the unit of that many rounds.\<close>

theorem unit_loop_ends:
  "\<exists>v idx. unit_loop (of_nat (f64_of_u64 (unat n))) = Some (v, idx) \<and>
     idx < length UNITS \<and> (v < 1024 \<or> idx + 1 = length UNITS) \<and>
     v * 1024 ^ idx = of_nat (f64_of_u64 (unat n)) \<and>
     human_bytes n = (if unat n < 1024 then dec (unat n) @ '' B''
       else let t = round_div (10 * f64_of_u64 (unat n)) (1024 ^ idx)
            in dec (t div 10) @ ''.'' @ dec (t mod 10) @ '' '' @ UNITS ! idx)"
proof -
  let ?v = "f64_of_u64 (unat n)"
  have ends: "unit_loop (of_nat ?v) = Some (of_nat ?v / 1024 ^ unit_index ?v 0, unit_index ?v 0)"
    using unit_loop_from [of ?v 0] by (simp add: unit_loop_def)
  have "\<not> (\<lambda>(v, idx). v \<ge> 1024 \<and> idx < length UNITS - 1) (of_nat ?v / 1024 ^ unit_index ?v 0 :: rat, unit_index ?v 0)"
    by (rule while_option_stop [OF ends [unfolded unit_loop_def]])
  moreover have "unit_index ?v 0 \<le> 5"
    using unit_index_spec [of 0 ?v] by simp
  ultimately show ?thesis
    by - (intro exI conjI, rule ends, auto simp: UNITS_def human_bytes_def Let_def not_le)
qed

lemma extra_bits_0 [simp]: "n < 2 ^ 53 \<Longrightarrow> extra_bits n = 0"
  by (subst extra_bits.simps) simp

lemma extra_bits_le: "n < 2 ^ 53 * 2 ^ k \<Longrightarrow> extra_bits n \<le> k"
proof (induction k arbitrary: n)
  case (Suc k)
  have "n div 2 < 2 ^ 53 * 2 ^ k"
    using Suc.prems by (simp add: less_mult_imp_div_less)
  then show ?case
    using Suc.IH by (subst extra_bits.simps) simp
qed simp

lemma f64_exact: "n < 2 ^ 53 \<Longrightarrow> f64_of_u64 n = n"
  by (simp add: f64_of_u64_def round_div_def)

lemma f64_close:
  assumes "n < 2 ^ 64"
  shows "\<bar>int n - int (f64_of_u64 n)\<bar> \<le> 2 ^ 10"
proof -
  have "extra_bits n \<le> 11"
    using assms by (intro extra_bits_le) simp
  then have "(2::int) ^ extra_bits n \<le> 2 ^ 11"
    by (intro power_increasing) simp_all
  moreover have "2 * \<bar>int n - int (f64_of_u64 n)\<bar> \<le> 2 ^ extra_bits n"
    using round_div_error [of "2 ^ extra_bits n" n] by (simp add: f64_of_u64_def)
  ultimately show ?thesis
    by simp
qed

lemma f64_big: "n < 2 ^ 64 \<Longrightarrow> 2 ^ 53 \<le> n \<Longrightarrow> 2 ^ 52 \<le> f64_of_u64 n"
  using f64_close [of n] by simp

lemma tenths_error:
  fixes n v x d e :: int
  assumes "2 * \<bar>10 * v - x\<bar> \<le> d" and "\<bar>n - v\<bar> \<le> e"
  shows "2 * \<bar>10 * n - x\<bar> \<le> d + 20 * e"
proof -
  have "10 * n - x = 10 * (n - v) + (10 * v - x)"
    by simp
  then have "\<bar>10 * n - x\<bar> \<le> 10 * \<bar>n - v\<bar> + \<bar>10 * v - x\<bar>"
    using abs_triangle_ineq [of "10 * (n - v)" "10 * v - x"] by (simp only: abs_mult abs_numeral)
  moreover have "2 * a \<le> d + 20 * e" if "a \<le> 10 * b + c" "2 * c \<le> d" "b \<le> e" for a b c :: int
    using that by linarith
  ultimately show ?thesis
    using assms by blast
qed

text \<open>C38: A size on the dashboard of 1024 bytes or more is written in the largest of the six units
  that is not above it, as a number of tenths nearest to the size; from \<open>2 ^ 53\<close> bytes on,
  where the conversion to a floating-point number rounds, within another 1024 bytes.\<close>

theorem human_bytes_accurate:
  assumes "1024 \<le> unat n"
  shows "\<exists>idx tenths. human_bytes n =
      dec (tenths div 10) @ ''.'' @ dec (tenths mod 10) @ '' '' @ UNITS ! idx \<and>
    0 < idx \<and> idx < length UNITS \<and>
    1024 ^ idx \<le> unat n \<and> (idx + 1 < length UNITS \<longrightarrow> unat n < 1024 ^ (idx + 1)) \<and>
    2 * \<bar>int (10 * unat n) - int tenths * 1024 ^ idx\<bar> \<le>
      1024 ^ idx + (if unat n < 2 ^ 53 then 0 else 20 * 2 ^ 10)"
proof -
  let ?v = "f64_of_u64 (unat n)" and ?n = "unat n"
  let ?idx = "unit_index ?v 0"
  let ?t = "round_div (10 * ?v) (1024 ^ ?idx)"
  have n64: "?n < 2 ^ 64"
    using unsigned_less [of n] by simp
  have close: "\<bar>int ?n - int ?v\<bar> \<le> (if ?n < 2 ^ 53 then 0 else 2 ^ 10)"
    using f64_close [OF n64] f64_exact [of ?n] by simp
  have idx: "?idx \<le> 5" "0 < ?idx \<longrightarrow> 1024 ^ ?idx \<le> ?v" "?idx < 5 \<longrightarrow> ?v < 1024 ^ Suc ?idx"
    using unit_index_spec [of 0 ?v] by simp_all
  have unit: "0 < ?idx \<and> 1024 ^ ?idx \<le> ?n \<and> (?idx < 5 \<longrightarrow> ?n < 1024 ^ Suc ?idx)"
  proof (cases "?n < 2 ^ 53")
    case True
    then show ?thesis
      using idx assms f64_exact [OF True] by (cases "?idx = 0") auto
  next
    case False
    have "?idx = 5"
    proof (rule ccontr)
      assume "?idx \<noteq> 5"
      then have "?v < 1024 ^ Suc ?idx" "Suc ?idx \<le> 5"
        using idx by simp_all
      moreover from this(2) have "(1024::nat) ^ Suc ?idx \<le> 1024 ^ 5"
        by (intro power_increasing) simp_all
      ultimately show False
        using f64_big [OF n64] False by simp
    qed
    then show ?thesis
      using False by simp
  qed
  have "2 * \<bar>10 * int ?v - int ?t * 1024 ^ ?idx\<bar> \<le> 1024 ^ ?idx"
    using round_div_error [of "1024 ^ ?idx" "10 * ?v"] by simp
  from tenths_error [OF this close] have "2 * \<bar>int (10 * ?n) - int ?t * 1024 ^ ?idx\<bar> \<le>
      1024 ^ ?idx + (if ?n < 2 ^ 53 then 0 else 20 * 2 ^ 10)"
    by (simp split: if_splits)
  moreover have "human_bytes n = dec (?t div 10) @ ''.'' @ dec (?t mod 10) @ '' '' @ UNITS ! ?idx"
    using assms by (simp add: human_bytes_def Let_def)
  moreover have "?idx < length UNITS" "?idx + 1 < length UNITS \<longrightarrow> ?n < 1024 ^ (?idx + 1)"
    using unit idx(1) by (simp_all add: UNITS_def)
  ultimately show ?thesis
    using unit by blast
qed

theorem human_bytes_accurate_witness:
  "\<exists>idx tenths. human_bytes 1536 = dec (tenths div 10) @ ''.'' @ dec (tenths mod 10) @ '' '' @ UNITS ! idx \<and>
     1024 ^ idx \<le> (1536::nat) \<and> 2 * \<bar>15360 - int tenths * 1024 ^ idx\<bar> \<le> 1024 ^ idx"
  using human_bytes_accurate [of 1536] by auto

subsection \<open>The window of a schedule\<close>

lemma cyclic_distance:
  "c < n \<Longrightarrow> f < n \<Longrightarrow> (c + n - f) mod n = (if f \<le> c then c - f else c + n - f)" for c f n :: nat
  by (auto simp: mod_if)

text \<open>C26: A time is in the window of a schedule exactly when its weekday is one of the schedule's,
  both ends are times, and going forward on the clock from the start one meets the time no later
  than the end, past midnight where the end is the earlier of the two.\<close>

theorem schedule_window_cyclic:
  assumes "\<And>s t. sl_parse_time L s = Some t \<Longrightarrow> nt_secs t < 86400"
    and "sl_hour L now < 24" and "sl_minute L now < 60" and "sl_weekday_from_monday L now \<le> 7"
  shows "is_in_window L s now \<longleftrightarrow>
    sl_weekday_from_monday L now \<in> unat ` set (sd_weekdays s) \<and>
    (\<exists>from_t to_t. sl_parse_time L (sd_from s) = Some from_t \<and> sl_parse_time L (sd_to s) = Some to_t \<and>
       (sl_hour L now * 3600 + sl_minute L now * 60 + 86400 - nt_secs from_t) mod 86400 \<le>
       (nt_secs to_t + 86400 - nt_secs from_t) mod 86400)"
proof -
  let ?c = "sl_hour L now * 3600 + sl_minute L now * 60"
  have c: "?c < 86400"
    using assms(2,3) by simp
  have weekday: "word_of_nat (sl_weekday_from_monday L now) \<in> set (sd_weekdays s) \<longleftrightarrow>
      sl_weekday_from_monday L now \<in> unat ` set (sd_weekdays s)"
    using assms(4) by (force simp: unat_of_nat image_iff take_bit_nat_eq_self)
  have window: "(if f \<le> t then f \<le> ?c \<and> ?c \<le> t else f \<le> ?c \<or> ?c \<le> t) \<longleftrightarrow>
      (?c + 86400 - f) mod 86400 \<le> (t + 86400 - f) mod 86400" if "f < 86400" "t < 86400" for f t
    unfolding cyclic_distance [OF c that(1)] cyclic_distance [OF that(2,1)] using that c by auto
  show ?thesis
  proof (cases "sl_parse_time L (sd_from s)"; cases "sl_parse_time L (sd_to s)")
    fix f t
    assume ft: "sl_parse_time L (sd_from s) = Some f" "sl_parse_time L (sd_to s) = Some t"
    have "is_in_window L s now \<longleftrightarrow> word_of_nat (sl_weekday_from_monday L now) \<in> set (sd_weekdays s) \<and>
        (if nt_secs f \<le> nt_secs t then nt_secs f \<le> ?c \<and> ?c \<le> nt_secs t
         else nt_secs f \<le> ?c \<or> ?c \<le> nt_secs t)"
      using assms(2,3) by (simp add: is_in_window_def ft from_hm_opt_def less_eq_naive_time_def)
    then show ?thesis
      unfolding weekday window [OF assms(1) [OF ft(1)] assms(1) [OF ft(2)]] using ft by simp
  qed (simp_all add: is_in_window_def)
qed

theorem schedule_window_cyclic_witness:
  "is_in_window sample_sched \<lparr>sd_weekdays = [1], sd_from = ''f'', sd_to = ''t''\<rparr> 0"
proof -
  have "\<And>s t. sl_parse_time sample_sched s = Some t \<Longrightarrow> nt_secs t < 86400"
    by (auto simp: sample_sched_def split: if_splits)
  then show ?thesis
    by (subst schedule_window_cyclic) (auto simp: sample_sched_def)
qed

subsection \<open>Locales\<close>


definition sample_fluent :: "nat fluent_lib" where
  "sample_fluent = \<lparr>fu_en_source = ''en'', fu_tr_source = ''tr'', fu_parses = (\<lambda>s. True),
     fu_langid_ok = (\<lambda>l. True),
     fu_format = (\<lambda>lang src key args. if key = ''hi'' then Some (if lang = ''tr'' then ''merhaba'' else ''hello'') else None)\<rparr>"


end
