(* ===== verification/Tool_Properties.thy ===== *)
theory Tool_Properties
  imports Cli Events Access_Properties
begin

section \<open>Properties of the configuration, the command line tool, backups and webhooks\<close>

subsection \<open>Configuration\<close>

lemma cfg_fields_iff: "cfg_fields v = Inr kvs \<longleftrightarrow> v = Cfg_Dict kvs"
  by (cases v) (auto simp: cfg_fields_def)

lemmas config_sels = app_config.simps security_config.simps cli_config.simps

lemma app_config_parts:
  assumes "de_app_config (Cfg_Dict kvs) = Inr a"
  shows "field_or default_db_path ''database'' de_database kvs = Inr (cf_database_path a)"
    and "field_or default_security_config ''security'' de_security kvs = Inr (cf_security a)"
  using assms unfolding de_app_config_def res_bind_ok_iff cfg_fields_iff sum.inject cfg_val.inject
  by (elim exE conjE; hypsubst; simp only: config_sels)+

lemma cli_config_parts:
  assumes "de_cli_config (Cfg_Dict kvs) = Inr c"
  shows "field ''database'' de_database kvs = Inr (cc_database_path c)"
    and "field ''security'' de_cli_security kvs = Inr (cc_master_key c)"
  using assms unfolding de_cli_config_def res_bind_ok_iff cfg_fields_iff sum.inject cfg_val.inject
  by (elim exE conjE; hypsubst; simp only: config_sels)+

lemma security_key:
  assumes "de_security s = Inr x"
  shows "de_cli_security s = Inr (sy_master_key x)"
  using assms unfolding de_security_def de_cli_security_def res_bind_ok_iff cfg_fields_iff sum.inject cfg_val.inject
  by (elim exE conjE, hypsubst) simp

lemma security_refused:
  assumes "map_of s ''master_key'' = None"
  shows "de_cli_security (Cfg_Dict s) = Inl (Missing_Field ''master_key'')"
    and "de_security (Cfg_Dict s) = Inl (Missing_Field ''master_key'')"
  using assms by (simp_all add: de_cli_security_def de_security_def field_def cfg_fields_def)

lemma not_ok: "(\<And>x. r \<noteq> Inr x) \<Longrightarrow> \<exists>e. r = Inl e"
  by (cases r) auto

text \<open>C36: The server and the command line tool agree on a configuration: where both accept it, they
  use the same database and the same master key. Where the security section is missing the
  server still starts, with the placeholder master key of the source, and the tool refuses;
  a security section without a master key is refused by both.\<close>

theorem configs_agree:
  assumes "v = Cfg_Dict kvs"
  shows "(\<forall>a c. de_app_config v = Inr a \<longrightarrow> de_cli_config v = Inr c \<longrightarrow>
        cf_database_path a = cc_database_path c \<and> sy_master_key (cf_security a) = cc_master_key c) \<and>
     (map_of kvs ''security'' = None \<longrightarrow>
        (\<exists>e. de_cli_config v = Inl e) \<and>
        (\<forall>a. de_app_config v = Inr a \<longrightarrow>
           sy_master_key (cf_security a) = ''CHANGE-ME-32-bytes-or-more-recommended'')) \<and>
     (\<forall>s. map_of kvs ''security'' = Some (Cfg_Dict s) \<longrightarrow> map_of s ''master_key'' = None \<longrightarrow>
        (\<exists>e. de_app_config v = Inl e) \<and> (\<exists>e. de_cli_config v = Inl e))"
  unfolding assms
proof (intro conjI allI impI)
  fix a c
  assume a: "de_app_config (Cfg_Dict kvs) = Inr a" and c: "de_cli_config (Cfg_Dict kvs) = Inr c"
  show "cf_database_path a = cc_database_path c"
    using app_config_parts(1) [OF a] cli_config_parts(1) [OF c]
    by (auto simp: field_def field_or_def split: option.splits)
  show "sy_master_key (cf_security a) = cc_master_key c"
    using app_config_parts(2) [OF a] cli_config_parts(2) [OF c]
    by (auto simp: field_def field_or_def dest: security_key split: option.splits)
next
  assume none: "map_of kvs ''security'' = None"
  show "\<exists>e. de_cli_config (Cfg_Dict kvs) = Inl e"
    by (rule not_ok) (use none in \<open>auto dest: cli_config_parts(2) simp: field_def\<close>)
  fix a
  assume "de_app_config (Cfg_Dict kvs) = Inr a"
  from app_config_parts(2) [OF this]
  show "sy_master_key (cf_security a) = ''CHANGE-ME-32-bytes-or-more-recommended''"
    using none by (auto simp: field_or_def default_security_config_def dest!: sym [of _ "cf_security a"])
next
  fix s
  assume some: "map_of kvs ''security'' = Some (Cfg_Dict s)" and key: "map_of s ''master_key'' = None"
  show "\<exists>e. de_app_config (Cfg_Dict kvs) = Inl e"
    by (rule not_ok) (use some security_refused [OF key] in \<open>auto dest: app_config_parts(2) simp: field_or_def\<close>)
  show "\<exists>e. de_cli_config (Cfg_Dict kvs) = Inl e"
    by (rule not_ok) (use some security_refused [OF key] in \<open>auto dest: cli_config_parts(2) simp: field_def\<close>)
qed

theorem configs_agree_witness:
  "(\<exists>a. de_app_config (Cfg_Dict []) = Inr a \<and>
      sy_master_key (cf_security a) = ''CHANGE-ME-32-bytes-or-more-recommended'') \<and>
   (\<exists>e. de_cli_config (Cfg_Dict []) = Inl e)"
proof -
  have "\<exists>a. de_app_config (Cfg_Dict []) = Inr a"
    by (simp add: de_app_config_def cfg_fields_def field_or_def)
  then show ?thesis
    using configs_agree [of "Cfg_Dict []" "[]", OF refl] by auto
qed

subsection \<open>Passwords set by the tool and by the set-up work\<close>

text \<open>\<open>argon2\<close>: the hash of a password parses, and the password verifies against it.\<close>

definition argon2_law :: "'w crypto_lib \<Rightarrow> bool" where
  "argon2_law C \<longleftrightarrow> (\<forall>bs salt h. cl_argon2_hash C bs salt = Inr h \<longrightarrow>
     (\<exists>p. cl_argon2_parse C h = Inr p \<and> cl_argon2_verify C bs p = Inr ()))"

lemma os_crypto_argon2 [simp]:
  "cl_argon2_hash (os_crypto C) = cl_argon2_hash C" "cl_argon2_parse (os_crypto C) = cl_argon2_parse C"
  "cl_argon2_verify (os_crypto C) = cl_argon2_verify C"
  by (simp_all add: os_crypto_def)

lemma hash_verifies:
  assumes "hash_password C pw w = (Inr h, w')" and "argon2_law C"
  shows "verify_password C pw h = Inr True"
  using assms by (fastforce simp: hash_password_def verify_password_def argon2_law_def io_bind_ok_iff)

lemma created_row:
  assumes "users_create E new w = (Inr u, w')"
  shows "\<exists>r rows. tb_users (w_db w') = rows @ [r] \<and> uc_username r = nu_username new \<and>
    nu_username new \<notin> uc_username ` set rows \<and>
    (uuid_text_law (de_net E) \<longrightarrow> user_into_domain E r = Inr u) \<and> u_password_hash u = nu_password_hash new"
proof -
  obtain v now w1 where ex: "db_exec E (insert_user E
        \<lparr>uc_id = nl_show_uuid (de_net E) v, uc_username = nu_username new, uc_email = nu_email new,
         uc_password_hash = nu_password_hash new, uc_role = role_as_str (nu_role new),
         uc_totp_enabled = 0, uc_totp_secret = None, uc_oidc_subject = None,
         uc_created_at = now, uc_updated_at = now, uc_last_login_at = None\<rparr>) w1 = (Inr (), w')"
      (is "db_exec E (insert_user E ?r) w1 = _")
    and u: "u = \<lparr>u_id = Ident v, u_username = nu_username new, u_email = nu_email new,
         u_password_hash = nu_password_hash new, u_role = nu_role new,
         u_totp_enabled = False, u_totp_secret = None, u_oidc_subject = None,
         u_created_at = now, u_updated_at = now, u_last_login_at = None\<rparr>"
    using assms by (auto simp: users_create_def io_bind_ok_iff)
  have new: "tb_users (w_db w') = tb_users (w_db w1) @ [?r] \<and> uc_username ?r \<notin> uc_username ` set (tb_users (w_db w1))"
    using db_exec_ok [OF ex]
    by (auto simp: insert_user_def constraint_failed_def split: if_splits dest!: arg_cong [where f = tb_users, THEN sym])
  have "user_into_domain E ?r = Inr u" if "uuid_text_law (de_net E)"
    using parse_id_show [OF that, of "Ident v :: user_id"]
    by (simp add: user_into_domain_def role_roundtrip show_id_def u)
  then show ?thesis
    using new by (intro exI [of _ ?r] exI [of _ "tb_users (w_db w1)"]) (simp add: u)
qed

lemma find_last:
  "x \<notin> f ` set rows \<Longrightarrow> f r = x \<Longrightarrow> find (\<lambda>q. f q = x) (rows @ [r]) = Some r"
  by (induction rows) auto

text \<open>C34: An account made by \<open>create_user\<close>, as the tool does it, can be used: in every later world
  with the same table of users in which statements do not fail, its name and password
  authenticate exactly that account, and a password that does not verify is refused.\<close>

theorem created_user_logs_in:
  assumes "create_user (auth_service A) name pw email ro w = (Inr u, w')"
    and "argon2_law (app_crypto A)" and "uuid_text_law (de_net (app_repos A))"
    and "db_quiet (app_repos A)" and "tb_users (w_db w'') = tb_users (w_db w')"
  shows "fst (authenticate_password (auth_service A) name pw w'') = Inr u \<and>
     (\<forall>other. verify_password (os_crypto (app_crypto A)) other (u_password_hash u) = Inr False \<longrightarrow>
        fst (authenticate_password (auth_service A) name other w'') = Inl Invalid_Credentials)"
proof -
  let ?C = "os_crypto (app_crypto A)"
  obtain h w1 w2 where h: "hash_password ?C pw w1 = (Inr h, w2)"
    and mk: "users_create (app_repos A)
      \<lparr>nu_username = name, nu_email = email, nu_password_hash = h, nu_role = ro\<rparr> w2 = (Inr u, w')"
    using assms(1)
    by (auto simp: create_user_def auth_service_def sqlite_users_def io_bind_ok_iff split: if_splits)
  have verified: "verify_password ?C pw h = Inr True"
    using hash_verifies [OF h] assms(2) by (simp add: argon2_law_def)
  obtain r rows where r: "tb_users (w_db w') = rows @ [r]" "uc_username r = name"
      "name \<notin> uc_username ` set rows" "user_into_domain (app_repos A) r = Inr u" "u_password_hash u = h"
    using created_row [OF mk] assms(3) by auto
  have "find (\<lambda>q. uc_username q = name) (tb_users (w_db w'')) = Some r"
    using find_last [of name uc_username rows r] r assms(5) by simp
  then have found: "fst (users_find_by_username (app_repos A) name w'') = Inr (Some u)"
    by (simp add: users_find_by_username_def fetch_optional_quiet [OF assms(4)] r(4))
  then obtain w3 where "users_find_by_username (app_repos A) name w'' = (Inr (Some u), w3)"
    by (metis prod.collapse)
  then show ?thesis
    using verified by (simp add: authenticate_password_def auth_service_def sqlite_users_def io_some_def
        io_bind_def r(5))
qed

lemma sample_argon2: "argon2_law sample_crypto"
  by (simp add: argon2_law_def sample_crypto_def)

theorem created_user_logs_in_witness:
  "\<exists>u w'. create_user (auth_service sample_app) ''ada'' ''correct horse'' None Operator sample_world = (Inr u, w') \<and>
     fst (authenticate_password (auth_service sample_app) ''ada'' ''correct horse'' w') = Inr u"
proof -
  have "\<exists>u w'. create_user (auth_service sample_app) ''ada'' ''correct horse'' None Operator sample_world = (Inr u, w')"
    by (simp add: create_user_def auth_service_def sqlite_users_def users_find_by_username_def
        fetch_optional_quiet [OF sample_quiet] io_bind_def hash_password_def io_rand_def sample_world_def
        empty_db_def os_crypto_def os_step_def users_create_def on_os_def db_exec_quiet [OF sample_quiet]
        insert_user_def split: prod.split)
      (simp add: sample_crypto_def)
  then obtain u w' where "create_user (auth_service sample_app) ''ada'' ''correct horse'' None Operator sample_world = (Inr u, w')"
    by blast
  then show ?thesis
    using created_user_logs_in [of sample_app "''ada''" "''correct horse''" None Operator sample_world u w' w']
      sample_argon2 sample_uuid_law sample_quiet by auto
qed

subsection \<open>Backups\<close>

text \<open>\<open>age\<close>: what was wrapped, written and finished under a passphrase is decrypted under it.\<close>

definition age_law :: "'w crypto_lib \<Rightarrow> bool" where
  "age_law C \<longleftrightarrow> (\<forall>k bs w a w1 b w2 s w3.
     cl_age_wrap C k w = (Inr a, w1) \<longrightarrow> cl_age_write C k a bs w1 = (Inr b, w2) \<longrightarrow>
     cl_age_finish C k b w2 = (Inr s, w3) \<longrightarrow>
     (\<exists>d r. cl_age_decryptor C s = Inr (Dec_Passphrase d) \<and> cl_age_decrypt C k d = Inr r \<and>
        cl_age_read C r = Inr bs))"

lemma sealed_unseals:
  assumes "seal C bs key w = (Inr s, w')" and "age_law C"
  shows "unseal C s key = Inr bs"
proof -
  obtain a w1 b w2 where "cl_age_wrap C (passphrase key) w = (Inr a, w1)"
      "cl_age_write C (passphrase key) a bs w1 = (Inr b, w2)" "cl_age_finish C (passphrase key) b w2 = (Inr s, w')"
    using assms(1) by (auto simp: seal_def io_bind_ok_iff io_map_err_ok_iff)
  then obtain d r where "cl_age_decryptor C s = Inr (Dec_Passphrase d)" "cl_age_decrypt C (passphrase key) d = Inr r"
      "cl_age_read C r = Inr bs"
    using assms(2) unfolding age_law_def by blast
  then show ?thesis
    by (simp add: unseal_def)
qed

lemma sql_quote_literal: "sql_literal (sql_quote s) = Some s"
proof (induction s)
  case (Cons c s)
  then show ?case
    by (cases "sql_quote s") (auto elim: sql_quote.elims)
qed simp

text \<open>No file operation and no step of the host touches the tables.\<close>

abbreviation tool_db :: "'os tool \<Rightarrow> db" where
  "tool_db v \<equiv> w_db (fst v)"

abbreviation tool_files :: "'os tool \<Rightarrow> string \<rightharpoonup> u8 list" where
  "tool_files v \<equiv> cs_files (snd v)"

lemma tool_world_db: "keeps w_db m \<Longrightarrow> keeps (\<lambda>v. w_db (fst v)) (tool_world m)"
  by (auto simp: keeps_def tool_world_def split: prod.split) (metis snd_conv)

lemma tool_world_files: "keeps (\<lambda>v. g (snd v)) (tool_world m)"
  by (auto simp: keeps_def tool_world_def split: prod.split)

lemma guard_keeps:
  "keeps (\<lambda>v. w_db (fst v)) (file_guard L what p)" "keeps (\<lambda>v. g (snd v)) (file_guard L what p)"
  unfolding file_guard_def by (intro keeps_intros tool_world_db tool_world_files os_blind_fields)+

lemma file_ops_db:
  "keeps tool_db (read_file L p)" "keeps tool_db (write_file L p bs)" "keeps tool_db (remove_file L p)"
  "keeps tool_db (rename_file L p q)" "keeps tool_db (temp_path L)" "keeps tool_db (vacuum_into E L target)"
  unfolding read_file_def write_file_def remove_file_def rename_file_def temp_path_def vacuum_into_def
  by (intro keeps_intros guard_keeps tool_world_db os_blind_fields db_guard_keeps;
      auto simp: keeps_def split: option.splits)+

lemma read_file_ok:
  assumes "read_file L p v = (Inr bs, v')"
  shows "tool_files v p = Some bs \<and> tool_files v' = tool_files v"
proof -
  obtain v1 where g: "file_guard L ''read'' p v = (Inr (), v1)"
    and "(case v1 of (w, c) \<Rightarrow> (case cs_files c p of
        None \<Rightarrow> Inl (Os_Error ''No such file or directory'') | Some bs \<Rightarrow> Inr bs, (w, c))) = (Inr bs, v')"
    using assms by (auto simp: read_file_def io_bind_ok_iff)
  then show ?thesis
    using keepsD2 [OF guard_keeps(2) [where g = cs_files] g] by (auto split: prod.splits option.splits)
qed

lemma write_file_ok:
  assumes "write_file L p bs v = (Inr (), v')"
  shows "tool_files v' = (tool_files v)(p \<mapsto> bs)"
  using assms
  by (auto simp: write_file_def io_bind_ok_iff tool_world_def on_os_def split: prod.splits option.splits)

lemma vacuum_ok:
  assumes "vacuum_into E L (sql_quote p) v = (Inr (), v')"
  shows "tool_files v' p = Some (ct_image L (tool_db v))"
proof -
  obtain v1 where g: "io_map_err Core_Fail (tool_world (db_guard E)) v = (Inr (), v1)"
    and fin: "(case v1 of (w, c) \<Rightarrow>
         if cs_files c p \<noteq> None then (Inl (Core_Fail (Persistence ''output file already exists'')), (w, c))
         else (Inr (), (w, c\<lparr>cs_files := (cs_files c)(p \<mapsto> ct_image L (w_db w))\<rparr>))) = (Inr (), v')"
    using assms by (auto simp: vacuum_into_def sql_quote_literal io_bind_ok_iff)
  have "keeps tool_db (io_map_err Core_Fail (tool_world (db_guard E)))"
    by (intro keeps_intros tool_world_db db_guard_keeps os_blind_fields)
  from keepsD2 [OF this g] have "tool_db v1 = tool_db v" .
  then show ?thesis
    using fin by (auto split: prod.splits if_splits)
qed

lemma seal_step:
  assumes "tool_world (seal (os_crypto C) bs key) v = (Inr s, v')" and "age_law (os_crypto C)"
  shows "unseal (os_crypto C) s key = Inr bs" and "tool_db v' = tool_db v"
proof -
  obtain w' where "seal (os_crypto C) bs key (fst v) = (Inr s, w')"
    using assms(1) by (auto simp: tool_world_def split: prod.splits)
  then show "unseal (os_crypto C) s key = Inr bs"
    by (rule sealed_unseals) (rule assms(2))
  show "tool_db v' = tool_db v"
    by (rule keepsD2 [OF tool_world_db assms(1)]) (rule seal_keeps, rule os_blind_fields)
qed

lemma backup_result:
  assumes "backup_create E C L output key v = (Inr (), v')" and "age_law (os_crypto C)"
  shows "tool_db v' = tool_db v"
    and "\<exists>s. tool_files v' output = Some s \<and> unseal (os_crypto C) s key = Inr (ct_image L (tool_db v))"
proof -
  let ?rm = "\<lambda>tmp v. snd (remove_file L tmp v)"
  obtain tmp v1 v2 bytes v3 s v4 v5 and u1 u2 :: unit where
    steps: "temp_path L v = (Inr tmp, v1)"
      "vacuum_into E L (sql_quote tmp) (?rm tmp v1) = (Inr u1, v2)"
      "read_file L tmp v2 = (Inr bytes, v3)"
      "tool_world (seal (os_crypto C) bytes key) (?rm tmp v3) = (Inr s, v4)"
      "tool_world (\<lambda>w. (Inr (), w\<lparr>w_os := ct_make_parent L output (w_os w)\<rparr>)) v4 = (Inr u2 :: cli_error + unit, v5)"
      "write_file L output s v5 = (Inr (), v')"
    using assms(1)
    unfolding backup_create_def io_bind_ok_iff io_map_err_ok_iff io_ignore_apply by blast
  have "tool_db (?rm tmp v) = tool_db v" for tmp v
    using keepsD [OF file_ops_db(3)] .
  then have db: "tool_db v1 = tool_db v" "tool_db (?rm tmp v1) = tool_db v" "tool_db v2 = tool_db v"
      "tool_db (?rm tmp v3) = tool_db v3" "tool_db v3 = tool_db v2" "tool_db v5 = tool_db v4" "tool_db v' = tool_db v5"
    using keepsD2 [OF file_ops_db(5) steps(1)] keepsD2 [OF file_ops_db(6) steps(2)]
      keepsD2 [OF file_ops_db(1) steps(3)] keepsD2 [OF file_ops_db(2) steps(6)]
      keepsD2 [OF tool_world_db steps(5)] by (simp_all add: keeps_def)
  show "tool_db v' = tool_db v"
    using db seal_step(2) [OF steps(4) assms(2)] by simp
  have "bytes = ct_image L (tool_db v)"
    using vacuum_ok [OF steps(2) [unfolded unit_eq [of u1]]] read_file_ok [OF steps(3)] db by simp
  then show "\<exists>s. tool_files v' output = Some s \<and> unseal (os_crypto C) s key = Inr (ct_image L (tool_db v))"
    using write_file_ok [OF steps(6)] seal_step(1) [OF steps(4) assms(2)] by auto
qed

lemma file_ops_files:
  "keeps (\<lambda>v. g (tool_files v)) (read_file L p)"
  "p \<noteq> q \<Longrightarrow> keeps (\<lambda>v. tool_files v q) (write_file L p bs)"
  "p \<noteq> q \<Longrightarrow> keeps (\<lambda>v. tool_files v q) (remove_file L p)"
  unfolding read_file_def write_file_def remove_file_def
  by (intro keeps_intros guard_keeps tool_world_files; auto simp: keeps_def split: option.splits)+

lemma read_triple:
  "triple (\<lambda>v. tool_files v = F) (read_file L p) (\<lambda>bs v. tool_files v = F \<and> F p = Some bs) (\<lambda>_ v. tool_files v = F)"
proof (rule tripleI, goal_cases)
  case (1 v bs v')
  then show ?case using read_file_ok by blast
next
  case (2 v e v')
  then show ?case using keepsD2 [OF file_ops_files(1) [where g = "\<lambda>x. x"]] by blast
qed

lemma write_triple:
  assumes "p \<noteq> q"
  shows "triple (\<lambda>v. tool_files v = F) (write_file L p bs) (\<lambda>_ v. tool_files v p = Some bs \<and> tool_files v q = F q)
     (\<lambda>_ v. tool_files v q = F q)"
proof (rule tripleI, goal_cases)
  case (1 v x v')
  then show ?case using write_file_ok [of L p bs v v'] assms by simp
next
  case (2 v e v')
  then show ?case using keepsD2 [OF file_ops_files(2) [OF assms]] by blast
qed

lemma rename_triple:
  "triple (\<lambda>v. tool_files v p = Some bs \<and> tool_files v q = old) (rename_file L p q)
     (\<lambda>_ v. tool_files v q = Some bs) (\<lambda>_ v. tool_files v q = old)"
  unfolding rename_file_def
proof (rule triple_bind)
  show "triple (\<lambda>v. tool_files v p = Some bs \<and> tool_files v q = old) (file_guard L ''rename'' p)
      (\<lambda>_ v. tool_files v p = Some bs \<and> tool_files v q = old) (\<lambda>_ v. tool_files v q = old)"
    by (rule triple_conseq [OF triple_keeps [OF guard_keeps(2) [where g = cs_files],
        where P = "\<lambda>F. F p = Some bs \<and> F q = old"]]) simp_all
qed (auto simp: triple_def)

definition restored :: "'os crypto_lib \<Rightarrow> string \<Rightarrow> seal_key \<Rightarrow> u8 list option \<Rightarrow> 'os tool \<Rightarrow> bool" where
  "restored C live key stored v \<longleftrightarrow> (\<exists>sealed plain. stored = Some sealed \<and>
     unseal (os_crypto C) sealed key = Inr plain \<and> 16 \<le> length plain \<and> take 15 plain = SQLITE_MAGIC \<and>
     tool_files v live = Some plain)"

lemma restore_triple:
  assumes "with_extension live ''restore.tmp'' \<noteq> live"
  shows "triple (\<lambda>v. tool_files v = F) (backup_restore C L live input key)
     (\<lambda>_ v. restored C live key (F input) v) (\<lambda>_ v. tool_files v live = F live)"
proof -
  let ?R = "\<lambda>_ v. restored C live key (F input) v" and ?X = "\<lambda>_ v. tool_files v live = F live"
  have drop: "triple (restored C live key s) (remove_file L (live @ ext)) (\<lambda>_. restored C live key s) (\<lambda>_. restored C live key s)"
    if "ext \<noteq> []" for s ext
    using triple_keeps [OF file_ops_files(3), of "live @ ext" live
        "\<lambda>r. \<exists>sealed plain. s = Some sealed \<and> unseal (os_crypto C) sealed key = Inr plain \<and>
          16 \<le> length plain \<and> take 15 plain = SQLITE_MAGIC \<and> r = Some plain" L] that
    unfolding restored_def by simp
  have swap: "triple (\<lambda>v. tool_files v = F) (io_bind (with_context ''write restored db'' (write_file L (with_extension live ''restore.tmp'') plain)) (\<lambda>_.
       io_bind (with_context ''rename restored db'' (rename_file L (with_extension live ''restore.tmp'') live)) (\<lambda>_.
       io_ignore (remove_file L (live @ ''-wal'')) (io_ignore (remove_file L (live @ ''-shm'')) (io_ret ()))))) ?R ?X"
    if "F input = Some sealed" "unseal (os_crypto C) sealed key = Inr plain" "16 \<le> length plain" "take 15 plain = SQLITE_MAGIC"
    for sealed plain
  proof (rule triple_bind)
    show "triple (\<lambda>v. tool_files v = F) (with_context ''write restored db'' (write_file L (with_extension live ''restore.tmp'') plain))
        (\<lambda>_ v. tool_files v (with_extension live ''restore.tmp'') = Some plain \<and> tool_files v live = F live) ?X"
      by (rule triple_map_err) (rule write_triple [OF assms])
    have "triple (\<lambda>v. tool_files v (with_extension live ''restore.tmp'') = Some plain \<and> tool_files v live = F live)
        (with_context ''rename restored db'' (rename_file L (with_extension live ''restore.tmp'') live))
        (\<lambda>_. restored C live key (F input)) ?X"
      by (rule triple_map_err, rule triple_conseq [OF rename_triple]) (use that in \<open>auto simp: restored_def\<close>)
    then show "triple (\<lambda>v. tool_files v (with_extension live ''restore.tmp'') = Some plain \<and> tool_files v live = F live)
        (io_bind (with_context ''rename restored db'' (rename_file L (with_extension live ''restore.tmp'') live)) (\<lambda>_.
         io_ignore (remove_file L (live @ ''-wal'')) (io_ignore (remove_file L (live @ ''-shm'')) (io_ret ())))) ?R ?X"
      by (rule triple_bind) (rule triple_ignore [OF drop triple_ignore [OF drop triple_ret]], simp_all)
  qed
  show ?thesis
    unfolding backup_restore_def Let_def
  proof (rule triple_bind_weak [where X' = ?X and Q = "\<lambda>v. tool_files v = F" and b = "\<lambda>s. F input = Some s"], goal_cases)
    case 1
    show ?case
      by (rule triple_map_err) (rule triple_conseq [OF read_triple [where F = F]], simp_all)
  next
    case (3 sealed)
    show ?case
    proof (rule triple_bind_weak [where X' = ?X and Q = "\<lambda>v. tool_files v = F" and
          b = "\<lambda>plain. unseal (os_crypto C) sealed key = Inr plain"], goal_cases)
      case 1
      show ?case
        by (rule triple_map_err, rule triple_lift) auto
    next
      case (3 plain)
      have point: "triple (\<lambda>v. tool_files v = F) (tool_world (\<lambda>w. (Inr () :: cli_error + unit, w\<lparr>w_os := f (w_os w)\<rparr>)))
          (\<lambda>_ v. tool_files v = F) ?X" for f
        by (rule triple_conseq [OF triple_keeps [OF tool_world_files [where g = cs_files], where P = "\<lambda>x. x = F"]]) simp_all
      show ?case
        by (rule triple_if, rule triple_fail, simp, rule triple_bind [OF point], rule swap)
          (use 3 \<open>F input = Some sealed\<close> in auto)
    qed
  qed
qed

text \<open>C24: Restoring a backup is all or nothing for the live database file. When it reports an error, the
  file is what it was; when it succeeds, the file holds exactly the bytes that the backup unseals to
  under the given key, and these begin like a SQLite file. (The path needs a file name, so that the
  file written first is another one.)\<close>

theorem restore_atomic:
  assumes "backup_restore C L live input key v = (r, v')"
    and "with_extension live ''restore.tmp'' \<noteq> live"
  shows "case r of
     Inl e \<Rightarrow> tool_files v' live = tool_files v live
   | Inr _ \<Rightarrow> \<exists>sealed plain. tool_files v input = Some sealed \<and>
       unseal (os_crypto C) sealed key = Inr plain \<and> 16 \<le> length plain \<and>
       take 15 plain = SQLITE_MAGIC \<and> tool_files v' live = Some plain"
proof -
  note T = restore_triple [OF assms(2), of "tool_files v" C L input key]
  show ?thesis
    using triple_ok [OF T refl] triple_err [OF T refl] assms(1) by (auto simp: restored_def split: sum.split)
qed

text \<open>A host whose files never fail.\<close>

definition faultless :: "'os cli_lib \<Rightarrow> bool" where
  "faultless L \<longleftrightarrow> (\<forall>what p s. fst (ct_fault L what p s) = None) \<and> (\<forall>p s. fst (ct_write_fault L p s) = None)"

lemma faultless_ops:
  assumes "faultless L"
  shows "triple (\<lambda>v. tool_files v p = Some bs) (read_file L p) (\<lambda>x v. x = bs) (\<lambda>_ _. False)"
    and "triple (\<lambda>v. True) (write_file L p bs) (\<lambda>_ v. tool_files v p = Some bs) (\<lambda>_ _. False)"
    and "triple (\<lambda>v. tool_files v p \<noteq> None) (rename_file L p q) (\<lambda>_ _. True) (\<lambda>_ _. False)"
proof -
  have fault: "fst (ct_fault L what p s) = None" "fst (ct_write_fault L p s) = None" for what p s
    using assms by (auto simp: faultless_def)
  have guard: "triple (\<lambda>v. P (tool_files v)) (file_guard L what p) (\<lambda>_ v. P (tool_files v)) (\<lambda>_ _. False)" for P what p
    using fault(1) [of what p]
    by (auto simp: triple_def file_guard_def io_bind_def tool_world_def on_os_def split: prod.splits option.splits)
      (metis fst_conv option.distinct(1))
  show "triple (\<lambda>v. tool_files v p = Some bs) (read_file L p) (\<lambda>x v. x = bs) (\<lambda>_ _. False)"
    unfolding read_file_def by (rule triple_bind [OF guard [where P = "\<lambda>F. F p = Some bs"]]) (auto simp: triple_def)
  show "triple (\<lambda>v. True) (write_file L p bs) (\<lambda>_ v. tool_files v p = Some bs) (\<lambda>_ _. False)"
    using fault(2) [of p]
    by (auto simp: triple_def write_file_def io_bind_def tool_world_def on_os_def split: prod.splits option.splits)
      (metis fst_conv option.distinct(1))+
  show "triple (\<lambda>v. tool_files v p \<noteq> None) (rename_file L p q) (\<lambda>_ _. True) (\<lambda>_ _. False)"
    unfolding rename_file_def by (rule triple_bind [OF guard [where P = "\<lambda>F. F p \<noteq> None"]]) (auto simp: triple_def)
qed

lemma restore_succeeds:
  assumes L: "faultless L" and key: "unseal (os_crypto C) sealed key = Inr plain"
    and magic: "16 \<le> length plain" "take 15 plain = SQLITE_MAGIC"
  shows "triple (\<lambda>v. tool_files v input = Some sealed) (backup_restore C L live input key) (\<lambda>_ _. True) (\<lambda>_ _. False)"
  unfolding backup_restore_def Let_def
proof (rule triple_bind [where Q = "\<lambda>x _. x = sealed"], goal_cases)
  case 1
  show ?case
    by (rule triple_map_err) (rule faultless_ops(1) [OF L])
next
  case (2 x)
  show ?case
  proof (rule triple_bind [where Q = "\<lambda>y _. y = plain"], goal_cases)
    case 1
    show ?case
      by (rule triple_map_err, rule triple_conseq [OF triple_lift [where P = "\<lambda>_. x = sealed" and Q = "\<lambda>y _. y = plain" and X = "\<lambda>_ _. False"]])
        (use key in auto)
  next
    case (2 y)
    have put: "triple (\<lambda>_. y = plain) (with_context msg (write_file L q y)) (\<lambda>_ v. tool_files v q \<noteq> None) (\<lambda>_ _. False)"
      for q msg
      by (rule triple_map_err, rule triple_conseq [OF faultless_ops(2) [OF L]]) auto
    have rename: "triple (\<lambda>v. tool_files v q \<noteq> None) (with_context msg (rename_file L q live)) (\<lambda>_ _. True) (\<lambda>_ _. False)" for q msg
      by (rule triple_map_err) (rule faultless_ops(3) [OF L])
    have rest: "triple (\<lambda>_. True) (io_ignore m (io_ignore n (io_ret ()))) (\<lambda>_ _. True) (\<lambda>_ _. False)" for m n
      by (simp add: triple_def)
    have point: "triple (\<lambda>_. y = plain) (tool_world (\<lambda>w. (Inr () :: cli_error + unit, f w))) (\<lambda>_ _. y = plain) (\<lambda>_ _. False)" for f
      by (simp add: triple_def tool_world_def split: prod.split)
    show ?case
      by (rule triple_if, rule triple_fail, use magic in \<open>simp\<close>,
          rule triple_bind [OF point], rule triple_bind [OF put], rule triple_bind [OF rename], rule rest)
  qed
qed

text \<open>C23: A backup can be restored. After a successful backup its file is sealed under the master key,
  the tables are untouched, and restoring that file with the same key, on any host and at any time,
  puts the image of the database as it was at the backup in place of the live file; on a host whose
  files do not fail the restore succeeds.\<close>

theorem backup_roundtrip:
  assumes "backup_create E C L output key v = (Inr (), v1)"
    and "age_law (os_crypto C)"
    and "\<And>d. 16 \<le> length (ct_image L d) \<and> take 15 (ct_image L d) = SQLITE_MAGIC"
    and "tool_files v2 input = tool_files v1 output"
    and "with_extension live ''restore.tmp'' \<noteq> live"
    and "backup_restore C L' live input key v2 = (r, v3)"
  shows "tool_db v1 = tool_db v \<and>
     (r = Inr () \<longrightarrow> tool_files v3 live = Some (ct_image L (tool_db v))) \<and>
     (faultless L' \<longrightarrow> r = Inr ())"
proof -
  obtain s where s: "tool_files v1 output = Some s" "unseal (os_crypto C) s key = Inr (ct_image L (tool_db v))"
    using backup_result(2) [OF assms(1,2)] by blast
  have "tool_files v3 live = Some (ct_image L (tool_db v))" if "r = Inr ()"
    using triple_ok [OF restore_triple [OF assms(5)] refl assms(6) [unfolded that]] s assms(4)
    by (simp add: restored_def)
  moreover have "r = Inr ()" if "faultless L'"
    using triple_err [OF restore_succeeds [OF that s(2)], of v2 input live] assms(3,4,6) s(1)
    by (cases r) auto
  ultimately show ?thesis
    using backup_result(1) [OF assms(1,2)] by blast
qed

subsubsection \<open>A sample host\<close>

definition sample_image :: "db \<Rightarrow> u8 list" where
  "sample_image d = SQLITE_MAGIC @ [0, word_of_nat (length (tb_users d))]"

definition sample_tool :: "nat cli_lib" where
  "sample_tool = \<lparr>
     ct_figment = \<lparr>fg_exists = (\<lambda>p v. (False, v)), fg_toml = (\<lambda>p. io_fail ''missing''),
       fg_env = (\<lambda>p s v. (Cfg_Dict [], v)), fg_merge = (\<lambda>a b. b)\<rparr>,
     ct_pool = \<lparr>pl_url_error = (\<lambda>u. None), pl_connect = (\<lambda>opts. io_ret ()), pl_migrate = io_ret ()\<rparr>,
     ct_fault = (\<lambda>what p s. (None, s)), ct_write_fault = (\<lambda>p s. (None, s)),
     ct_make_parent = (\<lambda>p s. s), ct_temp_path = (\<lambda>s. (Inr ''/tmp/x'', s)), ct_image = sample_image,
     ct_checkpoint = (\<lambda>s. s), ct_prompt = (\<lambda>p s. (Inr ''correct horse'', s)),
     ct_stdin_line = (\<lambda>s. (Inr ''correct horse'', s)), ct_sample_config = ''[server]'', ct_version = ''1'',
     ct_rfc3339 = (\<lambda>t. ''1970-01-01T00:00:00Z'')\<rparr>"

lemma sample_tool_fields [simp]: "ct_image sample_tool = sample_image" "faultless sample_tool"
  by (simp_all add: sample_tool_def faultless_def)

lemma sample_age: "age_law (os_crypto sample_crypto)"
  by (auto simp: age_law_def os_crypto_def sample_crypto_def os_step_def)

lemma sample_image_magic: "16 \<le> length (sample_image d) \<and> take 15 (sample_image d) = SQLITE_MAGIC"
proof -
  have "length SQLITE_MAGIC = 15"
    by (simp add: SQLITE_MAGIC_def bytes_of_def)
  then show ?thesis
    by (simp add: sample_image_def)
qed

abbreviation sample_console :: "nat tool" where
  "sample_console \<equiv> (sample_net_world, \<lparr>cs_files = Map.empty, cs_out = []\<rparr>)"

lemma sample_backup:
  "\<exists>v1. backup_create sample_env sample_crypto sample_tool ''b.age'' (Seal_Key ''k'') sample_console = (Inr (), v1)"
proof -
  have "fst (backup_create sample_env sample_crypto sample_tool ''b.age'' (Seal_Key ''k'') sample_console) = Inr ()"
    by code_simp
  then show ?thesis
    by (metis prod.collapse)
qed

lemma sample_restore_path: "with_extension ''data.sqlite'' ''restore.tmp'' \<noteq> ''data.sqlite''"
  by code_simp

theorem backup_roundtrip_witness:
  "\<exists>v1 v3. backup_create sample_env sample_crypto sample_tool ''b.age'' (Seal_Key ''k'') sample_console = (Inr (), v1) \<and>
     backup_restore sample_crypto sample_tool ''data.sqlite'' ''b.age'' (Seal_Key ''k'') v1 = (Inr (), v3) \<and>
     tool_files v3 ''data.sqlite'' = Some (sample_image sample_db)"
proof -
  obtain v1 where create: "backup_create sample_env sample_crypto sample_tool ''b.age'' (Seal_Key ''k'') sample_console = (Inr (), v1)"
    using sample_backup by blast
  obtain r v3 where restore: "backup_restore sample_crypto sample_tool ''data.sqlite'' ''b.age'' (Seal_Key ''k'') v1 = (r, v3)"
    by (rule prod.exhaust)
  have db: "tool_db sample_console = sample_db"
    by (simp add: sample_net_world_def)
  have "r = Inr () \<and> tool_files v3 ''data.sqlite'' = Some (sample_image (tool_db sample_console))"
    using backup_roundtrip [OF create sample_age _ refl sample_restore_path restore] sample_image_magic by simp
  then show ?thesis
    using create restore unfolding db by blast
qed

theorem restore_atomic_witness:
  "tool_files (snd (backup_restore sample_crypto sample_tool ''data.sqlite'' ''b.age'' (Seal_Key ''k'') sample_console))
     ''data.sqlite'' = None"
proof -
  obtain r v where run: "backup_restore sample_crypto sample_tool ''data.sqlite'' ''b.age'' (Seal_Key ''k'') sample_console = (r, v)"
    by (rule prod.exhaust)
  show ?thesis
    using restore_atomic [OF run sample_restore_path] run by (auto split: sum.splits)
qed

subsection \<open>Webhooks\<close>

lemma post_all_result:
  fixes r :: "'e + hook_request list"
  shows "post_all L event body hs w = (r, w') \<Longrightarrow>
     r = Inr (map (hook_request_for L event body) (filter (hook_wants event) hs)) \<and> w_db w' = w_db w"
proof (induction hs arbitrary: w r w')
  case (Cons h hs)
  obtain x s where send: "hk_send L (hook_request_for L event body h) (w_os w) = (x, s)"
    by (rule prod.exhaust)
  show ?case
  proof (cases "hook_wants event h")
    case True
    obtain r1 :: "'e + hook_request list" and w1 where rest: "post_all L event body hs (w\<lparr>w_os := s\<rparr>) = (r1, w1)"
      by (rule prod.exhaust)
    show ?thesis
      using Cons.prems Cons.IH [OF rest] rest send True
      by (simp add: Let_def on_os_res_def io_bind_def split: sum.splits)
  next
    case False
    then show ?thesis
      using Cons.prems Cons.IH by simp
  qed
qed simp


definition sample_hook_row :: "uuid \<Rightarrow> string \<Rightarrow> string \<Rightarrow> webhook_row" where
  "sample_hook_row u event secret = \<lparr>hc_id = sample_show_uuid u, hc_url = ''https://example.org'',
     hc_secret = Some secret, hc_events = sample_to_json [event], hc_enabled = 1, hc_created_by = None,
     hc_created_at = 0\<rparr>"

definition sample_hook_lib :: "(nat, string) hook_lib" where
  "sample_hook_lib = \<lparr>hk_rfc3339 = (\<lambda>t. ''1970''), hk_to_vec = (\<lambda>e t p. Inr (bytes_of p)),
     hk_client_error = (\<lambda>s. (False, s)), hk_hmac = (\<lambda>k b. Some [0xAB]), hk_send = (\<lambda>q s. (Inr 200, s))\<rparr>"

definition sample_hook_world :: "nat world" where
  "sample_hook_world = sample_world\<lparr>w_db := empty_db\<lparr>tb_webhooks :=
     [sample_hook_row 1 ''*'' ''s'', sample_hook_row 2 ''peer.created'' ''s'']\<rparr>\<rparr>"

lemma sample_fire:
  "map hq_headers (case fst (fire_and_forget sample_env sample_hook_lib ''user.login'' ''x'' sample_hook_world :: (unit + task_end) \<times> _) of
     Inr (Task_Done qs) \<Rightarrow> qs | _ \<Rightarrow> []) =
   [[(''content-type'', ''application/json''), (''x-wireforge-event'', ''user.login''),
     (''x-wireforge-signature'', ''sha256=ab'')]]"
  by code_simp


end
