(* ===== verification/Web_Properties.thy ===== *)
theory Web_Properties
  imports Login_Properties
begin

section \<open>Properties of the access rules of the web interface\<close>

text \<open>
  What a visitor of the web interface can change: the configuration only with the right its
  request needs. The locale \<open>reader_invariant\<close> is interpreted on the tables of the configuration
  and on what the process keeps in memory. What an address that is locked out gets.
\<close>

subsection \<open>What the requests without a right write\<close>

text \<open>Every table but the users, the bans and the audit trail.\<close>

definition config_tables :: "db \<Rightarrow> db" where
  "config_tables d = d\<lparr>tb_users := [], tb_bans := [], tb_audit := [], tb_audit_seq := 0\<rparr>"

lemma config_tables_writes [simp]:
  "config_tables (d\<lparr>tb_users := us\<rparr>) = config_tables d" "config_tables (d\<lparr>tb_bans := bs\<rparr>) = config_tables d"
  "config_tables (d\<lparr>tb_audit := as, tb_audit_seq := k\<rparr>) = config_tables d"
  by (simp_all add: config_tables_def)

interpretation tables_read: reader_invariant S "\<lambda>w. config_tables (w_db w) = c" for S c
  by unfold_locales
    (simp add: os_blind_def, (rule user_writes bans_writes audit_writes; simp)+)

abbreviation memory :: "'os world \<Rightarrow> runtime_settings \<times> (string \<times> fwd_snapshot) list" where
  "memory \<equiv> \<lambda>w. (w_settings w, w_fwd w)"

lemma memory_exec: "keeps memory (db_exec E f)"
  using db_exec_keeps [of E f] by (simp add: keeps_def)

lemma memory_blind: "os_blind memory"
  by (simp add: os_blind_def)

lemma memory_writes:
  "keeps memory (users_create E new)" "keeps memory (users_update_totp E u b sec)"
  "keeps memory (users_touch_last_login E u)" "keeps memory (bans_record_failure E ip m l)"
  "keeps memory (bans_clear E ip)" "keeps memory (audit_record E J who ip' action rt rid meta)"
  unfolding users_create_def users_update_totp_def users_touch_last_login_def update_user_def
    bans_record_failure_def bans_clear_def audit_record_def
  by (intro keeps_intros memory_exec memory_blind)+

lemma preserves_value: "keeps f m \<Longrightarrow> preserves (\<lambda>w. f w = c) m"
  by (simp add: keeps_def preserves_def)

interpretation memory_read: reader_invariant S "\<lambda>w. memory w = c" for S c
  by unfold_locales
    (use memory_blind in \<open>simp add: os_blind_def\<close>, (rule preserves_value, rule memory_writes)+)

lemma reader_keeps:
  assumes "write_right req = None" and "web_call S ip req v = (r, v')"
  shows "config_tables (w_db (fst v')) = config_tables (w_db (fst v))" and "memory (fst v') = memory (fst v)"
  using preservesD2 [OF tables_read.web_reader_preserves [OF assms(1)] refl assms(2)]
    preservesD2 [OF memory_read.web_reader_preserves [OF assms(1)] refl assms(2)] by simp_all

subsection \<open>Requests without their right\<close>

lemma current_user_world:
  assumes "current_user S v = (r, v')"
  shows "w_db (fst v') = w_db (fst v)" "memory (fst v') = memory (fst v)" "snd v' = snd v"
proof -
  have world: "g (fst v') = g (fst v)" if "os_blind g" for g :: "'a world \<Rightarrow> 'c"
  proof -
    have "os_blind (\<lambda>w. g w = g (fst v))"
      using that by (simp add: os_blind_def)
    from preservesD2 [OF caller_preserves(3) [OF this] refl assms] show ?thesis .
  qed
  show "w_db (fst v') = w_db (fst v)" "memory (fst v') = memory (fst v)"
    by (rule world, simp add: os_blind_def)+
  show "snd v' = snd v"
    using keepsD2 [OF session_helpers(4) [where g = id] assms] by simp
qed

lemma route_refused:
  assumes "write_right req = Some right" and "\<not> right (au_role u)"
  shows "web_user_route S u req v = (Inl Web_Forbidden, v)"
  using assms
  by (cases req)
    (simp_all add: web_user_route_def web_require_mutate_def web_ifaces_create_def web_ifaces_edit_def
      web_ifaces_start_def web_ifaces_stop_def web_ifaces_delete_def web_peers_create_def
      web_peers_edit_def web_peers_toggle_def web_peers_delete_def web_settings_save_def)

lemma needs_user:
  "write_right req = Some right \<Longrightarrow> web_dispatch S ip req = io_bind (current_user S) (\<lambda>u. web_user_route S u req)"
  by (cases req) (simp_all add: web_dispatch_def)

lemma write_refused:
  assumes "write_right req = Some right"
    and "\<And>u v1. current_user S v = (Inr u, v1) \<Longrightarrow> \<not> right (au_role u)"
  shows "web_call S ip req v =
    (case current_user S v of
       (Inl e, v1) \<Rightarrow> (Inr (web_error_reply e), v1)
     | (Inr u, v1) \<Rightarrow> (Inr (web_error_reply Web_Forbidden), v1))"
proof -
  obtain c v1 where cur: "current_user S v = (c, v1)"
    by (rule prod.exhaust)
  show ?thesis
    using assms(2) route_refused [OF assms(1), where S = S and v = v1]
    by (cases c) (simp_all add: web_call_def needs_user [OF assms(1)] io_bind_def io_try_def cur)
qed

text \<open>C4: A visitor of the web interface changes the stored configuration (every table but users,
  bans and the audit trail), the live settings and the snapshots of NAT only with the right the
  request needs: creating, editing, starting, stopping, toggling and deleting interfaces and
  peers the right to mutate, saving the settings the right to manage them. Without it every
  request leaves them alone, and a logged-in user's request that needs the right is answered
  with status 403.\<close>

theorem web_access_control:
  assumes "web_call S ip req v = (r, v')"
    and "\<forall>u v1 right. current_user S v = (Inr u, v1) \<longrightarrow> write_right req = Some right \<longrightarrow> \<not> right (au_role u)"
  shows "config_tables (w_db (fst v')) = config_tables (w_db (fst v)) \<and>
    w_settings (fst v') = w_settings (fst v) \<and> w_fwd (fst v') = w_fwd (fst v) \<and>
    (\<forall>u v1. write_right req \<noteq> None \<longrightarrow> current_user S v = (Inr u, v1) \<longrightarrow>
       r = Inr (Error_Page 403 ''forbidden'') \<and> w_db (fst v') = w_db (fst v) \<and> snd v' = snd v)"
proof (cases "write_right req")
  case None
  then show ?thesis
    using reader_keeps [OF None assms(1)] by simp
next
  case (Some right)
  obtain c v1 where cur: "current_user S v = (c, v1)"
    by (rule prod.exhaust)
  have forbidden: "web_error_reply Web_Forbidden = Error_Page 403 ''forbidden''"
    by (simp add: web_error_reply_def web_status_def web_error_display_def)
  have call: "web_call S ip req v =
    (case c of Inl e \<Rightarrow> (Inr (web_error_reply e), v1) | Inr u \<Rightarrow> (Inr (web_error_reply Web_Forbidden), v1))"
    using write_refused [OF Some, of S v ip] assms(2) Some by (simp add: cur)
  then have "v' = v1"
    using assms(1) by (simp split: sum.splits)
  then show ?thesis
    using current_user_world [OF cur] assms(1) call cur by (auto simp: forbidden)
qed

abbreviation sample_guest :: auth_user where
  "sample_guest \<equiv> \<lparr>au_id = Ident 8, au_username = ''guest'', au_role = Viewer\<rparr>"

lemma sample_current:
  "current_user sample_server (w, [SESSION_USER_KEY \<mapsto> Sv_User u]) = (Inr u, (w, [SESSION_USER_KEY \<mapsto> Sv_User u]))"
  for w :: "nat world"
  by (cases w) (simp add: current_user_def session_get_def session_guard_def sample_web_lib_def in_world_def on_os_def
      io_bind_def io_map_err_def io_some_def decode_value_def)

theorem web_access_control_witness:
  "\<exists>w'. web_call sample_server ''10.0.0.9'' (Post_Peers_Delete ''xx'')
       (sample_net_world, [SESSION_USER_KEY \<mapsto> Sv_User sample_guest]) =
       (Inr (Error_Page 403 ''forbidden''), (w', [SESSION_USER_KEY \<mapsto> Sv_User sample_guest])) \<and>
     w_db w' = sample_db"
proof -
  let ?v = "(sample_net_world, [SESSION_USER_KEY \<mapsto> Sv_User sample_guest])"
  obtain r v' where run: "web_call sample_server ''10.0.0.9'' (Post_Peers_Delete ''xx'') ?v = (r, v')"
    by (rule prod.exhaust)
  have "\<forall>u v1 right. current_user sample_server ?v = (Inr u, v1) \<longrightarrow>
      write_right (Post_Peers_Delete ''xx'') = Some right \<longrightarrow> \<not> right (au_role u)"
    by (auto simp: sample_current can_mutate_def)
  from web_access_control [OF run this] show ?thesis
    using run by (cases v') (auto simp: sample_current sample_net_world_def)
qed

subsection \<open>Addresses that are locked out\<close>

lemma banned_quiet:
  assumes "db_quiet (sv_repos S)" and "ban_of ip (w_db w) = Some b" and "fst (de_now (sv_repos S) (w_os w)) < bc_banned_until b"
  shows "web_banned S ip (w, s) = (Inr True, (w\<lparr>w_os := snd (de_now (sv_repos S) (w_os w))\<rparr>, s))"
  using assms
  by (cases "de_now (sv_repos S) (w_os w)")
    (simp add: web_banned_def sqlite_bans_def bans_find_def db_query_quiet io_bind_def io_map_err_def
      in_world_def on_os_def ban_into_domain_def ban_is_active_def)

text \<open>C35: While an address is locked out its logins are refused without a look at the password:
  whatever name and password are given, the answer is the page that says so, the session stays
  as it is, and the database changes in nothing but the audit trail.\<close>

theorem locked_out_login:
  assumes "db_quiet (sv_repos S)" and "ban_of ip (w_db w) = Some b"
    and "fst (de_now (sv_repos S) (w_os w)) < bc_banned_until b"
  shows "\<exists>w'. (\<forall>pw. web_call S ip (Post_Login \<lparr>lf_username = name, lf_password = pw\<rparr>) (w, s) =
      (Inr (Page (Login_Page (Some ''Too many failed attempts. Try again later.'') name)), (w', s))) \<and>
    (w_db w')\<lparr>tb_audit := tb_audit (w_db w), tb_audit_seq := tb_audit_seq (w_db w)\<rparr> = w_db w"
proof -
  let ?w = "w\<lparr>w_os := snd (de_now (sv_repos S) (w_os w))\<rparr>"
  let ?audit = "ar_record (sqlite_audit (sv_repos S) (app_json (sv_app S))) None (Some ip)
    User_Login_Failed None None (Some (jobj S [(''reason'', jstr S ''ip_locked'')]))"
  let ?I = "\<lambda>x. (w_db x)\<lparr>tb_audit := tb_audit (w_db w), tb_audit_seq := tb_audit_seq (w_db w)\<rparr> = w_db w"
  have "preserves ?I ?audit"
    unfolding sqlite_audit_def audit_repo.simps by (rule audit_writes) simp
  then have "?I (snd (?audit ?w))"
    by (rule preservesD) simp
  moreover have "web_call S ip (Post_Login \<lparr>lf_username = name, lf_password = pw\<rparr>) (w, s) =
      (Inr (Page (Login_Page (Some ''Too many failed attempts. Try again later.'') name)), (snd (?audit ?w), s))" for pw
    by (simp add: web_call_def web_dispatch_def web_login_submit_def banned_quiet [OF assms] io_bind_def io_try_def
        web_audit_def in_world_def split: prod.split)
  ultimately show ?thesis
    by blast
qed

theorem locked_out_login_witness:
  "\<exists>w'. web_call sample_server ''10.0.0.9'' (Post_Login \<lparr>lf_username = ''root'', lf_password = ''secret''\<rparr>)
      (sample_world\<lparr>w_db := empty_db\<lparr>tb_bans := [\<lparr>bc_ip = ''10.0.0.9'', bc_banned_until = 900,
         bc_attempt_count = 0, bc_updated_at = 0\<rparr>]\<rparr>\<rparr>, Map.empty) =
     (Inr (Page (Login_Page (Some ''Too many failed attempts. Try again later.'') ''root'')), (w', Map.empty))"
  using locked_out_login [of sample_server "''10.0.0.9''" "sample_world\<lparr>w_db := empty_db\<lparr>tb_bans := [\<lparr>bc_ip = ''10.0.0.9'',
      bc_banned_until = 900, bc_attempt_count = 0, bc_updated_at = 0\<rparr>]\<rparr>\<rparr>" _ "''root''" Map.empty]
  by (auto simp: sample_quiet_clock sample_world_def)

end
