(* ===== verification/Spec2Isabelle.thy ===== *)
theory Spec2Isabelle
  imports Access_Properties Accounts Api Api_Handlers App App_Contract App_Steps Auth_Service
    Background_Ops Cli Config Contracts Crypto Device_Properties Devices Domain Events Iface_Ops
    Interface_Service Login_Properties Nat_Adapter Nat_Properties Net_Spec Network_Properties
    Peer_Conf Peer_Ops Peer_Service Poller Poller_Properties Ports Prelude Preserves Rust_Strings
    Sample Scheduler Server_Run Server_Start Server_Steps Session_Frames Session_Runs Settings
    Settings_Properties Sqlite_Contract Sqlite_Network Sqlite_Records Sqlite_Users Sysnet_Adapter
    Text_Properties Tool_Properties Triples Web Web_Auth Web_Interfaces Web_Peers Web_Properties
    Web_Router Web_Streams Web_System Wireguard_Adapter World
begin

text \<open>
  \<^bold>\<open>Wireforge\<close> is a server that administers WireGuard tunnels: a REST API and a web interface
  over services that keep interfaces and peers in an SQLite database and drive the kernel's
  WireGuard devices, the firewall and the client configurations, with two background tasks and a
  command line tool. This development models the program's own code in \<open>src/crates\<close> and proves
  what makes it correct. Paths below are relative to \<open>src/crates\<close>.

  \<^bold>\<open>How programs are modelled.\<close> An operation that may fail is a function from a world to an
  error or a value and the next world (\<open>io\<close> in \<open>Prelude\<close>): \<open>io_bind\<close> is the operator \<open>?\<close>,
  \<open>io_try\<close> a \<open>match\<close> on a result, \<open>io_ignore\<close> a result that is thrown away, \<open>io_for\<close> a loop. Errors
  are the constructors of the source's error types, machine integers are words, strings are
  lists of the bytes of their UTF-8 encoding. The world of the server (\<open>World\<close>) holds the tables
  of the database, the live settings, the snapshots of the NAT adapter, and the state \<open>'os\<close> of
  the host; the browser session is a map beside it. Third-party crates and the operating system
  are fields of records of functions on \<open>'os\<close> (\<open>db_env\<close>, \<open>crypto_lib\<close>, \<open>wg_lib\<close>, \<open>host_lib\<close>,
  \<open>net_lib\<close>, \<open>api_lib\<close>, \<open>web_lib\<close> and so on): they may do anything, and where a property needs
  documented behaviour of one it names the law (\<open>text_laws\<close>, \<open>alloc_laws\<close>, \<open>db_quiet\<close>,
  \<open>iptables_law\<close>, \<open>wgapi_law\<close>). \<open>Sample\<close> gives one concrete instance of all of them, on which the
  witnesses are evaluated; \<open>Nat_Properties\<close> and \<open>Device_Properties\<close> have a host of their own each, one
  that is nothing but its firewall and one that is nothing but its WireGuard devices.

  \<^bold>\<open>The model, in the order of the code.\<close>
  \<^item> \<open>Rust_Strings\<close>: the string functions of the standard library the sources call.
  \<^item> \<open>Domain\<close>: \<open>wireforge-core/src/error.rs\<close> and \<open>domain/*\<close>; \<open>Ports\<close>: \<open>application/ports/*\<close>, each
    trait a record of operations.
  \<^item> \<open>Crypto\<close>: \<open>crypto/*\<close>; \<open>Settings\<close>: \<open>domain/settings.rs\<close> and \<open>services/settings.rs\<close>;
    \<open>Auth_Service\<close>, \<open>Interface_Service\<close>, \<open>Peer_Service\<close>: \<open>services/auth.rs\<close>, \<open>interface.rs\<close>,
    \<open>peer.rs\<close>; \<open>Peer_Conf\<close>: \<open>peer_conf.rs\<close>.
  \<^item> \<open>Sqlite_Users\<close>, \<open>Sqlite_Network\<close>, \<open>Sqlite_Records\<close>: \<open>wireforge-infra/src/persistence/*\<close>, tables as
    lists of rows with the constraints of \<open>src/migrations\<close>. \<open>Wireguard_Adapter\<close>, \<open>Nat_Adapter\<close>,
    \<open>Sysnet_Adapter\<close>: \<open>wireguard/mod.rs\<close>, \<open>nat/mod.rs\<close>, \<open>sysnet/mod.rs\<close>.
  \<^item> \<open>App\<close>: \<open>wireforge-web/src/app_state.rs\<close> and how \<open>wireforge-bin/src/main.rs\<close> puts it together;
    \<open>Config\<close>, \<open>Server_Start\<close>: \<open>wireforge-bin/src/config.rs\<close> and the function \<open>main\<close> of the server up to
    the bound socket; \<open>Poller\<close>, \<open>Scheduler\<close>: \<open>poller.rs\<close>, \<open>scheduler.rs\<close>.
  \<^item> \<open>Api\<close>, \<open>Api_Handlers\<close>: \<open>wireforge-api/src\<close> (authentication, role checks, every handler, the
    route table).
  \<^item> \<open>Web\<close>, \<open>Web_Auth\<close>, \<open>Web_Interfaces\<close>, \<open>Web_Peers\<close>, \<open>Web_System\<close>, \<open>Web_Streams\<close>, \<open>Web_Router\<close>:
    \<open>wireforge-web/src\<close> (sessions, flash messages, errors, every page and form, the negotiation
    of locales, the event streams); \<open>Events\<close>: \<open>webhook_dispatcher.rs\<close> and \<open>routes/ws.rs\<close>.
  \<^item> \<open>Cli\<close>: \<open>wireforge-cli/src\<close>, every command, with files as a map from paths to bytes.

  \<^bold>\<open>The library.\<close> \<open>Prelude\<close> has the combinators, \<open>keeps f m\<close> (an operation leaves an observation
  alone) and its rules; \<open>Triples\<close> Hoare triples with a postcondition for values and one for errors,
  and \<open>surely\<close> for operations that cannot fail; \<open>Preserves\<close> the rules for invariants. The contracts
  between components are locales:
  \<^item> \<open>net_store\<close>, \<open>wg_frame\<close>, \<open>nat_frame\<close> (\<open>Contracts\<close>): what the services rely on. The services,
    the poller and the scheduler are verified once against them (\<open>iface_ops\<close>, \<open>peer_ops\<close>,
    \<open>poller_ops\<close>, \<open>scheduler_ops\<close> in \<open>Iface_Ops\<close>, \<open>Peer_Ops\<close>, \<open>Background_Ops\<close>); \<open>Sqlite_Contract\<close> and
    \<open>App_Contract\<close> interpret them on the SQLite repositories and the adapters.
  \<^item> \<open>reader_invariant\<close>, \<open>server_invariant\<close> (\<open>Server_Steps\<close>) and \<open>run_invariant\<close> (\<open>Server_Run\<close>): an
    invariant that every operation the handlers call preserves is preserved by every request, and
    with the background passes by every run of the transition system \<open>app_step\<close>. They are
    interpreted on the lawful steps of the configuration, the accounts, the audit trail, the
    privileges of accounts, and the tables and the memory a visitor without rights must not change.
  \<^item> \<open>Net_Spec\<close> is the abstract specification of the network configuration: the lawful steps
    \<open>net_step\<close> between configurations \<open>(interfaces, peers)\<close> and what makes one good. \<open>App_Steps\<close>
    proves that the program refines it.

  \<^bold>\<open>What is proved.\<close>
  \<^item> \<open>Network_Properties\<close>: every reachable configuration is decodable, well-formed and free of
    double addresses, every request refines the specification, and each operation on interfaces
    and peers does what it says on every branch.
  \<^item> \<open>Access_Properties\<close>, \<open>Login_Properties\<close>, \<open>Web_Properties\<close>: bearer tokens, roles, lockouts, where
    the user of a session comes from, what a visitor without a right can change.
  \<^item> \<open>Session_Runs\<close>: over whole runs accounts stay consistent, privileges never change, the audit
    trail only grows, and a session's user stays a stored one.
  \<^item> \<open>Poller_Properties\<close>, \<open>Nat_Properties\<close>: quotas are enforced, NAT is undone as it was done.
  \<^item> \<open>Devices\<close>, \<open>Device_Properties\<close>: the WireGuard device of an interface mirrors its stored, enabled
    peers after a start and after peers are switched or deleted (\<open>mirrors\<close>); a stop takes the device
    away, and no start brings it back.
  \<^item> \<open>Server_Start\<close>: from the configuration file to a serving server, and any run from there.
  \<^item> \<open>Text_Properties\<close>: client configurations read back, sizes, schedule windows, locales.
  \<^item> \<open>Tool_Properties\<close>, \<open>Settings_Properties\<close>: configuration files, backups, created users, webhooks,
    settings across a restart.

  \<^bold>\<open>Bounds and termination.\<close> No fuel is used. The loops of the source run over finite lists or, for
  the conversion of sizes and for decimal numbers, stop by a measure, so every definition is a
  total function; the one loop of the source with a condition on numbers, the choice of the unit of
  a size, is also modelled as it is written (\<open>unit_loop\<close>, which need not end by its definition) and
  proved to end. The two background tasks and the web socket repeat without end; one iteration,
  or one event, is an operation, and runs are sequences of them.

  \<^bold>\<open>Not modelled.\<close> HTML rendering and the static files (a page is the value its template is given);
  the decoding of JSON and form bodies by \<open>serde\<close>, the checks of the \<open>validator\<close> macro, the OpenAPI
  document and the merging of configuration sources by \<open>figment\<close> (parameters); serving connections,
  with the session, compression, tracing and timeout layers, signals, logging and timers; the
  argument parser and the terminal of the command line tool. Requests are taken one after the
  other: the model has no interleaving inside a handler, so races between two requests on the
  same row are outside it.
\<close>

end
